(* ===== verification/Prelude.thy ===== *)
theory Prelude
  imports Main "HOL-Library.Word"
begin

text \<open>
  Prelude of the development: the collections its proofs use, the machine integers and strings of
  Go as HOL types, the operations of the Go standard library on strings that the source calls
  (strings.TrimRight, strings.HasPrefix, strings.EqualFold, the ASCII path of strings.ToLower and
  the verb %d of fmt.Sprintf), and generic lemmas on lists, maps and words the components share.

  A Go string is a sequence of bytes. It is a char list here, and a char of HOL is one byte, so
  length is Go's len and take n s is the slice s[:n].
\<close>

unbundle bit_operations_syntax

named_theorems go_simps \<open>evaluation of the Go library functions the source calls\<close>
named_theorems ev_intro \<open>rules that step through the API calls of a reconciler\<close>
named_theorems mutate_defs \<open>definitions of the functions handed to CreateOrUpdate\<close>

type_synonym int32 = "32 word"
type_synonym int64 = "64 word"

section \<open>Strings\<close>

definition HasPrefix :: "string \<Rightarrow> string \<Rightarrow> bool" where
  "HasPrefix s p \<longleftrightarrow> take (length p) s = p"

definition TrimRight :: "string \<Rightarrow> char set \<Rightarrow> string" where
  "TrimRight s cutset = rev (dropWhile (\<lambda>c. c \<in> cutset) (rev s))"

text \<open>
  ASCII lower case on one byte. A byte of 128 or more is left alone.
\<close>

definition byte_lower :: "char \<Rightarrow> char" where
  "byte_lower c = (if 65 \<le> (of_char c :: nat) \<and> (of_char c :: nat) \<le> 90
     then char_of ((of_char c :: nat) + 32) else c)"

definition is_ascii :: "string \<Rightarrow> bool" where
  "is_ascii s \<longleftrightarrow> list_all (\<lambda>c. (of_char c :: nat) < 128) s"

text \<open>
  strings.EqualFold s t for the second arguments the source passes, the literals Running and
  Ready. The simple folding of Unicode joins no letter of these two words with a letter outside
  ASCII (only k and s have such partners), so byte-wise ASCII folding decides the comparison.
\<close>

definition EqualFold :: "string \<Rightarrow> string \<Rightarrow> bool" where
  "EqualFold s t \<longleftrightarrow> map byte_lower s = map byte_lower t"

lemma EqualFold_refl [simp]: "EqualFold s s"
  by (simp add: EqualFold_def)

text \<open>The verb %d of fmt.Sprintf.\<close>

fun nat_digits :: "nat \<Rightarrow> string" where
  "nat_digits n = (if n < 10 then [''0123456789'' ! n]
     else nat_digits (n div 10) @ [''0123456789'' ! (n mod 10)])"

declare nat_digits.simps [simp del]

definition itoa :: "int \<Rightarrow> string" where
  "itoa i = (if i < 0 then ''-'' @ nat_digits (nat (- i)) else nat_digits (nat i))"

section \<open>Lemmas on strings\<close>

lemma TrimRight_append: "\<exists>t. s = TrimRight s cs @ t \<and> set t \<subseteq> cs"
proof -
  let ?t = "rev (takeWhile (\<lambda>c. c \<in> cs) (rev s))"
  have "rev (rev s) = rev (takeWhile (\<lambda>c. c \<in> cs) (rev s) @ dropWhile (\<lambda>c. c \<in> cs) (rev s))"
    by (simp only: takeWhile_dropWhile_id)
  then have "s = TrimRight s cs @ ?t" unfolding TrimRight_def rev_append rev_rev_ident .
  moreover have "set ?t \<subseteq> cs" by (auto dest: set_takeWhileD)
  ultimately show ?thesis by blast
qed

lemma TrimRight_length: "length (TrimRight s cs) \<le> length s"
  unfolding TrimRight_def length_rev by (rule order_trans[OF length_dropWhile_le]) simp

lemma TrimRight_keeps_head:
  assumes "s \<noteq> []" and "hd s \<notin> cs"
  shows "TrimRight s cs \<noteq> [] \<and> hd (TrimRight s cs) = hd s"
proof -
  obtain t where t: "s = TrimRight s cs @ t" "set t \<subseteq> cs"
    using TrimRight_append by blast
  have ne: "TrimRight s cs \<noteq> []"
  proof
    assume e: "TrimRight s cs = []"
    with t(1) have "s = t" by simp
    with t(2) assms show False by (cases s) auto
  qed
  with t(1) have "hd s = hd (TrimRight s cs)" by (metis hd_append2)
  with ne show ?thesis by simp
qed

lemma TrimRight_last: "TrimRight s cs \<noteq> [] \<Longrightarrow> last (TrimRight s cs) \<notin> cs"
  unfolding TrimRight_def last_rev using hd_dropWhile[of "\<lambda>c. c \<in> cs" "rev s"] by (auto simp: last_rev)

lemma TrimRight_set: "set (TrimRight s cs) \<subseteq> set s"
proof -
  obtain t where "s = TrimRight s cs @ t" using TrimRight_append by blast
  then show ?thesis by (metis set_append Un_upper1)
qed

lemma HasPrefix_append [simp]: "HasPrefix (p @ s) p"
  by (simp add: HasPrefix_def)

lemma nat_digits_nonempty [simp]: "nat_digits n \<noteq> []"
  by (subst nat_digits.simps) simp

lemma digit_in: "d < 10 \<Longrightarrow> ''0123456789'' ! d \<in> set ''0123456789''"
  by (rule nth_mem) simp

lemma nat_digits_set: "set (nat_digits n) \<subseteq> set ''0123456789''"
proof (induction n rule: nat_digits.induct)
  case (1 n)
  have d: "''0123456789'' ! (n mod 10) \<in> set ''0123456789''" by (rule digit_in) simp
  show ?case
  proof (cases "n < 10")
    case True
    then show ?thesis using digit_in[OF True] by (subst nat_digits.simps) (simp only: if_True set_simps, blast)
  next
    case False
    then show ?thesis using 1 d by (subst nat_digits.simps) (simp only: if_False set_append set_simps, blast)
  qed
qed

section \<open>Lemmas on maps\<close>

lemma map_upd_neq_empty [simp]: "m(k \<mapsto> v) \<noteq> Map.empty"
  by (metis fun_upd_same option.distinct(1))

lemma map_upd_idem: "m k = Some v \<Longrightarrow> m(k \<mapsto> v) = m"
  by auto

section \<open>Writing a key and reading it\<close>

text \<open>
  The contract of a lookup and an insertion: what is read after a write is the written value under
  its key and the old value under any other.
\<close>

locale upsert =
  fixes look :: "'c \<Rightarrow> 'k \<Rightarrow> 'v option" and put :: "'k \<Rightarrow> 'v \<Rightarrow> 'c \<Rightarrow> 'c"
  assumes look_put: "look (put n v c) = (look c)(n \<mapsto> v)"
begin

lemma look_same: "look (put n v c) n = Some v"
  by (simp add: look_put)

lemma look_other: "m \<noteq> n \<Longrightarrow> look (put n v c) m = look c m"
  by (simp add: look_put)

lemma last_wins: "look (put n v (put n u c)) = look (put n v c)"
  by (simp add: look_put)

lemma put_commute: "m \<noteq> n \<Longrightarrow> look (put m u (put n v c)) = look (put n v (put m u c))"
  by (simp add: look_put fun_upd_twist)

end

end
