(* ===== verification/GoTime.thy ===== *)
theory GoTime
  imports Prelude
begin

text \<open>
  What the controllers use of the Go package time: instants, durations of 64 bits, Time.Add,
  Time.Sub with its saturation, and time.ParseDuration with its overflow checks and its float64
  fraction.

  An instant is the number of nanoseconds since Go's zero time, so IsZero is equality with 0.
  Go keeps the seconds of an instant in 64 bits; an instant that many years away is outside the
  model. A Duration is an int64 and wraps.
\<close>

section \<open>Instants and durations\<close>

type_synonym Time = int
type_synonym Duration = int64

definition Nanosecond :: Duration where "Nanosecond = 1"
definition Second :: Duration where "Second = 1000000000"
definition Minute :: Duration where "Minute = 60000000000"
definition Hour :: Duration where "Hour = 3600000000000"

definition Time_IsZero :: "Time \<Rightarrow> bool" where
  "Time_IsZero t \<longleftrightarrow> t = 0"

definition Time_Add :: "Time \<Rightarrow> Duration \<Rightarrow> Time" where
  "Time_Add t d = t + sint d"

text \<open>Time.Sub returns the nearest Duration when the difference does not fit in one.\<close>

definition Time_Sub :: "Time \<Rightarrow> Time \<Rightarrow> Duration" where
  "Time_Sub t u = (let d = t - u in
     if d < - (2 ^ 63) then word_of_int (- (2 ^ 63))
     else if d > 2 ^ 63 - 1 then word_of_int (2 ^ 63 - 1)
     else word_of_int d)"

text \<open>The conversion time.Duration(x) of an int32.\<close>

definition Duration_of_int32 :: "int32 \<Rightarrow> Duration" where
  "Duration_of_int32 x = word_of_int (sint x)"

definition fits64 :: "int \<Rightarrow> bool" where
  "fits64 i \<longleftrightarrow> - (2 ^ 63) \<le> i \<and> i < 2 ^ 63"

lemma sint_word_of_int64 [go_simps]: "fits64 i \<Longrightarrow> sint (word_of_int i :: int64) = i"
  by (simp add: fits64_def signed_of_int signed_take_bit_int_eq_self)

lemma fits64_sint [simp]: "fits64 (sint (d :: int64))"
  using sint_range_size[of d] by (simp add: fits64_def word_size)

lemma sint_mult64: "fits64 (sint a * sint b) \<Longrightarrow> sint (a * b :: int64) = sint a * sint b"
  by (simp add: fits64_def sint_word_ariths signed_take_bit_int_eq_self)

lemma sint_diff64: "fits64 (sint a - sint b) \<Longrightarrow> sint (a - b :: int64) = sint a - sint b"
  by (simp add: fits64_def sint_word_ariths signed_take_bit_int_eq_self)

lemma sint32_bounds: "- (2 ^ 31) \<le> sint (x :: int32) \<and> sint x < 2 ^ 31"
  using sint_range_size[of x] by (simp add: word_size)

lemma sint_Duration_of_int32 [simp]: "sint (Duration_of_int32 x) = sint x"
  unfolding Duration_of_int32_def
  by (rule sint_word_of_int64) (use sint32_bounds[of x] in \<open>simp add: fits64_def\<close>)

lemma sint_units [simp]:
  "sint Second = 1000000000" "sint Minute = 60000000000" "sint Hour = 3600000000000"
  by (simp_all add: Second_def Minute_def Hour_def)

lemma sint_Time_Sub: "sint (Time_Sub t u) = max (- (2 ^ 63)) (min (2 ^ 63 - 1) (t - u))"
proof -
  have "sint (word_of_int (- (2 ^ 63)) :: int64) = - (2 ^ 63)"
    "sint (word_of_int (2 ^ 63 - 1) :: int64) = 2 ^ 63 - 1"
    by (rule sint_word_of_int64; simp add: fits64_def)+
  then show ?thesis
    using sint_word_of_int64[of "t - u"]
    unfolding Time_Sub_def Let_def by (auto simp: fits64_def)
qed

lemma Time_Sub_exact: "fits64 (t - u) \<Longrightarrow> sint (Time_Sub t u) = t - u"
  by (simp add: sint_Time_Sub fits64_def)

lemma Time_Sub_positive: "u < t \<Longrightarrow> 0 < sint (Time_Sub t u)"
  by (simp add: sint_Time_Sub)

section \<open>The float64 operations of a fraction\<close>

text \<open>
  A positive float64 is a pair of naturals, numerator and denominator. The fractions ParseDuration
  meets lie between 1e-19 and 1e32, inside the normal range, so rounding to the nearest value with
  a significand of 53 bits, ties to even, is IEEE rounding.
\<close>

fun bits :: "nat \<Rightarrow> nat" where
  "bits n = (if n = 0 then 0 else Suc (bits (n div 2)))"

declare bits.simps [simp del]

definition round_half_even :: "nat \<Rightarrow> nat \<Rightarrow> nat" where
  "round_half_even p q = (let d = p div q; r = p mod q in
     if 2 * r < q then d else if 2 * r > q then d + 1 else if even d then d else d + 1)"

definition scale_by :: "nat \<times> nat \<Rightarrow> int \<Rightarrow> nat \<times> nat" where
  "scale_by x e = (if 0 \<le> e then (fst x * 2 ^ nat e, snd x) else (fst x, snd x * 2 ^ nat (- e)))"

definition f64 :: "nat \<times> nat \<Rightarrow> nat \<times> nat" where
  "f64 x = (let l = int (bits (fst x)) - int (bits (snd x));
      y = scale_by x (- l);
      e = (if snd y \<le> fst y then l else l - 1) - 52;
      z = scale_by x (- e)
    in scale_by (round_half_even (fst z) (snd z), 1) e)"

definition f64_mul :: "nat \<times> nat \<Rightarrow> nat \<times> nat \<Rightarrow> nat \<times> nat" where
  "f64_mul x y = f64 (fst x * fst y, snd x * snd y)"

definition f64_trunc :: "nat \<times> nat \<Rightarrow> nat" where
  "f64_trunc x = fst x div snd x"

text \<open>uint64(float64(f) * (float64(unit) / scale)).\<close>

definition frac_nanos :: "nat \<Rightarrow> nat \<Rightarrow> nat \<Rightarrow> nat" where
  "frac_nanos f unit sc = f64_trunc (f64_mul (f64 (f, 1)) (f64 (unit, sc)))"

section \<open>time.ParseDuration\<close>

datatype duration_error =
    InvalidDuration string
  | MissingUnit string
  | UnknownUnit string string

definition is_digit :: "char \<Rightarrow> bool" where
  "is_digit c \<longleftrightarrow> c \<in> set ''0123456789''"

definition digit_val :: "char \<Rightarrow> nat" where
  "digit_val c = of_char c - 48"

fun leadingInt :: "nat \<Rightarrow> string \<Rightarrow> (nat \<times> string) option" where
  "leadingInt x [] = Some (x, [])"
| "leadingInt x (c # s) =
     (if \<not> is_digit c then Some (x, c # s)
      else if x > 2 ^ 63 div 10 then None
      else let y = x * 10 + digit_val c in
        if y > 2 ^ 63 then None else leadingInt y s)"

fun leadingFraction :: "nat \<Rightarrow> nat \<Rightarrow> bool \<Rightarrow> string \<Rightarrow> nat \<times> nat \<times> string" where
  "leadingFraction x sc ovf [] = (x, sc, [])"
| "leadingFraction x sc ovf (c # s) =
     (if \<not> is_digit c then (x, sc, c # s)
      else if ovf then leadingFraction x sc True s
      else if x > (2 ^ 63 - 1) div 10 then leadingFraction x sc True s
      else let y = x * 10 + digit_val c in
        if y > 2 ^ 63 then leadingFraction x sc True s
        else leadingFraction y (sc * 10) False s)"

definition unitMap :: "(string \<times> nat) list" where
  "unitMap = [(''ns'', 1), (''us'', 1000),
     ([CHR 0xC2, CHR 0xB5, CHR ''s''], 1000),
     ([CHR 0xCE, CHR 0xBC, CHR ''s''], 1000),
     (''ms'', 1000000), (''s'', 1000000000), (''m'', 60000000000), (''h'', 3600000000000)]"

definition unit_char :: "char \<Rightarrow> bool" where
  "unit_char c \<longleftrightarrow> c \<noteq> CHR ''.'' \<and> \<not> is_digit c"

lemma leadingInt_length: "leadingInt x s = Some (v, r) \<Longrightarrow> length r \<le> length s"
  by (induction x s rule: leadingInt.induct) (auto simp: Let_def split: if_splits)

lemma leadingFraction_length: "length (snd (snd (leadingFraction x sc ovf s))) \<le> length s"
  by (induction x sc ovf s rule: leadingFraction.induct) (auto simp: Let_def le_SucI)

definition optional_fraction :: "string \<Rightarrow> nat \<times> nat \<times> bool \<times> string" where
  "optional_fraction s = (case s of
     c # t \<Rightarrow> if c = CHR ''.''
       then (case leadingFraction 0 1 False t of (f, sc, r) \<Rightarrow> (f, sc, length t \<noteq> length r, r))
       else (0, 1, False, s)
   | [] \<Rightarrow> (0, 1, False, s))"

lemma optional_fraction_length:
  "optional_fraction s = (f, sc, post, r) \<Longrightarrow> length r \<le> length s"
  using leadingFraction_length[of 0 1 False "tl s"]
  by (auto simp: optional_fraction_def split: list.splits if_splits prod.splits)

text \<open>One iteration of the loop of ParseDuration: the error, or the new sum and the rest.\<close>

definition parse_unit :: "string \<Rightarrow> nat \<Rightarrow> nat \<Rightarrow> nat \<Rightarrow> nat \<Rightarrow> string
    \<Rightarrow> duration_error + nat \<times> string" where
  "parse_unit orig d v f sc s =
     (let u = takeWhile unit_char s; r = dropWhile unit_char s in
      if u = [] then Inl (MissingUnit orig)
      else (case map_of unitMap u of
        None \<Rightarrow> Inl (UnknownUnit u orig)
      | Some unit \<Rightarrow>
          (if v > 2 ^ 63 div unit then Inl (InvalidDuration orig)
           else let v' = (if f > 0 then v * unit + frac_nanos f unit sc else v * unit) in
             if f > 0 \<and> v' > 2 ^ 63 then Inl (InvalidDuration orig)
             else let d' = (d + v') mod 2 ^ 64 in
               if d' > 2 ^ 63 then Inl (InvalidDuration orig) else Inr (d', r))))"

definition parse_term :: "string \<Rightarrow> nat \<Rightarrow> string \<Rightarrow> duration_error + nat \<times> string" where
  "parse_term orig d s =
     (if \<not> (hd s = CHR ''.'' \<or> is_digit (hd s)) then Inl (InvalidDuration orig)
      else (case leadingInt 0 s of
        None \<Rightarrow> Inl (InvalidDuration orig)
      | Some (v, s1) \<Rightarrow>
          (case optional_fraction s1 of (f, sc, post, s2) \<Rightarrow>
             (if length s = length s1 \<and> \<not> post then Inl (InvalidDuration orig)
              else parse_unit orig d v f sc s2))))"

lemma parse_unit_shrinks: "parse_unit orig d v f sc s = Inr (d', r) \<Longrightarrow> length r < length s"
  by (cases s)
    (auto simp: parse_unit_def Let_def le_imp_less_Suc length_dropWhile_le
      split: if_splits option.splits)

lemma parse_term_shrinks: "parse_term orig d s = Inr (d', r) \<Longrightarrow> length r < length s"
  by (auto simp: parse_term_def split: if_splits option.splits prod.splits
      dest!: leadingInt_length optional_fraction_length parse_unit_shrinks)

function parse_terms :: "string \<Rightarrow> nat \<Rightarrow> string \<Rightarrow> duration_error + nat" where
  "parse_terms orig d s = (if s = [] then Inr d else
     case parse_term orig d s of Inl e \<Rightarrow> Inl e | Inr (d', r) \<Rightarrow> parse_terms orig d' r)"
  by pat_completeness auto
termination
  by (relation "measure (\<lambda>(orig, d, s). length s)") (auto dest: parse_term_shrinks)

declare parse_terms.simps [simp del]

definition ParseDuration :: "string \<Rightarrow> duration_error + Duration" where
  "ParseDuration orig =
     (let neg = (orig \<noteq> [] \<and> hd orig = CHR ''-'');
          s = (if orig \<noteq> [] \<and> (hd orig = CHR ''-'' \<or> hd orig = CHR ''+'') then tl orig else orig)
      in if s = ''0'' then Inr 0
         else if s = [] then Inl (InvalidDuration orig)
         else case parse_terms orig 0 s of Inl e \<Rightarrow> Inl e | Inr d \<Rightarrow>
           if neg then Inr (- word_of_nat d)
           else if d > 2 ^ 63 - 1 then Inl (InvalidDuration orig)
           else Inr (word_of_nat d))"

section \<open>What ParseDuration returns\<close>

text \<open>
  A term of a duration string is a decimal number and a unit. The lemmas follow the parser over a
  printed list of terms.
\<close>

definition digits_val :: "nat \<Rightarrow> string \<Rightarrow> nat" where
  "digits_val x ds = foldl (\<lambda>x c. x * 10 + digit_val c) x ds"

lemma digits_val_Cons: "digits_val x (c # ds) = digits_val (x * 10 + digit_val c) ds"
  by (simp add: digits_val_def)

lemma digits_val_ge: "x \<le> digits_val x ds"
proof (induction ds arbitrary: x)
  case Nil
  then show ?case by (simp add: digits_val_def)
next
  case (Cons c ds)
  show ?case using Cons.IH[of "x * 10 + digit_val c"] by (simp add: digits_val_Cons)
qed

lemma leadingInt_digits:
  "list_all is_digit ds \<Longrightarrow> digits_val x ds \<le> 2 ^ 63 \<Longrightarrow>
   leadingInt x (ds @ s) = leadingInt (digits_val x ds) s"
proof (induction ds arbitrary: x)
  case Nil
  then show ?case by (simp add: digits_val_def)
next
  case (Cons c ds)
  let ?y = "x * 10 + digit_val c"
  have y: "?y \<le> 2 ^ 63"
    using digits_val_ge[of ?y ds] Cons.prems(2) by (simp add: digits_val_Cons)
  moreover from y have "x \<le> 2 ^ 63 div 10" by simp
  ultimately show ?case
    using Cons by (simp add: digits_val_Cons Let_def)
qed

lemma leadingInt_overflow:
  "list_all is_digit ds \<Longrightarrow> 2 ^ 63 < digits_val x ds \<Longrightarrow> x \<le> 2 ^ 63 \<Longrightarrow> leadingInt x (ds @ s) = None"
proof (induction ds arbitrary: x)
  case Nil
  then show ?case by (simp add: digits_val_def)
next
  case (Cons c ds)
  then show ?case
    by (cases "x * 10 + digit_val c \<le> 2 ^ 63") (auto simp: digits_val_Cons Let_def)
qed

definition is_unit :: "string \<Rightarrow> bool" where
  "is_unit u \<longleftrightarrow> u \<in> fst ` set unitMap"

definition unit_nanos :: "string \<Rightarrow> nat" where
  "unit_nanos u = (case map_of unitMap u of Some k \<Rightarrow> k | None \<Rightarrow> 0)"

definition whole_term :: "string \<times> string \<Rightarrow> bool" where
  "whole_term p \<longleftrightarrow> fst p \<noteq> [] \<and> list_all is_digit (fst p) \<and> is_unit (snd p)"

definition render :: "string \<times> string \<Rightarrow> string" where
  "render p = fst p @ snd p"

definition nanos :: "string \<times> string \<Rightarrow> nat" where
  "nanos p = digits_val 0 (fst p) * unit_nanos (snd p)"

lemma unitMap_entries:
  "list_all (\<lambda>(u, k). map_of unitMap u = Some k \<and> 0 < k \<and> list_all unit_char u \<and> u \<noteq> []) unitMap"
  by (simp add: unitMap_def unit_char_def is_digit_def)

lemma unit_facts:
  assumes "is_unit u"
  shows "map_of unitMap u = Some (unit_nanos u) \<and> 0 < unit_nanos u \<and> list_all unit_char u \<and> u \<noteq> []"
proof -
  obtain k where "(u, k) \<in> set unitMap" using assms by (auto simp: is_unit_def)
  then show ?thesis using unitMap_entries by (auto simp: list_all_iff unit_nanos_def)
qed

definition ends_term :: "string \<Rightarrow> bool" where
  "ends_term s \<longleftrightarrow> s = [] \<or> \<not> unit_char (hd s)"

lemma takeWhile_unit:
  assumes "list_all unit_char u" "ends_term s"
  shows "takeWhile unit_char (u @ s) = u \<and> dropWhile unit_char (u @ s) = s"
  using assms by (cases s) (auto simp: ends_term_def list_all_iff takeWhile_append dropWhile_append)

lemma leadingInt_render:
  assumes "list_all is_digit ds" "is_unit u" "digits_val 0 ds \<le> 2 ^ 63"
  shows "leadingInt 0 (ds @ u @ s) = Some (digits_val 0 ds, u @ s)"
proof -
  have u: "u \<noteq> []" "unit_char (hd u)" using unit_facts[OF assms(2)] by (auto simp: list_all_iff)
  then show ?thesis
    using leadingInt_digits[of ds 0 "u @ s"] assms(1,3) by (cases u) (auto simp: unit_char_def)
qed

lemma render_head: "whole_term p \<Longrightarrow> is_digit (hd (render p @ s))"
  by (cases "fst p") (auto simp: render_def whole_term_def)

lemma no_fraction: "is_unit u \<Longrightarrow> optional_fraction (u @ s) = (0, 1, False, u @ s)"
  using unit_facts[of u] by (cases u) (auto simp: optional_fraction_def unit_char_def)

lemma parse_term_render:
  assumes p: "whole_term (ds, u)" and b: "d + nanos (ds, u) \<le> 2 ^ 63" and s: "ends_term s"
  shows "parse_term orig d (render (ds, u) @ s) = Inr (d + nanos (ds, u), s)"
proof -
  let ?n = "digits_val 0 ds"
  have ds: "list_all is_digit ds" "ds \<noteq> []" and u: "is_unit u" using p by (simp_all add: whole_term_def)
  note uf = unit_facts[OF u]
  have k: "0 < unit_nanos u" and nk: "?n * unit_nanos u \<le> 2 ^ 63"
    using uf b by (auto simp: nanos_def)
  then have "?n \<le> 2 ^ 63" by (metis mult.commute mult_le_mono1 nat_mult_1 le_trans Suc_leI One_nat_def)
  moreover have "?n \<le> 2 ^ 63 div unit_nanos u" using k nk by (simp add: less_eq_div_iff_mult_less_eq)
  moreover have "(d + ?n * unit_nanos u) mod 2 ^ 64 = d + ?n * unit_nanos u"
    using b by (simp add: nanos_def)
  ultimately show ?thesis
    using render_head[OF p, of s] leadingInt_render[OF ds(1) u, of s] no_fraction[OF u, of s]
      takeWhile_unit[of u s] uf s b ds(2)
    by (simp add: parse_term_def parse_unit_def render_def nanos_def Let_def)
qed

lemma ends_render: "list_all whole_term ps \<Longrightarrow> ends_term (concat (map render ps))"
  using render_head by (cases ps) (auto simp: ends_term_def unit_char_def)

lemma parse_terms_render:
  "list_all whole_term ps \<Longrightarrow> d + sum_list (map nanos ps) \<le> 2 ^ 63 \<Longrightarrow>
   parse_terms orig d (concat (map render ps)) = Inr (d + sum_list (map nanos ps))"
proof (induction ps arbitrary: d)
  case Nil
  then show ?case by (simp add: parse_terms.simps)
next
  case (Cons p ps)
  obtain ds u where p: "p = (ds, u)" by fastforce
  have "parse_term orig d (render p @ concat (map render ps)) = Inr (d + nanos p, concat (map render ps))"
    unfolding p by (rule parse_term_render) (use Cons.prems p ends_render[of ps] in auto)
  moreover have "render p \<noteq> []" using Cons.prems(1) by (simp add: render_def whole_term_def)
  ultimately show ?case using Cons by (simp add: parse_terms.simps[of orig d "render p @ _"] add.assoc)
qed

lemma rendered_length: "whole_term p \<Longrightarrow> 2 \<le> length (render p)"
  using unit_facts[of "snd p"] by (cases "fst p"; cases "snd p") (auto simp: render_def whole_term_def)

text \<open>
  A duration string made of an optional sign and whole-number terms, such as 4h, -120m or 2h030m, is
  parsed to the exact sum of its terms, with the sign, whenever that sum is below 2^63 nanoseconds.
\<close>

definition signed_sum :: "string \<Rightarrow> nat \<Rightarrow> int" where
  "signed_sum sign n = (if sign = ''-'' then - int n else int n)"

lemma ParseDuration_terms:
  assumes "ps \<noteq> []" and "\<forall>p \<in> set ps. whole_term p" and "sum_list (map nanos ps) < 2 ^ 63"
    and "sign \<in> {'''', ''+'', ''-''}"
  shows "ParseDuration (sign @ concat (map render ps)) = Inr (word_of_int (signed_sum sign (sum_list (map nanos ps))))"
proof -
  let ?s = "concat (map render ps)"
  obtain p qs where ps: "ps = p # qs" using assms(1) by (cases ps) auto
  have p: "whole_term p" using assms(2) ps by simp
  have hd: "is_digit (hd ?s)" using render_head[OF p] ps by simp
  have len: "2 \<le> length ?s" using rendered_length[OF p] ps by simp
  have "hd ?s \<noteq> CHR ''-''" "hd ?s \<noteq> CHR ''+''" using hd by (auto simp: is_digit_def)
  moreover have "?s \<noteq> ''0''" "?s \<noteq> []" using len by (force, metis list.size(3) not_numeral_le_zero)
  moreover have "parse_terms orig 0 ?s = Inr (sum_list (map nanos ps))" for orig
    using parse_terms_render[of ps 0 orig] assms(2,3) by (simp add: list_all_iff)
  ultimately show ?thesis using assms(3,4) by (auto simp: ParseDuration_def Let_def signed_sum_def)
qed

text \<open>
  A single term of 2^63 nanoseconds or more is refused as an invalid duration, never wrapped.
\<close>

lemma ParseDuration_overflow:
  assumes p: "whole_term (ds, u)" and b: "2 ^ 63 \<le> nanos (ds, u)"
  shows "ParseDuration (render (ds, u)) = Inl (InvalidDuration (render (ds, u)))"
proof -
  let ?s = "render (ds, u)" and ?n = "digits_val 0 ds"
  have ds: "list_all is_digit ds" "ds \<noteq> []" and u: "is_unit u" using p by (simp_all add: whole_term_def)
  note uf = unit_facts[OF u]
  have hd: "is_digit (hd ?s)" using render_head[OF p, of "[]"] by simp
  have len: "2 \<le> length ?s" by (rule rendered_length[OF p])
  have t: "parse_term ?s 0 ?s = Inl (InvalidDuration ?s) \<or> parse_term ?s 0 ?s = Inr (2 ^ 63, [])"
  proof (cases "?n \<le> 2 ^ 63")
    case True
    have tw: "takeWhile unit_char u = u" "dropWhile unit_char u = []"
      using takeWhile_unit[of u "[]"] uf by (simp_all add: ends_term_def)
    have "2 ^ 63 < ?n * unit_nanos u \<or> ?n * unit_nanos u = 2 ^ 63" using b by (auto simp: nanos_def)
    then show ?thesis
      using leadingInt_render[OF ds(1) u True, of "[]"] no_fraction[OF u, of "[]"] uf hd ds(2)
      by (auto simp: tw parse_term_def parse_unit_def render_def Let_def less_eq_div_iff_mult_less_eq not_less)
  next
    case False
    then have "leadingInt 0 ?s = None"
      using leadingInt_overflow[OF ds(1), of 0 u] by (simp add: render_def)
    then show ?thesis using hd by (simp add: parse_term_def)
  qed
  have "parse_terms ?s 0 ?s = Inl (InvalidDuration ?s) \<or> parse_terms ?s 0 ?s = Inr (2 ^ 63)"
    using t len by (subst (1 2) parse_terms.simps) (auto simp: parse_terms.simps[of _ _ "[]"])
  moreover have "hd ?s \<noteq> CHR ''-''" "hd ?s \<noteq> CHR ''+''" using hd by (auto simp: is_digit_def)
  moreover have "?s \<noteq> ''0''" "?s \<noteq> []" using len by auto
  ultimately show ?thesis by (auto simp: ParseDuration_def Let_def)
qed

end
