(* ===== verification/Objects.thy ===== *)
theory Objects
  imports GoTime
begin

text \<open>
  The Kubernetes objects the operator reads and writes, cut to the fields the source mentions.
  These Go types belong to k8s.io/api and k8s.io/apimachinery. Their fields are written out here
  because the source sets and reads them one by one; no function of those packages is defined here.

  Conventions. A struct is a record whose fields carry a prefix (pod_Spec is the field Spec of a
  Pod). A pointer is an option. A Go map is a partial function, with nil and the empty map
  identified: the source never tells them apart, because it fills a nil map before it writes.
  A list of LocalObjectReference is the list of the names.
\<close>

type_synonym labels = "string \<rightharpoonup> string"

record NamespacedName =
  nn_Namespace :: string
  nn_Name :: string

section \<open>Quantities\<close>

text \<open>
  resource.Quantity is a fixed-point number whose smallest unit is 1e-9. A value is the number of
  those units. The methods of Quantity are parameters (see Client).
\<close>

datatype Quantity = Quantity (quantity_nanos: int)

instantiation Quantity :: "{zero, linorder}"
begin

definition zero_Quantity :: Quantity where
  "zero_Quantity = Quantity 0"

definition less_eq_Quantity :: "Quantity \<Rightarrow> Quantity \<Rightarrow> bool" where
  "less_eq_Quantity p q \<longleftrightarrow> quantity_nanos p \<le> quantity_nanos q"

definition less_Quantity :: "Quantity \<Rightarrow> Quantity \<Rightarrow> bool" where
  "less_Quantity p q \<longleftrightarrow> quantity_nanos p < quantity_nanos q"

instance
proof
  fix x y z :: Quantity
  show "(x < y) = (x \<le> y \<and> \<not> y \<le> x)"
    by (auto simp: less_eq_Quantity_def less_Quantity_def)
  show "x \<le> x" by (simp add: less_eq_Quantity_def)
  show "x \<le> y \<Longrightarrow> y \<le> z \<Longrightarrow> x \<le> z" by (simp add: less_eq_Quantity_def)
  show "x \<le> y \<Longrightarrow> y \<le> x \<Longrightarrow> x = y" by (cases x; cases y) (simp add: less_eq_Quantity_def)
  show "x \<le> y \<or> y \<le> x" by (auto simp: less_eq_Quantity_def)
qed

end

lemma zero_Quantity_iff [simp]: "Quantity n = 0 \<longleftrightarrow> n = 0"
  by (simp add: zero_Quantity_def)

type_synonym ResourceList = "string \<rightharpoonup> Quantity"

section \<open>Metadata\<close>

record OwnerReference =
  or_Kind :: string
  or_Name :: string
  or_UID :: string
  or_Controller :: bool

record ObjectMeta =
  om_Name :: string
  om_Namespace :: string
  om_UID :: string
  om_Labels :: labels
  om_Annotations :: labels
  om_Finalizers :: "string list"
  om_OwnerReferences :: "OwnerReference list"
  om_CreationTimestamp :: Time
  om_DeletionTimestamp :: "Time option"

definition new_meta :: "string \<Rightarrow> string \<Rightarrow> ObjectMeta" where
  "new_meta ns n = \<lparr>om_Name = n, om_Namespace = ns, om_UID = [], om_Labels = Map.empty,
     om_Annotations = Map.empty, om_Finalizers = [], om_OwnerReferences = [],
     om_CreationTimestamp = 0, om_DeletionTimestamp = None\<rparr>"

lemma new_meta_simps [simp]: "om_Name (new_meta ns n) = n" "om_Namespace (new_meta ns n) = ns"
  "om_Labels (new_meta ns n) = Map.empty" "om_DeletionTimestamp (new_meta ns n) = None"
  "om_CreationTimestamp (new_meta ns n) = 0"
  by (simp_all add: new_meta_def)

record Condition =
  c_Type :: string
  c_Status :: string
  c_Reason :: string
  c_Message :: string
  c_LastTransitionTime :: Time

abbreviation "ConditionTrue \<equiv> ''True''"
abbreviation "ConditionFalse \<equiv> ''False''"

section \<open>Namespaces, quotas and network policies\<close>

record Namespace =
  ns_Meta :: ObjectMeta

record ResourceQuota =
  rq_Meta :: ObjectMeta
  rq_Hard :: ResourceList
  rq_Used :: ResourceList

text \<open>A label selector, cut to its matchLabels. The empty selector selects everything.\<close>

record NetworkPolicyPeer =
  peer_PodSelector :: "labels option"

record NetworkPolicyIngressRule =
  rule_From :: "NetworkPolicyPeer list"

record NetworkPolicy =
  np_Meta :: ObjectMeta
  np_PodSelector :: labels
  np_PolicyTypes :: "string list"
  np_Ingress :: "NetworkPolicyIngressRule list"

section \<open>Pods\<close>

datatype VolumeSource =
    EmptyDir "Quantity option"
  | HostPath string "string option"
  | ClaimSource string bool

record Volume =
  v_Name :: string
  v_Source :: VolumeSource

record VolumeMount =
  vm_Name :: string
  vm_MountPath :: string
  vm_ReadOnly :: bool

record ContainerPort =
  cp_Name :: string
  cp_ContainerPort :: int32
  cp_Protocol :: string

record EnvVar =
  ev_Name :: string
  ev_Value :: string
  ev_SecretKeyRef :: "(string \<times> string) option"

record ResourceRequirements =
  rr_Limits :: ResourceList
  rr_Requests :: ResourceList

record SecurityContext =
  sc_Privileged :: "bool option"
  sc_AllowPrivilegeEscalation :: "bool option"
  sc_DropCapabilities :: "string list option"
  sc_AppArmorProfile :: "string option"

record PodSecurityContext =
  psc_RunAsNonRoot :: "bool option"
  psc_RunAsUser :: "int64 option"
  psc_RunAsGroup :: "int64 option"
  psc_FSGroup :: "int64 option"
  psc_SeccompProfile :: "string option"
  psc_AppArmorProfile :: "string option"

record Container =
  ct_Name :: string
  ct_Image :: string
  ct_ImagePullPolicy :: string
  ct_Command :: "string list"
  ct_VolumeMounts :: "VolumeMount list"
  ct_Ports :: "ContainerPort list"
  ct_Env :: "EnvVar list"
  ct_Resources :: ResourceRequirements
  ct_PostStart :: "string list option"
  ct_SecurityContext :: "SecurityContext option"

record Toleration =
  tol_Key :: string
  tol_Operator :: string
  tol_Value :: string
  tol_Effect :: string

record PodSpec =
  ps_EnableServiceLinks :: "bool option"
  ps_AutomountServiceAccountToken :: "bool option"
  ps_SecurityContext :: "PodSecurityContext option"
  ps_NodeSelector :: labels
  ps_RuntimeClassName :: "string option"
  ps_RestartPolicy :: string
  ps_Hostname :: string
  ps_ImagePullSecrets :: "string list"
  ps_Volumes :: "Volume list"
  ps_Containers :: "Container list"
  ps_Tolerations :: "Toleration list"

record Pod =
  pod_Meta :: ObjectMeta
  pod_Spec :: PodSpec
  pod_Phase :: string
  pod_PodIP :: string

definition new_PodSpec :: PodSpec where
  "new_PodSpec = \<lparr>ps_EnableServiceLinks = None, ps_AutomountServiceAccountToken = None,
     ps_SecurityContext = None, ps_NodeSelector = Map.empty, ps_RuntimeClassName = None,
     ps_RestartPolicy = [], ps_Hostname = [], ps_ImagePullSecrets = [], ps_Volumes = [],
     ps_Containers = [], ps_Tolerations = []\<rparr>"

section \<open>Services, ingresses, claims, secrets and deployments\<close>

record ServicePort =
  sp_Name :: string
  sp_Port :: int32
  sp_TargetPort :: int32
  sp_Protocol :: string

record Service =
  svc_Meta :: ObjectMeta
  svc_Selector :: labels
  svc_Type :: string
  svc_Ports :: "ServicePort list"

record IngressTLS =
  tls_Hosts :: "string list"
  tls_SecretName :: string

record HTTPIngressPath =
  hp_Path :: string
  hp_PathType :: string
  hp_ServiceName :: string
  hp_ServicePort :: int32

record IngressRule =
  ir_Host :: string
  ir_Paths :: "HTTPIngressPath list"

record Ingress =
  ing_Meta :: ObjectMeta
  ing_ClassName :: "string option"
  ing_TLS :: "IngressTLS list"
  ing_Rules :: "IngressRule list"

record PersistentVolumeClaim =
  pvc_Meta :: ObjectMeta
  pvc_StorageClassName :: "string option"
  pvc_AccessModes :: "string list"
  pvc_Requests :: ResourceList

record Secret =
  sec_Meta :: ObjectMeta
  sec_StringData :: labels
  sec_Data :: labels

record Deployment =
  dep_Meta :: ObjectMeta
  dep_Replicas :: "int32 option"
  dep_Strategy :: string
  dep_Selector :: labels
  dep_TemplateLabels :: labels
  dep_TemplateSpec :: PodSpec
  dep_StatusReplicas :: int32
  dep_ReadyReplicas :: int32

end
