(* ===== verification/ApiTypes.thy ===== *)
theory ApiTypes
  imports Objects
begin

text \<open>
  The custom resources of api/v1alpha1: ClusterLab, InstanceLab and NotebookLab, each a record per
  struct with every field of the source, in its order.
\<close>

section \<open>api/v1alpha1/clusterlab_types.go\<close>

record ClusterLabNetworkConfig =
  cln_Type :: string

record ClusterLabStorageQuota =
  csq_Limit :: Quantity

record ClusterLabResourceLimit =
  crl_Limit :: Quantity

record ClusterLabComputeQuota =
  ccq_CPU :: ClusterLabResourceLimit
  ccq_Memory :: ClusterLabResourceLimit

record ClusterLabObjectsQuota =
  coq_PodsLimit :: int32
  coq_ServicesLimit :: int32

record ClusterLabQuotaConfig =
  cqc_Storage :: ClusterLabStorageQuota
  cqc_Compute :: ClusterLabComputeQuota
  cqc_Objects :: ClusterLabObjectsQuota

record ClusterLabSpec =
  cls_TTL :: string
  cls_Network :: ClusterLabNetworkConfig
  cls_Quota :: ClusterLabQuotaConfig

record ClusterLabInstanceCount =
  cic_Total :: int32
  cic_Ready :: int32

record ClusterLabStorageUsage =
  csu_Used :: Quantity

record ClusterLabComputeUsage =
  ccu_CPUUsed :: Quantity
  ccu_MemoryUsed :: Quantity

record ClusterLabObjectsUsage =
  cou_PodsUsed :: int32
  cou_ServicesUsed :: int32

record ClusterLabQuotaUsage =
  cqu_Compute :: ClusterLabComputeUsage
  cqu_Storage :: ClusterLabStorageUsage
  cqu_Objects :: ClusterLabObjectsUsage

record ClusterLabStatus =
  clt_Phase :: string
  clt_TargetNamespace :: string
  clt_ExpiresAt :: "Time option"
  clt_InstanceCount :: ClusterLabInstanceCount
  clt_QuotaUsage :: ClusterLabQuotaUsage
  clt_Conditions :: "Condition list"

record ClusterLab =
  cl_Meta :: ObjectMeta
  cl_Spec :: ClusterLabSpec
  cl_Status :: ClusterLabStatus

section \<open>api/v1alpha1/instancelab_types.go\<close>

record InstanceLabResourceLimit =
  irl_Request :: Quantity
  irl_Limit :: Quantity

record InstanceLabStorageLimit =
  isl_Limit :: Quantity

record InstanceLabResources =
  ilr_CPU :: InstanceLabResourceLimit
  ilr_Memory :: InstanceLabResourceLimit
  ilr_Storage :: InstanceLabStorageLimit

record InstanceLabPort =
  ilp_Name :: string
  ilp_Port :: int32
  ilp_TargetPort :: int32
  ilp_Expose :: bool

record InstanceLabSpec =
  ils_ClusterLabRef :: string
  ils_Image :: string
  ils_ImagePullSecrets :: "string list"
  ils_Hostname :: string
  ils_Resources :: InstanceLabResources
  ils_Ports :: "InstanceLabPort list"

record InstanceLabAccessEndpoint =
  iae_Name :: string
  iae_Protocol :: string
  iae_URL :: string
  iae_InternalAddress :: string

record InstanceLabStatus =
  ilt_Phase :: string
  ilt_PodName :: string
  ilt_PodIP :: string
  ilt_AccessEndpoints :: "InstanceLabAccessEndpoint list"
  ilt_Conditions :: "Condition list"

record InstanceLab =
  il_Meta :: ObjectMeta
  il_Spec :: InstanceLabSpec
  il_Status :: InstanceLabStatus

section \<open>api/v1alpha1/notebooklab_types.go\<close>

record LifecycleSpec =
  lc_IdleTimeoutMinutes :: int32
  lc_MaxLifespanHours :: int32
  lc_PurgeAfterInactiveDays :: int32

record HAMiSpec =
  hami_Cores :: int32
  hami_Memory :: Quantity

record MIGSpec =
  mig_Profile :: string

record GPUSpec =
  gpu_Enable :: bool
  gpu_Type :: string
  gpu_HAMi :: "HAMiSpec option"
  gpu_MIG :: "MIGSpec option"

record WorkspaceSpec =
  ws_Size :: Quantity
  ws_StorageClassName :: string
  ws_MountPath :: string

record DatasetSpec =
  ds_Name :: string
  ds_PVCName :: string
  ds_MountPath :: string

record TmpSpec =
  tmp_SizeLimit :: Quantity
  tmp_MountPath :: string

record StorageSpec =
  st_Workspace :: "WorkspaceSpec option"
  st_Datasets :: "DatasetSpec list"
  st_Tmp :: "TmpSpec option"

record NotebookLabSpec =
  nbs_Replicas :: "int32 option"
  nbs_Image :: string
  nbs_Lifecycle :: "LifecycleSpec option"
  nbs_ImagePullSecrets :: "string list"
  nbs_Resources :: ResourceRequirements
  nbs_NodeSelector :: labels
  nbs_Tolerations :: "Toleration list"
  nbs_GPU :: "GPUSpec option"
  nbs_Storage :: "StorageSpec option"

type_synonym NotebookLabPhase = string

definition PhaseProvisioning :: NotebookLabPhase where "PhaseProvisioning = ''Provisioning''"
definition NotebookPhaseRunning :: NotebookLabPhase where "NotebookPhaseRunning = ''Running''"
definition PhasePausing :: NotebookLabPhase where "PhasePausing = ''Pausing''"
definition PhasePaused :: NotebookLabPhase where "PhasePaused = ''Paused''"
definition NotebookPhaseFailed :: NotebookLabPhase where "NotebookPhaseFailed = ''Failed''"

lemmas notebook_phases =
  PhaseProvisioning_def NotebookPhaseRunning_def PhasePausing_def PhasePaused_def
  NotebookPhaseFailed_def

record GPUStatus =
  gs_Allocated :: bool
  gs_Type :: string
  gs_CoresAllocated :: int32
  gs_MemoryAllocated :: string

record NotebookLabStatus =
  nbt_Phase :: NotebookLabPhase
  nbt_PodName :: string
  nbt_PVCName :: string
  nbt_AccessURL :: string
  nbt_LastActiveTime :: "Time option"
  nbt_ExpiresAt :: "Time option"
  nbt_NodeName :: string
  nbt_GPUStatus :: "GPUStatus option"
  nbt_Conditions :: "Condition list"

record NotebookLab =
  nb_Meta :: ObjectMeta
  nb_Spec :: NotebookLabSpec
  nb_Status :: NotebookLabStatus

end
