(* ===== verification/Client.thy ===== *)
theory Client
  imports ApiTypes "HOL-Library.State_Monad"
begin

text \<open>
  The boundary of the operator. Everything behind it is code the repository only calls, and every
  definition of the controllers takes it as an argument.

  The record platform holds the pure third-party functions and the process environment. The record api
  holds the API server as the client of controller-runtime shows it: one group of operations per
  kind, each a function from the state of the world 'w to a response and a new state, with no
  assumption on what it answers. A controller is a computation in the state monad over the world
  and the trace of its API calls, so that a theorem can speak of the calls a run has made, with
  the responses they had.
\<close>

section \<open>Errors\<close>

text \<open>
  The values of Go's interface error that the source tells apart: an error for which
  apierrors.IsNotFound holds, any other error of the API, and the error reconcileTTL builds.
\<close>

datatype error =
    NotFoundError string
  | ApiError string
  | InvalidTTL string duration_error

fun IsNotFound :: "error \<Rightarrow> bool" where
  "IsNotFound (NotFoundError _) = True"
| "IsNotFound _ = False"

section \<open>Third-party functions and the environment\<close>

text \<open>
  os.Getenv; strings.ToLower on a string with a byte outside ASCII; meta.SetStatusCondition;
  SetControllerReference (its owner's kind and metadata, then the controlled object's); the
  finalizer functions of controllerutil; the methods IsZero and Value of Quantity, and NewQuantity
  with the format DecimalSI; the text of an error; and the order in which a range loop visits the
  entries of a map, which Go leaves open.
\<close>

record platform =
  Getenv :: "string \<Rightarrow> string"
  unicode_ToLower :: "string \<Rightarrow> string"
  SetStatusCondition :: "Condition list \<Rightarrow> Condition \<Rightarrow> Condition list"
  SetControllerReference :: "string \<Rightarrow> ObjectMeta \<Rightarrow> ObjectMeta \<Rightarrow> error + ObjectMeta"
  ContainsFinalizer :: "ObjectMeta \<Rightarrow> string \<Rightarrow> bool"
  AddFinalizer :: "ObjectMeta \<Rightarrow> string \<Rightarrow> ObjectMeta"
  RemoveFinalizer :: "ObjectMeta \<Rightarrow> string \<Rightarrow> ObjectMeta"
  Quantity_IsZero :: "Quantity \<Rightarrow> bool"
  Quantity_Value :: "Quantity \<Rightarrow> int64"
  NewQuantity :: "int64 \<Rightarrow> Quantity"
  Error_text :: "error \<Rightarrow> string"
  range_order :: "(string \<times> string) list \<Rightarrow> (string \<times> string) list"

text \<open>
  What the documentation of these functions promises, as far as a theorem relies on it.
\<close>

definition finalizer_laws :: "platform \<Rightarrow> bool" where
  "finalizer_laws px \<longleftrightarrow>
     (\<forall>m f. ContainsFinalizer px (AddFinalizer px m f) f) \<and>
     (\<forall>m f. \<not> ContainsFinalizer px (RemoveFinalizer px m f) f) \<and>
     (\<forall>m f g. f \<noteq> g \<longrightarrow>
        ContainsFinalizer px (AddFinalizer px m f) g = ContainsFinalizer px m g \<and>
        ContainsFinalizer px (RemoveFinalizer px m f) g = ContainsFinalizer px m g)"

definition find_condition :: "Condition list \<Rightarrow> string \<Rightarrow> Condition option" where
  "find_condition cs ty = find (\<lambda>c. c_Type c = ty) cs"

definition condition_true :: "Condition list \<Rightarrow> string \<Rightarrow> bool" where
  "condition_true cs ty \<longleftrightarrow> (\<exists>c. find_condition cs ty = Some c \<and> c_Status c = ConditionTrue)"

definition condition_laws :: "platform \<Rightarrow> bool" where
  "condition_laws px \<longleftrightarrow>
     (\<forall>cs c. \<exists>t. find_condition (SetStatusCondition px cs c) (c_Type c) =
        Some (c\<lparr>c_LastTransitionTime := t\<rparr>)) \<and>
     (\<forall>cs c ty. ty \<noteq> c_Type c \<longrightarrow>
        find_condition (SetStatusCondition px cs c) ty = find_condition cs ty)"

definition quantity_laws :: "platform \<Rightarrow> bool" where
  "quantity_laws px \<longleftrightarrow>
     (\<forall>q. Quantity_IsZero px q \<longleftrightarrow> q = 0) \<and>
     (\<forall>v. Quantity_Value px (NewQuantity px v) = v)"

definition range_laws :: "platform \<Rightarrow> bool" where
  "range_laws px \<longleftrightarrow> (\<forall>xs. set (range_order px xs) = set xs \<and>
     length (range_order px xs) = length xs)"

definition owner_laws :: "platform \<Rightarrow> bool" where
  "owner_laws px \<longleftrightarrow> (\<forall>kind ow m m'. SetControllerReference px kind ow m = Inr m' \<longrightarrow>
     (\<exists>refs r. m' = m\<lparr>om_OwnerReferences := refs\<rparr> \<and> r \<in> set refs \<and> or_Kind r = kind \<and>
        or_Name r = om_Name ow \<and> or_UID r = om_UID ow \<and> or_Controller r) \<and>
     (\<forall>f. ContainsFinalizer px m' f = ContainsFinalizer px m f))"

text \<open>
  An instance in which every law holds, so that a theorem that assumes one can be applied.
\<close>

fun put_condition :: "Condition list \<Rightarrow> Condition \<Rightarrow> Condition list" where
  "put_condition [] c = [c]"
| "put_condition (d # ds) c = (if c_Type d = c_Type c
     then (if c_Status d = c_Status c
       then c\<lparr>c_LastTransitionTime := c_LastTransitionTime d\<rparr> else c) # ds
     else d # put_condition ds c)"

definition sample_platform :: platform where
  "sample_platform = \<lparr>Getenv = (\<lambda>_. []), unicode_ToLower = map byte_lower,
     SetStatusCondition = put_condition,
     SetControllerReference = (\<lambda>k ow m. Inr (m\<lparr>om_OwnerReferences :=
       [\<lparr>or_Kind = k, or_Name = om_Name ow, or_UID = om_UID ow, or_Controller = True\<rparr>]\<rparr>)),
     ContainsFinalizer = (\<lambda>m f. f \<in> set (om_Finalizers m)),
     AddFinalizer = (\<lambda>m f. if f \<in> set (om_Finalizers m) then m
       else m\<lparr>om_Finalizers := om_Finalizers m @ [f]\<rparr>),
     RemoveFinalizer = (\<lambda>m f. m\<lparr>om_Finalizers := filter (\<lambda>g. g \<noteq> f) (om_Finalizers m)\<rparr>),
     Quantity_IsZero = (\<lambda>q. quantity_nanos q = 0),
     Quantity_Value = (\<lambda>q. word_of_int (- ((- quantity_nanos q) div 1000000000))),
     NewQuantity = (\<lambda>v. Quantity (sint v * 1000000000)),
     Error_text = (\<lambda>_. ''error''), range_order = (\<lambda>xs. xs)\<rparr>"

lemma put_condition_find:
  "find_condition (put_condition cs c) ty =
    (if ty = c_Type c then (case find_condition cs ty of
       Some d \<Rightarrow> Some (if c_Status d = c_Status c
         then c\<lparr>c_LastTransitionTime := c_LastTransitionTime d\<rparr> else c)
     | None \<Rightarrow> Some c) else find_condition cs ty)"
  by (induction cs) (auto simp: find_condition_def)

lemma sample_finalizers: "finalizer_laws sample_platform"
  by (auto simp: finalizer_laws_def sample_platform_def)

lemma sample_conditions: "condition_laws sample_platform"
proof -
  have "\<exists>t. c = c\<lparr>c_LastTransitionTime := t\<rparr>" for c :: Condition
    by (rule exI[of _ "c_LastTransitionTime c"]) simp
  then show ?thesis
    unfolding condition_laws_def
    by (auto simp: sample_platform_def put_condition_find split: option.splits)
qed

lemma sample_quantities: "quantity_laws sample_platform"
proof -
  have "q = 0 \<longleftrightarrow> quantity_nanos q = 0" for q :: Quantity
    by (cases q) simp
  moreover have "- (sint v * 1000000000) div 1000000000 = - sint v" for v :: int64
    using nonzero_mult_div_cancel_right[of "1000000000 :: int" "- sint v"] by simp
  ultimately show ?thesis
    by (simp add: quantity_laws_def sample_platform_def)
qed

lemma sample_ranges: "range_laws sample_platform"
  by (simp add: range_laws_def sample_platform_def)

lemma sample_owners: "owner_laws sample_platform"
  by (auto simp: owner_laws_def sample_platform_def)

lemma sample_owner [simp]: "SetControllerReference sample_platform kind ow m = Inr (m\<lparr>om_OwnerReferences :=
    [\<lparr>or_Kind = kind, or_Name = om_Name ow, or_UID = om_UID ow, or_Controller = True\<rparr>]\<rparr>)"
  by (simp add: sample_platform_def)

section \<open>The client\<close>

record ('w, 'o) kind_api =
  k_get :: "NamespacedName \<Rightarrow> 'w \<Rightarrow> (error + 'o) \<times> 'w"
  k_list :: "string \<Rightarrow> 'w \<Rightarrow> (error + 'o list) \<times> 'w"
  k_create :: "'o \<Rightarrow> 'w \<Rightarrow> (error + 'o) \<times> 'w"
  k_update :: "'o \<Rightarrow> 'w \<Rightarrow> (error + 'o) \<times> 'w"
  k_patch :: "'o \<Rightarrow> 'o \<Rightarrow> 'w \<Rightarrow> (error + 'o) \<times> 'w"
  k_status_update :: "'o \<Rightarrow> 'w \<Rightarrow> (error + 'o) \<times> 'w"
  k_delete :: "'o \<Rightarrow> 'w \<Rightarrow> error option \<times> 'w"
  k_delete_all_of :: "string \<Rightarrow> labels \<Rightarrow> 'w \<Rightarrow> error option \<times> 'w"
  k_create_or_update :: "'o \<Rightarrow> ('o \<Rightarrow> 'o) \<Rightarrow> 'w \<Rightarrow> (error + 'o) \<times> 'w"

record 'w api =
  clusterlabs :: "('w, ClusterLab) kind_api"
  instancelabs :: "('w, InstanceLab) kind_api"
  notebooklabs :: "('w, NotebookLab) kind_api"
  namespaces :: "('w, Namespace) kind_api"
  resourcequotas :: "('w, ResourceQuota) kind_api"
  networkpolicies :: "('w, NetworkPolicy) kind_api"
  pods :: "('w, Pod) kind_api"
  services :: "('w, Service) kind_api"
  ingresses :: "('w, Ingress) kind_api"
  pvcs :: "('w, PersistentVolumeClaim) kind_api"
  secrets :: "('w, Secret) kind_api"
  deployments :: "('w, Deployment) kind_api"
  clock :: "'w \<Rightarrow> Time \<times> 'w"

text \<open>A call with its response, per kind of object.\<close>

datatype 'o call =
    Get NamespacedName "error + 'o"
  | List string "error + 'o list"
  | Create 'o "error + 'o"
  | Update 'o "error + 'o"
  | Patch 'o 'o "error + 'o"
  | StatusUpdate 'o "error + 'o"
  | Delete 'o "error option"
  | DeleteAllOf string labels "error option"
  | CreateOrUpdate 'o "'o \<Rightarrow> 'o" "error + 'o"

datatype event =
    OnClusterLab "ClusterLab call"
  | OnInstanceLab "InstanceLab call"
  | OnNotebookLab "NotebookLab call"
  | OnNamespace "Namespace call"
  | OnResourceQuota "ResourceQuota call"
  | OnNetworkPolicy "NetworkPolicy call"
  | OnPod "Pod call"
  | OnService "Service call"
  | OnIngress "Ingress call"
  | OnPVC "PersistentVolumeClaim call"
  | OnSecret "Secret call"
  | OnDeployment "Deployment call"
  | Now Time

record 'w sys =
  world :: 'w
  trace :: "event list"

type_synonym ('w, 'a) io = "('w sys, 'a) state"

abbreviation ret :: "'a \<Rightarrow> ('w, 'a) io" where
  "ret \<equiv> State_Monad.return"

abbreviation ibind :: "('w, 'a) io \<Rightarrow> ('a \<Rightarrow> ('w, 'b) io) \<Rightarrow> ('w, 'b) io" where
  "ibind \<equiv> State_Monad.bind"

definition perform :: "('w \<Rightarrow> 'r \<times> 'w) \<Rightarrow> ('r \<Rightarrow> event) \<Rightarrow> ('w, 'r) io" where
  "perform f ev = State (\<lambda>s. case f (world s) of
     (r, w) \<Rightarrow> (r, \<lparr>world = w, trace = trace s @ [ev r]\<rparr>))"

abbreviation "api_get k on key \<equiv> perform (k_get k key) (\<lambda>r. on (Get key r))"
abbreviation "api_list k on ns \<equiv> perform (k_list k ns) (\<lambda>r. on (List ns r))"
abbreviation "api_create k on obj \<equiv> perform (k_create k obj) (\<lambda>r. on (Create obj r))"
abbreviation "api_update k on obj \<equiv> perform (k_update k obj) (\<lambda>r. on (Update obj r))"
abbreviation "api_patch k on base obj \<equiv> perform (k_patch k base obj) (\<lambda>r. on (Patch base obj r))"
abbreviation "api_status_update k on obj \<equiv>
  perform (k_status_update k obj) (\<lambda>r. on (StatusUpdate obj r))"
abbreviation "api_delete k on obj \<equiv> perform (k_delete k obj) (\<lambda>r. on (Delete obj r))"
abbreviation "api_delete_all_of k on ns ls \<equiv>
  perform (k_delete_all_of k ns ls) (\<lambda>r. on (DeleteAllOf ns ls r))"
abbreviation "api_create_or_update k on obj f \<equiv>
  perform (k_create_or_update k obj f) (\<lambda>r. on (CreateOrUpdate obj f r))"
abbreviation "time_now k \<equiv> perform (clock k) Now"

text \<open>Running a computation from a world, with an empty trace.\<close>

definition result_of :: "('w, 'a) io \<Rightarrow> 'w \<Rightarrow> 'a" where
  "result_of m w = fst (run_state m \<lparr>world = w, trace = []\<rparr>)"

definition events_of :: "('w, 'a) io \<Rightarrow> 'w \<Rightarrow> event list" where
  "events_of m w = trace (snd (run_state m \<lparr>world = w, trace = []\<rparr>))"

definition world_after :: "('w, 'a) io \<Rightarrow> 'w \<Rightarrow> 'w" where
  "world_after m w = world (snd (run_state m \<lparr>world = w, trace = []\<rparr>))"

section \<open>Results\<close>

text \<open>ctrl.Result, and the parts of a response the controllers test.\<close>

record Result =
  RequeueAfter :: Duration

definition no_result :: Result where
  "no_result = \<lparr>RequeueAfter = 0\<rparr>"

definition err_of :: "error + 'a \<Rightarrow> error option" where
  "err_of r = (case r of Inl e \<Rightarrow> Some e | Inr _ \<Rightarrow> None)"

lemma err_of_simps [simp]: "err_of (Inl e) = Some e" "err_of (Inr x) = None"
  by (simp_all add: err_of_def)

lemma err_of_None: "err_of r = None \<longleftrightarrow> (\<exists>x. r = Inr x)"
  by (cases r) simp_all

lemma err_of_Some: "err_of r = Some e \<longleftrightarrow> r = Inl e"
  by (cases r) simp_all

lemma err_of_eq: "Some e = err_of r \<longleftrightarrow> r = Inl e" "None = err_of r \<longleftrightarrow> (\<exists>x. r = Inr x)"
  by (cases r; auto)+

fun is_not_found :: "error option \<Rightarrow> bool" where
  "is_not_found None = False"
| "is_not_found (Some e) = IsNotFound e"

lemma is_not_found_iff: "is_not_found d \<longleftrightarrow> (\<exists>e. d = Some e \<and> IsNotFound e)"
  by (cases d) simp_all

definition meta_key :: "ObjectMeta \<Rightarrow> NamespacedName" where
  "meta_key m = \<lparr>nn_Namespace = om_Namespace m, nn_Name = om_Name m\<rparr>"

section \<open>Reasoning about runs\<close>

text \<open>
  yields m Q: whatever the API answers, a run of m appends to the trace a list of events that,
  with the result, satisfies Q. The rules go through a computation call by call.
\<close>

definition yields :: "('w, 'a) io \<Rightarrow> (event list \<Rightarrow> 'a \<Rightarrow> bool) \<Rightarrow> bool" where
  "yields m Q \<longleftrightarrow> (\<forall>s. \<exists>evs. trace (snd (run_state m s)) = trace s @ evs \<and> Q evs (fst (run_state m s)))"

lemma yields_run: "yields m Q \<Longrightarrow> Q (events_of m w) (result_of m w)"
  unfolding yields_def events_of_def result_of_def
  by (drule spec[of _ "\<lparr>world = w, trace = []\<rparr>"]) auto

lemma yields_return [ev_intro]: "Q [] x \<Longrightarrow> yields (ret x) Q"
  by (simp add: yields_def)

lemma yields_perform [ev_intro]: "(\<And>r. Q [ev r] r) \<Longrightarrow> yields (perform f ev) Q"
  by (auto simp: yields_def perform_def split: prod.splits)

lemma yields_bind:
  assumes "yields m P" and "\<And>evs x. P evs x \<Longrightarrow> yields (f x) (\<lambda>evs'. Q (evs @ evs'))"
  shows "yields (ibind m f) Q"
  unfolding yields_def
proof
  fix s
  obtain evs where e: "trace (snd (run_state m s)) = trace s @ evs" "P evs (fst (run_state m s))"
    using assms(1) unfolding yields_def by blast
  obtain x s1 where r: "run_state m s = (x, s1)" by fastforce
  obtain evs' where "trace (snd (run_state (f x) s1)) = trace s1 @ evs'"
      "Q (evs @ evs') (fst (run_state (f x) s1))"
    using assms(2) e(2) r unfolding yields_def by fastforce
  then show "\<exists>evs. trace (snd (run_state (ibind m f) s)) = trace s @ evs \<and>
      Q evs (fst (run_state (ibind m f) s))"
    using e(1) r by (intro exI[of _ "evs @ evs'"]) simp
qed

lemma yields_bind_perform [ev_intro]:
  "(\<And>r. yields (g r) (\<lambda>evs. Q (ev r # evs))) \<Longrightarrow> yields (ibind (perform f ev) g) Q"
  by (rule yields_bind[where P = "\<lambda>evs r. evs = [ev r]"]) (auto intro: yields_perform)

lemma yields_conseq: "yields m P \<Longrightarrow> (\<And>evs x. P evs x \<Longrightarrow> Q evs x) \<Longrightarrow> yields m Q"
  unfolding yields_def by blast

lemma yields_conj: "yields m P \<Longrightarrow> yields m Q \<Longrightarrow> yields m (\<lambda>evs x. P evs x \<and> Q evs x)"
  unfolding yields_def by (metis same_append_eq)

lemma yields_if [ev_intro]:
  "(b \<Longrightarrow> yields m Q) \<Longrightarrow> (\<not> b \<Longrightarrow> yields n Q) \<Longrightarrow> yields (if b then m else n) Q"
  by simp

lemma yields_case_sum [ev_intro]:
  "(\<And>e. x = Inl e \<Longrightarrow> yields (f e) Q) \<Longrightarrow> (\<And>y. x = Inr y \<Longrightarrow> yields (g y) Q) \<Longrightarrow>
   yields (case x of Inl e \<Rightarrow> f e | Inr y \<Rightarrow> g y) Q"
  by (cases x) auto

lemma yields_case_option [ev_intro]:
  "(x = None \<Longrightarrow> yields n Q) \<Longrightarrow> (\<And>y. x = Some y \<Longrightarrow> yields (g y) Q) \<Longrightarrow>
   yields (case x of None \<Rightarrow> n | Some y \<Rightarrow> g y) Q"
  by (cases x) auto

lemma yields_case_prod [ev_intro]:
  "(\<And>a b. x = (a, b) \<Longrightarrow> yields (f a b) Q) \<Longrightarrow> yields (case x of (a, b) \<Rightarrow> f a b) Q"
  by (cases x) auto

lemma yields_let [ev_intro]: "yields (f x) Q \<Longrightarrow> yields (let y = x in f y) Q"
  by simp

lemma run_bind_perform [simp]:
  "run_state (ibind (perform f ev) g) s =
    (case f (world s) of (r, w) \<Rightarrow> run_state (g r) \<lparr>world = w, trace = trace s @ [ev r]\<rparr>)"
  by (simp add: perform_def split: prod.splits)

lemma run_perform [simp]:
  "run_state (perform f ev) s =
    (case f (world s) of (r, w) \<Rightarrow> (r, \<lparr>world = w, trace = trace s @ [ev r]\<rparr>))"
  by (simp add: perform_def)

lemma events_first:
  assumes "f w = (r, w1)" and "yields (g r) Q"
  shows "\<exists>evs. events_of (ibind (perform f ev) g) w = ev r # evs"
proof -
  obtain evs where "trace (snd (run_state (g r) \<lparr>world = w1, trace = [ev r]\<rparr>)) = [ev r] @ evs"
    using assms(2)[unfolded yields_def, rule_format, of "\<lparr>world = w1, trace = [ev r]\<rparr>"] by auto
  then show ?thesis using assms(1) by (simp add: events_of_def)
qed

section \<open>The functions handed to CreateOrUpdate\<close>

text \<open>
  controllerutil.CreateOrUpdate reads the object, applies the function it is given and writes the
  result when it differs. The contract of such a function: it keeps the identity of the object,
  and applying it again changes nothing, so that a reconciler that has converged stops writing.
\<close>

locale mutator =
  fixes mutate :: "'o \<Rightarrow> 'o" and meta :: "'o \<Rightarrow> ObjectMeta"
  assumes idem: "mutate (mutate x) = mutate x"
    and keeps_name: "om_Name (meta (mutate x)) = om_Name (meta x)"
    and keeps_namespace: "om_Namespace (meta (mutate x)) = om_Namespace (meta x)"
begin

lemma iterate: "(mutate ^^ Suc n) x = mutate x"
  by (induction n) (simp_all add: idem)

lemma converged: "y = mutate x \<Longrightarrow> mutate y = y"
  by (simp add: idem)

lemma keeps_key:
  "\<lparr>nn_Namespace = om_Namespace (meta (mutate x)), nn_Name = om_Name (meta (mutate x))\<rparr> =
   \<lparr>nn_Namespace = om_Namespace (meta x), nn_Name = om_Name (meta x)\<rparr>"
  by (simp add: keeps_name keeps_namespace)

end

end
