(* ===== verification/Sha1.thy ===== *)
theory Sha1
  imports Prelude
begin

text \<open>
  The function Sum of the Go package crypto/sha1 (FIPS 180-4), the only hash the source uses
  (SanitizeName of internal/utils/helpers.go), on lists of bytes and executable.
\<close>

type_synonym byte = "8 word"
type_synonym u32 = "32 word"
type_synonym digest = "u32 \<times> u32 \<times> u32 \<times> u32 \<times> u32"

definition rotl32 :: "nat \<Rightarrow> u32 \<Rightarrow> u32" where
  "rotl32 n x = push_bit n x OR drop_bit (32 - n) x"

definition be_word :: "byte list \<Rightarrow> u32" where
  "be_word bs = foldl (\<lambda>w b. push_bit 8 w OR ucast b) 0 bs"

fun chunks :: "nat \<Rightarrow> 'a list \<Rightarrow> 'a list list" where
  "chunks n xs = (if n = 0 \<or> xs = [] then [] else take n xs # chunks n (drop n xs))"

declare chunks.simps [simp del]

definition be_bytes64 :: "nat \<Rightarrow> byte list" where
  "be_bytes64 n = map (\<lambda>i. word_of_nat (n div 256 ^ i)) (rev [0..<8])"

definition pad :: "byte list \<Rightarrow> byte list" where
  "pad msg = (let n = length msg in
     msg @ [0x80] @ replicate ((119 - n mod 64) mod 64) 0 @ be_bytes64 (8 * n))"

text \<open>The message schedule, newest word first.\<close>

definition sched_step :: "u32 list \<Rightarrow> u32 list" where
  "sched_step r = rotl32 1 (r ! 2 XOR r ! 7 XOR r ! 13 XOR r ! 15) # r"

definition schedule :: "u32 list \<Rightarrow> u32 list" where
  "schedule ws = rev (fold (\<lambda>_. sched_step) [0..<64] (rev ws))"

definition round_f :: "nat \<Rightarrow> u32 \<Rightarrow> u32 \<Rightarrow> u32 \<Rightarrow> u32" where
  "round_f t b c d =
     (if t < 20 then (b AND c) OR (NOT b AND d)
      else if t < 40 then b XOR c XOR d
      else if t < 60 then (b AND c) OR (b AND d) OR (c AND d)
      else b XOR c XOR d)"

definition round_k :: "nat \<Rightarrow> u32" where
  "round_k t =
     (if t < 20 then 0x5A827999 else if t < 40 then 0x6ED9EBA1
      else if t < 60 then 0x8F1BBCDC else 0xCA62C1D6)"

fun round_step :: "digest \<Rightarrow> nat \<times> u32 \<Rightarrow> digest" where
  "round_step (a, b, c, d, e) (t, w) =
     (rotl32 5 a + round_f t b c d + e + round_k t + w, a, rotl32 30 b, c, d)"

fun add_digest :: "digest \<Rightarrow> digest \<Rightarrow> digest" where
  "add_digest (a, b, c, d, e) (a', b', c', d', e') = (a + a', b + b', c + c', d + d', e + e')"

definition block :: "digest \<Rightarrow> byte list \<Rightarrow> digest" where
  "block h bs = add_digest h
     (foldl round_step h (zip [0..<80] (schedule (map be_word (chunks 4 bs)))))"

definition init_digest :: digest where
  "init_digest = (0x67452301, 0xEFCDAB89, 0x98BADCFE, 0x10325476, 0xC3D2E1F0)"

definition word_bytes :: "u32 \<Rightarrow> byte list" where
  "word_bytes w = [ucast (drop_bit 24 w), ucast (drop_bit 16 w), ucast (drop_bit 8 w), ucast w]"

fun digest_bytes :: "digest \<Rightarrow> byte list" where
  "digest_bytes (a, b, c, d, e) =
     word_bytes a @ word_bytes b @ word_bytes c @ word_bytes d @ word_bytes e"

definition sha1_Sum :: "byte list \<Rightarrow> byte list" where
  "sha1_Sum msg = digest_bytes (foldl block init_digest (chunks 64 (pad msg)))"

text \<open>The conversion []byte(s) of a string, and the verb %x of fmt.Sprintf on bytes.\<close>

definition bytes_of :: "string \<Rightarrow> byte list" where
  "bytes_of s = map of_char s"

definition hex_byte :: "byte \<Rightarrow> string" where
  "hex_byte b = [''0123456789abcdef'' ! (unat b div 16), ''0123456789abcdef'' ! (unat b mod 16)]"

definition hex :: "byte list \<Rightarrow> string" where
  "hex bs = concat (map hex_byte bs)"

lemma length_digest_bytes [simp]: "length (digest_bytes h) = 20"
  by (cases h) (simp add: word_bytes_def)

lemma length_sha1_Sum [simp]: "length (sha1_Sum m) = 20"
  by (simp add: sha1_Sum_def)

lemma length_hex [simp]: "length (hex bs) = 2 * length bs"
  by (induction bs) (simp_all add: hex_def hex_byte_def)

end
