(* ===== verification/Utils.thy ===== *)
theory Utils
  imports Client Sha1
begin

text \<open>
  internal/utils/helpers.go: the constants, the names cut to a length (SanitizeName and the names
  built with it), the defaults read from the environment, and SetCondition.
\<close>

section \<open>Constants\<close>

definition ClusterLabFinalizer :: string where
  "ClusterLabFinalizer = ''lab.devops.toiyeuptit.com/clusterlab-finalizer''"

definition InstanceLabFinalizer :: string where
  "InstanceLabFinalizer = ''lab.devops.toiyeuptit.com/instancelab-finalizer''"

definition LabelManagedBy :: string where
  "LabelManagedBy = ''app.kubernetes.io/managed-by''"

definition LabelValueManagedBy :: string where
  "LabelValueManagedBy = ''typ-lab-operator''"

definition LabelClusterLab :: string where
  "LabelClusterLab = ''lab.devops.toiyeuptit.com/clusterlab''"

definition LabelInstanceLab :: string where
  "LabelInstanceLab = ''lab.devops.toiyeuptit.com/instancelab''"

definition DefaultDomain :: string where
  "DefaultDomain = ''lab.toiyeuptit.com''"

lemmas label_defs = LabelManagedBy_def LabelValueManagedBy_def LabelClusterLab_def
  LabelInstanceLab_def

section \<open>Names\<close>

definition SanitizeName :: "string \<Rightarrow> int \<Rightarrow> string" where
  "SanitizeName name maxLen =
     (if int (length name) \<le> maxLen then name
      else let hashStr = take 7 (hex (sha1_Sum (bytes_of name)));
               allowedPrefixLen = maxLen - 8
        in if allowedPrefixLen \<le> 0 then hashStr
           else TrimRight (take (nat allowedPrefixLen) name) (set ''-.'') @ ''-'' @ hashStr)"

definition GenerateTargetNamespace :: "string \<Rightarrow> string" where
  "GenerateTargetNamespace clusterLabName = SanitizeName (''lab-'' @ clusterLabName) 63"

text \<open>strings.ToLower: Go's fast path for ASCII, the Unicode tables otherwise.\<close>

definition ToLower :: "platform \<Rightarrow> string \<Rightarrow> string" where
  "ToLower px s = (if is_ascii s then map byte_lower s else unicode_ToLower px s)"

definition GenerateIngressHost :: "platform \<Rightarrow> string \<Rightarrow> string \<Rightarrow> string \<Rightarrow> string" where
  "GenerateIngressHost px instanceLabName clusterLabName domain =
     (let domain' = (if domain = '''' then DefaultDomain else domain);
          subdomainRaw = instanceLabName @ ''-'' @ clusterLabName;
          subdomain = SanitizeName (ToLower px subdomainRaw) 63
      in subdomain @ ''.'' @ domain')"

section \<open>Defaults from the environment\<close>

definition GetStorageClassName :: "platform \<Rightarrow> string \<Rightarrow> string" where
  "GetStorageClassName px volumeType =
     (let l = ToLower px volumeType in
      if l = ''local'' then
        (let envVal = Getenv px ''DEFAULT_LOCAL_STORAGE_CLASS'' in
         if envVal \<noteq> '''' then envVal else ''local-path'')
      else if l = ''network'' then
        (let envVal = Getenv px ''DEFAULT_NETWORK_STORAGE_CLASS'' in
         if envVal \<noteq> '''' then envVal else ''longhorn'')
      else if l = '''' then ''''
      else volumeType)"

definition GetIngressClassName :: "platform \<Rightarrow> string" where
  "GetIngressClassName px =
     (let envVal = Getenv px ''DEFAULT_INGRESS_CLASS'' in
      if envVal \<noteq> '''' then envVal else ''nginx'')"

section \<open>Conditions\<close>

definition SetCondition :: "platform \<Rightarrow> 'w api \<Rightarrow> Condition list \<Rightarrow> string \<Rightarrow> string \<Rightarrow> string
    \<Rightarrow> string \<Rightarrow> ('w, Condition list) io" where
  "SetCondition px k conditions condType status reason message = do {
     t \<leftarrow> time_now k;
     ret (SetStatusCondition px conditions
       \<lparr>c_Type = condType, c_Status = status, c_Reason = reason, c_Message = message,
        c_LastTransitionTime = t\<rparr>)
   }"

lemma SetCondition_yields:
  "yields (SetCondition px k cs ty st reason msg) (\<lambda>evs cs'. \<exists>t. evs = [Now t] \<and>
     cs' = SetStatusCondition px cs \<lparr>c_Type = ty, c_Status = st, c_Reason = reason, c_Message = msg,
       c_LastTransitionTime = t\<rparr>)"
  unfolding SetCondition_def by (intro ev_intro) auto

section \<open>The contract of a name shortener\<close>

text \<open>
  What the controllers rely on when they build a name: the bound, and that a short name is kept.
\<close>

locale name_shortener =
  fixes shorten :: "string \<Rightarrow> int \<Rightarrow> string"
  assumes bound: "7 \<le> m \<Longrightarrow> int (length (shorten s m)) \<le> m"
    and short: "int (length s) \<le> m \<Longrightarrow> shorten s m = s"
begin

lemma idempotent: "7 \<le> m \<Longrightarrow> shorten (shorten s m) m = shorten s m"
  by (rule short) (rule bound)

lemma label_bound: "length (shorten s 63) \<le> 63"
  using bound[of 63 s] by simp

lemma port_bound: "length (shorten s 15) \<le> 15"
  using bound[of 15 s] by simp

lemma short_inj:
  "int (length s) \<le> m \<Longrightarrow> int (length t) \<le> m \<Longrightarrow> shorten s m = shorten t m \<Longrightarrow> s = t"
  by (simp add: short)

end

definition hash_suffix :: "string \<Rightarrow> string" where
  "hash_suffix name = take 7 (hex (sha1_Sum (bytes_of name)))"

lemma length_hash_suffix [simp]: "length (hash_suffix name) = 7"
  by (simp add: hash_suffix_def)

lemma SanitizeName_short: "int (length name) \<le> m \<Longrightarrow> SanitizeName name m = name"
  by (simp add: SanitizeName_def)

lemma SanitizeName_long:
  "m < int (length name) \<Longrightarrow> 8 < m \<Longrightarrow> SanitizeName name m =
    TrimRight (take (nat (m - 8)) name) (set ''-.'') @ ''-'' @ hash_suffix name"
  by (simp add: SanitizeName_def hash_suffix_def Let_def)

lemma SanitizeName_tiny:
  "m < int (length name) \<Longrightarrow> m \<le> 8 \<Longrightarrow> SanitizeName name m = hash_suffix name"
  by (simp add: SanitizeName_def hash_suffix_def Let_def)

lemma SanitizeName_bound:
  assumes "7 \<le> m" shows "int (length (SanitizeName name m)) \<le> m"
proof -
  consider "int (length name) \<le> m" | "m < int (length name)" "m \<le> 8" | "m < int (length name)" "8 < m"
    by linarith
  then show ?thesis
  proof cases
    case 3
    have "length (TrimRight (take (nat (m - 8)) name) (set ''-.'')) \<le> nat (m - 8)"
      by (rule order_trans[OF TrimRight_length]) simp
    with 3 show ?thesis by (simp add: SanitizeName_long)
  qed (use assms in \<open>simp_all add: SanitizeName_short SanitizeName_tiny\<close>)
qed

interpretation names: name_shortener SanitizeName
  by unfold_locales (simp_all add: SanitizeName_bound SanitizeName_short)

section \<open>Which names are valid\<close>

definition alnum :: "char \<Rightarrow> bool" where
  "alnum c \<longleftrightarrow> c \<in> set ''abcdefghijklmnopqrstuvwxyz0123456789''"

text \<open>A DNS-1123 name over the lower-case letters, the digits, and the given separators.\<close>

definition dns_name :: "char set \<Rightarrow> string \<Rightarrow> bool" where
  "dns_name seps s \<longleftrightarrow> s \<noteq> [] \<and> list_all (\<lambda>c. alnum c \<or> c \<in> seps) s \<and> alnum (hd s) \<and> alnum (last s)"

definition rfc1123_label :: "string \<Rightarrow> bool" where
  "rfc1123_label s \<longleftrightarrow> dns_name {CHR ''-''} s \<and> length s \<le> 63"

lemma hex_byte_alnum: "list_all alnum (hex_byte b)"
proof -
  have d: "alnum (''0123456789abcdef'' ! i)" if "i < 16" for i
  proof -
    have "''0123456789abcdef'' ! i \<in> set ''0123456789abcdef''" using that by (intro nth_mem) simp
    then show ?thesis by (auto simp: alnum_def)
  qed
  have "unat b < 256" by (rule unat_split[THEN iffD2]) simp
  then show ?thesis by (simp add: hex_byte_def d)
qed

lemma hex_alnum: "list_all alnum (hex bs)"
  unfolding hex_def by (induction bs) (simp_all add: hex_byte_alnum)

lemma hash_suffix_alnum: "list_all alnum (hash_suffix name)"
  using hex_alnum[of "sha1_Sum (bytes_of name)"] unfolding hash_suffix_def list_all_iff
  by (meson in_set_takeD)

lemma hash_suffix_last: "alnum (last (hash_suffix name))"
proof -
  have "hash_suffix name \<noteq> []" by (metis length_hash_suffix list.size(3) zero_neq_numeral)
  then show ?thesis using hash_suffix_alnum[of name] by (simp add: list_all_iff)
qed

lemma alnum_not_sep: "alnum c \<Longrightarrow> c \<noteq> CHR ''-'' \<and> c \<noteq> CHR ''.''"
  by (auto simp: alnum_def)

lemma SanitizeName_dns:
  assumes n: "dns_name seps name" and dash: "CHR ''-'' \<in> seps" and m: "9 \<le> m"
  shows "dns_name seps (SanitizeName name m)"
proof (cases "int (length name) \<le> m")
  case True
  then show ?thesis using n by (simp add: SanitizeName_short)
next
  case False
  let ?p = "take (nat (m - 8)) name" and ?h = "hash_suffix name"
  have hne: "?h \<noteq> []" by (metis length_hash_suffix list.size(3) zero_neq_numeral)
  obtain k where k: "nat (m - 8) = Suc k" using m by (cases "nat (m - 8)") auto
  obtain c cs where c: "name = c # cs" using n by (cases name) (auto simp: dns_name_def)
  have "?p \<noteq> []" and hdp: "hd ?p = hd name" using k c by simp_all
  moreover have "hd ?p \<notin> set ''-.''" using n hdp alnum_not_sep[of "hd name"] by (simp add: dns_name_def)
  ultimately have t: "TrimRight ?p (set ''-.'') \<noteq> []" "hd (TrimRight ?p (set ''-.'')) = hd name"
    using TrimRight_keeps_head[of ?p "set ''-.''"] by simp_all
  have "set (TrimRight ?p (set ''-.'')) \<subseteq> set name"
    using TrimRight_set[of ?p] set_take_subset[of _ name] by blast
  then have "list_all (\<lambda>c. alnum c \<or> c \<in> seps) (TrimRight ?p (set ''-.''))"
    using n by (auto simp: dns_name_def list_all_iff)
  then show ?thesis
    using False m n t hne dash hash_suffix_alnum[of name] hash_suffix_last[of name]
    by (simp add: SanitizeName_long dns_name_def list_all_iff ball_Un)
qed

lemma lab_prefix_dns: "dns_name seps n \<Longrightarrow> CHR ''-'' \<in> seps \<Longrightarrow> dns_name seps (''lab-'' @ n)"
  by (auto simp: dns_name_def alnum_def)

text \<open>
  C40: The name of the target namespace of a ClusterLab is a valid RFC 1123 label (lower-case
  letters, digits and dashes, an alphanumeric at both ends, at most 63 bytes) for every ClusterLab
  whose own name is a dash-separated DNS name, whatever its length.
\<close>

theorem target_namespace_label:
  assumes "dns_name {CHR ''-''} n"
  shows "rfc1123_label (GenerateTargetNamespace n)"
  unfolding rfc1123_label_def GenerateTargetNamespace_def
  using SanitizeName_dns[OF lab_prefix_dns[OF assms], of 63] names.label_bound by simp

theorem target_namespace_label_witness:
  "rfc1123_label (GenerateTargetNamespace (replicate 70 CHR ''a''))"
  by (rule target_namespace_label) (simp add: dns_name_def alnum_def list_all_iff)

text \<open>
  A ClusterLab named with a dot, which Kubernetes accepts for a custom resource, gets a target
  namespace that is not an RFC 1123 label, so the namespace cannot be created.
\<close>

theorem target_namespace_dotted:
  "dns_name {CHR ''-'', CHR ''.''} ''team.a'' \<and> \<not> rfc1123_label (GenerateTargetNamespace ''team.a'')"
  by (simp add: GenerateTargetNamespace_def SanitizeName_def rfc1123_label_def dns_name_def alnum_def)

text \<open>
  Two ClusterLabs whose names have at most 59 bytes share a target namespace only if they have
  the same name.
\<close>

theorem target_namespace_injective:
  assumes "length m \<le> 59" "length n \<le> 59" "GenerateTargetNamespace m = GenerateTargetNamespace n"
  shows "m = n"
proof -
  have "''lab-'' @ m = ''lab-'' @ n"
    by (rule names.short_inj[of _ 63]) (use assms in \<open>simp_all add: GenerateTargetNamespace_def\<close>)
  then show ?thesis by simp
qed

theorem target_namespace_injective_witness: "''a'' = ''a''"
  by (rule target_namespace_injective) simp_all

text \<open>
  A shortened name keeps the first maxLen - 8 bytes up to trailing dashes and dots, then a dash
  and seven hex digits of the SHA-1 of the whole name, and never exceeds the larger of maxLen and 7; a name that fits
  is returned unchanged; below nine bytes only the digits are left.
\<close>

theorem SanitizeName_spec:
  "SanitizeName name m =
     (if int (length name) \<le> m then name
      else if m \<le> 8 then hash_suffix name
      else TrimRight (take (nat (m - 8)) name) (set ''-.'') @ ''-'' @ hash_suffix name) \<and>
   int (length (SanitizeName name m)) \<le> max 7 m"
proof -
  have "int (length (SanitizeName name m)) \<le> max 7 m"
  proof (cases "7 \<le> m")
    case True
    then show ?thesis using SanitizeName_bound[of m name] by simp
  next
    case False
    then show ?thesis by (cases "int (length name) \<le> m") (simp_all add: SanitizeName_short SanitizeName_tiny)
  qed
  then show ?thesis by (simp add: SanitizeName_short SanitizeName_long SanitizeName_tiny)
qed

text \<open>
  The ingress host joins the instance's and the ClusterLab's name with a dash, so different
  pairs of names get the same host: instance a-b of c, and instance a of b-c.
\<close>

theorem ingress_host_collision:
  "GenerateIngressHost px (i @ ''-'' @ j) c d = GenerateIngressHost px i (j @ ''-'' @ c) d"
  by (simp add: GenerateIngressHost_def Let_def)

text \<open>
  The host is a name of at most 63 bytes, a dot and the domain, the default domain when none
  is given.
\<close>

lemma ingress_host_form:
  "\<exists>sub. GenerateIngressHost px i c d = sub @ ''.'' @ (if d = '''' then DefaultDomain else d) \<and>
     length sub \<le> 63"
  unfolding GenerateIngressHost_def Let_def using names.label_bound by blast
end
