(* ===== verification/Samples.thy ===== *)
theory Samples
  imports Utils
begin

text \<open>
  Concrete objects and a concrete API, on which theorems with hypotheses are applied. The API
  answers every call with success: reads return a given object, writes echo what was written; its
  world is the clock.
\<close>

definition fixed_kind :: "'o \<Rightarrow> ('w, 'o) kind_api" where
  "fixed_kind obj = \<lparr>k_get = (\<lambda>_ w. (Inr obj, w)), k_list = (\<lambda>_ w. (Inr [obj], w)),
     k_create = (\<lambda>o' w. (Inr o', w)), k_update = (\<lambda>o' w. (Inr o', w)),
     k_patch = (\<lambda>_ o' w. (Inr o', w)), k_status_update = (\<lambda>o' w. (Inr o', w)),
     k_delete = (\<lambda>_ w. (None, w)), k_delete_all_of = (\<lambda>_ _ w. (None, w)),
     k_create_or_update = (\<lambda>o' f w. (Inr (f o'), w))\<rparr>"

definition fails_with :: "error \<Rightarrow> ('w, 'o) kind_api" where
  "fails_with e = \<lparr>k_get = (\<lambda>_ w. (Inl e, w)), k_list = (\<lambda>_ w. (Inl e, w)),
     k_create = (\<lambda>_ w. (Inl e, w)), k_update = (\<lambda>_ w. (Inl e, w)),
     k_patch = (\<lambda>_ _ w. (Inl e, w)), k_status_update = (\<lambda>_ w. (Inl e, w)),
     k_delete = (\<lambda>_ w. (Some e, w)), k_delete_all_of = (\<lambda>_ _ w. (Some e, w)),
     k_create_or_update = (\<lambda>_ _ w. (Inl e, w))\<rparr>"

lemma fixed_kind_simps [simp]:
  "k_get (fixed_kind obj) = (\<lambda>_ w. (Inr obj, w))" "k_list (fixed_kind obj) = (\<lambda>_ w. (Inr [obj], w))"
  "k_create (fixed_kind obj) = (\<lambda>x w. (Inr x, w))" "k_update (fixed_kind obj) = (\<lambda>x w. (Inr x, w))"
  "k_patch (fixed_kind obj) = (\<lambda>_ x w. (Inr x, w))"
  "k_status_update (fixed_kind obj) = (\<lambda>x w. (Inr x, w))"
  "k_delete (fixed_kind obj) = (\<lambda>_ w. (None, w))"
  "k_delete_all_of (fixed_kind obj) = (\<lambda>_ _ w. (None, w))"
  "k_create_or_update (fixed_kind obj) = (\<lambda>x f w. (Inr (f x), w))"
  by (simp_all add: fixed_kind_def)

lemma fails_with_simps [simp]:
  "k_get (fails_with e) = (\<lambda>_ w. (Inl e, w))" "k_list (fails_with e) = (\<lambda>_ w. (Inl e, w))"
  "k_create (fails_with e) = (\<lambda>_ w. (Inl e, w))" "k_update (fails_with e) = (\<lambda>_ w. (Inl e, w))"
  "k_patch (fails_with e) = (\<lambda>_ _ w. (Inl e, w))" "k_status_update (fails_with e) = (\<lambda>_ w. (Inl e, w))"
  "k_delete (fails_with e) = (\<lambda>_ w. (Some e, w))"
  "k_delete_all_of (fails_with e) = (\<lambda>_ _ w. (Some e, w))"
  "k_create_or_update (fails_with e) = (\<lambda>_ _ w. (Inl e, w))"
  by (simp_all add: fails_with_def)

definition sample_limit :: InstanceLabResourceLimit where
  "sample_limit = \<lparr>irl_Request = Quantity 0, irl_Limit = Quantity 0\<rparr>"

definition sample_ClusterLab :: ClusterLab where
  "sample_ClusterLab = \<lparr>cl_Meta = (new_meta ''default'' ''demo'')\<lparr>om_Finalizers := [ClusterLabFinalizer]\<rparr>,
     cl_Spec = \<lparr>cls_TTL = '''', cls_Network = \<lparr>cln_Type = ''internal''\<rparr>,
       cls_Quota = \<lparr>cqc_Storage = \<lparr>csq_Limit = Quantity 30\<rparr>,
         cqc_Compute = \<lparr>ccq_CPU = \<lparr>crl_Limit = Quantity 2\<rparr>, ccq_Memory = \<lparr>crl_Limit = Quantity 4\<rparr>\<rparr>,
         cqc_Objects = \<lparr>coq_PodsLimit = 20, coq_ServicesLimit = 10\<rparr>\<rparr>\<rparr>,
     cl_Status = \<lparr>clt_Phase = '''', clt_TargetNamespace = '''', clt_ExpiresAt = None,
       clt_InstanceCount = \<lparr>cic_Total = 0, cic_Ready = 0\<rparr>,
       clt_QuotaUsage = \<lparr>cqu_Compute = \<lparr>ccu_CPUUsed = Quantity 0, ccu_MemoryUsed = Quantity 0\<rparr>,
         cqu_Storage = \<lparr>csu_Used = Quantity 0\<rparr>, cqu_Objects = \<lparr>cou_PodsUsed = 0, cou_ServicesUsed = 0\<rparr>\<rparr>,
       clt_Conditions = []\<rparr>\<rparr>"

definition sample_InstanceLab :: InstanceLab where
  "sample_InstanceLab = \<lparr>il_Meta = (new_meta ''default'' ''vm'')\<lparr>om_Finalizers := [InstanceLabFinalizer]\<rparr>,
     il_Spec = \<lparr>ils_ClusterLabRef = ''demo'', ils_Image = '''', ils_ImagePullSecrets = [], ils_Hostname = '''',
       ils_Resources = \<lparr>ilr_CPU = sample_limit, ilr_Memory = sample_limit,
         ilr_Storage = \<lparr>isl_Limit = Quantity 20\<rparr>\<rparr>,
       ils_Ports = [\<lparr>ilp_Name = ''web'', ilp_Port = 8000, ilp_TargetPort = 80, ilp_Expose = True\<rparr>,
         \<lparr>ilp_Name = ''ssh'', ilp_Port = 22, ilp_TargetPort = 22, ilp_Expose = False\<rparr>]\<rparr>,
     il_Status = \<lparr>ilt_Phase = '''', ilt_PodName = '''', ilt_PodIP = '''', ilt_AccessEndpoints = [],
       ilt_Conditions = []\<rparr>\<rparr>"

definition sample_NotebookLab :: NotebookLab where
  "sample_NotebookLab = \<lparr>nb_Meta = new_meta ''default'' ''nb'',
     nb_Spec = \<lparr>nbs_Replicas = None, nbs_Image = ''jupyter'',
       nbs_Lifecycle = Some \<lparr>lc_IdleTimeoutMinutes = 30, lc_MaxLifespanHours = 8,
         lc_PurgeAfterInactiveDays = 7\<rparr>,
       nbs_ImagePullSecrets = [], nbs_Resources = \<lparr>rr_Limits = Map.empty, rr_Requests = Map.empty\<rparr>,
       nbs_NodeSelector = Map.empty, nbs_Tolerations = [], nbs_GPU = None,
       nbs_Storage = Some \<lparr>st_Workspace = Some \<lparr>ws_Size = Quantity 10, ws_StorageClassName = '''',
         ws_MountPath = ''/workspace''\<rparr>, st_Datasets = [], st_Tmp = None\<rparr>\<rparr>,
     nb_Status = \<lparr>nbt_Phase = NotebookPhaseRunning, nbt_PodName = '''', nbt_PVCName = '''', nbt_AccessURL = '''',
       nbt_LastActiveTime = None, nbt_ExpiresAt = None, nbt_NodeName = '''', nbt_GPUStatus = None,
       nbt_Conditions = []\<rparr>\<rparr>"

definition sample_Pod :: Pod where
  "sample_Pod = \<lparr>pod_Meta = new_meta ''lab-demo'' ''vm-sysbox'', pod_Spec = new_PodSpec,
     pod_Phase = ''Running'', pod_PodIP = ''10.0.0.1''\<rparr>"

definition sample_api :: "ClusterLab \<Rightarrow> InstanceLab \<Rightarrow> NotebookLab \<Rightarrow> Time api" where
  "sample_api cl il nb = \<lparr>clusterlabs = fixed_kind cl, instancelabs = fixed_kind il,
     notebooklabs = fixed_kind nb,
     namespaces = fixed_kind \<lparr>ns_Meta = new_meta '''' ''lab-demo''\<rparr>,
     resourcequotas = fixed_kind \<lparr>rq_Meta = new_meta '''' '''', rq_Hard = Map.empty, rq_Used = Map.empty\<rparr>,
     networkpolicies = fixed_kind \<lparr>np_Meta = new_meta '''' '''', np_PodSelector = Map.empty,
       np_PolicyTypes = [], np_Ingress = []\<rparr>,
     pods = fixed_kind sample_Pod,
     services = fixed_kind \<lparr>svc_Meta = new_meta '''' '''', svc_Selector = Map.empty, svc_Type = '''', svc_Ports = []\<rparr>,
     ingresses = fixed_kind \<lparr>ing_Meta = new_meta '''' '''', ing_ClassName = None, ing_TLS = [], ing_Rules = []\<rparr>,
     pvcs = fixed_kind \<lparr>pvc_Meta = new_meta '''' '''', pvc_StorageClassName = None, pvc_AccessModes = [],
       pvc_Requests = Map.empty\<rparr>,
     secrets = fixed_kind \<lparr>sec_Meta = new_meta '''' '''', sec_StringData = Map.empty, sec_Data = Map.empty\<rparr>,
     deployments = fixed_kind \<lparr>dep_Meta = new_meta '''' '''', dep_Replicas = None, dep_Strategy = '''',
       dep_Selector = Map.empty, dep_TemplateLabels = Map.empty, dep_TemplateSpec = new_PodSpec,
       dep_StatusReplicas = 0, dep_ReadyReplicas = 0\<rparr>,
     clock = (\<lambda>w. (w, w + 1))\<rparr>"

lemma ParseDuration_1h: "ParseDuration ''1h'' = Inr (word_of_nat 3600000000000)"
proof -
  have u: "\<forall>p \<in> set [(''1'', ''h'')]. whole_term p"
    by (simp add: whole_term_def is_digit_def is_unit_def unitMap_def)
  show ?thesis using ParseDuration_terms[OF _ u, of "''''"]
    by (simp add: render_def nanos_def signed_sum_def digits_val_def digit_val_def unit_nanos_def unitMap_def)
qed

definition hour_ClusterLab :: ClusterLab where
  "hour_ClusterLab = sample_ClusterLab\<lparr>cl_Spec := (cl_Spec sample_ClusterLab)\<lparr>cls_TTL := ''1h''\<rparr>\<rparr>"

lemma hour_ClusterLab_simps [simp]:
  "cls_TTL (cl_Spec hour_ClusterLab) = ''1h''" "om_DeletionTimestamp (cl_Meta hour_ClusterLab) = None"
  "om_CreationTimestamp (cl_Meta hour_ClusterLab) = 0"
  "ContainsFinalizer sample_platform (cl_Meta hour_ClusterLab) ClusterLabFinalizer"
  by (simp_all add: hour_ClusterLab_def sample_ClusterLab_def new_meta_def sample_platform_def)

lemma sint_1h: "sint (word_of_nat 3600000000000 :: int64) = 3600000000000"
  using sint_word_of_int64[of 3600000000000] by (simp add: fits64_def)

abbreviation "hour_api \<equiv> sample_api hour_ClusterLab sample_InstanceLab sample_NotebookLab"
abbreviation "demo_key \<equiv> \<lparr>nn_Namespace = ''default'', nn_Name = ''demo''\<rparr>"

lemma sample_api_simps [simp]:
  "clusterlabs (sample_api cl il nb) = fixed_kind cl" "instancelabs (sample_api cl il nb) = fixed_kind il"
  "notebooklabs (sample_api cl il nb) = fixed_kind nb" "clock (sample_api cl il nb) = (\<lambda>w. (w, w + 1))"
  "pods (sample_api cl il nb) = fixed_kind sample_Pod"
  by (simp_all add: sample_api_def)

end
