(* ===== verification/ClusterLabController.thy ===== *)
theory ClusterLabController
  imports Samples
begin

text \<open>
  internal/controller/clusterlab_controller.go: the reconciler of ClusterLab. Each method of the
  reconciler is a definition here, in the source's order of calls; the functions it hands to
  CreateOrUpdate are definitions of their own (the _mutate functions).
\<close>

section \<open>Phases\<close>

definition PhaseRunning :: string where "PhaseRunning = ''Running''"
definition PhaseCreating :: string where "PhaseCreating = ''Creating''"
definition PhaseFailed :: string where "PhaseFailed = ''Failed''"

definition set_clt :: "(ClusterLabStatus \<Rightarrow> ClusterLabStatus) \<Rightarrow> ClusterLab \<Rightarrow> ClusterLab" where
  "set_clt f cl = cl\<lparr>cl_Status := f (cl_Status cl)\<rparr>"

lemma set_clt_simps [simp]:
  "cl_Meta (set_clt f cl) = cl_Meta cl" "cl_Spec (set_clt f cl) = cl_Spec cl"
  "cl_Status (set_clt f cl) = f (cl_Status cl)" "set_clt g (set_clt f cl) = set_clt (g \<circ> f) cl"
  by (simp_all add: set_clt_def)

section \<open>Status after a failure\<close>

definition ClusterLab_updateStatusFailed :: "platform \<Rightarrow> 'w api \<Rightarrow> ClusterLab \<Rightarrow> string \<Rightarrow> string
    \<Rightarrow> ('w, unit) io" where
  "ClusterLab_updateStatusFailed px k cl reason message = do {
     cs \<leftarrow> SetCondition px k (clt_Conditions (cl_Status cl)) ''Ready'' ConditionFalse reason message;
     _ \<leftarrow> api_status_update (clusterlabs k) OnClusterLab
       (set_clt (\<lambda>s. s\<lparr>clt_Phase := PhaseFailed, clt_Conditions := cs\<rparr>) cl);
     ret ()
   }"

section \<open>Deletion\<close>

definition new_Namespace :: "string \<Rightarrow> Namespace" where
  "new_Namespace n = \<lparr>ns_Meta = new_meta '''' n\<rparr>"

definition wait_for_namespace :: Result where
  "wait_for_namespace = \<lparr>RequeueAfter = 3 * Second\<rparr>"

definition ClusterLab_targetNamespace :: "ClusterLab \<Rightarrow> string" where
  "ClusterLab_targetNamespace cl =
     (if clt_TargetNamespace (cl_Status cl) = '''' then GenerateTargetNamespace (om_Name (cl_Meta cl))
      else clt_TargetNamespace (cl_Status cl))"

definition ClusterLab_reconcileFinalizer :: "platform \<Rightarrow> 'w api \<Rightarrow> ClusterLab
    \<Rightarrow> ('w, Result \<times> error option) io" where
  "ClusterLab_reconcileFinalizer px k cl =
     (if \<not> ContainsFinalizer px (cl_Meta cl) ClusterLabFinalizer then ret (no_result, None)
      else let targetNamespace = ClusterLab_targetNamespace cl in do {
        d \<leftarrow> api_delete (namespaces k) OnNamespace (new_Namespace targetNamespace);
        (if d \<noteq> None \<and> \<not> is_not_found d then ret (no_result, d)
         else do {
           g \<leftarrow> api_get (namespaces k) OnNamespace \<lparr>nn_Namespace = '''', nn_Name = targetNamespace\<rparr>;
           (if err_of g = None \<or> \<not> is_not_found (err_of g) then ret (wait_for_namespace, None)
            else do {
              u \<leftarrow> api_update (clusterlabs k) OnClusterLab
                (cl\<lparr>cl_Meta := RemoveFinalizer px (cl_Meta cl) ClusterLabFinalizer\<rparr>);
              ret (no_result, err_of u)
            })
         })
      })"

section \<open>Time to live\<close>

definition ClusterLab_reconcileTTL :: "'w api \<Rightarrow> ClusterLab
    \<Rightarrow> ('w, bool \<times> Duration \<times> error option \<times> ClusterLab) io" where
  "ClusterLab_reconcileTTL k cl =
     (if cls_TTL (cl_Spec cl) = ''''
      then ret (False, 0, None, set_clt (\<lambda>s. s\<lparr>clt_ExpiresAt := None\<rparr>) cl)
      else case ParseDuration (cls_TTL (cl_Spec cl)) of
        Inl e \<Rightarrow> ret (False, 0, Some (InvalidTTL (cls_TTL (cl_Spec cl)) e), cl)
      | Inr duration \<Rightarrow>
          let expiresTime = Time_Add (om_CreationTimestamp (cl_Meta cl)) duration;
              cl' = set_clt (\<lambda>s. s\<lparr>clt_ExpiresAt := Some expiresTime\<rparr>) cl in do {
            now \<leftarrow> time_now k;
            (if now > expiresTime \<or> now = expiresTime then ret (True, 0, None, cl')
             else do {
               now' \<leftarrow> time_now k;
               ret (False, Time_Sub expiresTime now', None, cl')
             })
          })"

section \<open>The namespace\<close>

definition forwarded_label :: "string \<Rightarrow> bool" where
  "forwarded_label key \<longleftrightarrow>
     HasPrefix key ''student_'' \<or> HasPrefix key ''lab_'' \<or> HasPrefix key ''session_''"

text \<open>The range loop over the labels of the ClusterLab: the keys are distinct, so its order is
  immaterial and the result is the union of the two maps.\<close>

definition forwarded_labels :: "labels \<Rightarrow> labels" where
  "forwarded_labels ls = (\<lambda>key. if forwarded_label key then ls key else None)"

definition ClusterLab_namespace_mutate :: "ClusterLab \<Rightarrow> Namespace \<Rightarrow> Namespace" where
  "ClusterLab_namespace_mutate cl ns = ns\<lparr>ns_Meta := (ns_Meta ns)\<lparr>om_Labels :=
     (om_Labels (ns_Meta ns))(LabelManagedBy \<mapsto> LabelValueManagedBy,
        LabelClusterLab \<mapsto> om_Name (cl_Meta cl)) ++ forwarded_labels (om_Labels (cl_Meta cl))\<rparr>\<rparr>"

definition ClusterLab_reconcileNamespace :: "'w api \<Rightarrow> ClusterLab \<Rightarrow> string \<Rightarrow> ('w, error option) io" where
  "ClusterLab_reconcileNamespace k cl nsName = do {
     r \<leftarrow> api_create_or_update (namespaces k) OnNamespace (new_Namespace nsName)
       (ClusterLab_namespace_mutate cl);
     ret (err_of r)
   }"

section \<open>The quota\<close>

definition new_ResourceQuota :: "string \<Rightarrow> ResourceQuota" where
  "new_ResourceQuota nsName = \<lparr>rq_Meta = new_meta nsName ''lab-resource-quota'',
     rq_Hard = Map.empty, rq_Used = Map.empty\<rparr>"

definition set_if :: "bool \<Rightarrow> 'k \<Rightarrow> 'v \<Rightarrow> ('k \<rightharpoonup> 'v) \<Rightarrow> ('k \<rightharpoonup> 'v)" where
  "set_if b key v m = (if b then m(key \<mapsto> v) else m)"

definition int64_of_int32 :: "int32 \<Rightarrow> int64" where
  "int64_of_int32 x = word_of_int (sint x)"

definition int32_of_int64 :: "int64 \<Rightarrow> int32" where
  "int32_of_int64 x = word_of_int (sint x)"

definition ClusterLab_quota_hard :: "platform \<Rightarrow> ClusterLabQuotaConfig \<Rightarrow> ResourceList \<Rightarrow> ResourceList" where
  "ClusterLab_quota_hard px q h0 =
     (let cpu = crl_Limit (ccq_CPU (cqc_Compute q));
          mem = crl_Limit (ccq_Memory (cqc_Compute q));
          podsLimit = coq_PodsLimit (cqc_Objects q);
          servicesLimit = coq_ServicesLimit (cqc_Objects q);
          eph = csq_Limit (cqc_Storage q);
          h1 = set_if (\<not> Quantity_IsZero px cpu) ''limits.cpu'' cpu h0;
          h2 = set_if (\<not> Quantity_IsZero px cpu) ''requests.cpu'' cpu h1;
          h3 = set_if (\<not> Quantity_IsZero px mem) ''limits.memory'' mem h2;
          h4 = set_if (\<not> Quantity_IsZero px mem) ''requests.memory'' mem h3;
          h5 = set_if (sint podsLimit > 0) ''pods'' (NewQuantity px (int64_of_int32 podsLimit)) h4;
          h6 = set_if (sint servicesLimit > 0) ''services''
                 (NewQuantity px (int64_of_int32 servicesLimit)) h5
      in set_if (\<not> Quantity_IsZero px eph) ''limits.ephemeral-storage'' eph h6)"

definition ClusterLab_quota_mutate :: "platform \<Rightarrow> ClusterLab \<Rightarrow> ResourceQuota \<Rightarrow> ResourceQuota" where
  "ClusterLab_quota_mutate px cl quota =
     quota\<lparr>rq_Hard := ClusterLab_quota_hard px (cls_Quota (cl_Spec cl)) (rq_Hard quota)\<rparr>"

definition ClusterLab_reconcileResourceQuota :: "platform \<Rightarrow> 'w api \<Rightarrow> ClusterLab \<Rightarrow> string
    \<Rightarrow> ('w, error option) io" where
  "ClusterLab_reconcileResourceQuota px k cl nsName = do {
     r \<leftarrow> api_create_or_update (resourcequotas k) OnResourceQuota (new_ResourceQuota nsName)
       (ClusterLab_quota_mutate px cl);
     ret (err_of r)
   }"

section \<open>The network policy\<close>

definition new_NetworkPolicy :: "string \<Rightarrow> NetworkPolicy" where
  "new_NetworkPolicy nsName = \<lparr>np_Meta = new_meta nsName ''lab-network-policy'',
     np_PodSelector = Map.empty, np_PolicyTypes = [], np_Ingress = []\<rparr>"

definition ClusterLab_ingress_rules :: "platform \<Rightarrow> string \<Rightarrow> NetworkPolicyIngressRule list" where
  "ClusterLab_ingress_rules px ty =
     (let t = ToLower px ty in
      if t = ''isolate'' then []
      else if t = ''internal'' then [\<lparr>rule_From = [\<lparr>peer_PodSelector = Some Map.empty\<rparr>]\<rparr>]
      else if t = ''external'' then [\<lparr>rule_From = []\<rparr>]
      else [])"

definition ClusterLab_netpol_mutate :: "platform \<Rightarrow> ClusterLab \<Rightarrow> NetworkPolicy \<Rightarrow> NetworkPolicy" where
  "ClusterLab_netpol_mutate px cl np = np\<lparr>np_PodSelector := Map.empty, np_PolicyTypes := [''Ingress''],
     np_Ingress := ClusterLab_ingress_rules px (cln_Type (cls_Network (cl_Spec cl)))\<rparr>"

definition ClusterLab_reconcileNetworkPolicy :: "platform \<Rightarrow> 'w api \<Rightarrow> ClusterLab \<Rightarrow> string
    \<Rightarrow> ('w, error option) io" where
  "ClusterLab_reconcileNetworkPolicy px k cl nsName = do {
     r \<leftarrow> api_create_or_update (networkpolicies k) OnNetworkPolicy (new_NetworkPolicy nsName)
       (ClusterLab_netpol_mutate px cl);
     ret (err_of r)
   }"

section \<open>Status\<close>

definition ClusterLab_record_usage :: "platform \<Rightarrow> ResourceList \<Rightarrow> ClusterLabQuotaUsage \<Rightarrow> ClusterLabQuotaUsage" where
  "ClusterLab_record_usage px used u =
     (let u1 = (case used ''limits.cpu'' of None \<Rightarrow> u
            | Some cpu \<Rightarrow> u\<lparr>cqu_Compute := (cqu_Compute u)\<lparr>ccu_CPUUsed := cpu\<rparr>\<rparr>);
          u2 = (case used ''limits.memory'' of None \<Rightarrow> u1
            | Some mem \<Rightarrow> u1\<lparr>cqu_Compute := (cqu_Compute u1)\<lparr>ccu_MemoryUsed := mem\<rparr>\<rparr>);
          u3 = (case used ''pods'' of None \<Rightarrow> u2
            | Some p \<Rightarrow> u2\<lparr>cqu_Objects := (cqu_Objects u2)
                \<lparr>cou_PodsUsed := int32_of_int64 (Quantity_Value px p)\<rparr>\<rparr>);
          u4 = (case used ''services'' of None \<Rightarrow> u3
            | Some s \<Rightarrow> u3\<lparr>cqu_Objects := (cqu_Objects u3)
                \<lparr>cou_ServicesUsed := int32_of_int64 (Quantity_Value px s)\<rparr>\<rparr>)
      in case used ''limits.ephemeral-storage'' of None \<Rightarrow> u4
         | Some eph \<Rightarrow> u4\<lparr>cqu_Storage := (cqu_Storage u4)\<lparr>csu_Used := eph\<rparr>\<rparr>)"

fun ClusterLab_count :: "platform \<Rightarrow> string \<Rightarrow> InstanceLab list \<Rightarrow> int32 \<times> int32 \<Rightarrow> int32 \<times> int32" where
  "ClusterLab_count px name [] acc = acc"
| "ClusterLab_count px name (inst # insts) (tot, rdy) =
     ClusterLab_count px name insts
       (if ils_ClusterLabRef (il_Spec inst) = name
        then (tot + 1,
          if ToLower px (ilt_Phase (il_Status inst)) = ''running'' then rdy + 1 else rdy)
        else (tot, rdy))"

definition ClusterLab_updateClusterLabStatus :: "platform \<Rightarrow> 'w api \<Rightarrow> ClusterLab \<Rightarrow> string
    \<Rightarrow> ('w, error option) io" where
  "ClusterLab_updateClusterLabStatus px k cl0 nsName =
     (let cl1 = set_clt (\<lambda>s. s\<lparr>clt_Phase := PhaseRunning, clt_TargetNamespace := nsName\<rparr>) cl0 in do {
        q \<leftarrow> api_get (resourcequotas k) OnResourceQuota
          \<lparr>nn_Namespace = nsName, nn_Name = ''lab-resource-quota''\<rparr>;
        let cl2 = (case q of Inl _ \<Rightarrow> cl1
          | Inr quota \<Rightarrow> set_clt (\<lambda>s. s\<lparr>clt_QuotaUsage :=
              ClusterLab_record_usage px (rq_Used quota) (clt_QuotaUsage s)\<rparr>) cl1);
        l \<leftarrow> api_list (instancelabs k) OnInstanceLab (om_Namespace (cl_Meta cl2));
        let cl3 = (case l of Inl _ \<Rightarrow> cl2
          | Inr items \<Rightarrow> (case ClusterLab_count px (om_Name (cl_Meta cl2)) items (0, 0) of
              (tot, rdy) \<Rightarrow> set_clt (\<lambda>s. s\<lparr>clt_InstanceCount :=
                \<lparr>cic_Total = tot, cic_Ready = rdy\<rparr>\<rparr>) cl2));
        c1 \<leftarrow> SetCondition px k (clt_Conditions (cl_Status cl3)) ''NamespaceReady'' ConditionTrue
          ''NamespaceReconciled'' (''Namespace '' @ nsName @ '' is active and operational'');
        c2 \<leftarrow> SetCondition px k c1 ''QuotaReady'' ConditionTrue ''QuotaReconciled''
          ''Resource limits successfully enforced'';
        c3 \<leftarrow> SetCondition px k c2 ''NetworkPolicyReady'' ConditionTrue ''PolicyReconciled''
          (''Network mode applied: '' @ cln_Type (cls_Network (cl_Spec cl3)));
        c4 \<leftarrow> SetCondition px k c3 ''Ready'' ConditionTrue ''ClusterReady''
          ''ClusterLab is fully provisioned and operational'';
        r \<leftarrow> api_status_update (clusterlabs k) OnClusterLab
          (set_clt (\<lambda>s. s\<lparr>clt_Conditions := c4\<rparr>) cl3);
        ret (err_of r)
      })"

section \<open>Reconcile\<close>

text \<open>A failed step: the status is set to Failed with the reason, and the error is returned.\<close>

definition ClusterLab_fail :: "platform \<Rightarrow> 'w api \<Rightarrow> ClusterLab \<Rightarrow> string \<Rightarrow> error
    \<Rightarrow> ('w, Result \<times> error option) io" where
  "ClusterLab_fail px k cl reason e = do {
     _ \<leftarrow> ClusterLab_updateStatusFailed px k cl reason (Error_text px e);
     ret (no_result, Some e)
   }"

text \<open>Steps 6 and 7 of Reconcile: the resources of the namespace, then the status.\<close>

definition ClusterLab_provision :: "platform \<Rightarrow> 'w api \<Rightarrow> ClusterLab \<Rightarrow> string \<Rightarrow> Duration
    \<Rightarrow> ('w, Result \<times> error option) io" where
  "ClusterLab_provision px k cl targetNamespace requeueAfter = do {
     e1 \<leftarrow> ClusterLab_reconcileNamespace k cl targetNamespace;
     case e1 of Some e \<Rightarrow> ClusterLab_fail px k cl ''NamespaceError'' e
     | None \<Rightarrow> do {
     e2 \<leftarrow> ClusterLab_reconcileResourceQuota px k cl targetNamespace;
     case e2 of Some e \<Rightarrow> ClusterLab_fail px k cl ''QuotaError'' e
     | None \<Rightarrow> do {
     e3 \<leftarrow> ClusterLab_reconcileNetworkPolicy px k cl targetNamespace;
     case e3 of Some e \<Rightarrow> ClusterLab_fail px k cl ''NetworkPolicyError'' e
     | None \<Rightarrow> do {
     e4 \<leftarrow> ClusterLab_updateClusterLabStatus px k cl targetNamespace;
     case e4 of Some e \<Rightarrow> ret (no_result, Some e)
     | None \<Rightarrow> ret (if sint requeueAfter > 0 then \<lparr>RequeueAfter = requeueAfter\<rparr> else no_result, None)
   }}}}"

text \<open>Steps 4 and 5 of Reconcile, for an object that is not being deleted.\<close>

definition ClusterLab_reconcileActive :: "platform \<Rightarrow> 'w api \<Rightarrow> ClusterLab
    \<Rightarrow> ('w, Result \<times> error option) io" where
  "ClusterLab_reconcileActive px k cl0 =
     (let targetNamespace = GenerateTargetNamespace (om_Name (cl_Meta cl0));
          cl1 = (if clt_TargetNamespace (cl_Status cl0) = ''''
            then set_clt (\<lambda>s. s\<lparr>clt_TargetNamespace := targetNamespace\<rparr>) cl0 else cl0) in do {
        (isExpired, requeueAfter, err, cl2) \<leftarrow> ClusterLab_reconcileTTL k cl1;
        (if err \<noteq> None then ret (no_result, err)
         else if isExpired then do {
           d \<leftarrow> api_delete (clusterlabs k) OnClusterLab cl2;
           (if d \<noteq> None \<and> \<not> is_not_found d then ret (no_result, d)
            else ret (no_result, None))
         }
         else ClusterLab_provision px k cl2 targetNamespace requeueAfter)
      })"

definition ClusterLab_Reconcile :: "platform \<Rightarrow> 'w api \<Rightarrow> NamespacedName
    \<Rightarrow> ('w, Result \<times> error option) io" where
  "ClusterLab_Reconcile px k req = do {
     r \<leftarrow> api_get (clusterlabs k) OnClusterLab req;
     case r of
       Inl err \<Rightarrow> (if IsNotFound err then ret (no_result, None) else ret (no_result, Some err))
     | Inr cl \<Rightarrow>
         (if om_DeletionTimestamp (cl_Meta cl) = None \<and>
             \<not> ContainsFinalizer px (cl_Meta cl) ClusterLabFinalizer
          then do {
            u \<leftarrow> api_update (clusterlabs k) OnClusterLab
              (cl\<lparr>cl_Meta := AddFinalizer px (cl_Meta cl) ClusterLabFinalizer\<rparr>);
            ret (no_result, err_of u)
          }
          else if om_DeletionTimestamp (cl_Meta cl) \<noteq> None
          then ClusterLab_reconcileFinalizer px k cl
          else ClusterLab_reconcileActive px k cl)
   }"

section \<open>Watching the instances\<close>

text \<open>The type assertion of findParentClusterLab on the watched object.\<close>

datatype watched = WatchedInstanceLab InstanceLab | WatchedOther

fun findParentClusterLab :: "watched \<Rightarrow> NamespacedName list" where
  "findParentClusterLab (WatchedInstanceLab inst) =
     (if ils_ClusterLabRef (il_Spec inst) = '''' then []
      else [\<lparr>nn_Namespace = om_Namespace (il_Meta inst), nn_Name = ils_ClusterLabRef (il_Spec inst)\<rparr>])"
| "findParentClusterLab WatchedOther = []"

section \<open>Convergence of the children\<close>

lemmas quota_defs = ClusterLab_quota_mutate_def ClusterLab_quota_hard_def set_if_def

lemma set_if_idem: "set_if b key v (set_if b key v m) = set_if b key v m"
  by (simp add: set_if_def)

lemma forwarded_idem: "(m(a \<mapsto> x, b \<mapsto> y) ++ f)(a \<mapsto> x, b \<mapsto> y) ++ f = m(a \<mapsto> x, b \<mapsto> y) ++ f"
  by (rule ext) (auto simp: map_add_def split: option.splits)

interpretation cl_namespace: mutator "ClusterLab_namespace_mutate cl" ns_Meta
  by unfold_locales (simp_all add: ClusterLab_namespace_mutate_def forwarded_idem)

interpretation cl_quota: mutator "ClusterLab_quota_mutate px cl" rq_Meta
proof unfold_locales
  fix rq :: ResourceQuota
  have "ClusterLab_quota_hard px q (ClusterLab_quota_hard px q h) = ClusterLab_quota_hard px q h" for q h
    by (rule ext) (simp add: quota_defs Let_def)
  then show "ClusterLab_quota_mutate px cl (ClusterLab_quota_mutate px cl rq) = ClusterLab_quota_mutate px cl rq"
    by (simp add: ClusterLab_quota_mutate_def)
qed (simp_all add: ClusterLab_quota_mutate_def)

interpretation cl_netpol: mutator "ClusterLab_netpol_mutate px cl" np_Meta
  by unfold_locales (simp_all add: ClusterLab_netpol_mutate_def)

section \<open>An abstract account of a run\<close>

text \<open>
  ClusterLab_run lists the ways a reconciliation can go, one rule each, as the calls made (with
  their responses) and the result. The refinement theorem below shows that the code does nothing
  else; the safety properties are then read off the rules.
\<close>

definition failed_object :: "platform \<Rightarrow> Time \<Rightarrow> string \<Rightarrow> error \<Rightarrow> ClusterLab \<Rightarrow> ClusterLab" where
  "failed_object px t reason e cl = set_clt (\<lambda>s. s\<lparr>clt_Phase := PhaseFailed,
     clt_Conditions := SetStatusCondition px (clt_Conditions s)
       \<lparr>c_Type = ''Ready'', c_Status = ConditionFalse, c_Reason = reason,
        c_Message = Error_text px e, c_LastTransitionTime = t\<rparr>\<rparr>) cl"

inductive ttl_run :: "ClusterLab \<Rightarrow> event list \<Rightarrow> bool \<times> Duration \<times> error option \<times> ClusterLab \<Rightarrow> bool" where
  no_ttl: "cls_TTL (cl_Spec cl) = '''' \<Longrightarrow>
     ttl_run cl [] (False, 0, None, set_clt (\<lambda>s. s\<lparr>clt_ExpiresAt := None\<rparr>) cl)"
| bad_ttl: "cls_TTL (cl_Spec cl) \<noteq> '''' \<Longrightarrow> ParseDuration (cls_TTL (cl_Spec cl)) = Inl e \<Longrightarrow>
     ttl_run cl [] (False, 0, Some (InvalidTTL (cls_TTL (cl_Spec cl)) e), cl)"
| expired: "cls_TTL (cl_Spec cl) \<noteq> '''' \<Longrightarrow> ParseDuration (cls_TTL (cl_Spec cl)) = Inr d \<Longrightarrow>
     expires = Time_Add (om_CreationTimestamp (cl_Meta cl)) d \<Longrightarrow> expires \<le> now \<Longrightarrow>
     ttl_run cl [Now now] (True, 0, None, set_clt (\<lambda>s. s\<lparr>clt_ExpiresAt := Some expires\<rparr>) cl)"
| alive: "cls_TTL (cl_Spec cl) \<noteq> '''' \<Longrightarrow> ParseDuration (cls_TTL (cl_Spec cl)) = Inr d \<Longrightarrow>
     expires = Time_Add (om_CreationTimestamp (cl_Meta cl)) d \<Longrightarrow> now < expires \<Longrightarrow>
     ttl_run cl [Now now, Now now'] (False, Time_Sub expires now', None,
       set_clt (\<lambda>s. s\<lparr>clt_ExpiresAt := Some expires\<rparr>) cl)"

lemma ClusterLab_reconcileTTL_yields: "yields (ClusterLab_reconcileTTL k cl) (ttl_run cl)"
  unfolding ClusterLab_reconcileTTL_def Let_def
  by (intro ev_intro) (auto intro: ttl_run.intros)

lemma ClusterLab_fail_yields:
  "yields (ClusterLab_fail px k cl reason e) (\<lambda>evs r. \<exists>t u.
     evs = [Now t, OnClusterLab (StatusUpdate (failed_object px t reason e cl) u)] \<and>
     r = (no_result, Some e))"
  unfolding ClusterLab_fail_def ClusterLab_updateStatusFailed_def SetCondition_def State_Monad.bind_assoc
    State_Monad.bind_left_identity
  by (intro ev_intro) (auto simp: failed_object_def set_clt_def)

definition observed :: "platform \<Rightarrow> string \<Rightarrow> error + ResourceQuota \<Rightarrow> error + InstanceLab list
    \<Rightarrow> ClusterLab \<Rightarrow> ClusterLab" where
  "observed px nsName q l cl = set_clt (\<lambda>s. s\<lparr>clt_Phase := PhaseRunning,
     clt_TargetNamespace := nsName,
     clt_QuotaUsage := (case q of Inl _ \<Rightarrow> clt_QuotaUsage s
       | Inr quota \<Rightarrow> ClusterLab_record_usage px (rq_Used quota) (clt_QuotaUsage s)),
     clt_InstanceCount := (case l of Inl _ \<Rightarrow> clt_InstanceCount s
       | Inr items \<Rightarrow> (case ClusterLab_count px (om_Name (cl_Meta cl)) items (0, 0) of
           (tot, rdy) \<Rightarrow> \<lparr>cic_Total = tot, cic_Ready = rdy\<rparr>))\<rparr>) cl"

definition true_condition :: "string \<Rightarrow> string \<Rightarrow> string \<Rightarrow> Time \<Rightarrow> Condition" where
  "true_condition ty reason msg t = \<lparr>c_Type = ty, c_Status = ConditionTrue, c_Reason = reason,
     c_Message = msg, c_LastTransitionTime = t\<rparr>"

definition ready_conditions :: "platform \<Rightarrow> string \<Rightarrow> string \<Rightarrow> Time \<Rightarrow> Time \<Rightarrow> Time \<Rightarrow> Time
    \<Rightarrow> Condition list \<Rightarrow> Condition list" where
  "ready_conditions px nsName mode t1 t2 t3 t4 cs =
     SetStatusCondition px (SetStatusCondition px (SetStatusCondition px (SetStatusCondition px cs
       (true_condition ''NamespaceReady'' ''NamespaceReconciled''
         (''Namespace '' @ nsName @ '' is active and operational'') t1))
       (true_condition ''QuotaReady'' ''QuotaReconciled'' ''Resource limits successfully enforced'' t2))
       (true_condition ''NetworkPolicyReady'' ''PolicyReconciled'' (''Network mode applied: '' @ mode) t3))
       (true_condition ''Ready'' ''ClusterReady'' ''ClusterLab is fully provisioned and operational'' t4)"

definition running_object :: "platform \<Rightarrow> string \<Rightarrow> error + ResourceQuota \<Rightarrow> error + InstanceLab list
    \<Rightarrow> Time \<Rightarrow> Time \<Rightarrow> Time \<Rightarrow> Time \<Rightarrow> ClusterLab \<Rightarrow> ClusterLab" where
  "running_object px nsName q l t1 t2 t3 t4 cl = set_clt (\<lambda>s. s\<lparr>clt_Conditions :=
     ready_conditions px nsName (cln_Type (cls_Network (cl_Spec cl))) t1 t2 t3 t4 (clt_Conditions s)\<rparr>)
     (observed px nsName q l cl)"

inductive status_run :: "platform \<Rightarrow> ClusterLab \<Rightarrow> string \<Rightarrow> event list \<Rightarrow> error option \<Rightarrow> bool"
  for px cl nsName where
  "status_run px cl nsName
     [OnResourceQuota (Get \<lparr>nn_Namespace = nsName, nn_Name = ''lab-resource-quota''\<rparr> q),
      OnInstanceLab (List (om_Namespace (cl_Meta cl)) l), Now t1, Now t2, Now t3, Now t4,
      OnClusterLab (StatusUpdate (running_object px nsName q l t1 t2 t3 t4 cl) u)] (err_of u)"

lemma ClusterLab_updateClusterLabStatus_yields:
  "yields (ClusterLab_updateClusterLabStatus px k cl nsName) (status_run px cl nsName)"
  unfolding ClusterLab_updateClusterLabStatus_def SetCondition_def Let_def State_Monad.bind_assoc
    State_Monad.bind_left_identity
proof (intro ev_intro, goal_cases)
  case (1 q l t1 t2 t3 t4 u)
  note run = status_run.intros[of px cl nsName q l t1 t2 t3 t4 u]
  then show ?case
    by (cases q; cases l)
      (simp_all add: running_object_def observed_def ready_conditions_def true_condition_def set_clt_def
        comp_def split: prod.splits)
qed

text \<open>The object as the fetched one is completed by steps 4 and 5.\<close>

definition with_target :: "ClusterLab \<Rightarrow> ClusterLab" where
  "with_target cl = (if clt_TargetNamespace (cl_Status cl) = ''''
     then set_clt (\<lambda>s. s\<lparr>clt_TargetNamespace := GenerateTargetNamespace (om_Name (cl_Meta cl))\<rparr>) cl
     else cl)"

abbreviation ensure_namespace :: "ClusterLab \<Rightarrow> string \<Rightarrow> error + Namespace \<Rightarrow> event" where
  "ensure_namespace cl ns r \<equiv>
     OnNamespace (CreateOrUpdate (new_Namespace ns) (ClusterLab_namespace_mutate cl) r)"

abbreviation ensure_quota :: "platform \<Rightarrow> ClusterLab \<Rightarrow> string \<Rightarrow> error + ResourceQuota \<Rightarrow> event" where
  "ensure_quota px cl ns r \<equiv>
     OnResourceQuota (CreateOrUpdate (new_ResourceQuota ns) (ClusterLab_quota_mutate px cl) r)"

abbreviation ensure_netpol :: "platform \<Rightarrow> ClusterLab \<Rightarrow> string \<Rightarrow> error + NetworkPolicy \<Rightarrow> event" where
  "ensure_netpol px cl ns r \<equiv>
     OnNetworkPolicy (CreateOrUpdate (new_NetworkPolicy ns) (ClusterLab_netpol_mutate px cl) r)"

abbreviation mark_failed :: "platform \<Rightarrow> Time \<Rightarrow> string \<Rightarrow> error \<Rightarrow> ClusterLab \<Rightarrow> error + ClusterLab \<Rightarrow> event" where
  "mark_failed px t reason e cl u \<equiv> OnClusterLab (StatusUpdate (failed_object px t reason e cl) u)"

definition requeue_if_positive :: "Duration \<Rightarrow> Result" where
  "requeue_if_positive d = (if sint d > 0 then \<lparr>RequeueAfter = d\<rparr> else no_result)"

inductive provision_run :: "platform \<Rightarrow> ClusterLab \<Rightarrow> string \<Rightarrow> Duration \<Rightarrow> event list
    \<Rightarrow> Result \<times> error option \<Rightarrow> bool" for px cl ns after where
  namespace_failed: "provision_run px cl ns after
     [ensure_namespace cl ns (Inl e), Now t, mark_failed px t ''NamespaceError'' e cl u]
     (no_result, Some e)"
| quota_failed: "provision_run px cl ns after
     [ensure_namespace cl ns (Inr n), ensure_quota px cl ns (Inl e),
      Now t, mark_failed px t ''QuotaError'' e cl u] (no_result, Some e)"
| netpol_failed: "provision_run px cl ns after
     [ensure_namespace cl ns (Inr n), ensure_quota px cl ns (Inr q), ensure_netpol px cl ns (Inl e),
      Now t, mark_failed px t ''NetworkPolicyError'' e cl u] (no_result, Some e)"
| status_failed: "status_run px cl ns evs (Some e) \<Longrightarrow> provision_run px cl ns after
     (ensure_namespace cl ns (Inr n) # ensure_quota px cl ns (Inr q) # ensure_netpol px cl ns (Inr p) # evs)
     (no_result, Some e)"
| provisioned: "status_run px cl ns evs None \<Longrightarrow> provision_run px cl ns after
     (ensure_namespace cl ns (Inr n) # ensure_quota px cl ns (Inr q) # ensure_netpol px cl ns (Inr p) # evs)
     (requeue_if_positive after, None)"

inductive finalizer_run :: "platform \<Rightarrow> ClusterLab \<Rightarrow> event list \<Rightarrow> Result \<times> error option \<Rightarrow> bool"
  for px cl where
  nothing_left: "\<not> ContainsFinalizer px (cl_Meta cl) ClusterLabFinalizer \<Longrightarrow>
     finalizer_run px cl [] (no_result, None)"
| delete_failed: "ContainsFinalizer px (cl_Meta cl) ClusterLabFinalizer \<Longrightarrow> \<not> IsNotFound e \<Longrightarrow>
     finalizer_run px cl [OnNamespace (Delete (new_Namespace (ClusterLab_targetNamespace cl)) (Some e))]
       (no_result, Some e)"
| still_there: "ContainsFinalizer px (cl_Meta cl) ClusterLabFinalizer \<Longrightarrow>
     d = None \<or> is_not_found d \<Longrightarrow>
     \<not> is_not_found (err_of g) \<Longrightarrow>
     finalizer_run px cl
       [OnNamespace (Delete (new_Namespace (ClusterLab_targetNamespace cl)) d),
        OnNamespace (Get \<lparr>nn_Namespace = '''', nn_Name = ClusterLab_targetNamespace cl\<rparr> g)]
       (wait_for_namespace, None)"
| released: "ContainsFinalizer px (cl_Meta cl) ClusterLabFinalizer \<Longrightarrow>
     d = None \<or> is_not_found d \<Longrightarrow> is_not_found (err_of g) \<Longrightarrow>
     finalizer_run px cl
       [OnNamespace (Delete (new_Namespace (ClusterLab_targetNamespace cl)) d),
        OnNamespace (Get \<lparr>nn_Namespace = '''', nn_Name = ClusterLab_targetNamespace cl\<rparr> g),
        OnClusterLab (Update
          (cl\<lparr>cl_Meta := RemoveFinalizer px (cl_Meta cl) ClusterLabFinalizer\<rparr>) u)]
       (no_result, err_of u)"

inductive active_run :: "platform \<Rightarrow> ClusterLab \<Rightarrow> event list \<Rightarrow> Result \<times> error option \<Rightarrow> bool"
  for px cl where
  ttl_error: "ttl_run (with_target cl) evs (ex, after, Some e, cl') \<Longrightarrow>
     active_run px cl evs (no_result, Some e)"
| ttl_delete_failed: "ttl_run (with_target cl) evs (True, after, None, cl') \<Longrightarrow> \<not> IsNotFound e \<Longrightarrow>
     active_run px cl (evs @ [OnClusterLab (Delete cl' (Some e))]) (no_result, Some e)"
| ttl_deleted: "ttl_run (with_target cl) evs (True, after, None, cl') \<Longrightarrow>
     d = None \<or> is_not_found d \<Longrightarrow>
     active_run px cl (evs @ [OnClusterLab (Delete cl' d)]) (no_result, None)"
| provision: "ttl_run (with_target cl) evs (False, after, None, cl') \<Longrightarrow>
     provision_run px cl' (GenerateTargetNamespace (om_Name (cl_Meta cl))) after evs' r \<Longrightarrow>
     active_run px cl (evs @ evs') r"

inductive ClusterLab_run :: "platform \<Rightarrow> NamespacedName \<Rightarrow> event list \<Rightarrow> Result \<times> error option \<Rightarrow> bool"
  for px req where
  gone: "IsNotFound e \<Longrightarrow>
     ClusterLab_run px req [OnClusterLab (Get req (Inl e))] (no_result, None)"
| fetch_failed: "\<not> IsNotFound e \<Longrightarrow>
     ClusterLab_run px req [OnClusterLab (Get req (Inl e))] (no_result, Some e)"
| claim: "om_DeletionTimestamp (cl_Meta cl) = None \<Longrightarrow>
     \<not> ContainsFinalizer px (cl_Meta cl) ClusterLabFinalizer \<Longrightarrow>
     ClusterLab_run px req [OnClusterLab (Get req (Inr cl)),
       OnClusterLab (Update (cl\<lparr>cl_Meta := AddFinalizer px (cl_Meta cl) ClusterLabFinalizer\<rparr>) u)]
       (no_result, err_of u)"
| deleting: "om_DeletionTimestamp (cl_Meta cl) \<noteq> None \<Longrightarrow> finalizer_run px cl evs r \<Longrightarrow>
     ClusterLab_run px req (OnClusterLab (Get req (Inr cl)) # evs) r"
| active: "om_DeletionTimestamp (cl_Meta cl) = None \<Longrightarrow>
     ContainsFinalizer px (cl_Meta cl) ClusterLabFinalizer \<Longrightarrow> active_run px cl evs r \<Longrightarrow>
     ClusterLab_run px req (OnClusterLab (Get req (Inr cl)) # evs) r"

lemma ClusterLab_provision_yields:
  "yields (ClusterLab_provision px k cl ns after) (provision_run px cl ns after)"
  unfolding ClusterLab_provision_def ClusterLab_reconcileNamespace_def
    ClusterLab_reconcileResourceQuota_def ClusterLab_reconcileNetworkPolicy_def
    State_Monad.bind_assoc State_Monad.bind_left_identity requeue_if_positive_def[symmetric]
  by (intro ev_intro yields_bind[OF ClusterLab_fail_yields]
        yields_bind[OF ClusterLab_updateClusterLabStatus_yields]
        yields_conseq[OF ClusterLab_fail_yields])
    (auto simp: err_of_Some err_of_None intro: provision_run.intros)

lemma ClusterLab_reconcileFinalizer_yields:
  "yields (ClusterLab_reconcileFinalizer px k cl) (finalizer_run px cl)"
  unfolding ClusterLab_reconcileFinalizer_def Let_def
  by (intro ev_intro) (auto simp: err_of_Some err_of_None intro: finalizer_run.intros)

lemma ClusterLab_reconcileActive_yields:
  "yields (ClusterLab_reconcileActive px k cl) (active_run px cl)"
  unfolding ClusterLab_reconcileActive_def Let_def with_target_def[symmetric]
  by (intro ev_intro yields_bind[OF ClusterLab_reconcileTTL_yields]
        yields_conseq[OF ClusterLab_provision_yields])
    (auto intro: active_run.intros)

lemma ClusterLab_Reconcile_yields: "yields (ClusterLab_Reconcile px k req) (ClusterLab_run px req)"
  unfolding ClusterLab_Reconcile_def
  by (intro ev_intro yields_conseq[OF ClusterLab_reconcileFinalizer_yields]
        yields_conseq[OF ClusterLab_reconcileActive_yields])
    (auto intro: ClusterLab_run.intros)

end
