(* ===== verification/ClusterLabCorrectness.thy ===== *)
theory ClusterLabCorrectness
  imports ClusterLabController
begin

text \<open>
  What the reconciler of ClusterLab guarantees, read off the abstract account of its runs
  (ClusterLab_run) or computed from the code. Each property with a hypothesis is followed by its
  application to the concrete API of Samples.
\<close>

lemmas ClusterLab_runs =
  ClusterLab_run.cases finalizer_run.cases active_run.cases provision_run.cases status_run.cases
  ttl_run.cases

lemmas ClusterLab_events = yields_run[OF ClusterLab_Reconcile_yields]

section \<open>Concrete runs\<close>

lemmas ClusterLab_code =
  ClusterLab_Reconcile_def ClusterLab_reconcileActive_def ClusterLab_provision_def ClusterLab_fail_def
  ClusterLab_updateClusterLabStatus_def ClusterLab_reconcileNetworkPolicy_def
  ClusterLab_reconcileResourceQuota_def ClusterLab_reconcileNamespace_def ClusterLab_reconcileTTL_def
  ClusterLab_reconcileFinalizer_def ClusterLab_updateStatusFailed_def SetCondition_def

abbreviation "demo_api \<equiv> sample_api sample_ClusterLab sample_InstanceLab sample_NotebookLab"

lemma sample_ClusterLab_simps [simp]:
  "cls_TTL (cl_Spec sample_ClusterLab) = ''''" "om_DeletionTimestamp (cl_Meta sample_ClusterLab) = None"
  "om_Name (cl_Meta sample_ClusterLab) = ''demo''" "om_Namespace (cl_Meta sample_ClusterLab) = ''default''"
  "ContainsFinalizer sample_platform (cl_Meta sample_ClusterLab) ClusterLabFinalizer"
  "clt_TargetNamespace (cl_Status sample_ClusterLab) = ''''"
  by (simp_all add: sample_ClusterLab_def new_meta_def sample_platform_def)

abbreviation "demo_object \<equiv> set_clt (\<lambda>s. s\<lparr>clt_ExpiresAt := None\<rparr>) (with_target sample_ClusterLab)"

lemma demo_run:
  "\<exists>n q p qq x u. events_of (ClusterLab_Reconcile sample_platform demo_api demo_key) 0 =
     [OnClusterLab (Get demo_key (Inr sample_ClusterLab)),
      ensure_namespace demo_object ''lab-demo'' (Inr n), ensure_quota sample_platform demo_object ''lab-demo'' (Inr q),
      ensure_netpol sample_platform demo_object ''lab-demo'' (Inr p),
      OnResourceQuota (Get \<lparr>nn_Namespace = ''lab-demo'', nn_Name = ''lab-resource-quota''\<rparr> qq),
      OnInstanceLab (List ''default'' (Inr [sample_InstanceLab])), Now 0, Now 1, Now 2, Now 3,
      OnClusterLab (StatusUpdate x u)] \<and> clt_Phase (cl_Status x) = PhaseRunning \<and> om_Name (cl_Meta x) = ''demo''"
  by (simp add: events_of_def ClusterLab_code Let_def sample_api_def with_target_def GenerateTargetNamespace_def
      SanitizeName_short split: prod.splits)

definition deleted_ClusterLab :: ClusterLab where
  "deleted_ClusterLab = sample_ClusterLab\<lparr>cl_Meta := (cl_Meta sample_ClusterLab)\<lparr>om_DeletionTimestamp := Some 1\<rparr>\<rparr>"

lemma deleted_ClusterLab_simps [simp]:
  "om_DeletionTimestamp (cl_Meta deleted_ClusterLab) = Some 1"
  "om_Name (cl_Meta deleted_ClusterLab) = ''demo''"
  "ContainsFinalizer sample_platform (cl_Meta deleted_ClusterLab) ClusterLabFinalizer"
  "clt_TargetNamespace (cl_Status deleted_ClusterLab) = ''''"
  by (simp_all add: deleted_ClusterLab_def sample_ClusterLab_def new_meta_def sample_platform_def)

abbreviation "deleted_api \<equiv> (sample_api deleted_ClusterLab sample_InstanceLab sample_NotebookLab)
  \<lparr>namespaces := fails_with (NotFoundError ''namespace'')\<rparr>"

abbreviation "refusing_api \<equiv> demo_api\<lparr>namespaces := fails_with (ApiError ''forbidden'')\<rparr>"

lemma ParseDuration_tomorrow: "\<exists>e. ParseDuration ''tomorrow'' = Inl e"
  by (rule exI[of _ "InvalidDuration ''tomorrow''"]) code_simp

section \<open>Refinement\<close>

text \<open>
  C1: Refinement: started in any state, and whatever the API server answers, Reconcile appends to the
  trace the calls of one of the runs of the abstract account, in that order, and returns its result.
\<close>

theorem ClusterLab_Reconcile_refines:
  "\<exists>evs. trace (snd (run_state (ClusterLab_Reconcile px k req) s)) = trace s @ evs \<and>
     ClusterLab_run px req evs (fst (run_state (ClusterLab_Reconcile px k req) s))"
  using ClusterLab_Reconcile_yields[of px k req] unfolding yields_def by blast

section \<open>Deletion\<close>

text \<open>
  C2: The finalizer of a ClusterLab is removed only in a run that has deleted its namespace, has read
  it back as not found, and has done nothing else.
\<close>

theorem ClusterLab_releases_after_namespace:
  assumes laws: "finalizer_laws px"
    and u: "OnClusterLab (Update u r) \<in> set (events_of (ClusterLab_Reconcile px k req) w)"
    and rel: "\<not> ContainsFinalizer px (cl_Meta u) ClusterLabFinalizer"
  shows "\<exists>cl d g. events_of (ClusterLab_Reconcile px k req) w =
      [OnClusterLab (Get req (Inr cl)),
       OnNamespace (Delete (new_Namespace (ClusterLab_targetNamespace cl)) d),
       OnNamespace (Get \<lparr>nn_Namespace = '''', nn_Name = ClusterLab_targetNamespace cl\<rparr> g),
       OnClusterLab (Update u r)] \<and>
     (d = None \<or> is_not_found d) \<and> is_not_found (err_of g) \<and>
     om_DeletionTimestamp (cl_Meta cl) \<noteq> None"
  using ClusterLab_events[of px req k w] u rel laws
  by (auto elim!: ClusterLab_runs simp: finalizer_laws_def)

theorem ClusterLab_releases_after_namespace_witness:
  "\<exists>cl d g u r. events_of (ClusterLab_Reconcile sample_platform deleted_api demo_key) 0 =
      [OnClusterLab (Get demo_key (Inr cl)),
       OnNamespace (Delete (new_Namespace (ClusterLab_targetNamespace cl)) d),
       OnNamespace (Get \<lparr>nn_Namespace = '''', nn_Name = ClusterLab_targetNamespace cl\<rparr> g),
       OnClusterLab (Update u r)]"
proof -
  let ?u = "deleted_ClusterLab\<lparr>cl_Meta := RemoveFinalizer sample_platform (cl_Meta deleted_ClusterLab) ClusterLabFinalizer\<rparr>"
  have a: "OnClusterLab (Update ?u (Inr ?u)) \<in>
      set (events_of (ClusterLab_Reconcile sample_platform deleted_api demo_key) 0)"
    by (simp add: events_of_def ClusterLab_code Let_def)
  have b: "\<not> ContainsFinalizer sample_platform (cl_Meta ?u) ClusterLabFinalizer"
    using sample_finalizers by (simp add: finalizer_laws_def)
  show ?thesis
    using ClusterLab_releases_after_namespace[OF sample_finalizers a b] by blast
qed

section \<open>What a run writes\<close>

fun child_target :: "event \<Rightarrow> string option" where
  "child_target (OnNamespace (CreateOrUpdate x _ _)) = Some (om_Name (ns_Meta x))"
| "child_target (OnResourceQuota (CreateOrUpdate x _ _)) = Some (om_Namespace (rq_Meta x))"
| "child_target (OnNetworkPolicy (CreateOrUpdate x _ _)) = Some (om_Namespace (np_Meta x))"
| "child_target _ = None"

lemma ttl_run_writes: "ttl_run cl evs r \<Longrightarrow> e \<in> set evs \<Longrightarrow> child_target e = None"
  by (auto elim!: ttl_run.cases)

lemma ttl_keeps: "ttl_run cl evs (b, d, e, cl') \<Longrightarrow> cl_Meta cl' = cl_Meta cl \<and> cl_Spec cl' = cl_Spec cl"
  by (auto elim!: ttl_run.cases)

lemma with_target_keeps [simp]: "cl_Meta (with_target cl) = cl_Meta cl" "cl_Spec (with_target cl) = cl_Spec cl"
  by (simp_all add: with_target_def)

lemma finalizer_run_writes: "finalizer_run px cl evs r \<Longrightarrow> e \<in> set evs \<Longrightarrow> child_target e = None"
  by (auto elim!: finalizer_run.cases)

lemma provision_run_writes: "provision_run px cl ns after evs r \<Longrightarrow> e \<in> set evs \<Longrightarrow>
    child_target e = None \<or> child_target e = Some ns"
  by (auto elim!: provision_run.cases status_run.cases
      simp: new_Namespace_def new_ResourceQuota_def new_NetworkPolicy_def)

lemma active_run_writes:
  assumes "active_run px cl evs r" and "e \<in> set evs"
  shows "child_target e = None \<or> child_target e = Some (GenerateTargetNamespace (om_Name (cl_Meta cl)))"
  using assms by (cases rule: active_run.cases) (auto dest: ttl_run_writes provision_run_writes)

text \<open>
  C7: Finalizer first: a run creates or updates a namespace, quota or network policy only for a
  ClusterLab that carries the finalizer and is not being deleted, and only in the namespace generated
  from its name.
\<close>

theorem ClusterLab_provisions_claimed:
  assumes "e \<in> set (events_of (ClusterLab_Reconcile px k req) w)" and "child_target e = Some ns"
  shows "\<exists>cl evs. events_of (ClusterLab_Reconcile px k req) w = OnClusterLab (Get req (Inr cl)) # evs \<and>
     om_DeletionTimestamp (cl_Meta cl) = None \<and> ContainsFinalizer px (cl_Meta cl) ClusterLabFinalizer \<and>
     ns = GenerateTargetNamespace (om_Name (cl_Meta cl))"
  using ClusterLab_events[of px req k w]
proof (cases rule: ClusterLab_run.cases)
  case (active cl evs)
  then show ?thesis using assms active_run_writes[OF active(4)] by fastforce
next
  case (deleting cl evs)
  then show ?thesis using assms finalizer_run_writes[OF deleting(3)] by fastforce
qed (use assms in auto)

theorem ClusterLab_provisions_claimed_witness:
  "''lab-demo'' = GenerateTargetNamespace ''demo'' \<and>
   (\<exists>cl evs. events_of (ClusterLab_Reconcile sample_platform demo_api demo_key) 0 =
      OnClusterLab (Get demo_key (Inr cl)) # evs \<and> ''lab-demo'' = GenerateTargetNamespace (om_Name (cl_Meta cl)))"
proof -
  obtain n where "ensure_namespace demo_object ''lab-demo'' (Inr n) \<in>
      set (events_of (ClusterLab_Reconcile sample_platform demo_api demo_key) 0)"
    using demo_run by auto
  from ClusterLab_provisions_claimed[OF this, of "''lab-demo''"] show ?thesis
    by (auto simp: new_Namespace_def GenerateTargetNamespace_def SanitizeName_short)
qed

lemma condition_true_put:
  assumes "condition_laws px"
  shows "condition_true (SetStatusCondition px cs (true_condition ty' reason msg t)) ty =
    (ty = ty' \<or> condition_true cs ty)"
proof (cases "ty = ty'")
  case True
  let ?c = "true_condition ty' reason msg t"
  have "\<exists>t. find_condition (SetStatusCondition px cs ?c) (c_Type ?c) = Some (?c\<lparr>c_LastTransitionTime := t\<rparr>)"
    using assms unfolding condition_laws_def by blast
  then show ?thesis using True by (auto simp: condition_true_def true_condition_def)
next
  case False
  then show ?thesis using assms by (simp add: condition_laws_def condition_true_def true_condition_def)
qed

lemma ready_conditions_true:
  assumes "condition_laws px"
    and "ty \<in> {''NamespaceReady'', ''QuotaReady'', ''NetworkPolicyReady'', ''Ready''}"
  shows "condition_true (ready_conditions px ns mode t1 t2 t3 t4 cs) ty"
  using assms(2) by (auto simp: ready_conditions_def condition_true_put[OF assms(1)])

lemma failed_condition:
  assumes "condition_laws px"
  shows "\<exists>c. find_condition (clt_Conditions (cl_Status (failed_object px t reason e cl))) ''Ready'' = Some c \<and>
     c_Status c = ConditionFalse \<and> c_Reason c = reason \<and> c_Message c = Error_text px e"
proof -
  let ?c = "\<lparr>c_Type = ''Ready'', c_Status = ConditionFalse, c_Reason = reason,
        c_Message = Error_text px e, c_LastTransitionTime = t\<rparr>"
  have "\<exists>t. find_condition (SetStatusCondition px cs ?c) (c_Type ?c) = Some (?c\<lparr>c_LastTransitionTime := t\<rparr>)" for cs
    using assms unfolding condition_laws_def by blast
  then show ?thesis by (fastforce simp: failed_object_def set_clt_def)
qed

lemma phase_of_objects [simp]:
  "clt_Phase (cl_Status (failed_object px t reason e cl)) = PhaseFailed"
  "clt_Phase (cl_Status (running_object px ns q l t1 t2 t3 t4 cl)) = PhaseRunning"
  "clt_TargetNamespace (cl_Status (running_object px ns q l t1 t2 t3 t4 cl)) = ns"
  "cl_Meta (running_object px ns q l t1 t2 t3 t4 cl) = cl_Meta cl"
  by (simp_all add: failed_object_def running_object_def observed_def set_clt_def)

lemma PhaseFailed_not_Running [simp]: "PhaseFailed \<noteq> PhaseRunning" "PhaseRunning \<noteq> PhaseFailed"
  by (simp_all add: PhaseFailed_def PhaseRunning_def)

lemma conditions_of_running:
  "clt_Conditions (cl_Status (running_object px ns q l t1 t2 t3 t4 cl)) =
   ready_conditions px ns (cln_Type (cls_Network (cl_Spec cl))) t1 t2 t3 t4 (clt_Conditions (cl_Status cl))"
  by (simp add: running_object_def observed_def set_clt_def)

lemma running_object_keeps:
  "cl_Spec (running_object px ns q l t1 t2 t3 t4 cl) = cl_Spec cl"
  by (simp add: running_object_def observed_def set_clt_def)

text \<open>The status updates of a provisioning step.\<close>

lemma status_run_running:
  assumes "condition_laws px" and "status_run px cl ns evs r" and "OnClusterLab (StatusUpdate x u) \<in> set evs"
  shows "\<exists>before. evs = before @ [OnClusterLab (StatusUpdate x u)] \<and> clt_TargetNamespace (cl_Status x) = ns \<and>
     cl_Meta x = cl_Meta cl \<and> cl_Spec x = cl_Spec cl \<and>
     list_all (condition_true (clt_Conditions (cl_Status x)))
       [''NamespaceReady'', ''QuotaReady'', ''NetworkPolicyReady'', ''Ready'']"
  using assms(2,3) ready_conditions_true[OF assms(1)]
  by (cases rule: status_run.cases) (simp add: conditions_of_running running_object_keeps)

lemma cluster_provision_running:
  assumes laws: "condition_laws px" and run: "provision_run px cl0 ns after evs r"
    and s: "OnClusterLab (StatusUpdate cl u) \<in> set evs" and ph: "clt_Phase (cl_Status cl) = PhaseRunning"
  shows "\<exists>n q p mid. evs = [ensure_namespace cl0 ns (Inr n), ensure_quota px cl0 ns (Inr q), ensure_netpol px cl0 ns (Inr p)] @
       mid @ [OnClusterLab (StatusUpdate cl u)] \<and> clt_TargetNamespace (cl_Status cl) = ns \<and>
     cl_Meta cl0 = cl_Meta cl \<and> cl_Spec cl0 = cl_Spec cl \<and>
     list_all (condition_true (clt_Conditions (cl_Status cl)))
       [''NamespaceReady'', ''QuotaReady'', ''NetworkPolicyReady'', ''Ready'']"
  using run
proof (cases rule: provision_run.cases)
  case (status_failed es e n q p)
  then show ?thesis using status_run_running[OF laws status_failed(3)] s by auto
next
  case (provisioned es n q p)
  then show ?thesis using status_run_running[OF laws provisioned(3)] s by auto
qed (use s ph in auto)

text \<open>
  C10: The phase Running is published only as the last call of a run that has written the three children
  of the published target namespace one after the other and each with success: first the namespace, then
  the resource quota in it, then the network policy in it, all three made from the metadata and the spec
  that are published. The published object has the four conditions true.
\<close>

theorem ClusterLab_running_after_children:
  assumes laws: "condition_laws px"
    and s: "OnClusterLab (StatusUpdate cl u) \<in> set (events_of (ClusterLab_Reconcile px k req) w)"
    and run: "clt_Phase (cl_Status cl) = PhaseRunning"
  shows "\<exists>before cl0 n q p mid. events_of (ClusterLab_Reconcile px k req) w =
       before @ [ensure_namespace cl0 (clt_TargetNamespace (cl_Status cl)) (Inr n),
         ensure_quota px cl0 (clt_TargetNamespace (cl_Status cl)) (Inr q),
         ensure_netpol px cl0 (clt_TargetNamespace (cl_Status cl)) (Inr p)] @ mid @ [OnClusterLab (StatusUpdate cl u)] \<and>
     cl_Meta cl0 = cl_Meta cl \<and> cl_Spec cl0 = cl_Spec cl \<and>
     list_all (condition_true (clt_Conditions (cl_Status cl)))
       [''NamespaceReady'', ''QuotaReady'', ''NetworkPolicyReady'', ''Ready'']"
  using ClusterLab_events[of px req k w]
proof (cases rule: ClusterLab_run.cases)
  case (active cl1 evs)
  from active(4) show ?thesis
  proof (cases rule: active_run.cases)
    case (provision tevs after cl0 pevs)
    have "OnClusterLab (StatusUpdate cl u) \<notin> set tevs" using provision(2) by (auto elim!: ttl_run.cases)
    then have "OnClusterLab (StatusUpdate cl u) \<in> set pevs" using s active(1) provision(1) by auto
    from cluster_provision_running[OF laws provision(3) this run] show ?thesis
      using active(1) provision(1) by (metis append_Cons append_assoc)
  qed (use s active in \<open>auto elim!: ttl_run.cases\<close>)
next
  case (deleting cl1 evs)
  then show ?thesis using s by (auto elim!: finalizer_run.cases)
qed (use s in auto)

theorem ClusterLab_running_after_children_witness:
  "\<exists>x u cl0 n q p before mid. clt_Phase (cl_Status x) = PhaseRunning \<and> condition_true (clt_Conditions (cl_Status x)) ''Ready'' \<and>
     events_of (ClusterLab_Reconcile sample_platform demo_api demo_key) 0 =
       before @ [ensure_namespace cl0 (clt_TargetNamespace (cl_Status x)) (Inr n),
         ensure_quota sample_platform cl0 (clt_TargetNamespace (cl_Status x)) (Inr q),
         ensure_netpol sample_platform cl0 (clt_TargetNamespace (cl_Status x)) (Inr p)] @ mid @ [OnClusterLab (StatusUpdate x u)]"
proof -
  obtain x u where x: "OnClusterLab (StatusUpdate x u) \<in>
      set (events_of (ClusterLab_Reconcile sample_platform demo_api demo_key) 0)"
      "clt_Phase (cl_Status x) = PhaseRunning"
    using demo_run by auto
  from ClusterLab_running_after_children[OF sample_conditions x] x(2) show ?thesis by fastforce
qed

fun child_error :: "event \<Rightarrow> error option" where
  "child_error (OnNamespace (CreateOrUpdate _ _ (Inl e))) = Some e"
| "child_error (OnResourceQuota (CreateOrUpdate _ _ (Inl e))) = Some e"
| "child_error (OnNetworkPolicy (CreateOrUpdate _ _ (Inl e))) = Some e"
| "child_error _ = None"

lemma provision_run_error:
  assumes "provision_run px cl ns after evs r" and "ev \<in> set evs" and "child_error ev = Some e"
  shows "\<exists>pre t reason u. evs = pre @ [ev, Now t, mark_failed px t reason e cl u] \<and> r = (no_result, Some e)"
  using assms by (auto elim!: provision_run.cases status_run.cases simp: Cons_eq_append_conv append_eq_Cons_conv) blast+

lemma no_child_error:
  "ttl_run cl evs r \<Longrightarrow> ev \<in> set evs \<Longrightarrow> child_error ev = None"
  "finalizer_run px cl evs s \<Longrightarrow> ev \<in> set evs \<Longrightarrow> child_error ev = None"
  by (auto elim!: ttl_run.cases finalizer_run.cases)

lemma active_run_error:
  assumes "active_run px cl evs r" and "ev \<in> set evs" and "child_error ev = Some e"
  shows "\<exists>pre t reason u cl'. evs = pre @ [ev, Now t, mark_failed px t reason e cl' u] \<and> r = (no_result, Some e)"
  using assms(1)
proof (cases rule: active_run.cases)
  case (provision tevs after cl' evs')
  then have "ev \<in> set evs'" using assms(2,3) no_child_error(1)[of _ tevs] by auto
  then show ?thesis
    using provision_run_error[OF provision(3) _ assms(3)] provision(1) by (metis append_assoc)
qed (use assms(2,3) no_child_error(1) in fastforce)+

text \<open>
  C18: When writing a child fails, the run makes no further attempt: it publishes the phase Failed with
  the condition Ready false and the text of the error, and returns that error.
\<close>

theorem ClusterLab_failure_reported:
  assumes laws: "condition_laws px"
    and ev: "ev \<in> set (events_of (ClusterLab_Reconcile px k req) w)" "child_error ev = Some e"
  shows "result_of (ClusterLab_Reconcile px k req) w = (no_result, Some e) \<and>
     (\<exists>before t x u c. events_of (ClusterLab_Reconcile px k req) w =
        before @ [ev, Now t, OnClusterLab (StatusUpdate x u)] \<and>
        clt_Phase (cl_Status x) = PhaseFailed \<and>
        find_condition (clt_Conditions (cl_Status x)) ''Ready'' = Some c \<and>
        c_Status c = ConditionFalse \<and> c_Message c = Error_text px e)"
  using ClusterLab_events[of px req k w]
proof (cases rule: ClusterLab_run.cases)
  case (active cl evs)
  then have "ev \<in> set evs" using ev by auto
  then obtain pre t reason u cl' where
    r: "evs = pre @ [ev, Now t, mark_failed px t reason e cl' u]"
      "result_of (ClusterLab_Reconcile px k req) w = (no_result, Some e)"
    using active_run_error[OF active(4) _ ev(2)] by blast
  moreover obtain c where
    "find_condition (clt_Conditions (cl_Status (failed_object px t reason e cl'))) ''Ready'' = Some c"
    "c_Status c = ConditionFalse" "c_Message c = Error_text px e"
    using failed_condition[OF laws] by blast
  ultimately show ?thesis using active(1) phase_of_objects(1) by (metis append_Cons)
next
  case (deleting cl evs)
  then show ?thesis using ev no_child_error(2)[OF deleting(3)] by fastforce
qed (use ev in auto)

theorem ClusterLab_failure_reported_witness:
  "result_of (ClusterLab_Reconcile sample_platform refusing_api demo_key) 0 = (no_result, Some (ApiError ''forbidden''))"
proof -
  have "ensure_namespace demo_object ''lab-demo'' (Inl (ApiError ''forbidden'')) \<in>
      set (events_of (ClusterLab_Reconcile sample_platform refusing_api demo_key) 0)"
    by (simp add: events_of_def ClusterLab_code Let_def with_target_def GenerateTargetNamespace_def SanitizeName_short)
  from ClusterLab_failure_reported[OF sample_conditions this] show ?thesis by simp
qed

section \<open>Time to live\<close>

text \<open>
  C15: A run deletes a ClusterLab only when its TTL parses and the clock it has read is at or past the
  creation time plus the TTL, and then it makes no other call.
\<close>

theorem ClusterLab_deletes_only_expired:
  assumes "OnClusterLab (Delete x d) \<in> set (events_of (ClusterLab_Reconcile px k req) w)"
  shows "\<exists>cl ttl now. events_of (ClusterLab_Reconcile px k req) w =
      [OnClusterLab (Get req (Inr cl)), Now now, OnClusterLab (Delete x d)] \<and>
     cls_TTL (cl_Spec cl) \<noteq> '''' \<and> ParseDuration (cls_TTL (cl_Spec cl)) = Inr ttl \<and>
     om_CreationTimestamp (cl_Meta cl) + sint ttl \<le> now \<and> om_DeletionTimestamp (cl_Meta cl) = None \<and>
     cl_Meta x = cl_Meta cl"
  using ClusterLab_events[of px req k w]
proof (cases rule: ClusterLab_run.cases)
  case (active cl evs)
  from active(4) show ?thesis
  proof (cases rule: active_run.cases)
    case (provision tevs after cl' evs')
    have "OnClusterLab (Delete x d) \<notin> set tevs" using provision(2) by (auto elim!: ttl_run.cases)
    moreover have "OnClusterLab (Delete x d) \<notin> set evs'"
      using provision(3) by (auto elim!: provision_run.cases status_run.cases)
    ultimately show ?thesis using assms active provision by auto
  qed (use assms active in \<open>auto elim!: ttl_run.cases simp: Time_Add_def\<close>)
next
  case (deleting cl evs)
  then show ?thesis using assms by (auto elim!: finalizer_run.cases)
qed (use assms in auto)

theorem ClusterLab_deletes_only_expired_witness:
  "\<exists>now x d. OnClusterLab (Delete x d) \<in> set (events_of (ClusterLab_Reconcile sample_platform hour_api demo_key) 3600000000000) \<and>
     Now now \<in> set (events_of (ClusterLab_Reconcile sample_platform hour_api demo_key) 3600000000000)"
proof -
  have "\<exists>x d. OnClusterLab (Delete x d) \<in> set (events_of (ClusterLab_Reconcile sample_platform hour_api demo_key) 3600000000000)"
    by (simp add: events_of_def ClusterLab_Reconcile_def ClusterLab_reconcileActive_def ClusterLab_reconcileTTL_def
      Let_def ParseDuration_1h sint_1h Time_Add_def exI disjI1)
  then obtain x d where x: "OnClusterLab (Delete x d) \<in>
      set (events_of (ClusterLab_Reconcile sample_platform hour_api demo_key) 3600000000000)" by blast
  from ClusterLab_deletes_only_expired[OF x] x show ?thesis by auto
qed

text \<open>One evaluation of the code up to the clock.\<close>

lemma ClusterLab_Reconcile_active_eval:
  assumes "k_get (clusterlabs k) req w = (Inr cl, w1)"
    and "om_DeletionTimestamp (cl_Meta cl) = None" "ContainsFinalizer px (cl_Meta cl) ClusterLabFinalizer"
  shows "run_state (ClusterLab_Reconcile px k req) \<lparr>world = w, trace = []\<rparr> =
    run_state (ClusterLab_reconcileActive px k cl) \<lparr>world = w1, trace = [OnClusterLab (Get req (Inr cl))]\<rparr>"
  using assms by (simp add: ClusterLab_Reconcile_def)

text \<open>
  C16: Once the clock is at or past the creation time plus the TTL, the run deletes the ClusterLab and
  provisions nothing.
\<close>

theorem ClusterLab_expired_deleted:
  assumes get: "k_get (clusterlabs k) req w = (Inr cl, w1)"
    and live: "om_DeletionTimestamp (cl_Meta cl) = None" "ContainsFinalizer px (cl_Meta cl) ClusterLabFinalizer"
    and ttl: "cls_TTL (cl_Spec cl) \<noteq> ''''" "ParseDuration (cls_TTL (cl_Spec cl)) = Inr d"
    and now: "clock k w1 = (now, w2)" "om_CreationTimestamp (cl_Meta cl) + sint d \<le> now"
  shows "\<exists>x r. events_of (ClusterLab_Reconcile px k req) w =
      [OnClusterLab (Get req (Inr cl)), Now now, OnClusterLab (Delete x r)] \<and> cl_Meta x = cl_Meta cl"
  using ClusterLab_Reconcile_active_eval[OF get live] ttl now
  by (auto simp: events_of_def ClusterLab_reconcileActive_def ClusterLab_reconcileTTL_def Let_def Time_Add_def
      split: prod.splits)

theorem ClusterLab_expired_deleted_witness:
  "\<exists>x r. OnClusterLab (Delete x r) \<in> set (events_of (ClusterLab_Reconcile sample_platform hour_api demo_key) 3600000000000)"
  using ClusterLab_expired_deleted[of hour_api demo_key 3600000000000 hour_ClusterLab 3600000000000
      sample_platform "word_of_nat 3600000000000" 3600000000000 3600000000001]
  by (auto simp: ParseDuration_1h sint_1h)

text \<open>
  A TTL that does not parse stops the run after the read: the error is returned, nothing is
  provisioned, and no status is published.
\<close>

theorem ClusterLab_invalid_ttl:
  assumes get: "k_get (clusterlabs k) req w = (Inr cl, w1)"
    and live: "om_DeletionTimestamp (cl_Meta cl) = None" "ContainsFinalizer px (cl_Meta cl) ClusterLabFinalizer"
    and ttl: "cls_TTL (cl_Spec cl) \<noteq> ''''" "ParseDuration (cls_TTL (cl_Spec cl)) = Inl e"
  shows "events_of (ClusterLab_Reconcile px k req) w = [OnClusterLab (Get req (Inr cl))] \<and>
     result_of (ClusterLab_Reconcile px k req) w = (no_result, Some (InvalidTTL (cls_TTL (cl_Spec cl)) e))"
  using ClusterLab_Reconcile_active_eval[OF get live] ttl
  by (simp add: events_of_def result_of_def ClusterLab_reconcileActive_def ClusterLab_reconcileTTL_def Let_def)

theorem ClusterLab_invalid_ttl_witness:
  "\<exists>e. snd (result_of (ClusterLab_Reconcile sample_platform (sample_api
     (hour_ClusterLab\<lparr>cl_Spec := (cl_Spec hour_ClusterLab)\<lparr>cls_TTL := ''tomorrow''\<rparr>\<rparr>) sample_InstanceLab sample_NotebookLab)
     demo_key) 0) = Some (InvalidTTL ''tomorrow'' e)"
proof -
  let ?cl = "hour_ClusterLab\<lparr>cl_Spec := (cl_Spec hour_ClusterLab)\<lparr>cls_TTL := ''tomorrow''\<rparr>\<rparr>"
  obtain e where "ParseDuration ''tomorrow'' = Inl e" using ParseDuration_tomorrow by blast
  then show ?thesis
    using ClusterLab_invalid_ttl[of "sample_api ?cl sample_InstanceLab sample_NotebookLab" demo_key 0 ?cl 0
      sample_platform e] by simp
qed

text \<open>
  C32: For a TTL that is an optional sign and one or more whole-number terms, such as 2h30m, -5m or
  1h00m10s (any digits, any unit of the package time, no fraction), whose sum is below 2^63 nanoseconds,
  the recorded expiry is the creation time plus the exact signed sum, and the ClusterLab is expired
  exactly from then on.
\<close>

theorem ClusterLab_ttl_expiry:
  assumes "ps \<noteq> []" and "\<forall>p \<in> set ps. whole_term p" and "sum_list (map nanos ps) < 2 ^ 63"
    and "sign \<in> {'''', ''+'', ''-''}" and "cls_TTL (cl_Spec cl) = sign @ concat (map render ps)"
  shows "case result_of (ClusterLab_reconcileTTL k cl) w of (isExpired, requeueAfter, err, cl') \<Rightarrow>
     err = None \<and>
     isExpired = (om_CreationTimestamp (cl_Meta cl) + signed_sum sign (sum_list (map nanos ps)) \<le> fst (clock k w)) \<and>
     clt_ExpiresAt (cl_Status cl') = Some (om_CreationTimestamp (cl_Meta cl) + signed_sum sign (sum_list (map nanos ps)))"
proof -
  let ?n = "signed_sum sign (sum_list (map nanos ps))"
  have p: "ParseDuration (cls_TTL (cl_Spec cl)) = Inr (word_of_int ?n)"
    unfolding assms(5) by (rule ParseDuration_terms[OF assms(1-4)])
  have s: "sint (word_of_int ?n :: int64) = ?n"
    by (rule sint_word_of_int64) (use assms(3) in \<open>simp add: fits64_def signed_sum_def\<close>)
  have "concat (map render ps) \<noteq> ''''"
    using assms(1,2) rendered_length by (cases ps) fastforce+
  then show ?thesis
    using p s assms(5) by (cases "clock k w")
      (auto simp: result_of_def ClusterLab_reconcileTTL_def Let_def Time_Add_def split: prod.splits)
qed

theorem ClusterLab_ttl_expiry_witness:
  "fst (result_of (ClusterLab_reconcileTTL hour_api hour_ClusterLab) 0) = False"
proof -
  have u: "\<forall>p \<in> set [(''1'', ''h'')]. whole_term p"
    by (simp add: whole_term_def is_digit_def is_unit_def unitMap_def)
  show ?thesis
    using ClusterLab_ttl_expiry[OF _ u, of "''''" hour_ClusterLab hour_api 0]
    by (simp add: render_def nanos_def signed_sum_def digits_val_def digit_val_def unit_nanos_def unitMap_def split: prod.splits)
qed

section \<open>Requeue\<close>

text \<open>
  A run asks to be repeated only without an error: after 3 seconds while the namespace is going
  away, or after a positive time that is the distance from a clock reading of the run to the expiry.
\<close>

theorem ClusterLab_requeue:
  assumes "result_of (ClusterLab_Reconcile px k req) w = (x, e)" and "x \<noteq> no_result"
  shows "e = None \<and> (\<exists>cl evs. events_of (ClusterLab_Reconcile px k req) w = OnClusterLab (Get req (Inr cl)) # evs \<and>
     (om_DeletionTimestamp (cl_Meta cl) \<noteq> None \<and> x = wait_for_namespace \<or>
      om_DeletionTimestamp (cl_Meta cl) = None \<and>
        (\<exists>d ttl now'. x = \<lparr>RequeueAfter = d\<rparr> \<and> 0 < sint d \<and> Now now' \<in> set evs \<and>
          ParseDuration (cls_TTL (cl_Spec cl)) = Inr ttl \<and>
          d = Time_Sub (om_CreationTimestamp (cl_Meta cl) + sint ttl) now')))"
  using ClusterLab_events[of px req k w] unfolding assms(1)
proof (cases rule: ClusterLab_run.cases)
  case (active cl evs)
  then show ?thesis using assms(2)
    by (auto elim!: active_run.cases provision_run.cases ttl_run.cases
      simp: requeue_if_positive_def no_result_def Time_Add_def split: if_splits)
next
  case (deleting cl evs)
  then show ?thesis using assms(2) by (auto elim!: finalizer_run.cases)
qed (use assms in auto)

theorem ClusterLab_requeue_witness:
  "fst (result_of (ClusterLab_Reconcile sample_platform (demo_api\<lparr>clusterlabs := fixed_kind deleted_ClusterLab\<rparr>) demo_key) 0)
     = wait_for_namespace"
proof -
  let ?r = "result_of (ClusterLab_Reconcile sample_platform (demo_api\<lparr>clusterlabs := fixed_kind deleted_ClusterLab\<rparr>) demo_key) 0"
  have "?r = (wait_for_namespace, None)"
    by (simp add: result_of_def ClusterLab_code Let_def sample_api_def)
  moreover have "wait_for_namespace \<noteq> no_result"
    by (simp add: wait_for_namespace_def no_result_def Second_def)
  ultimately show ?thesis using ClusterLab_requeue[of _ _ _ _ wait_for_namespace None] by simp
qed

text \<open>
  The TTL is compared with one clock reading and the wait computed from a second one. When the
  expiry falls between the two, the ClusterLab is neither deleted nor scheduled to be looked at again.
\<close>

theorem ClusterLab_ttl_missed:
  assumes get: "k_get (clusterlabs k) req w = (Inr cl, w1)"
    and live: "om_DeletionTimestamp (cl_Meta cl) = None" "ContainsFinalizer px (cl_Meta cl) ClusterLabFinalizer"
    and ttl: "cls_TTL (cl_Spec cl) \<noteq> ''''" "ParseDuration (cls_TTL (cl_Spec cl)) = Inr d"
    and first: "clock k w1 = (now, w2)" "now < om_CreationTimestamp (cl_Meta cl) + sint d"
    and second: "clock k w2 = (now', w3)" "om_CreationTimestamp (cl_Meta cl) + sint d \<le> now'"
  shows "fst (result_of (ClusterLab_Reconcile px k req) w) = no_result \<and>
     (\<forall>x r. OnClusterLab (Delete x r) \<notin> set (events_of (ClusterLab_Reconcile px k req) w))"
proof
  let ?ns = "GenerateTargetNamespace (om_Name (cl_Meta cl))"
    and ?after = "Time_Sub (om_CreationTimestamp (cl_Meta cl) + sint d) now'"
    and ?cl = "set_clt (\<lambda>s. s\<lparr>clt_ExpiresAt := Some (om_CreationTimestamp (cl_Meta cl) + sint d)\<rparr>) (with_target cl)"
    and ?s = "\<lparr>world = w3, trace = [OnClusterLab (Get req (Inr cl)), Now now, Now now']\<rparr>"
  have run: "run_state (ClusterLab_Reconcile px k req) \<lparr>world = w, trace = []\<rparr> =
      run_state (ClusterLab_provision px k ?cl ?ns ?after) ?s"
    using ClusterLab_Reconcile_active_eval[OF get live] ttl first second
    by (simp add: ClusterLab_reconcileActive_def ClusterLab_reconcileTTL_def Time_Add_def Let_def
      flip: with_target_def)
  obtain evs where evs: "provision_run px ?cl ?ns ?after evs (fst (run_state (ClusterLab_provision px k ?cl ?ns ?after) ?s))"
      "trace (snd (run_state (ClusterLab_provision px k ?cl ?ns ?after) ?s)) = trace ?s @ evs"
    using ClusterLab_provision_yields[of px k ?cl ?ns ?after] unfolding yields_def by blast
  have "\<not> 0 < sint ?after" using second(2) by (simp add: sint_Time_Sub)
  then show "fst (result_of (ClusterLab_Reconcile px k req) w) = no_result"
    using evs(1) unfolding result_of_def run by (auto elim!: provision_run.cases simp: requeue_if_positive_def)
  have "OnClusterLab (Delete x r) \<notin> set evs" for x r
    using evs(1) by (auto elim!: provision_run.cases status_run.cases)
  then show "\<forall>x r. OnClusterLab (Delete x r) \<notin> set (events_of (ClusterLab_Reconcile px k req) w)"
    using evs(2) by (simp add: events_of_def run)
qed

theorem ClusterLab_ttl_missed_witness:
  "result_of (ClusterLab_Reconcile sample_platform hour_api demo_key) 3599999999999 = (no_result, None)"
proof -
  have "fst (result_of (ClusterLab_Reconcile sample_platform hour_api demo_key) 3599999999999) = no_result"
    using ClusterLab_ttl_missed[of hour_api demo_key 3599999999999 hour_ClusterLab 3599999999999
        sample_platform "word_of_nat 3600000000000" 3599999999999 3600000000000 3600000000000 3600000000001]
    by (simp add: ParseDuration_1h sint_1h)
  moreover have "snd (result_of (ClusterLab_Reconcile sample_platform hour_api demo_key) 3599999999999) = None"
    by (simp add: result_of_def ClusterLab_Reconcile_def ClusterLab_reconcileActive_def ClusterLab_reconcileTTL_def
      ParseDuration_1h sint_1h Time_Add_def Let_def ClusterLab_provision_def ClusterLab_reconcileNamespace_def
      ClusterLab_reconcileResourceQuota_def ClusterLab_reconcileNetworkPolicy_def
      ClusterLab_updateClusterLabStatus_def SetCondition_def sample_api_def split: prod.splits)
  ultimately show ?thesis by (simp add: prod_eq_iff)
qed

lemma events_head:
  assumes "k_get (clusterlabs k) req w = (Inr cl, w1)"
    and "events_of (ClusterLab_Reconcile px k req) w = x # evs"
  shows "x = OnClusterLab (Get req (Inr cl))"
proof -
  have "\<exists>evs. events_of (ClusterLab_Reconcile px k req) w = OnClusterLab (Get req (Inr cl)) # evs"
    unfolding ClusterLab_Reconcile_def
    by (rule events_first[where f = "k_get (clusterlabs k) req" and ev = "\<lambda>r. OnClusterLab (Get req r)"
          and Q = "\<lambda>_ _. True", OF assms(1)]) (simp, intro ev_intro conjI impI yields_conseq[OF ClusterLab_reconcileFinalizer_yields]
        yields_conseq[OF ClusterLab_reconcileActive_yields] TrueI)
  then show ?thesis using assms(2) by simp
qed

lemma finalizer_run_deletes:
  "finalizer_run px cl evs r \<Longrightarrow> ContainsFinalizer px (cl_Meta cl) ClusterLabFinalizer \<Longrightarrow>
   \<exists>d rest. evs = OnNamespace (Delete (new_Namespace (ClusterLab_targetNamespace cl)) d) # rest"
  by (auto elim!: finalizer_run.cases)

text \<open>
  The target namespace is generated from the name alone: when ClusterLabs of the same name exist in
  two namespaces, deleting the one deletes the namespace in which the other has its resources.
\<close>

theorem ClusterLab_shared_namespace:
  assumes a: "k_get (clusterlabs k) reqa w = (Inr a, w1)" "e \<in> set (events_of (ClusterLab_Reconcile px k reqa) w)"
      "child_target e = Some ns"
    and b: "k_get (clusterlabs k') reqb v = (Inr b, v1)" "om_Name (cl_Meta b) = om_Name (cl_Meta a)"
      "om_DeletionTimestamp (cl_Meta b) \<noteq> None" "ContainsFinalizer px (cl_Meta b) ClusterLabFinalizer"
      "clt_TargetNamespace (cl_Status b) = ''''"
  shows "\<exists>d rest. events_of (ClusterLab_Reconcile px k' reqb) v =
     OnClusterLab (Get reqb (Inr b)) # OnNamespace (Delete (new_Namespace ns) d) # rest"
proof -
  have ns: "ns = GenerateTargetNamespace (om_Name (cl_Meta a))"
    using ClusterLab_events[of px reqa k w] a(2,3)
  proof (cases rule: ClusterLab_run.cases)
    case (active cl evs)
    then show ?thesis using a active_run_writes[OF active(4)] events_head[OF a(1) active(1)] by fastforce
  next
    case (deleting cl evs)
    then show ?thesis using a finalizer_run_writes[OF deleting(3)] by fastforce
  qed auto
  show ?thesis
    using ClusterLab_events[of px reqb k' v]
  proof (cases rule: ClusterLab_run.cases)
    case (deleting cl evs)
    then have "cl = b" using events_head[OF b(1)] by fastforce
    then show ?thesis using deleting finalizer_run_deletes[OF deleting(3)] b ns
      by (auto simp: ClusterLab_targetNamespace_def)
  qed (use events_head[OF b(1)] b in fastforce)+
qed

theorem ClusterLab_shared_namespace_witness:
  "\<exists>d rest. events_of (ClusterLab_Reconcile sample_platform deleted_api \<lparr>nn_Namespace = ''other'', nn_Name = ''demo''\<rparr>) 0 =
     OnClusterLab (Get \<lparr>nn_Namespace = ''other'', nn_Name = ''demo''\<rparr> (Inr deleted_ClusterLab)) #
     OnNamespace (Delete (new_Namespace ''lab-demo'') d) # rest"
proof -
  obtain n where n: "ensure_namespace demo_object ''lab-demo'' (Inr n) \<in>
      set (events_of (ClusterLab_Reconcile sample_platform demo_api demo_key) 0)"
    using demo_run by auto
  show ?thesis
    by (rule ClusterLab_shared_namespace[where a = sample_ClusterLab, OF _ n]) (simp_all add: new_Namespace_def)
qed

section \<open>The children\<close>

text \<open>
  The labels of the namespace, key by key: the two management labels, the labels of the ClusterLab
  that carry one of the three prefixes, and otherwise what was there. No forwarded label overrides a
  management label.
\<close>

theorem ClusterLab_namespace_labels:
  "om_Labels (ns_Meta (ClusterLab_namespace_mutate cl ns)) key =
     (if key = LabelManagedBy then Some LabelValueManagedBy
      else if key = LabelClusterLab then Some (om_Name (cl_Meta cl))
      else if forwarded_label key \<and> om_Labels (cl_Meta cl) key \<noteq> None then om_Labels (cl_Meta cl) key
      else om_Labels (ns_Meta ns) key)"
proof -
  have "\<not> forwarded_label LabelManagedBy" "\<not> forwarded_label LabelClusterLab"
    by (simp_all add: forwarded_label_def HasPrefix_def LabelManagedBy_def LabelClusterLab_def)
  moreover have "LabelManagedBy \<noteq> LabelClusterLab" by (simp add: LabelManagedBy_def LabelClusterLab_def)
  ultimately show ?thesis
    by (auto simp: ClusterLab_namespace_mutate_def forwarded_labels_def map_add_def split: option.splits)
qed

text \<open>
  A ClusterLab name of more than 63 bytes gets a valid namespace name but a label value of more than
  63 bytes on that namespace, beyond the bound of a Kubernetes label value.
\<close>

theorem ClusterLab_long_name_label:
  assumes "dns_name {CHR ''-''} (om_Name (cl_Meta cl))" and "63 < length (om_Name (cl_Meta cl))"
  shows "rfc1123_label (GenerateTargetNamespace (om_Name (cl_Meta cl))) \<and>
     (\<exists>v. om_Labels (ns_Meta (ClusterLab_namespace_mutate cl ns)) LabelClusterLab = Some v \<and> 63 < length v)"
proof -
  have "\<not> forwarded_label LabelClusterLab"
    by (simp add: forwarded_label_def HasPrefix_def LabelClusterLab_def)
  then show ?thesis
    using SanitizeName_dns[OF lab_prefix_dns[OF assms(1)], of 63] names.label_bound assms(2)
    by (simp add: rfc1123_label_def GenerateTargetNamespace_def ClusterLab_namespace_mutate_def
      forwarded_labels_def map_add_def LabelManagedBy_def LabelClusterLab_def)
qed

theorem ClusterLab_long_name_label_witness:
  "rfc1123_label (GenerateTargetNamespace (replicate 70 CHR ''a''))"
  using ClusterLab_long_name_label[of "sample_ClusterLab\<lparr>cl_Meta := new_meta ''default'' (replicate 70 CHR ''a'')\<rparr>"]
  by (simp add: dns_name_def alnum_def list_all_iff)

text \<open>
  The hard limits of the quota, key by key: the limits of the spec where they are set, and otherwise
  what the quota had.
\<close>

theorem ClusterLab_quota_limits:
  assumes "quantity_laws px"
  shows "rq_Hard (ClusterLab_quota_mutate px cl rq) key =
     (let q = cls_Quota (cl_Spec cl); old = rq_Hard rq key; limit = (\<lambda>v. if v = 0 then old else Some v);
          count = (\<lambda>n :: int32. if sint n > 0 then Some (NewQuantity px (int64_of_int32 n)) else old)
      in if key \<in> {''limits.cpu'', ''requests.cpu''} then limit (crl_Limit (ccq_CPU (cqc_Compute q)))
         else if key \<in> {''limits.memory'', ''requests.memory''} then limit (crl_Limit (ccq_Memory (cqc_Compute q)))
         else if key = ''pods'' then count (coq_PodsLimit (cqc_Objects q))
         else if key = ''services'' then count (coq_ServicesLimit (cqc_Objects q))
         else if key = ''limits.ephemeral-storage'' then limit (csq_Limit (cqc_Storage q))
         else old)"
  using assms(1) by (simp add: quota_defs Let_def quantity_laws_def)

theorem ClusterLab_quota_limits_witness:
  "rq_Hard (ClusterLab_quota_mutate sample_platform sample_ClusterLab (new_ResourceQuota ''lab-demo'')) ''limits.cpu'' =
     Some (Quantity 2)"
  using ClusterLab_quota_limits[OF sample_quantities, of sample_ClusterLab "new_ResourceQuota ''lab-demo''" "''limits.cpu''"]
  by (simp add: sample_ClusterLab_def Let_def)

text \<open>
  Setting a limit of the spec back to zero does not lift it: the quota keeps its old CPU limit.
\<close>

lemma ClusterLab_quota_stale:
  assumes "quantity_laws px" and "crl_Limit (ccq_CPU (cqc_Compute (cls_Quota (cl_Spec cl)))) = 0"
  shows "rq_Hard (ClusterLab_quota_mutate px cl rq) ''limits.cpu'' = rq_Hard rq ''limits.cpu''"
  using assms by (simp add: quota_defs Let_def quantity_laws_def)

text \<open>
  What a policy admits, by the documentation of NetworkPolicy: a rule without a peer admits every
  source; a peer with a pod selector and no namespace selector admits pods of the policy's own
  namespace that match it, and the empty selector matches every pod.
\<close>

definition admits :: "NetworkPolicy \<Rightarrow> bool \<Rightarrow> bool" where
  "admits np inside \<longleftrightarrow> list_ex (\<lambda>r. rule_From r = [] \<or>
     inside \<and> list_ex (\<lambda>p. peer_PodSelector p = Some Map.empty) (rule_From r)) (np_Ingress np)"

text \<open>
  Under the documented meaning of a NetworkPolicy, mode external admits everything, mode internal
  admits the pods of the namespace only, and every other mode, unknown ones included, admits nothing;
  the mode is compared without case.
\<close>

theorem ClusterLab_network_modes:
  "np_PodSelector (ClusterLab_netpol_mutate px cl np) = Map.empty \<and>
     np_PolicyTypes (ClusterLab_netpol_mutate px cl np) = [''Ingress''] \<and>
     admits (ClusterLab_netpol_mutate px cl np) inside =
       (ToLower px (cln_Type (cls_Network (cl_Spec cl))) = ''external'' \<or>
        ToLower px (cln_Type (cls_Network (cl_Spec cl))) = ''internal'' \<and> inside)"
  by (simp add: ClusterLab_netpol_mutate_def ClusterLab_ingress_rules_def admits_def Let_def)

text \<open>
  The functions handed to CreateOrUpdate for the namespace, the quota and the network policy are
  idempotent: applying them again and again changes nothing after the first time.
\<close>

theorem ClusterLab_children_converge:
  "(ClusterLab_namespace_mutate cl ^^ Suc n) ns = ClusterLab_namespace_mutate cl ns \<and>
   (ClusterLab_quota_mutate px cl ^^ Suc n) rq = ClusterLab_quota_mutate px cl rq \<and>
   (ClusterLab_netpol_mutate px cl ^^ Suc n) np = ClusterLab_netpol_mutate px cl np"
  by (intro conjI) (rule cl_namespace.iterate cl_quota.iterate cl_netpol.iterate)+

section \<open>Counting the instances\<close>

definition refers_to :: "string \<Rightarrow> InstanceLab \<Rightarrow> bool" where
  "refers_to name il \<longleftrightarrow> ils_ClusterLabRef (il_Spec il) = name"

definition is_running :: "platform \<Rightarrow> InstanceLab \<Rightarrow> bool" where
  "is_running px il \<longleftrightarrow> ToLower px (ilt_Phase (il_Status il)) = ''running''"

lemma ClusterLab_count_acc:
  "ClusterLab_count px name items (t, r) =
    (t + of_nat (length (filter (refers_to name) items)),
     r + of_nat (length (filter (\<lambda>il. refers_to name il \<and> is_running px il) items)))"
  by (induction items arbitrary: t r) (simp_all add: refers_to_def is_running_def)

lemma provision_run_count:
  assumes "provision_run px cl ns after evs r" and "OnInstanceLab (List n (Inr items)) \<in> set evs"
    and "OnClusterLab (StatusUpdate x u) \<in> set evs"
  shows "\<exists>q t1 t2 t3 t4. x = running_object px ns q (Inr items) t1 t2 t3 t4 cl \<and> n = om_Namespace (cl_Meta cl)"
  using assms by (auto elim!: provision_run.cases status_run.cases) blast+

lemma ClusterLab_run_count:
  assumes "ClusterLab_run px req evs r" and "OnInstanceLab (List n (Inr items)) \<in> set evs"
    and "OnClusterLab (StatusUpdate x u) \<in> set evs"
  shows "\<exists>cl ns q t1 t2 t3 t4. x = running_object px ns q (Inr items) t1 t2 t3 t4 cl \<and> n = om_Namespace (cl_Meta cl)"
  using assms(1)
proof (cases rule: ClusterLab_run.cases)
  case (active cl evs')
  from active(4) show ?thesis
  proof (cases rule: active_run.cases)
    case (provision tevs after cl' pevs)
    have "OnInstanceLab (List n (Inr items)) \<notin> set tevs" "OnClusterLab (StatusUpdate x u) \<notin> set tevs"
      using provision(2) by (auto elim!: ttl_run.cases)
    then show ?thesis using provision_run_count[OF provision(3)] assms(2,3) active(1) provision(1) by auto blast
  qed (use assms(2) active(1) in \<open>auto elim!: ttl_run.cases\<close>)
next
  case (deleting cl evs')
  then show ?thesis using assms(2) by (auto elim!: finalizer_run.cases)
qed (use assms(2) in auto)

lemma sint_of_nat32: "n < 2 ^ 31 \<Longrightarrow> sint (of_nat n :: int32) = int n"
  by (simp add: signed_of_nat signed_take_bit_int_eq_self)

text \<open>
  C33: The published counts, signed 32-bit numbers, are for fewer than 2^31 listed instances the exact
  numbers of those that refer to the ClusterLab and of the running ones among them, so neither is
  negative and ready never exceeds total.
\<close>

theorem ClusterLab_instance_count:
  assumes "OnInstanceLab (List ns (Inr items)) \<in> set (events_of (ClusterLab_Reconcile px k req) w)"
    and "OnClusterLab (StatusUpdate cl u) \<in> set (events_of (ClusterLab_Reconcile px k req) w)"
    and "length items < 2 ^ 31"
  shows "ns = om_Namespace (cl_Meta cl) \<and>
     sint (cic_Total (clt_InstanceCount (cl_Status cl))) = int (length (filter (refers_to (om_Name (cl_Meta cl))) items)) \<and>
     sint (cic_Ready (clt_InstanceCount (cl_Status cl))) =
       int (length (filter (\<lambda>il. refers_to (om_Name (cl_Meta cl)) il \<and> is_running px il) items)) \<and>
     0 \<le> sint (cic_Ready (clt_InstanceCount (cl_Status cl))) \<and>
     sint (cic_Ready (clt_InstanceCount (cl_Status cl))) \<le> sint (cic_Total (clt_InstanceCount (cl_Status cl)))"
proof -
  have count: "sint (of_nat (length (filter P items)) :: int32) = int (length (filter P items))" for P
    by (rule sint_of_nat32) (rule le_less_trans[OF length_filter_le assms(3)])
  have sub: "length (filter (\<lambda>il. P il \<and> Q il) items) \<le> length (filter P items)" for P Q
    by (induction items) auto
  obtain cl0 n q t1 t2 t3 t4 where
    o: "cl = running_object px n q (Inr items) t1 t2 t3 t4 cl0" "ns = om_Namespace (cl_Meta cl0)"
    using ClusterLab_run_count[OF ClusterLab_events assms(1,2)] by blast
  have "clt_InstanceCount (cl_Status cl) =
     \<lparr>cic_Total = of_nat (length (filter (refers_to (om_Name (cl_Meta cl0))) items)),
      cic_Ready = of_nat (length (filter (\<lambda>il. refers_to (om_Name (cl_Meta cl0)) il \<and> is_running px il) items))\<rparr>"
    unfolding o(1) by (simp add: running_object_def observed_def ClusterLab_count_acc set_clt_def)
  moreover have "cl_Meta cl = cl_Meta cl0" unfolding o(1) by simp
  ultimately show ?thesis
    using o(2) sub by (simp add: count)
qed

theorem ClusterLab_instance_count_witness:
  "\<exists>x u. OnClusterLab (StatusUpdate x u) \<in> set (events_of (ClusterLab_Reconcile sample_platform demo_api demo_key) 0) \<and>
     sint (cic_Total (clt_InstanceCount (cl_Status x))) = 1"
proof -
  obtain x u where x: "OnClusterLab (StatusUpdate x u) \<in> set (events_of (ClusterLab_Reconcile sample_platform demo_api demo_key) 0)"
      "om_Name (cl_Meta x) = ''demo''"
    and l: "OnInstanceLab (List ''default'' (Inr [sample_InstanceLab])) \<in>
      set (events_of (ClusterLab_Reconcile sample_platform demo_api demo_key) 0)"
    using demo_run by auto
  have "sint (cic_Total (clt_InstanceCount (cl_Status x))) = 1"
    using ClusterLab_instance_count[OF l x(1)] x(2) by (simp add: refers_to_def sample_InstanceLab_def)
  then show ?thesis using x(1) by blast
qed

text \<open>
  A change of an instance wakes a ClusterLab exactly when the instance is in its namespace and refers
  to it by name, which is when the status counts it.
\<close>

theorem ClusterLab_watch_agrees:
  assumes "om_Name (cl_Meta cl) \<noteq> ''''"
  shows "(findParentClusterLab (WatchedInstanceLab il) = [meta_key (cl_Meta cl)]) \<longleftrightarrow>
     om_Namespace (il_Meta il) = om_Namespace (cl_Meta cl) \<and> refers_to (om_Name (cl_Meta cl)) il"
  using assms by (auto simp: meta_key_def refers_to_def)

theorem ClusterLab_watch_agrees_witness:
  "findParentClusterLab (WatchedInstanceLab sample_InstanceLab) = [meta_key (cl_Meta sample_ClusterLab)]"
  using ClusterLab_watch_agrees[of sample_ClusterLab sample_InstanceLab]
  by (simp add: refers_to_def sample_InstanceLab_def)

end
