(* ===== verification/InstanceLabController.thy ===== *)
theory InstanceLabController
  imports ClusterLabController
begin

text \<open>
  internal/controller/instancelab_controller.go: the reconciler of InstanceLab, which builds one
  virtual machine: a claim for its disk, the Sysbox pod, a service and an ingress, in the target
  namespace of the parent ClusterLab. As for ClusterLab, a method is a definition and a function
  handed to CreateOrUpdate is one of its own. A dereference of a nil pointer is the outcome
  Panicked.
\<close>

section \<open>Outcomes and objects\<close>

datatype 'a outcome = Returned 'a | Panicked

definition SysboxRuntimeClass :: string where
  "SysboxRuntimeClass = ''sysbox-runc''"

definition set_ilt :: "(InstanceLabStatus \<Rightarrow> InstanceLabStatus) \<Rightarrow> InstanceLab \<Rightarrow> InstanceLab" where
  "set_ilt f il = il\<lparr>il_Status := f (il_Status il)\<rparr>"

lemma set_ilt_simps [simp]:
  "il_Meta (set_ilt f il) = il_Meta il" "il_Spec (set_ilt f il) = il_Spec il"
  "il_Status (set_ilt f il) = f (il_Status il)" "set_ilt g (set_ilt f il) = set_ilt (g \<circ> f) il"
  by (simp_all add: set_ilt_def)

definition parent_key :: "InstanceLab \<Rightarrow> NamespacedName" where
  "parent_key il = \<lparr>nn_Namespace = om_Namespace (il_Meta il), nn_Name = ils_ClusterLabRef (il_Spec il)\<rparr>"

text \<open>The three labels every child of an InstanceLab gets.\<close>

definition child_labels :: "InstanceLab \<Rightarrow> labels \<Rightarrow> labels" where
  "child_labels il ls = ls(LabelManagedBy \<mapsto> LabelValueManagedBy,
     LabelClusterLab \<mapsto> ils_ClusterLabRef (il_Spec il), LabelInstanceLab \<mapsto> om_Name (il_Meta il))"

definition InstanceLab_child_name :: "InstanceLab \<Rightarrow> string \<Rightarrow> string" where
  "InstanceLab_child_name il suffix = SanitizeName (om_Name (il_Meta il) @ suffix) 63"

section \<open>The parent\<close>

definition InstanceLab_resolveParentClusterLab :: "platform \<Rightarrow> 'w api \<Rightarrow> InstanceLab
    \<Rightarrow> ('w, ClusterLab option \<times> bool \<times> error option \<times> InstanceLab) io" where
  "InstanceLab_resolveParentClusterLab px k il = do {
     g \<leftarrow> api_get (clusterlabs k) OnClusterLab (parent_key il);
     case g of
       Inl err \<Rightarrow> (if IsNotFound err then ret (None, False, None, il) else ret (None, False, Some err, il))
     | Inr cl \<Rightarrow>
         let isReady = (EqualFold (clt_Phase (cl_Status cl)) ''Running'' \<or>
               EqualFold (clt_Phase (cl_Status cl)) ''Ready'') in
         (case SetControllerReference px ''ClusterLab'' (cl_Meta cl) (il_Meta il) of
            Inl _ \<Rightarrow> ret (Some cl, isReady, None, il)
          | Inr m \<Rightarrow> do {
              u \<leftarrow> api_update (instancelabs k) OnInstanceLab (il\<lparr>il_Meta := m\<rparr>);
              ret (Some cl, isReady, None, case u of Inl _ \<Rightarrow> il\<lparr>il_Meta := m\<rparr> | Inr il' \<Rightarrow> il')
            })
   }"

section \<open>Deletion\<close>

definition InstanceLab_reconcileFinalizer :: "platform \<Rightarrow> 'w api \<Rightarrow> InstanceLab
    \<Rightarrow> ('w, Result \<times> error option) io" where
  "InstanceLab_reconcileFinalizer px k il =
     (if \<not> ContainsFinalizer px (il_Meta il) InstanceLabFinalizer then ret (no_result, None)
      else do {
        g \<leftarrow> api_get (clusterlabs k) OnClusterLab (parent_key il);
        let targetNs0 = (case g of Inl _ \<Rightarrow> '''' | Inr cl \<Rightarrow> clt_TargetNamespace (cl_Status cl));
        let targetNs = (if targetNs0 = '''' then GenerateTargetNamespace (ils_ClusterLabRef (il_Spec il))
          else targetNs0);
        let matchLabels = [LabelInstanceLab \<mapsto> om_Name (il_Meta il)];
        _ \<leftarrow> api_delete_all_of (ingresses k) OnIngress targetNs matchLabels;
        _ \<leftarrow> api_delete_all_of (services k) OnService targetNs matchLabels;
        _ \<leftarrow> api_delete_all_of (pods k) OnPod targetNs matchLabels;
        _ \<leftarrow> api_delete_all_of (pvcs k) OnPVC targetNs matchLabels;
        u \<leftarrow> api_update (instancelabs k) OnInstanceLab
          (il\<lparr>il_Meta := RemoveFinalizer px (il_Meta il) InstanceLabFinalizer\<rparr>);
        ret (no_result, err_of u)
      })"

section \<open>The disk\<close>

definition new_PVC :: "string \<Rightarrow> string \<Rightarrow> PersistentVolumeClaim" where
  "new_PVC ns n = \<lparr>pvc_Meta = new_meta ns n, pvc_StorageClassName = None, pvc_AccessModes = [],
     pvc_Requests = Map.empty\<rparr>"

definition InstanceLab_pvc_mutate :: "InstanceLab \<Rightarrow> PersistentVolumeClaim \<Rightarrow> PersistentVolumeClaim" where
  "InstanceLab_pvc_mutate il pvc = pvc\<lparr>
     pvc_Meta := (pvc_Meta pvc)\<lparr>om_Labels := child_labels il (om_Labels (pvc_Meta pvc))\<rparr>,
     pvc_StorageClassName := Some ''openebs-lvm'', pvc_AccessModes := [''ReadWriteOnce''],
     pvc_Requests := [''storage'' \<mapsto> isl_Limit (ilr_Storage (ils_Resources (il_Spec il)))]\<rparr>"

definition InstanceLab_reconcileWorkspacePVC :: "platform \<Rightarrow> 'w api \<Rightarrow> InstanceLab \<Rightarrow> string
    \<Rightarrow> ('w, error + PersistentVolumeClaim option) io" where
  "InstanceLab_reconcileWorkspacePVC px k il targetNs =
     (if Quantity_IsZero px (isl_Limit (ilr_Storage (ils_Resources (il_Spec il)))) then ret (Inr None)
      else do {
        r \<leftarrow> api_create_or_update (pvcs k) OnPVC (new_PVC targetNs (InstanceLab_child_name il ''-workspace''))
          (InstanceLab_pvc_mutate il);
        ret (map_sum id Some r)
      })"

section \<open>The pod\<close>

definition lxcfsMounts :: "(string \<times> string) list" where
  "lxcfsMounts = [(''lxcfs-proc-cpuinfo'', ''/proc/cpuinfo''), (''lxcfs-proc-diskstats'', ''/proc/diskstats''),
     (''lxcfs-proc-meminfo'', ''/proc/meminfo''), (''lxcfs-proc-stat'', ''/proc/stat''),
     (''lxcfs-proc-swaps'', ''/proc/swaps''), (''lxcfs-proc-uptime'', ''/proc/uptime'')]"

definition plain_mount :: "string \<Rightarrow> string \<Rightarrow> VolumeMount" where
  "plain_mount n path = \<lparr>vm_Name = n, vm_MountPath = path, vm_ReadOnly = False\<rparr>"

definition lxcfs_volume :: "string \<times> string \<Rightarrow> Volume" where
  "lxcfs_volume np = \<lparr>v_Name = fst np, v_Source = HostPath (''/var/lib/lxcfs'' @ snd np) (Some ''File'')\<rparr>"

definition InstanceLab_pod_volumes :: "platform \<Rightarrow> PersistentVolumeClaim option \<Rightarrow> Volume list" where
  "InstanceLab_pod_volumes px pvc =
     [\<lparr>v_Name = ''mqueue-bypass'', v_Source = EmptyDir None\<rparr>] @ map lxcfs_volume (range_order px lxcfsMounts) @
     (case pvc of None \<Rightarrow> []
      | Some p \<Rightarrow> [\<lparr>v_Name = ''workspace-volume'', v_Source = ClaimSource (om_Name (pvc_Meta p)) False\<rparr>])"

definition InstanceLab_pod_mounts :: "platform \<Rightarrow> PersistentVolumeClaim option \<Rightarrow> VolumeMount list" where
  "InstanceLab_pod_mounts px pvc =
     [plain_mount ''mqueue-bypass'' ''/dev/mqueue''] @
     map (\<lambda>np. plain_mount (fst np) (snd np)) (range_order px lxcfsMounts) @
     (case pvc of None \<Rightarrow> [] | Some _ \<Rightarrow> [plain_mount ''workspace-volume'' ''/workspace''])"

definition InstanceLab_image :: "InstanceLab \<Rightarrow> string" where
  "InstanceLab_image il = (let image = ils_Image (il_Spec il) in
     if image = '''' \<or> image = ''ubuntu:24.04'' then ''nestybox/ubuntu-jammy-systemd:latest'' else image)"

definition InstanceLab_container_ports :: "InstanceLab \<Rightarrow> ContainerPort list" where
  "InstanceLab_container_ports il = map (\<lambda>p. \<lparr>cp_Name = SanitizeName (ilp_Name p) 15,
     cp_ContainerPort = ilp_TargetPort p, cp_Protocol = ''TCP''\<rparr>) (ils_Ports (il_Spec il))"

definition InstanceLab_resources :: "platform \<Rightarrow> InstanceLab \<Rightarrow> ResourceRequirements" where
  "InstanceLab_resources px il =
     (let rs = ils_Resources (il_Spec il);
          nonzero = (\<lambda>q. \<not> Quantity_IsZero px q);
          requests = set_if (nonzero (irl_Request (ilr_Memory rs))) ''memory'' (irl_Request (ilr_Memory rs))
            (set_if (nonzero (irl_Request (ilr_CPU rs))) ''cpu'' (irl_Request (ilr_CPU rs)) Map.empty);
          limits = set_if (nonzero (isl_Limit (ilr_Storage rs))) ''ephemeral-storage'' (isl_Limit (ilr_Storage rs))
            (set_if (nonzero (irl_Limit (ilr_Memory rs))) ''memory'' (irl_Limit (ilr_Memory rs))
            (set_if (nonzero (irl_Limit (ilr_CPU rs))) ''cpu'' (irl_Limit (ilr_CPU rs)) Map.empty))
      in \<lparr>rr_Limits = limits, rr_Requests = requests\<rparr>)"

text \<open>The command of the PostStart hook: 0x0A is the newline and 0x22 the double quote of the source.\<close>

definition post_start_script :: string where
  "post_start_script =
     ''echo -e '#!/bin/bash'' @ [CHR 0x0A] @ ''/usr/bin/df '' @ [CHR 0x22] @ ''$@'' @ [CHR 0x22] @
     '' | grep -vE '' @ [CHR 0x22] @ ''^overlay|^tmpfs|^shm|^/dev/nvme|^/dev/sda|^/dev/vda'' @ [CHR 0x22] @
     [CHR 0x27] @ '' > /usr/local/bin/df && chmod +x /usr/local/bin/df && mount -t tmpfs tmpfs /sys/block && mount -t tmpfs tmpfs /sys/class/block''"

definition InstanceLab_container :: "platform \<Rightarrow> InstanceLab \<Rightarrow> PersistentVolumeClaim option \<Rightarrow> Container" where
  "InstanceLab_container px il pvc = \<lparr>ct_Name = ''main'', ct_Image = InstanceLab_image il,
     ct_ImagePullPolicy = ''IfNotPresent'', ct_Command = [''/sbin/init''],
     ct_VolumeMounts = InstanceLab_pod_mounts px pvc, ct_Ports = InstanceLab_container_ports il,
     ct_Env = [], ct_Resources = InstanceLab_resources px il,
     ct_PostStart = Some [''/bin/bash'', ''-c'', post_start_script],
     ct_SecurityContext = Some \<lparr>sc_Privileged = None, sc_AllowPrivilegeEscalation = None,
       sc_DropCapabilities = None, sc_AppArmorProfile = Some ''Unconfined''\<rparr>\<rparr>"

definition new_Pod :: "string \<Rightarrow> string \<Rightarrow> Pod" where
  "new_Pod ns n = \<lparr>pod_Meta = new_meta ns n, pod_Spec = new_PodSpec, pod_Phase = '''', pod_PodIP = ''''\<rparr>"

definition InstanceLab_pod_mutate :: "platform \<Rightarrow> InstanceLab \<Rightarrow> PersistentVolumeClaim option \<Rightarrow> string
    \<Rightarrow> Pod \<Rightarrow> Pod" where
  "InstanceLab_pod_mutate px il pvc podName pod =
     (let m = (pod_Meta pod)\<lparr>om_Labels := (child_labels il (om_Labels (pod_Meta pod)))(''app'' \<mapsto> podName)\<rparr>;
          s0 = pod_Spec pod;
          s1 = s0\<lparr>ps_EnableServiceLinks := Some False,
             ps_SecurityContext := Some \<lparr>psc_RunAsNonRoot = None, psc_RunAsUser = None, psc_RunAsGroup = None,
               psc_FSGroup = None, psc_SeccompProfile = Some ''Unconfined'', psc_AppArmorProfile = Some ''Unconfined''\<rparr>,
             ps_NodeSelector := (ps_NodeSelector s0)(''sysbox-install'' \<mapsto> ''yes''),
             ps_RuntimeClassName := Some SysboxRuntimeClass,
             ps_RestartPolicy := ''Never'',
             ps_Hostname := (if ils_Hostname (il_Spec il) \<noteq> '''' then ils_Hostname (il_Spec il) else ps_Hostname s0),
             ps_ImagePullSecrets := (if ils_ImagePullSecrets (il_Spec il) \<noteq> []
               then ils_ImagePullSecrets (il_Spec il) else ps_ImagePullSecrets s0)\<rparr>
      in pod\<lparr>pod_Meta := m, pod_Spec :=
           (if Time_IsZero (om_CreationTimestamp m)
            then s1\<lparr>ps_Volumes := InstanceLab_pod_volumes px pvc, ps_Containers := [InstanceLab_container px il pvc]\<rparr>
            else s1)\<rparr>)"

definition InstanceLab_reconcileSysboxPod :: "platform \<Rightarrow> 'w api \<Rightarrow> InstanceLab \<Rightarrow> string
    \<Rightarrow> PersistentVolumeClaim option \<Rightarrow> ('w, error + Pod) io" where
  "InstanceLab_reconcileSysboxPod px k il targetNs pvc =
     (let podName = InstanceLab_child_name il ''-sysbox'' in
      api_create_or_update (pods k) OnPod (new_Pod targetNs podName) (InstanceLab_pod_mutate px il pvc podName))"

section \<open>The service\<close>

definition new_Service :: "string \<Rightarrow> string \<Rightarrow> Service" where
  "new_Service ns n = \<lparr>svc_Meta = new_meta ns n, svc_Selector = Map.empty, svc_Type = '''', svc_Ports = []\<rparr>"

definition InstanceLab_service_mutate :: "InstanceLab \<Rightarrow> string \<Rightarrow> Service \<Rightarrow> Service" where
  "InstanceLab_service_mutate il podName svc = svc\<lparr>
     svc_Meta := (svc_Meta svc)\<lparr>om_Labels := child_labels il (om_Labels (svc_Meta svc))\<rparr>,
     svc_Selector := [''app'' \<mapsto> podName], svc_Type := ''ClusterIP'',
     svc_Ports := map (\<lambda>p. \<lparr>sp_Name = SanitizeName (ilp_Name p) 15, sp_Port = ilp_Port p,
       sp_TargetPort = ilp_TargetPort p, sp_Protocol = ''TCP''\<rparr>) (ils_Ports (il_Spec il))\<rparr>"

definition InstanceLab_reconcileServices :: "'w api \<Rightarrow> InstanceLab \<Rightarrow> string
    \<Rightarrow> ('w, error + Service option) io" where
  "InstanceLab_reconcileServices k il targetNs =
     (if ils_Ports (il_Spec il) = [] then ret (Inr None)
      else do {
        r \<leftarrow> api_create_or_update (services k) OnService (new_Service targetNs (InstanceLab_child_name il ''-svc''))
          (InstanceLab_service_mutate il (InstanceLab_child_name il ''-sysbox''));
        ret (map_sum id Some r)
      })"

section \<open>The ingress\<close>

definition new_Ingress :: "string \<Rightarrow> string \<Rightarrow> Ingress" where
  "new_Ingress ns n = \<lparr>ing_Meta = new_meta ns n, ing_ClassName = None, ing_TLS = [], ing_Rules = []\<rparr>"

definition exposed_ports :: "InstanceLab \<Rightarrow> InstanceLabPort list" where
  "exposed_ports il = filter ilp_Expose (ils_Ports (il_Spec il))"

text \<open>The loop over the exposed ports breaks after its first turn.\<close>

definition InstanceLab_http_paths :: "InstanceLab \<Rightarrow> string \<Rightarrow> HTTPIngressPath list" where
  "InstanceLab_http_paths il svcName = (case exposed_ports il of [] \<Rightarrow> []
     | ep # _ \<Rightarrow> [\<lparr>hp_Path = ''/'', hp_PathType = ''Prefix'', hp_ServiceName = svcName, hp_ServicePort = ilp_Port ep\<rparr>])"

definition InstanceLab_ingress_mutate :: "platform \<Rightarrow> InstanceLab \<Rightarrow> string \<Rightarrow> string \<Rightarrow> Ingress \<Rightarrow> Ingress" where
  "InstanceLab_ingress_mutate px il clusterLabName svcName ing =
     (let host = GenerateIngressHost px (om_Name (il_Meta il)) clusterLabName '''';
          secretName = InstanceLab_child_name il ''-tls-secret''
      in ing\<lparr>ing_Meta := (ing_Meta ing)\<lparr>om_Labels := child_labels il (om_Labels (ing_Meta ing)),
             om_Annotations := (om_Annotations (ing_Meta ing))(
               ''cert-manager.io/cluster-issuer'' \<mapsto> ''letsencrypt-prod'',
               ''nginx.ingress.kubernetes.io/ssl-redirect'' \<mapsto> ''true'',
               ''nginx.ingress.kubernetes.io/proxy-body-size'' \<mapsto> ''1000m'',
               ''nginx.ingress.kubernetes.io/proxy-read-timeout'' \<mapsto> ''3600'',
               ''nginx.ingress.kubernetes.io/proxy-send-timeout'' \<mapsto> ''3600'')\<rparr>,
           ing_ClassName := Some (GetIngressClassName px),
           ing_TLS := [\<lparr>tls_Hosts = [host], tls_SecretName = secretName\<rparr>],
           ing_Rules := [\<lparr>ir_Host = host, ir_Paths = InstanceLab_http_paths il svcName\<rparr>]\<rparr>)"

definition InstanceLab_reconcileIngress :: "platform \<Rightarrow> 'w api \<Rightarrow> InstanceLab \<Rightarrow> ClusterLab \<Rightarrow> string
    \<Rightarrow> Service option \<Rightarrow> ('w, error + Ingress option) io" where
  "InstanceLab_reconcileIngress px k il cl targetNs svc =
     (case svc of None \<Rightarrow> ret (Inr None)
      | Some s \<Rightarrow>
          if exposed_ports il = [] then ret (Inr None)
          else do {
            r \<leftarrow> api_create_or_update (ingresses k) OnIngress (new_Ingress targetNs (InstanceLab_child_name il ''-ingress''))
              (InstanceLab_ingress_mutate px il (om_Name (cl_Meta cl)) (om_Name (svc_Meta s)));
            ret (map_sum id Some r)
          })"

section \<open>Status\<close>

text \<open>
  The phase of the status, and the condition the switch on the pod's phase sets, if any, as the
  arguments of SetCondition.
\<close>

definition InstanceLab_phase :: "Pod option \<Rightarrow> string \<times> (string \<times> string \<times> string) option" where
  "InstanceLab_phase pod = (case pod of None \<Rightarrow> (PhaseCreating, None)
     | Some p \<Rightarrow>
         if pod_Phase p = ''Running'' then (PhaseRunning,
           Some (ConditionTrue, ''ContainerRunning'', ''Sysbox VM instance is running and responsive''))
         else if pod_Phase p = ''Pending'' then (PhaseCreating,
           Some (ConditionFalse, ''PodPending'', ''Waiting for K8s scheduler and volume mounting''))
         else if pod_Phase p = ''Failed'' then (PhaseFailed,
           Some (ConditionFalse, ''PodFailed'', ''Sysbox VM Pod execution failed''))
         else (PhaseCreating, None))"

definition internal_address :: "Service \<Rightarrow> Pod \<Rightarrow> InstanceLabPort \<Rightarrow> string" where
  "internal_address svc pod p = ''http://'' @ om_Name (svc_Meta svc) @ ''.'' @ om_Namespace (pod_Meta pod) @
     ''.svc.cluster.local:'' @ itoa (sint (ilp_Port p))"

definition InstanceLab_endpoint :: "Pod \<Rightarrow> Service \<Rightarrow> Ingress option \<Rightarrow> InstanceLabPort
    \<Rightarrow> InstanceLabAccessEndpoint" where
  "InstanceLab_endpoint pod svc ing p =
     (let ep = \<lparr>iae_Name = ilp_Name p, iae_Protocol = ''TCP'', iae_URL = '''',
            iae_InternalAddress = internal_address svc pod p\<rparr>
      in case ing of None \<Rightarrow> ep
         | Some i \<Rightarrow> if ilp_Expose p \<and> ing_Rules i \<noteq> []
             then ep\<lparr>iae_Protocol := ''HTTPS'', iae_URL := ''https://'' @ ir_Host (hd (ing_Rules i))\<rparr> else ep)"

text \<open>The loop over the ports. It reads svc.Name and pod.Namespace, so a nil pointer panics.\<close>

fun InstanceLab_endpoints :: "Pod option \<Rightarrow> Service option \<Rightarrow> Ingress option \<Rightarrow> InstanceLabPort list
    \<Rightarrow> InstanceLabAccessEndpoint list \<Rightarrow> InstanceLabAccessEndpoint list outcome" where
  "InstanceLab_endpoints pod svc ing [] eps = Returned eps"
| "InstanceLab_endpoints pod svc ing (p # ps) eps = (case (svc, pod) of
     (Some s, Some pd) \<Rightarrow> InstanceLab_endpoints pod svc ing ps (eps @ [InstanceLab_endpoint pd s ing p])
   | _ \<Rightarrow> Panicked)"

definition InstanceLab_updateInstanceLabStatus :: "platform \<Rightarrow> 'w api \<Rightarrow> InstanceLab \<Rightarrow> Pod option
    \<Rightarrow> Service option \<Rightarrow> Ingress option \<Rightarrow> ('w, error option outcome) io" where
  "InstanceLab_updateInstanceLabStatus px k il0 pod svc ing =
     (let il1 = (case pod of None \<Rightarrow> il0
            | Some p \<Rightarrow> set_ilt (\<lambda>s. s\<lparr>ilt_PodName := om_Name (pod_Meta p), ilt_PodIP := pod_PodIP p\<rparr>) il0);
          phase = fst (InstanceLab_phase pod) in do {
        c1 \<leftarrow> (case snd (InstanceLab_phase pod) of None \<Rightarrow> ret (ilt_Conditions (il_Status il1))
          | Some (st, reason, msg) \<Rightarrow> SetCondition px k (ilt_Conditions (il_Status il1)) ''PodReady'' st reason msg);
        (case InstanceLab_endpoints pod svc ing (ils_Ports (il_Spec il1)) [] of
           Panicked \<Rightarrow> ret Panicked
         | Returned endpoints \<Rightarrow> do {
             c2 \<leftarrow> (if EqualFold phase ''Running''
               then SetCondition px k c1 ''Ready'' ConditionTrue ''InstanceReady''
                 ''InstanceLab is ready for student connectivity''
               else SetCondition px k c1 ''Ready'' ConditionFalse ''InstanceProvisioning''
                 ''InstanceLab is currently being provisioned'');
             u \<leftarrow> api_status_update (instancelabs k) OnInstanceLab
               (set_ilt (\<lambda>s. s\<lparr>ilt_Phase := phase, ilt_AccessEndpoints := endpoints, ilt_Conditions := c2\<rparr>) il1);
             ret (Returned (err_of u))
           })
      })"

definition InstanceLab_updateStatusFailed :: "platform \<Rightarrow> 'w api \<Rightarrow> InstanceLab \<Rightarrow> string \<Rightarrow> string
    \<Rightarrow> ('w, unit) io" where
  "InstanceLab_updateStatusFailed px k il reason message = do {
     cs \<leftarrow> SetCondition px k (ilt_Conditions (il_Status il)) ''Ready'' ConditionFalse reason message;
     _ \<leftarrow> api_status_update (instancelabs k) OnInstanceLab
       (set_ilt (\<lambda>s. s\<lparr>ilt_Phase := PhaseFailed, ilt_Conditions := cs\<rparr>) il);
     ret ()
   }"

section \<open>Reconcile\<close>

text \<open>A failed step: the status is set to Failed with the reason, and the error is returned.\<close>

definition InstanceLab_fail :: "platform \<Rightarrow> 'w api \<Rightarrow> InstanceLab \<Rightarrow> string \<Rightarrow> error
    \<Rightarrow> ('w, (Result \<times> error option) outcome) io" where
  "InstanceLab_fail px k il reason e = do {
     _ \<leftarrow> InstanceLab_updateStatusFailed px k il reason (Error_text px e);
     ret (Returned (no_result, Some e))
   }"

text \<open>Steps 4.5 to 8 of Reconcile, for a parent that is ready.\<close>

definition InstanceLab_provision :: "platform \<Rightarrow> 'w api \<Rightarrow> InstanceLab \<Rightarrow> ClusterLab \<Rightarrow> string
    \<Rightarrow> ('w, (Result \<times> error option) outcome) io" where
  "InstanceLab_provision px k il cl targetNamespace = do {
     r1 \<leftarrow> InstanceLab_reconcileWorkspacePVC px k il targetNamespace;
     case r1 of Inl e \<Rightarrow> InstanceLab_fail px k il ''PVCError'' e
     | Inr pvc \<Rightarrow> do {
     r2 \<leftarrow> InstanceLab_reconcileSysboxPod px k il targetNamespace pvc;
     case r2 of Inl e \<Rightarrow> InstanceLab_fail px k il ''PodError'' e
     | Inr pod \<Rightarrow> do {
     r3 \<leftarrow> InstanceLab_reconcileServices k il targetNamespace;
     case r3 of Inl e \<Rightarrow> InstanceLab_fail px k il ''ServiceError'' e
     | Inr svc \<Rightarrow> do {
     r4 \<leftarrow> InstanceLab_reconcileIngress px k il cl targetNamespace svc;
     case r4 of Inl e \<Rightarrow> InstanceLab_fail px k il ''IngressError'' e
     | Inr ing \<Rightarrow> do {
     r5 \<leftarrow> InstanceLab_updateInstanceLabStatus px k il (Some pod) svc ing;
     case r5 of Panicked \<Rightarrow> ret Panicked
     | Returned err \<Rightarrow> ret (Returned (no_result, err))
   }}}}}"

definition wait_for_parent :: Result where
  "wait_for_parent = \<lparr>RequeueAfter = 5 * Second\<rparr>"

definition InstanceLab_wait :: "platform \<Rightarrow> 'w api \<Rightarrow> InstanceLab \<Rightarrow> ('w, (Result \<times> error option) outcome) io" where
  "InstanceLab_wait px k il = do {
     cs \<leftarrow> SetCondition px k (ilt_Conditions (il_Status il)) ''WaitingForCluster'' ConditionFalse ''ParentNotReady''
       (''Waiting for parent ClusterLab '' @ ils_ClusterLabRef (il_Spec il) @ '' to enter Running phase'');
     _ \<leftarrow> api_status_update (instancelabs k) OnInstanceLab
       (set_ilt (\<lambda>s. s\<lparr>ilt_Phase := ''Pending'', ilt_Conditions := cs\<rparr>) il);
     ret (Returned (wait_for_parent, None))
   }"

text \<open>Step 4 of Reconcile; clusterLab.Status is read through the pointer the resolution returned.\<close>

definition InstanceLab_reconcileActive :: "platform \<Rightarrow> 'w api \<Rightarrow> InstanceLab
    \<Rightarrow> ('w, (Result \<times> error option) outcome) io" where
  "InstanceLab_reconcileActive px k il0 = do {
     (clusterLab, isReady, err, il) \<leftarrow> InstanceLab_resolveParentClusterLab px k il0;
     (if err \<noteq> None then ret (Returned (no_result, err))
      else if \<not> isReady then InstanceLab_wait px k il
      else case clusterLab of None \<Rightarrow> ret Panicked
      | Some cl \<Rightarrow> InstanceLab_provision px k il cl (ClusterLab_targetNamespace cl))
   }"

definition InstanceLab_Reconcile :: "platform \<Rightarrow> 'w api \<Rightarrow> NamespacedName
    \<Rightarrow> ('w, (Result \<times> error option) outcome) io" where
  "InstanceLab_Reconcile px k req = do {
     r \<leftarrow> api_get (instancelabs k) OnInstanceLab req;
     case r of
       Inl err \<Rightarrow> (if IsNotFound err then ret (Returned (no_result, None)) else ret (Returned (no_result, Some err)))
     | Inr il \<Rightarrow>
         (if om_DeletionTimestamp (il_Meta il) = None \<and>
             \<not> ContainsFinalizer px (il_Meta il) InstanceLabFinalizer
          then do {
            u \<leftarrow> api_update (instancelabs k) OnInstanceLab
              (il\<lparr>il_Meta := AddFinalizer px (il_Meta il) InstanceLabFinalizer\<rparr>);
            ret (Returned (no_result, err_of u))
          }
          else if om_DeletionTimestamp (il_Meta il) \<noteq> None
          then do {
            x \<leftarrow> InstanceLab_reconcileFinalizer px k il;
            ret (Returned x)
          }
          else InstanceLab_reconcileActive px k il)
   }"

section \<open>Convergence of the children\<close>

lemma child_labels_idem [simp]: "child_labels il (child_labels il ls) = child_labels il ls"
  by (simp add: child_labels_def label_defs fun_upd_twist)

lemma child_labels_app_idem [simp]:
  "(child_labels il ((child_labels il ls)(''app'' \<mapsto> n)))(''app'' \<mapsto> n) = (child_labels il ls)(''app'' \<mapsto> n)"
  by (rule ext) (simp add: child_labels_def label_defs)

lemma five_upd_idem:
  "m(a \<mapsto> p, b \<mapsto> q, c \<mapsto> r, d \<mapsto> s, e \<mapsto> t, a \<mapsto> p, b \<mapsto> q, c \<mapsto> r, d \<mapsto> s, e \<mapsto> t) =
   m(a \<mapsto> p, b \<mapsto> q, c \<mapsto> r, d \<mapsto> s, e \<mapsto> t)"
  by (rule ext) simp

interpretation il_pvc: mutator "InstanceLab_pvc_mutate il" pvc_Meta
  by unfold_locales (simp_all add: InstanceLab_pvc_mutate_def)

interpretation il_pod: mutator "InstanceLab_pod_mutate px il pvc n" pod_Meta
  by unfold_locales (simp_all add: InstanceLab_pod_mutate_def Let_def)

interpretation il_service: mutator "InstanceLab_service_mutate il n" svc_Meta
  by unfold_locales (simp_all add: InstanceLab_service_mutate_def)

interpretation il_ingress: mutator "InstanceLab_ingress_mutate px il c n" ing_Meta
  by unfold_locales (simp_all add: InstanceLab_ingress_mutate_def Let_def five_upd_idem)

section \<open>An abstract account of a run\<close>

text \<open>
  As for ClusterLab: one rule per way a step can go, with the calls it makes and what it returns.
\<close>

abbreviation ensure_disk :: "InstanceLab \<Rightarrow> string \<Rightarrow> error + PersistentVolumeClaim \<Rightarrow> event" where
  "ensure_disk il ns r \<equiv> OnPVC (CreateOrUpdate (new_PVC ns (InstanceLab_child_name il ''-workspace''))
     (InstanceLab_pvc_mutate il) r)"

abbreviation ensure_pod :: "platform \<Rightarrow> InstanceLab \<Rightarrow> string \<Rightarrow> PersistentVolumeClaim option \<Rightarrow> error + Pod \<Rightarrow> event" where
  "ensure_pod px il ns pvc r \<equiv> OnPod (CreateOrUpdate (new_Pod ns (InstanceLab_child_name il ''-sysbox''))
     (InstanceLab_pod_mutate px il pvc (InstanceLab_child_name il ''-sysbox'')) r)"

abbreviation ensure_service :: "InstanceLab \<Rightarrow> string \<Rightarrow> error + Service \<Rightarrow> event" where
  "ensure_service il ns r \<equiv> OnService (CreateOrUpdate (new_Service ns (InstanceLab_child_name il ''-svc''))
     (InstanceLab_service_mutate il (InstanceLab_child_name il ''-sysbox'')) r)"

abbreviation ensure_ingress :: "platform \<Rightarrow> InstanceLab \<Rightarrow> ClusterLab \<Rightarrow> string \<Rightarrow> Service \<Rightarrow> error + Ingress \<Rightarrow> event" where
  "ensure_ingress px il cl ns svc r \<equiv> OnIngress (CreateOrUpdate (new_Ingress ns (InstanceLab_child_name il ''-ingress''))
     (InstanceLab_ingress_mutate px il (om_Name (cl_Meta cl)) (om_Name (svc_Meta svc))) r)"

inductive disk_run :: "platform \<Rightarrow> InstanceLab \<Rightarrow> string \<Rightarrow> event list \<Rightarrow> error + PersistentVolumeClaim option \<Rightarrow> bool"
  for px il ns where
  no_disk: "Quantity_IsZero px (isl_Limit (ilr_Storage (ils_Resources (il_Spec il)))) \<Longrightarrow> disk_run px il ns [] (Inr None)"
| disk: "\<not> Quantity_IsZero px (isl_Limit (ilr_Storage (ils_Resources (il_Spec il)))) \<Longrightarrow>
     disk_run px il ns [ensure_disk il ns r] (map_sum id Some r)"

inductive service_run :: "InstanceLab \<Rightarrow> string \<Rightarrow> event list \<Rightarrow> error + Service option \<Rightarrow> bool" for il ns where
  no_port: "ils_Ports (il_Spec il) = [] \<Longrightarrow> service_run il ns [] (Inr None)"
| ports: "ils_Ports (il_Spec il) \<noteq> [] \<Longrightarrow> service_run il ns [ensure_service il ns r] (map_sum id Some r)"

inductive ingress_run :: "platform \<Rightarrow> InstanceLab \<Rightarrow> ClusterLab \<Rightarrow> string \<Rightarrow> Service option \<Rightarrow> event list
    \<Rightarrow> error + Ingress option \<Rightarrow> bool" for px il cl ns where
  nothing_exposed: "svc = None \<or> exposed_ports il = [] \<Longrightarrow> ingress_run px il cl ns svc [] (Inr None)"
| exposed: "exposed_ports il \<noteq> [] \<Longrightarrow>
     ingress_run px il cl ns (Some s) [ensure_ingress px il cl ns s r] (map_sum id Some r)"

definition ready_condition :: "bool \<Rightarrow> Time \<Rightarrow> Condition" where
  "ready_condition up t = (if up
     then \<lparr>c_Type = ''Ready'', c_Status = ConditionTrue, c_Reason = ''InstanceReady'',
       c_Message = ''InstanceLab is ready for student connectivity'', c_LastTransitionTime = t\<rparr>
     else \<lparr>c_Type = ''Ready'', c_Status = ConditionFalse, c_Reason = ''InstanceProvisioning'',
       c_Message = ''InstanceLab is currently being provisioned'', c_LastTransitionTime = t\<rparr>)"

text \<open>The status published for a pod: phase, pod name and address, endpoints, and the condition Ready last.\<close>

definition published :: "platform \<Rightarrow> InstanceLab \<Rightarrow> Pod \<Rightarrow> InstanceLabAccessEndpoint list \<Rightarrow> InstanceLab \<Rightarrow> bool" where
  "published px il pod eps x \<longleftrightarrow>
     il_Meta x = il_Meta il \<and> il_Spec x = il_Spec il \<and>
     ilt_Phase (il_Status x) = fst (InstanceLab_phase (Some pod)) \<and>
     ilt_PodName (il_Status x) = om_Name (pod_Meta pod) \<and> ilt_PodIP (il_Status x) = pod_PodIP pod \<and>
     ilt_AccessEndpoints (il_Status x) = eps \<and>
     (\<exists>cs t. ilt_Conditions (il_Status x) = SetStatusCondition px cs (ready_condition (pod_Phase pod = ''Running'') t))"

inductive instance_status_run :: "platform \<Rightarrow> InstanceLab \<Rightarrow> Pod \<Rightarrow> Service option \<Rightarrow> Ingress option \<Rightarrow> event list
    \<Rightarrow> error option outcome \<Rightarrow> bool" for px il pod svc ing where
  nil_pointer: "InstanceLab_endpoints (Some pod) svc ing (ils_Ports (il_Spec il)) [] = Panicked \<Longrightarrow>
     set nows \<subseteq> range Now \<Longrightarrow> instance_status_run px il pod svc ing nows Panicked"
| publish: "InstanceLab_endpoints (Some pod) svc ing (ils_Ports (il_Spec il)) [] = Returned eps \<Longrightarrow>
     set nows \<subseteq> range Now \<Longrightarrow> published px il pod eps x \<Longrightarrow>
     instance_status_run px il pod svc ing (nows @ [OnInstanceLab (StatusUpdate x u)]) (Returned (err_of u))"

definition failed_instance :: "platform \<Rightarrow> Time \<Rightarrow> string \<Rightarrow> error \<Rightarrow> InstanceLab \<Rightarrow> InstanceLab" where
  "failed_instance px t reason e il = set_ilt (\<lambda>s. s\<lparr>ilt_Phase := PhaseFailed,
     ilt_Conditions := SetStatusCondition px (ilt_Conditions s)
       \<lparr>c_Type = ''Ready'', c_Status = ConditionFalse, c_Reason = reason,
        c_Message = Error_text px e, c_LastTransitionTime = t\<rparr>\<rparr>) il"

abbreviation mark_instance :: "platform \<Rightarrow> Time \<Rightarrow> string \<Rightarrow> error \<Rightarrow> InstanceLab \<Rightarrow> error + InstanceLab \<Rightarrow> event list" where
  "mark_instance px t reason e il u \<equiv> [Now t, OnInstanceLab (StatusUpdate (failed_instance px t reason e il) u)]"

inductive instance_provision_run :: "platform \<Rightarrow> InstanceLab \<Rightarrow> ClusterLab \<Rightarrow> string \<Rightarrow> event list
    \<Rightarrow> (Result \<times> error option) outcome \<Rightarrow> bool" for px il cl ns where
  disk_failed: "disk_run px il ns d (Inl e) \<Longrightarrow>
     instance_provision_run px il cl ns (d @ mark_instance px t ''PVCError'' e il u) (Returned (no_result, Some e))"
| pod_failed: "disk_run px il ns d (Inr pvc) \<Longrightarrow>
     instance_provision_run px il cl ns (d @ ensure_pod px il ns pvc (Inl e) # mark_instance px t ''PodError'' e il u)
       (Returned (no_result, Some e))"
| service_failed: "disk_run px il ns d (Inr pvc) \<Longrightarrow> service_run il ns s (Inl e) \<Longrightarrow>
     instance_provision_run px il cl ns (d @ ensure_pod px il ns pvc (Inr pod) # s @ mark_instance px t ''ServiceError'' e il u)
       (Returned (no_result, Some e))"
| ingress_failed: "disk_run px il ns d (Inr pvc) \<Longrightarrow> service_run il ns s (Inr svc) \<Longrightarrow>
     ingress_run px il cl ns svc i (Inl e) \<Longrightarrow>
     instance_provision_run px il cl ns
       (d @ ensure_pod px il ns pvc (Inr pod) # s @ i @ mark_instance px t ''IngressError'' e il u)
       (Returned (no_result, Some e))"
| panic: "disk_run px il ns d (Inr pvc) \<Longrightarrow> service_run il ns s (Inr svc) \<Longrightarrow>
     ingress_run px il cl ns svc i (Inr ing) \<Longrightarrow> instance_status_run px il pod svc ing st Panicked \<Longrightarrow>
     instance_provision_run px il cl ns (d @ ensure_pod px il ns pvc (Inr pod) # s @ i @ st) Panicked"
| built: "disk_run px il ns d (Inr pvc) \<Longrightarrow> service_run il ns s (Inr svc) \<Longrightarrow>
     ingress_run px il cl ns svc i (Inr ing) \<Longrightarrow> instance_status_run px il pod svc ing st (Returned err) \<Longrightarrow>
     instance_provision_run px il cl ns (d @ ensure_pod px il ns pvc (Inr pod) # s @ i @ st) (Returned (no_result, err))"

lemma disk_yields: "yields (InstanceLab_reconcileWorkspacePVC px k il ns) (disk_run px il ns)"
  unfolding InstanceLab_reconcileWorkspacePVC_def by (intro ev_intro) (auto intro: disk_run.intros)

lemma service_yields: "yields (InstanceLab_reconcileServices k il ns) (service_run il ns)"
  unfolding InstanceLab_reconcileServices_def by (intro ev_intro) (auto intro: service_run.intros)

lemma ingress_yields: "yields (InstanceLab_reconcileIngress px k il cl ns svc) (ingress_run px il cl ns svc)"
  unfolding InstanceLab_reconcileIngress_def by (intro ev_intro) (auto intro: ingress_run.intros)

lemma EqualFold_phase: "EqualFold (fst (InstanceLab_phase (Some pod))) ''Running'' \<longleftrightarrow> pod_Phase pod = ''Running''"
  by (simp add: InstanceLab_phase_def PhaseRunning_def PhaseCreating_def PhaseFailed_def EqualFold_def byte_lower_def)

lemma instance_status_yields:
  "yields (InstanceLab_updateInstanceLabStatus px k il (Some pod) svc ing) (instance_status_run px il pod svc ing)"
proof -
  have c1: "yields (case snd (InstanceLab_phase (Some pod)) of None \<Rightarrow> ret cs
      | Some (st, reason, msg) \<Rightarrow> SetCondition px k cs ''PodReady'' st reason msg)
      (\<lambda>evs cs'. set evs \<subseteq> range Now)" for cs
    unfolding SetCondition_def by (intro ev_intro) auto
  have c2: "yields (if EqualFold (fst (InstanceLab_phase (Some pod))) ''Running''
      then SetCondition px k cs ''Ready'' ConditionTrue ''InstanceReady'' ''InstanceLab is ready for student connectivity''
      else SetCondition px k cs ''Ready'' ConditionFalse ''InstanceProvisioning'' ''InstanceLab is currently being provisioned'')
      (\<lambda>evs cs'. set evs \<subseteq> range Now \<and>
        (\<exists>t. cs' = SetStatusCondition px cs (ready_condition (pod_Phase pod = ''Running'') t)))" for cs
    unfolding SetCondition_def EqualFold_phase by (intro ev_intro) (auto simp: ready_condition_def)
  show ?thesis
    unfolding InstanceLab_updateInstanceLabStatus_def Let_def
  proof (rule yields_bind[OF c1], goal_cases)
    case (1 nows cs)
    show ?case
    proof (cases "InstanceLab_endpoints (Some pod) svc ing (ils_Ports (il_Spec il)) []")
      case Panicked
      then show ?thesis using 1 by (auto intro!: yields_return nil_pointer)
    next
      case (Returned eps)
      have "yields (ret (Returned (err_of u))) (\<lambda>evs. instance_status_run px il pod svc ing
          (nows @ nows' @ OnInstanceLab (StatusUpdate x u) # evs))"
        if "set nows' \<subseteq> range Now" "published px il pod eps x" for nows' x u
        using publish[OF Returned _ that(2), of "nows @ nows'" u] that 1 by (intro yields_return) auto
      moreover have "published px il pod eps (set_ilt (\<lambda>s. s\<lparr>ilt_Phase := fst (InstanceLab_phase (Some pod)),
            ilt_AccessEndpoints := eps, ilt_Conditions := cs'\<rparr>)
            (set_ilt (\<lambda>s. s\<lparr>ilt_PodName := om_Name (pod_Meta pod), ilt_PodIP := pod_PodIP pod\<rparr>) il))"
        if "\<exists>cs t. cs' = SetStatusCondition px cs (ready_condition (pod_Phase pod = ''Running'') t)" for cs'
        using that by (simp add: published_def)
      ultimately show ?thesis
        unfolding option.case set_ilt_simps(2) Returned outcome.case
        by (intro yields_bind[OF c2] yields_bind_perform) blast
    qed
  qed
qed

definition parent_ready :: "ClusterLab \<Rightarrow> bool" where
  "parent_ready cl \<longleftrightarrow> EqualFold (clt_Phase (cl_Status cl)) ''Running'' \<or> EqualFold (clt_Phase (cl_Status cl)) ''Ready''"

inductive parent_run :: "platform \<Rightarrow> InstanceLab \<Rightarrow> event list
    \<Rightarrow> ClusterLab option \<times> bool \<times> error option \<times> InstanceLab \<Rightarrow> bool" for px il where
  missing: "IsNotFound e \<Longrightarrow>
     parent_run px il [OnClusterLab (Get (parent_key il) (Inl e))] (None, False, None, il)"
| unreadable: "\<not> IsNotFound e \<Longrightarrow>
     parent_run px il [OnClusterLab (Get (parent_key il) (Inl e))] (None, False, Some e, il)"
| unowned: "SetControllerReference px ''ClusterLab'' (cl_Meta cl) (il_Meta il) = Inl e \<Longrightarrow>
     parent_run px il [OnClusterLab (Get (parent_key il) (Inr cl))] (Some cl, parent_ready cl, None, il)"
| owned: "SetControllerReference px ''ClusterLab'' (cl_Meta cl) (il_Meta il) = Inr m \<Longrightarrow>
     parent_run px il [OnClusterLab (Get (parent_key il) (Inr cl)), OnInstanceLab (Update (il\<lparr>il_Meta := m\<rparr>) u)]
       (Some cl, parent_ready cl, None, case u of Inl _ \<Rightarrow> il\<lparr>il_Meta := m\<rparr> | Inr il' \<Rightarrow> il')"

definition pending_instance :: "platform \<Rightarrow> Time \<Rightarrow> InstanceLab \<Rightarrow> InstanceLab" where
  "pending_instance px t il = set_ilt (\<lambda>s. s\<lparr>ilt_Phase := ''Pending'',
     ilt_Conditions := SetStatusCondition px (ilt_Conditions s)
       \<lparr>c_Type = ''WaitingForCluster'', c_Status = ConditionFalse, c_Reason = ''ParentNotReady'',
        c_Message = ''Waiting for parent ClusterLab '' @ ils_ClusterLabRef (il_Spec il) @ '' to enter Running phase'',
        c_LastTransitionTime = t\<rparr>\<rparr>) il"

inductive instance_active_run :: "platform \<Rightarrow> InstanceLab \<Rightarrow> event list
    \<Rightarrow> (Result \<times> error option) outcome \<Rightarrow> bool" for px il where
  parent_error: "parent_run px il evs (c, b, Some e, il') \<Longrightarrow> instance_active_run px il evs (Returned (no_result, Some e))"
| waiting: "parent_run px il evs (c, False, None, il') \<Longrightarrow>
     instance_active_run px il (evs @ [Now t, OnInstanceLab (StatusUpdate (pending_instance px t il') u)])
       (Returned (wait_for_parent, None))"
| building: "parent_run px il evs (Some cl, True, None, il') \<Longrightarrow>
     instance_provision_run px il' cl (ClusterLab_targetNamespace cl) evs' r \<Longrightarrow>
     instance_active_run px il (evs @ evs') r"

definition cleanup_namespace :: "InstanceLab \<Rightarrow> error + ClusterLab \<Rightarrow> string" where
  "cleanup_namespace il g = (case g of
     Inr cl \<Rightarrow> if clt_TargetNamespace (cl_Status cl) = '''' then GenerateTargetNamespace (ils_ClusterLabRef (il_Spec il))
       else clt_TargetNamespace (cl_Status cl)
   | Inl _ \<Rightarrow> GenerateTargetNamespace (ils_ClusterLabRef (il_Spec il)))"

abbreviation own_children :: "InstanceLab \<Rightarrow> labels" where
  "own_children il \<equiv> [LabelInstanceLab \<mapsto> om_Name (il_Meta il)]"

inductive instance_finalizer_run :: "platform \<Rightarrow> InstanceLab \<Rightarrow> event list \<Rightarrow> Result \<times> error option \<Rightarrow> bool"
  for px il where
  released_before: "\<not> ContainsFinalizer px (il_Meta il) InstanceLabFinalizer \<Longrightarrow>
     instance_finalizer_run px il [] (no_result, None)"
| cleaned: "ContainsFinalizer px (il_Meta il) InstanceLabFinalizer \<Longrightarrow> ns = cleanup_namespace il g \<Longrightarrow>
     instance_finalizer_run px il
       [OnClusterLab (Get (parent_key il) g),
        OnIngress (DeleteAllOf ns (own_children il) d1), OnService (DeleteAllOf ns (own_children il) d2),
        OnPod (DeleteAllOf ns (own_children il) d3), OnPVC (DeleteAllOf ns (own_children il) d4),
        OnInstanceLab (Update (il\<lparr>il_Meta := RemoveFinalizer px (il_Meta il) InstanceLabFinalizer\<rparr>) u)]
       (no_result, err_of u)"

inductive InstanceLab_run :: "platform \<Rightarrow> NamespacedName \<Rightarrow> event list
    \<Rightarrow> (Result \<times> error option) outcome \<Rightarrow> bool" for px req where
  instance_gone: "IsNotFound e \<Longrightarrow>
     InstanceLab_run px req [OnInstanceLab (Get req (Inl e))] (Returned (no_result, None))"
| instance_unread: "\<not> IsNotFound e \<Longrightarrow>
     InstanceLab_run px req [OnInstanceLab (Get req (Inl e))] (Returned (no_result, Some e))"
| instance_claim: "om_DeletionTimestamp (il_Meta il) = None \<Longrightarrow>
     \<not> ContainsFinalizer px (il_Meta il) InstanceLabFinalizer \<Longrightarrow>
     InstanceLab_run px req [OnInstanceLab (Get req (Inr il)),
       OnInstanceLab (Update (il\<lparr>il_Meta := AddFinalizer px (il_Meta il) InstanceLabFinalizer\<rparr>) u)]
       (Returned (no_result, err_of u))"
| instance_deleting: "om_DeletionTimestamp (il_Meta il) \<noteq> None \<Longrightarrow> instance_finalizer_run px il evs r \<Longrightarrow>
     InstanceLab_run px req (OnInstanceLab (Get req (Inr il)) # evs) (Returned r)"
| instance_active: "om_DeletionTimestamp (il_Meta il) = None \<Longrightarrow>
     ContainsFinalizer px (il_Meta il) InstanceLabFinalizer \<Longrightarrow> instance_active_run px il evs r \<Longrightarrow>
     InstanceLab_run px req (OnInstanceLab (Get req (Inr il)) # evs) r"

lemma instance_fail_yields:
  "yields (InstanceLab_fail px k il reason e) (\<lambda>evs r. \<exists>t u. evs = mark_instance px t reason e il u \<and>
     r = Returned (no_result, Some e))"
  unfolding InstanceLab_fail_def InstanceLab_updateStatusFailed_def SetCondition_def State_Monad.bind_assoc
    State_Monad.bind_left_identity
  by (intro ev_intro) (auto simp: failed_instance_def set_ilt_def)

lemma pod_yields:
  "yields (InstanceLab_reconcileSysboxPod px k il ns pvc) (\<lambda>evs r. evs = [ensure_pod px il ns pvc r])"
  unfolding InstanceLab_reconcileSysboxPod_def Let_def by (intro ev_intro) simp

lemma instance_provision_yields:
  "yields (InstanceLab_provision px k il cl ns) (instance_provision_run px il cl ns)"
  unfolding InstanceLab_provision_def
  by (intro ev_intro yields_bind[OF disk_yields] yields_bind[OF pod_yields] yields_bind[OF service_yields]
        yields_bind[OF ingress_yields] yields_bind[OF instance_status_yields] yields_conseq[OF instance_fail_yields])
    (auto split: outcome.split intro!: yields_return intro: instance_provision_run.intros)

lemma parent_yields: "yields (InstanceLab_resolveParentClusterLab px k il) (parent_run px il)"
  unfolding InstanceLab_resolveParentClusterLab_def Let_def parent_ready_def[symmetric]
  by (intro ev_intro) (auto intro: parent_run.intros)

lemma wait_yields:
  "yields (InstanceLab_wait px k il) (\<lambda>evs r. \<exists>t u. evs = [Now t, OnInstanceLab (StatusUpdate (pending_instance px t il) u)] \<and>
     r = Returned (wait_for_parent, None))"
  unfolding InstanceLab_wait_def SetCondition_def State_Monad.bind_assoc State_Monad.bind_left_identity
  by (intro ev_intro) (auto simp: pending_instance_def set_ilt_def)

lemma parent_run_some: "parent_run px il evs (c, True, None, il') \<Longrightarrow> c \<noteq> None"
  by (auto elim: parent_run.cases)

lemma instance_active_yields: "yields (InstanceLab_reconcileActive px k il) (instance_active_run px il)"
  unfolding InstanceLab_reconcileActive_def
  by (intro ev_intro yields_bind[OF parent_yields] yields_conseq[OF wait_yields] yields_conseq[OF instance_provision_yields])
    (auto intro: instance_active_run.intros dest: parent_run_some)

lemma instance_finalizer_yields:
  "yields (InstanceLab_reconcileFinalizer px k il) (instance_finalizer_run px il)"
  unfolding InstanceLab_reconcileFinalizer_def Let_def
proof (intro ev_intro, goal_cases)
  case 1
  then show ?case by (rule released_before)
next
  case (2 g d1 d2 d3 d4 u)
  then show ?case
    using cleaned[of px il "cleanup_namespace il g" g d1 d2 d3 d4 u] by (cases g) (simp_all add: cleanup_namespace_def split: if_splits)
qed

lemma InstanceLab_Reconcile_yields: "yields (InstanceLab_Reconcile px k req) (InstanceLab_run px req)"
  unfolding InstanceLab_Reconcile_def
  by (intro ev_intro yields_bind[OF instance_finalizer_yields] yields_conseq[OF instance_active_yields])
    (auto intro: InstanceLab_run.intros)

lemmas InstanceLab_events = yields_run[OF InstanceLab_Reconcile_yields]

end
