(* ===== verification/InstanceLabCorrectness.thy ===== *)
theory InstanceLabCorrectness
  imports InstanceLabController ClusterLabCorrectness
begin

text \<open>
  What the reconciler of InstanceLab guarantees, read off the abstract account of its runs
  (InstanceLab_run) or computed from the code, each property with a hypothesis followed by its
  application to a concrete API.
\<close>

section \<open>Concrete runs\<close>

definition ready_ClusterLab :: ClusterLab where
  "ready_ClusterLab = sample_ClusterLab\<lparr>cl_Status := (cl_Status sample_ClusterLab)\<lparr>clt_Phase := ''Running''\<rparr>\<rparr>"

lemma ready_ClusterLab_simps [simp]:
  "clt_Phase (cl_Status ready_ClusterLab) = ''Running''" "om_Name (cl_Meta ready_ClusterLab) = ''demo''"
  "clt_TargetNamespace (cl_Status ready_ClusterLab) = ''''"
  by (simp_all add: ready_ClusterLab_def sample_ClusterLab_def)

lemma sample_InstanceLab_simps [simp]:
  "om_Name (il_Meta sample_InstanceLab) = ''vm''" "om_Namespace (il_Meta sample_InstanceLab) = ''default''"
  "om_DeletionTimestamp (il_Meta sample_InstanceLab) = None"
  "ContainsFinalizer sample_platform (il_Meta sample_InstanceLab) InstanceLabFinalizer"
  "ils_ClusterLabRef (il_Spec sample_InstanceLab) = ''demo''"
  "\<not> Quantity_IsZero sample_platform (isl_Limit (ilr_Storage (ils_Resources (il_Spec sample_InstanceLab))))"
  "ils_Ports (il_Spec sample_InstanceLab) = [\<lparr>ilp_Name = ''web'', ilp_Port = 8000, ilp_TargetPort = 80, ilp_Expose = True\<rparr>,
     \<lparr>ilp_Name = ''ssh'', ilp_Port = 22, ilp_TargetPort = 22, ilp_Expose = False\<rparr>]"
  by (simp_all add: sample_InstanceLab_def new_meta_def sample_platform_def)

text \<open>An API whose pods run at once.\<close>

abbreviation "vm_api \<equiv> (sample_api ready_ClusterLab sample_InstanceLab sample_NotebookLab)
  \<lparr>pods := (fixed_kind sample_Pod)\<lparr>k_create_or_update := \<lambda>_ _ w. (Inr sample_Pod, w)\<rparr>\<rparr>"

abbreviation "vm_key \<equiv> \<lparr>nn_Namespace = ''default'', nn_Name = ''vm''\<rparr>"

lemma sample_Pod_phase: "fst (InstanceLab_phase (Some sample_Pod)) = PhaseRunning"
  "snd (InstanceLab_phase (Some sample_Pod)) \<noteq> None"
  "EqualFold PhaseRunning ''Running''"
  by (simp_all add: InstanceLab_phase_def sample_Pod_def PhaseRunning_def EqualFold_def)

lemmas InstanceLab_code =
  InstanceLab_Reconcile_def InstanceLab_reconcileActive_def InstanceLab_resolveParentClusterLab_def
  InstanceLab_provision_def InstanceLab_reconcileWorkspacePVC_def InstanceLab_reconcileSysboxPod_def
  InstanceLab_reconcileServices_def InstanceLab_reconcileIngress_def InstanceLab_updateInstanceLabStatus_def
  InstanceLab_reconcileFinalizer_def InstanceLab_wait_def InstanceLab_fail_def InstanceLab_updateStatusFailed_def
  SetCondition_def exposed_ports_def

lemma vm_run:
  "\<exists>p f. OnPod (CreateOrUpdate p f (Inr sample_Pod)) \<in>
     set (events_of (InstanceLab_Reconcile sample_platform vm_api vm_key) 0) \<and> om_Namespace (pod_Meta p) = ''lab-demo''"
  "\<exists>x u. OnInstanceLab (StatusUpdate x u) \<in>
     set (events_of (InstanceLab_Reconcile sample_platform vm_api vm_key) 0) \<and> ilt_Phase (il_Status x) = PhaseRunning"
proof -
  obtain st reason msg where c: "snd (InstanceLab_phase (Some sample_Pod)) = Some (st, reason, msg)"
    using sample_Pod_phase(2) by (cases "snd (InstanceLab_phase (Some sample_Pod))") auto
  note run = events_of_def InstanceLab_code Let_def c sample_Pod_phase sample_api_def ClusterLab_targetNamespace_def
      GenerateTargetNamespace_def SanitizeName_short
  show "\<exists>p f. OnPod (CreateOrUpdate p f (Inr sample_Pod)) \<in>
     set (events_of (InstanceLab_Reconcile sample_platform vm_api vm_key) 0) \<and> om_Namespace (pod_Meta p) = ''lab-demo''"
    by (simp add: run) (auto simp: new_Pod_def)
  show "\<exists>x u. OnInstanceLab (StatusUpdate x u) \<in>
     set (events_of (InstanceLab_Reconcile sample_platform vm_api vm_key) 0) \<and> ilt_Phase (il_Status x) = PhaseRunning"
    by (simp add: run)
qed

section \<open>No nil pointer is dereferenced\<close>

lemma endpoints_map:
  "InstanceLab_endpoints (Some pod) (Some s) ing ps eps = Returned (eps @ map (InstanceLab_endpoint pod s ing) ps)"
  by (induction ps arbitrary: eps) simp_all

lemma service_run_None: "service_run il ns evs (Inr svc) \<Longrightarrow> svc = None \<longleftrightarrow> ils_Ports (il_Spec il) = []"
  by (cases svc) (auto elim!: service_run.cases simp: map_sum_def split: sum.splits)

lemma endpoints_returned:
  "service_run il ns evs (Inr svc) \<Longrightarrow> InstanceLab_endpoints (Some pod) svc ing (ils_Ports (il_Spec il)) [] \<noteq> Panicked"
  using service_run_None[of il ns evs svc] by (cases svc) (simp_all add: endpoints_map)

lemma provision_run_no_panic: "instance_provision_run px il cl ns evs r \<Longrightarrow> r \<noteq> Panicked"
  by (auto elim!: instance_provision_run.cases instance_status_run.cases dest: endpoints_returned)

text \<open>
  C23: No run dereferences a nil pointer, although the loop over the ports reads the service and the pod
  without a test: without a port there is no service and no iteration, with one there are both.
\<close>

theorem InstanceLab_never_panics: "result_of (InstanceLab_Reconcile px k req) w \<noteq> Panicked"
  using InstanceLab_events[of px req k w]
  by (auto elim!: InstanceLab_run.cases instance_active_run.cases dest: provision_run_no_panic)

section \<open>What a run writes\<close>

fun workload_target :: "event \<Rightarrow> string option" where
  "workload_target (OnPVC (CreateOrUpdate x _ _)) = Some (om_Namespace (pvc_Meta x))"
| "workload_target (OnPod (CreateOrUpdate x _ _)) = Some (om_Namespace (pod_Meta x))"
| "workload_target (OnService (CreateOrUpdate x _ _)) = Some (om_Namespace (svc_Meta x))"
| "workload_target (OnIngress (CreateOrUpdate x _ _)) = Some (om_Namespace (ing_Meta x))"
| "workload_target _ = None"

fun workload_error :: "event \<Rightarrow> error option" where
  "workload_error (OnPVC (CreateOrUpdate _ _ (Inl e))) = Some e"
| "workload_error (OnPod (CreateOrUpdate _ _ (Inl e))) = Some e"
| "workload_error (OnService (CreateOrUpdate _ _ (Inl e))) = Some e"
| "workload_error (OnIngress (CreateOrUpdate _ _ (Inl e))) = Some e"
| "workload_error _ = None"

lemma nows_write: "set evs \<subseteq> range Now \<Longrightarrow> e \<in> set evs \<Longrightarrow> workload_target e = None \<and> workload_error e = None"
  by auto

lemma step_writes:
  "disk_run px il ns evs d \<Longrightarrow> e \<in> set evs \<Longrightarrow> workload_target e = Some ns"
  "service_run il ns evs s \<Longrightarrow> e \<in> set evs \<Longrightarrow> workload_target e = Some ns"
  "ingress_run px il cl ns svc evs i \<Longrightarrow> e \<in> set evs \<Longrightarrow> workload_target e = Some ns"
  "instance_status_run px il pod svc ing evs r \<Longrightarrow> e \<in> set evs \<Longrightarrow> workload_target e = None"
  by (auto elim!: disk_run.cases service_run.cases ingress_run.cases instance_status_run.cases dest: nows_write
      simp: new_PVC_def new_Service_def new_Ingress_def)

lemma provision_run_targets:
  "instance_provision_run px il cl ns evs r \<Longrightarrow> e \<in> set evs \<Longrightarrow> workload_target e = None \<or> workload_target e = Some ns"
  by (auto elim!: instance_provision_run.cases dest: step_writes simp: new_Pod_def)

lemma parent_run_writes:
  "parent_run px il evs r \<Longrightarrow> e \<in> set evs \<Longrightarrow> workload_target e = None \<and> workload_error e = None"
  by (auto elim!: parent_run.cases)

lemma instance_finalizer_writes:
  "instance_finalizer_run px il evs r \<Longrightarrow> e \<in> set evs \<Longrightarrow> workload_target e = None \<and> workload_error e = None"
  by (auto elim!: instance_finalizer_run.cases)

lemma parent_run_head:
  "parent_run px il evs (Some cl, b, e, il') \<Longrightarrow>
   \<exists>rest. evs = OnClusterLab (Get (parent_key il) (Inr cl)) # rest \<and> b = parent_ready cl"
  by (auto elim!: parent_run.cases)

text \<open>
  C3: A run writes a disk, pod, service or ingress only for an instance that carries the finalizer and is
  not being deleted, after it has read a parent in phase Running or Ready, and only in the target
  namespace of that parent.
\<close>

theorem InstanceLab_children_confined:
  assumes "e \<in> set (events_of (InstanceLab_Reconcile px k req) w)" and "workload_target e = Some ns"
  shows "\<exists>il cl rest. events_of (InstanceLab_Reconcile px k req) w =
       OnInstanceLab (Get req (Inr il)) # OnClusterLab (Get (parent_key il) (Inr cl)) # rest \<and>
     om_DeletionTimestamp (il_Meta il) = None \<and> ContainsFinalizer px (il_Meta il) InstanceLabFinalizer \<and>
     parent_ready cl \<and> ns = ClusterLab_targetNamespace cl"
  using InstanceLab_events[of px req k w]
proof (cases rule: InstanceLab_run.cases)
  case (instance_active il evs)
  from instance_active(4) show ?thesis
  proof (cases rule: instance_active_run.cases)
    case (building evs1 cl il' evs2)
    moreover have "e \<in> set evs2"
      using assms instance_active(1) building(1) parent_run_writes[OF building(2)] by auto
    then have "ns = ClusterLab_targetNamespace cl" using provision_run_targets[OF building(3)] assms(2) by fastforce
    ultimately show ?thesis using instance_active parent_run_head[OF building(2)] by auto
  qed (use assms instance_active parent_run_writes in fastforce)+
next
  case (instance_deleting il evs r)
  then show ?thesis using assms instance_finalizer_writes[OF instance_deleting(4)] by fastforce
qed (use assms in auto)

theorem InstanceLab_children_confined_witness:
  "\<exists>il cl rest. events_of (InstanceLab_Reconcile sample_platform vm_api vm_key) 0 =
     OnInstanceLab (Get vm_key (Inr il)) # OnClusterLab (Get (parent_key il) (Inr cl)) # rest \<and>
     ''lab-demo'' = ClusterLab_targetNamespace cl"
proof -
  obtain p f where p: "OnPod (CreateOrUpdate p f (Inr sample_Pod)) \<in>
     set (events_of (InstanceLab_Reconcile sample_platform vm_api vm_key) 0)" "om_Namespace (pod_Meta p) = ''lab-demo''"
    using vm_run(1) by blast
  show ?thesis using InstanceLab_children_confined[OF p(1), of "''lab-demo''"] p(2) by auto
qed

lemma step_succeeded:
  "disk_run px il ns evs (Inr d) \<Longrightarrow> ev \<in> set evs \<Longrightarrow> workload_error ev = None"
  "service_run il ns evs (Inr s) \<Longrightarrow> ev \<in> set evs \<Longrightarrow> workload_error ev = None"
  "ingress_run px il cl ns svc evs (Inr i) \<Longrightarrow> ev \<in> set evs \<Longrightarrow> workload_error ev = None"
  "instance_status_run px il pod svc ing evs r \<Longrightarrow> ev \<in> set evs \<Longrightarrow> workload_error ev = None"
  by (auto elim!: disk_run.cases service_run.cases ingress_run.cases instance_status_run.cases dest: nows_write
      split: sum.splits simp: map_sum_def)

lemma step_failed:
  "disk_run px il ns evs (Inl e) \<Longrightarrow> \<exists>ev. evs = [ev] \<and> workload_error ev = Some e"
  "service_run il ns evs (Inl e) \<Longrightarrow> \<exists>ev. evs = [ev] \<and> workload_error ev = Some e"
  "ingress_run px il cl ns svc evs (Inl e) \<Longrightarrow> \<exists>ev. evs = [ev] \<and> workload_error ev = Some e"
  by (auto elim!: disk_run.cases service_run.cases ingress_run.cases split: sum.splits simp: map_sum_def)

lemma provision_run_failed:
  assumes "instance_provision_run px il cl ns evs r" and "ev \<in> set evs" and "workload_error ev = Some e"
  shows "\<exists>pre t reason u. evs = pre @ ev # mark_instance px t reason e il u \<and> r = Returned (no_result, Some e)"
  using assms(1)
proof (cases rule: instance_provision_run.cases)
  case (disk_failed d e' t u)
  then show ?thesis using step_failed(1)[OF disk_failed(3)] assms(2,3) by auto
next
  case (pod_failed d pvc e' t u)
  then show ?thesis using step_succeeded(1)[OF pod_failed(3)] assms(2,3) by auto
next
  case (service_failed d pvc s e' pod t u)
  then show ?thesis using step_succeeded(1)[OF service_failed(3)] step_failed(2)[OF service_failed(4)] assms(2,3)
    by (auto 4 3)
next
  case (ingress_failed d pvc s svc i e' pod t u)
  then obtain ev' where "i = [ev']" "workload_error ev' = Some e'" using step_failed(3) by blast
  moreover have "ev \<notin> set d" "ev \<notin> set s"
    using step_succeeded(1)[OF ingress_failed(3)] step_succeeded(2)[OF ingress_failed(4)] assms(3) by auto
  ultimately show ?thesis using ingress_failed(1,2) assms(2,3)
    by (auto intro!: exI[of _ "d @ ensure_pod px il ns pvc (Inr pod) # s"])
qed (use assms(2,3) step_succeeded in fastforce)+

lemma failed_instance_facts:
  assumes "condition_laws px"
  shows "ilt_Phase (il_Status (failed_instance px t reason e il)) = PhaseFailed \<and>
    (\<exists>c. find_condition (ilt_Conditions (il_Status (failed_instance px t reason e il))) ''Ready'' = Some c \<and>
     c_Status c = ConditionFalse \<and> c_Message c = Error_text px e)"
proof -
  let ?c = "\<lparr>c_Type = ''Ready'', c_Status = ConditionFalse, c_Reason = reason,
        c_Message = Error_text px e, c_LastTransitionTime = t\<rparr>"
  have "\<exists>t. find_condition (SetStatusCondition px cs ?c) (c_Type ?c) = Some (?c\<lparr>c_LastTransitionTime := t\<rparr>)" for cs
    using assms unfolding condition_laws_def by blast
  then show ?thesis by (fastforce simp: failed_instance_def set_ilt_def)
qed

text \<open>
  C8: When writing a child fails, no later child is attempted: the phase Failed is published with the
  condition Ready false and the text of the error, and the error is returned.
\<close>

theorem InstanceLab_failure_reported:
  assumes laws: "condition_laws px"
    and ev: "ev \<in> set (events_of (InstanceLab_Reconcile px k req) w)" "workload_error ev = Some e"
  shows "result_of (InstanceLab_Reconcile px k req) w = Returned (no_result, Some e) \<and>
     (\<exists>before t x u c. events_of (InstanceLab_Reconcile px k req) w =
        before @ [ev, Now t, OnInstanceLab (StatusUpdate x u)] \<and>
        ilt_Phase (il_Status x) = PhaseFailed \<and>
        find_condition (ilt_Conditions (il_Status x)) ''Ready'' = Some c \<and>
        c_Status c = ConditionFalse \<and> c_Message c = Error_text px e)"
  using InstanceLab_events[of px req k w]
proof (cases rule: InstanceLab_run.cases)
  case (instance_active il evs)
  from instance_active(4) show ?thesis
  proof (cases rule: instance_active_run.cases)
    case (building evs1 cl il' evs2)
    then have "ev \<in> set evs2"
      using ev instance_active(1) parent_run_writes[OF building(2)] by auto
    from provision_run_failed[OF building(3) this ev(2)] obtain pre t reason u where
      "evs2 = pre @ ev # mark_instance px t reason e il' u"
      "result_of (InstanceLab_Reconcile px k req) w = Returned (no_result, Some e)" by blast
    then show ?thesis using instance_active(1) building(1) failed_instance_facts[OF laws, of t reason e il']
      by (metis append_Cons append_assoc)
  qed (use ev instance_active parent_run_writes in fastforce)+
next
  case (instance_deleting il evs r)
  then show ?thesis using ev instance_finalizer_writes[OF instance_deleting(4)] by fastforce
qed (use ev in auto)

abbreviation "podless_api \<equiv> vm_api\<lparr>pods := fails_with (ApiError ''quota'')\<rparr>"

theorem InstanceLab_failure_reported_witness:
  "result_of (InstanceLab_Reconcile sample_platform podless_api vm_key) 0 = Returned (no_result, Some (ApiError ''quota''))"
proof -
  have "\<exists>p f. OnPod (CreateOrUpdate p f (Inl (ApiError ''quota''))) \<in>
     set (events_of (InstanceLab_Reconcile sample_platform podless_api vm_key) 0)"
    by (simp add: events_of_def InstanceLab_code Let_def sample_api_def)
  then show ?thesis using InstanceLab_failure_reported[OF sample_conditions] by fastforce
qed

section \<open>Deletion\<close>

text \<open>The run that removes the finalizer.\<close>

lemma released_run:
  assumes laws: "finalizer_laws px"
    and u: "OnInstanceLab (Update x r) \<in> set (events_of (InstanceLab_Reconcile px k req) w)"
    and rel: "\<not> ContainsFinalizer px (il_Meta x) InstanceLabFinalizer"
    and owner: "owner_laws px"
  shows "\<exists>il g ns d1 d2 d3 d4. events_of (InstanceLab_Reconcile px k req) w =
      [OnInstanceLab (Get req (Inr il)), OnClusterLab (Get (parent_key il) g),
       OnIngress (DeleteAllOf ns (own_children il) d1), OnService (DeleteAllOf ns (own_children il) d2),
       OnPod (DeleteAllOf ns (own_children il) d3), OnPVC (DeleteAllOf ns (own_children il) d4),
       OnInstanceLab (Update x r)] \<and>
     ns = cleanup_namespace il g \<and> om_DeletionTimestamp (il_Meta il) \<noteq> None \<and>
     result_of (InstanceLab_Reconcile px k req) w = Returned (no_result, err_of r)"
proof -
  have keep: "SetControllerReference px ''ClusterLab'' cm m = Inr m' \<Longrightarrow>
      ContainsFinalizer px m' InstanceLabFinalizer = ContainsFinalizer px m InstanceLabFinalizer" for cm m m'
    using owner unfolding owner_laws_def by blast
  have prov: "OnInstanceLab (Update x r) \<notin> set evs" if "instance_provision_run px il cl ns evs s" for il cl ns evs s
    using that by (auto elim!: instance_provision_run.cases disk_run.cases service_run.cases ingress_run.cases
      instance_status_run.cases)
  show ?thesis
    using InstanceLab_events[of px req k w]
  proof (cases rule: InstanceLab_run.cases)
    case (instance_active il evs)
    from instance_active(4) show ?thesis
      using u rel instance_active(1,3) prov
      by (auto elim!: instance_active_run.cases parent_run.cases dest: keep)
  next
    case (instance_deleting il evs s)
    then show ?thesis using u rel by (auto elim!: instance_finalizer_run.cases)
  qed (use u rel laws in \<open>auto simp: finalizer_laws_def\<close>)
qed

text \<open>
  C13: The finalizer of an instance is removed only in a run that has first asked for the deletion of its
  ingresses, services, pods and disks, in that order and by its own label. What those four calls
  answer plays no part: the finalizer goes and the run succeeds even when all of them fail.
\<close>

theorem InstanceLab_cleanup:
  assumes laws: "finalizer_laws px"
    and u: "OnInstanceLab (Update x r) \<in> set (events_of (InstanceLab_Reconcile px k req) w)"
    and rel: "\<not> ContainsFinalizer px (il_Meta x) InstanceLabFinalizer"
    and owner: "owner_laws px"
  shows "\<exists>il g ns d1 d2 d3 d4. events_of (InstanceLab_Reconcile px k req) w =
      [OnInstanceLab (Get req (Inr il)), OnClusterLab (Get (parent_key il) g),
       OnIngress (DeleteAllOf ns (own_children il) d1), OnService (DeleteAllOf ns (own_children il) d2),
       OnPod (DeleteAllOf ns (own_children il) d3), OnPVC (DeleteAllOf ns (own_children il) d4),
       OnInstanceLab (Update x r)] \<and>
     ns = cleanup_namespace il g \<and> om_DeletionTimestamp (il_Meta il) \<noteq> None \<and>
     result_of (InstanceLab_Reconcile px k req) w = Returned (no_result, err_of r)"
  by (rule released_run[OF assms])

definition deleted_InstanceLab :: InstanceLab where
  "deleted_InstanceLab = sample_InstanceLab\<lparr>il_Meta := (il_Meta sample_InstanceLab)\<lparr>om_DeletionTimestamp := Some 1\<rparr>\<rparr>"

lemma deleted_InstanceLab_simps [simp]:
  "om_DeletionTimestamp (il_Meta deleted_InstanceLab) = Some 1"
  "ContainsFinalizer sample_platform (il_Meta deleted_InstanceLab) InstanceLabFinalizer"
  by (simp_all add: deleted_InstanceLab_def sample_InstanceLab_def new_meta_def sample_platform_def)

text \<open>An API that refuses every deletion of a child.\<close>

abbreviation "leaky_api \<equiv> (sample_api ready_ClusterLab deleted_InstanceLab sample_NotebookLab)
  \<lparr>ingresses := fails_with (ApiError ''forbidden''), services := fails_with (ApiError ''forbidden''),
   pods := fails_with (ApiError ''forbidden''), pvcs := fails_with (ApiError ''forbidden'')\<rparr>"

theorem InstanceLab_cleanup_witness:
  "result_of (InstanceLab_Reconcile sample_platform leaky_api vm_key) 0 = Returned (no_result, None) \<and>
   (\<exists>ns ls. OnPod (DeleteAllOf ns ls (Some (ApiError ''forbidden''))) \<in>
     set (events_of (InstanceLab_Reconcile sample_platform leaky_api vm_key) 0))"
proof -
  let ?x = "deleted_InstanceLab\<lparr>il_Meta := RemoveFinalizer sample_platform (il_Meta deleted_InstanceLab) InstanceLabFinalizer\<rparr>"
  have u: "OnInstanceLab (Update ?x (Inr ?x)) \<in>
      set (events_of (InstanceLab_Reconcile sample_platform leaky_api vm_key) 0)"
    by (simp add: events_of_def InstanceLab_code Let_def)
  have rel: "\<not> ContainsFinalizer sample_platform (il_Meta ?x) InstanceLabFinalizer"
    using sample_finalizers by (simp add: finalizer_laws_def)
  have "\<exists>ns ls. OnPod (DeleteAllOf ns ls (Some (ApiError ''forbidden''))) \<in>
     set (events_of (InstanceLab_Reconcile sample_platform leaky_api vm_key) 0)"
    by (simp add: events_of_def InstanceLab_code Let_def)
  then show ?thesis
    using InstanceLab_cleanup[OF sample_finalizers u rel sample_owners] by auto
qed

section \<open>Waiting for the parent\<close>

text \<open>
  C22: A run asks to be repeated only to wait for its parent: after 5 seconds, when the parent is missing
  or not ready, with the phase Pending published and no child written.
\<close>

theorem InstanceLab_waits:
  assumes "result_of (InstanceLab_Reconcile px k req) w = Returned (x, e)" and "x \<noteq> no_result"
  shows "x = wait_for_parent \<and> e = None \<and>
     (\<exists>il g rest t y u. events_of (InstanceLab_Reconcile px k req) w =
        OnInstanceLab (Get req (Inr il)) # OnClusterLab (Get (parent_key il) g) # rest @ [Now t, OnInstanceLab (StatusUpdate y u)] \<and>
        (case g of Inl err \<Rightarrow> IsNotFound err | Inr cl \<Rightarrow> \<not> parent_ready cl) \<and>
        ilt_Phase (il_Status y) = ''Pending'' \<and> list_all (\<lambda>ev. workload_target ev = None) rest)"
proof -
  have prov: "x = no_result" if "instance_provision_run px il cl ns evs (Returned (x, e))" for il cl ns evs
    using that by (auto elim!: instance_provision_run.cases)
  have parent: "\<exists>g rest. evs = OnClusterLab (Get (parent_key il) g) # rest \<and>
      (case g of Inl err \<Rightarrow> IsNotFound err | Inr cl \<Rightarrow> \<not> parent_ready cl) \<and>
      list_all (\<lambda>ev. workload_target ev = None) rest"
    if "parent_run px il evs (c, False, None, il')" for il evs c il'
    using that by (auto elim!: parent_run.cases)
  show ?thesis
    using InstanceLab_events[of px req k w] unfolding assms(1)
  proof (cases rule: InstanceLab_run.cases)
    case (instance_active il evs)
    from instance_active(4) show ?thesis
    proof (cases rule: instance_active_run.cases)
      case (waiting evs1 c il' t u)
      then show ?thesis using parent[OF waiting(4)] instance_active(1)
        by (fastforce simp: pending_instance_def set_ilt_def)
    next
      case (building evs1 cl il' evs2)
      then show ?thesis using prov assms(2) by blast
    qed (use assms(2) in auto)
  qed (use assms(2) in \<open>auto elim!: instance_finalizer_run.cases\<close>)
qed

abbreviation "early_api \<equiv> sample_api sample_ClusterLab sample_InstanceLab sample_NotebookLab"

theorem InstanceLab_waits_witness:
  "\<exists>il g rest t y u. events_of (InstanceLab_Reconcile sample_platform early_api vm_key) 0 =
     OnInstanceLab (Get vm_key (Inr il)) # OnClusterLab (Get (parent_key il) g) # rest @ [Now t, OnInstanceLab (StatusUpdate y u)]"
proof -
  have "clt_Phase (cl_Status sample_ClusterLab) = ''''" by (simp add: sample_ClusterLab_def)
  then have r: "result_of (InstanceLab_Reconcile sample_platform early_api vm_key) 0 = Returned (wait_for_parent, None)"
    by (simp add: result_of_def InstanceLab_code Let_def EqualFold_def)
  have "wait_for_parent \<noteq> no_result" by (simp add: wait_for_parent_def no_result_def Second_def)
  from InstanceLab_waits[OF r this] show ?thesis by blast
qed

section \<open>The published status\<close>

lemma published_ready:
  assumes "condition_laws px" and "published px il pod eps x"
  shows "condition_true (ilt_Conditions (il_Status x)) ''Ready'' = (pod_Phase pod = ''Running'')"
proof -
  obtain cs t where "ilt_Conditions (il_Status x) = SetStatusCondition px cs (ready_condition (pod_Phase pod = ''Running'') t)"
    using assms(2) unfolding published_def by blast
  moreover have "c_Type (ready_condition b t) = ''Ready''" for b
    by (simp add: ready_condition_def)
  then have "\<exists>t'. find_condition (SetStatusCondition px cs (ready_condition (pod_Phase pod = ''Running'') t)) ''Ready'' =
      Some ((ready_condition (pod_Phase pod = ''Running'') t)\<lparr>c_LastTransitionTime := t'\<rparr>)"
    using assms(1) unfolding condition_laws_def by metis
  ultimately show ?thesis
    by (auto simp: condition_true_def ready_condition_def)
qed

lemma phase_running: "fst (InstanceLab_phase (Some pod)) = PhaseRunning \<longleftrightarrow> pod_Phase pod = ''Running''"
  by (simp add: InstanceLab_phase_def PhaseRunning_def PhaseCreating_def PhaseFailed_def)

lemma provision_run_running:
  assumes "instance_provision_run px il cl ns evs r" and "OnInstanceLab (StatusUpdate x u) \<in> set evs"
    and "ilt_Phase (il_Status x) = PhaseRunning"
  shows "\<exists>pvc pod svc ing eps. ensure_pod px il ns pvc (Inr pod) \<in> set evs \<and>
     InstanceLab_endpoints (Some pod) svc ing (ils_Ports (il_Spec il)) [] = Returned eps \<and> published px il pod eps x"
proof -
  have neq: "PhaseFailed \<noteq> PhaseRunning" by (simp add: PhaseFailed_def PhaseRunning_def)
  have pre: "OnInstanceLab (StatusUpdate x u) \<notin> set d" if "disk_run px il ns d v" for d v
    using that by (auto elim!: disk_run.cases)
  have pre2: "OnInstanceLab (StatusUpdate x u) \<notin> set s" if "service_run il ns s v" for s v
    using that by (auto elim!: service_run.cases)
  have pre3: "OnInstanceLab (StatusUpdate x u) \<notin> set i" if "ingress_run px il cl ns svc i v" for svc i v
    using that by (auto elim!: ingress_run.cases)
  have failed: "ilt_Phase (il_Status (failed_instance px t reason e il)) \<noteq> PhaseRunning" for t reason e
    by (simp add: failed_instance_def set_ilt_def neq)
  from assms(1) show ?thesis
  proof (cases rule: instance_provision_run.cases)
    case (built d pvc s svc i ing pod st err)
    then have st: "OnInstanceLab (StatusUpdate x u) \<in> set st"
      using assms(2) pre[OF built(3)] pre2[OF built(4)] pre3[OF built(5)] by auto
    from built(6) obtain eps where
      "InstanceLab_endpoints (Some pod) svc ing (ils_Ports (il_Spec il)) [] = Returned eps" "published px il pod eps x"
      using st by (auto elim!: instance_status_run.cases)
    moreover have "ensure_pod px il ns pvc (Inr pod) \<in> set evs" using built(1) by simp
    ultimately show ?thesis by blast
  next
    case (panic d pvc s svc i ing pod st)
    then show ?thesis using assms(2) pre pre2 pre3 by (auto elim!: instance_status_run.cases)
  qed (use assms(2,3) failed pre pre2 pre3 in auto)
qed

lemma endpoints_names:
  "InstanceLab_endpoints (Some pod) svc ing ps [] = Returned eps \<Longrightarrow> map iae_Name eps = map ilp_Name ps"
  by (cases svc; cases ps) (auto simp: endpoints_map InstanceLab_endpoint_def Let_def split: option.splits)

text \<open>
  C11: The phase Running is published only in a run that was handed back a pod in phase Running; the
  published name and address are that pod's, there is one endpoint per port in order, and the
  condition Ready is true.
\<close>

theorem InstanceLab_running_truthful:
  assumes laws: "condition_laws px"
    and s: "OnInstanceLab (StatusUpdate x u) \<in> set (events_of (InstanceLab_Reconcile px k req) w)"
    and run: "ilt_Phase (il_Status x) = PhaseRunning"
  shows "\<exists>p f pod. OnPod (CreateOrUpdate p f (Inr pod)) \<in> set (events_of (InstanceLab_Reconcile px k req) w) \<and>
     pod_Phase pod = ''Running'' \<and> ilt_PodName (il_Status x) = om_Name (pod_Meta pod) \<and>
     ilt_PodIP (il_Status x) = pod_PodIP pod \<and>
     map iae_Name (ilt_AccessEndpoints (il_Status x)) = map ilp_Name (ils_Ports (il_Spec x)) \<and>
     condition_true (ilt_Conditions (il_Status x)) ''Ready''"
  using InstanceLab_events[of px req k w]
proof (cases rule: InstanceLab_run.cases)
  case (instance_active il evs)
  from instance_active(4) show ?thesis
  proof (cases rule: instance_active_run.cases)
    case (building evs1 cl il' evs2)
    have "OnInstanceLab (StatusUpdate x u) \<notin> set evs1" using building(2) by (auto elim!: parent_run.cases)
    then have "OnInstanceLab (StatusUpdate x u) \<in> set evs2" using s instance_active(1) building(1) by auto
    from provision_run_running[OF building(3) this run] obtain pvc pod svc ing eps where
      p: "ensure_pod px il' (ClusterLab_targetNamespace cl) pvc (Inr pod) \<in> set evs2"
        "InstanceLab_endpoints (Some pod) svc ing (ils_Ports (il_Spec il')) [] = Returned eps"
        "published px il' pod eps x" by blast
    then have "pod_Phase pod = ''Running''" using run phase_running[of pod] unfolding published_def by metis
    then show ?thesis
      using p instance_active(1) building(1) published_ready[OF laws p(3)] endpoints_names[OF p(2)]
      by (auto simp: published_def)
  next
    case (parent_error c b e il')
    then show ?thesis using s instance_active(1) by (auto elim!: parent_run.cases)
  next
    case (waiting evs1 c il' t u')
    then show ?thesis using s run instance_active(1)
      by (auto elim!: parent_run.cases simp: pending_instance_def set_ilt_def PhaseRunning_def)
  qed
next
  case (instance_deleting il evs r)
  then show ?thesis using s by (auto elim!: instance_finalizer_run.cases)
qed (use s in auto)

theorem InstanceLab_running_truthful_witness:
  "\<exists>x u. OnInstanceLab (StatusUpdate x u) \<in> set (events_of (InstanceLab_Reconcile sample_platform vm_api vm_key) 0) \<and>
     ilt_Phase (il_Status x) = PhaseRunning \<and> condition_true (ilt_Conditions (il_Status x)) ''Ready''"
proof -
  obtain x u where x: "OnInstanceLab (StatusUpdate x u) \<in>
     set (events_of (InstanceLab_Reconcile sample_platform vm_api vm_key) 0)" "ilt_Phase (il_Status x) = PhaseRunning"
    using vm_run(2) by blast
  show ?thesis using InstanceLab_running_truthful[OF sample_conditions x] x by blast
qed

section \<open>The children\<close>

text \<open>
  The functions handed to CreateOrUpdate for the disk, the pod, the service and the ingress are
  idempotent: applying them again and again changes nothing after the first time.
\<close>

theorem InstanceLab_children_converge:
  "(InstanceLab_pvc_mutate il ^^ Suc n) c = InstanceLab_pvc_mutate il c \<and>
   (InstanceLab_pod_mutate px il pvc name ^^ Suc n) pod = InstanceLab_pod_mutate px il pvc name pod \<and>
   (InstanceLab_service_mutate il name ^^ Suc n) svc = InstanceLab_service_mutate il name svc \<and>
   (InstanceLab_ingress_mutate px il clname name ^^ Suc n) ing = InstanceLab_ingress_mutate px il clname name ing"
  by (intro conjI) (rule il_pvc.iterate il_pod.iterate il_service.iterate il_ingress.iterate)+

text \<open>
  The selector of the service matches the labels of the pod, and the target ports of the service are,
  name by name and in order, the container ports of a newly created pod.
\<close>

theorem InstanceLab_service_reaches_pod:
  "svc_Selector (InstanceLab_service_mutate il name svc) \<subseteq>\<^sub>m om_Labels (pod_Meta (InstanceLab_pod_mutate px il pvc name pod)) \<and>
   map (\<lambda>s. (sp_Name s, sp_TargetPort s)) (svc_Ports (InstanceLab_service_mutate il name svc)) =
     concat (map (\<lambda>c. map (\<lambda>p. (cp_Name p, cp_ContainerPort p)) (ct_Ports c))
       (ps_Containers (pod_Spec (InstanceLab_pod_mutate px il pvc name (new_Pod ns name)))))"
  by (simp add: map_le_def InstanceLab_service_mutate_def InstanceLab_pod_mutate_def Let_def new_Pod_def Time_IsZero_def
    InstanceLab_container_def InstanceLab_container_ports_def)

lemma lxcfs_distinct: "distinct (map fst lxcfsMounts)" "distinct (map snd lxcfsMounts)"
  by (simp_all add: lxcfsMounts_def)

lemma range_distinct:
  assumes "range_laws px" and "distinct (map f xs)"
  shows "distinct (map f (range_order px xs))"
proof -
  have r: "set (range_order px xs) = set xs" "length (range_order px xs) = length xs"
    using assms(1) by (simp_all add: range_laws_def)
  have "card (set (map f (range_order px xs))) = card (set (map f xs))" using r(1) by simp
  also have "\<dots> = length (map f (range_order px xs))" using distinct_card[OF assms(2)] r(2) by simp
  finally show ?thesis by (rule card_distinct)
qed

text \<open>
  C36: Whatever the order of the range loop over the lxcfs map: each mount of the pod has its volume and
  each volume its mount, no volume name and no mount path is used twice, and /workspace is mounted
  exactly when there is a disk.
\<close>

theorem InstanceLab_mounts_backed:
  assumes "range_laws px"
  shows "map vm_Name (InstanceLab_pod_mounts px pvc) = map v_Name (InstanceLab_pod_volumes px pvc) \<and>
     distinct (map v_Name (InstanceLab_pod_volumes px pvc)) \<and>
     distinct (map vm_MountPath (InstanceLab_pod_mounts px pvc)) \<and>
     (''/workspace'' \<in> set (map vm_MountPath (InstanceLab_pod_mounts px pvc))) = (pvc \<noteq> None)"
proof -
  have s: "set (range_order px lxcfsMounts) = set lxcfsMounts" using assms by (simp add: range_laws_def)
  note d = range_distinct[OF assms lxcfs_distinct(1)] range_distinct[OF assms lxcfs_distinct(2)]
  have names: "fst ` set lxcfsMounts \<inter> {''mqueue-bypass'', ''workspace-volume''} = {}"
    and paths: "snd ` set lxcfsMounts \<inter> {''/dev/mqueue'', ''/workspace''} = {}"
    by (simp_all add: lxcfsMounts_def)
  show ?thesis
    using d names paths
    by (cases pvc) (auto simp: InstanceLab_pod_mounts_def InstanceLab_pod_volumes_def plain_mount_def lxcfs_volume_def
      comp_def s simp flip: image_image)
qed

theorem InstanceLab_mounts_backed_witness:
  "distinct (map vm_MountPath (InstanceLab_pod_mounts sample_platform (Some (new_PVC ''lab-demo'' ''vm-workspace''))))"
  using InstanceLab_mounts_backed[OF sample_ranges] by blast

text \<open>The pod as the API server stores it: with its creation time.\<close>

definition created :: "Time \<Rightarrow> Pod \<Rightarrow> Pod" where
  "created t pod = pod\<lparr>pod_Meta := (pod_Meta pod)\<lparr>om_CreationTimestamp := t\<rparr>\<rparr>"

text \<open>
  A pod that exists is left as it was created, whatever else changes in the spec of the instance (image,
  ports, resources, disk), as long as the host name and the pull secrets stay the same.
\<close>

theorem InstanceLab_pod_immutable:
  assumes "t \<noteq> 0" and "ils_Hostname (il_Spec il') = ils_Hostname (il_Spec il)"
    and "ils_ImagePullSecrets (il_Spec il') = ils_ImagePullSecrets (il_Spec il)"
  shows "pod_Spec (InstanceLab_pod_mutate px' il' pvc' name (created t (InstanceLab_pod_mutate px il pvc name (new_Pod ns name)))) =
     pod_Spec (InstanceLab_pod_mutate px il pvc name (new_Pod ns name))"
  using assms by (simp add: InstanceLab_pod_mutate_def Let_def created_def new_Pod_def Time_IsZero_def new_PodSpec_def)

theorem InstanceLab_pod_immutable_witness:
  "pod_Spec (InstanceLab_pod_mutate sample_platform
      (sample_InstanceLab\<lparr>il_Spec := (il_Spec sample_InstanceLab)\<lparr>ils_Image := ''other''\<rparr>\<rparr>) None ''vm-sysbox''
      (created 5 (InstanceLab_pod_mutate sample_platform sample_InstanceLab None ''vm-sysbox'' (new_Pod ''lab-demo'' ''vm-sysbox'')))) =
   pod_Spec (InstanceLab_pod_mutate sample_platform sample_InstanceLab None ''vm-sysbox'' (new_Pod ''lab-demo'' ''vm-sysbox''))"
  by (rule InstanceLab_pod_immutable) simp_all

text \<open>
  Of several exposed ports the ingress routes only the first, yet the status advertises the same HTTPS
  URL for every one of them.
\<close>

theorem InstanceLab_first_port_only:
  assumes "exposed_ports il = p # q # ps"
  shows "let ing = InstanceLab_ingress_mutate px il clname (om_Name (svc_Meta svc)) old;
             host = GenerateIngressHost px (om_Name (il_Meta il)) clname ''''
     in ing_Rules ing = [\<lparr>ir_Host = host, ir_Paths =
          [\<lparr>hp_Path = ''/'', hp_PathType = ''Prefix'', hp_ServiceName = om_Name (svc_Meta svc), hp_ServicePort = ilp_Port p\<rparr>]\<rparr>] \<and>
        iae_URL (InstanceLab_endpoint pod svc (Some ing) q) = ''https://'' @ host \<and>
        iae_URL (InstanceLab_endpoint pod svc (Some ing) p) = ''https://'' @ host"
proof -
  have "ilp_Expose p" "ilp_Expose q"
    using assms unfolding exposed_ports_def by (metis filter_eq_Cons_iff, metis filter_eq_Cons_iff)
  then show ?thesis using assms
    by (simp add: InstanceLab_ingress_mutate_def InstanceLab_http_paths_def InstanceLab_endpoint_def Let_def)
qed

definition two_port_InstanceLab :: InstanceLab where
  "two_port_InstanceLab = sample_InstanceLab\<lparr>il_Spec := (il_Spec sample_InstanceLab)\<lparr>ils_Ports :=
     [\<lparr>ilp_Name = ''web'', ilp_Port = 80, ilp_TargetPort = 80, ilp_Expose = True\<rparr>,
      \<lparr>ilp_Name = ''ide'', ilp_Port = 8443, ilp_TargetPort = 8443, ilp_Expose = True\<rparr>]\<rparr>\<rparr>"

theorem InstanceLab_first_port_only_witness:
  "ing_Rules (InstanceLab_ingress_mutate sample_platform two_port_InstanceLab ''demo'' ''vm-svc'' (new_Ingress ''lab-demo'' ''i'')) =
     [\<lparr>ir_Host = GenerateIngressHost sample_platform ''vm'' ''demo'' '''', ir_Paths =
        [\<lparr>hp_Path = ''/'', hp_PathType = ''Prefix'', hp_ServiceName = ''vm-svc'', hp_ServicePort = 80\<rparr>]\<rparr>]"
proof -
  have "exposed_ports two_port_InstanceLab = [\<lparr>ilp_Name = ''web'', ilp_Port = 80, ilp_TargetPort = 80, ilp_Expose = True\<rparr>,
      \<lparr>ilp_Name = ''ide'', ilp_Port = 8443, ilp_TargetPort = 8443, ilp_Expose = True\<rparr>]"
    by (simp add: exposed_ports_def two_port_InstanceLab_def)
  moreover have "om_Name (il_Meta two_port_InstanceLab) = ''vm''"
    by (simp add: two_port_InstanceLab_def)
  ultimately show ?thesis
    using InstanceLab_first_port_only[of two_port_InstanceLab _ _ _ sample_platform "''demo''"
      "new_Service ''lab-demo'' ''vm-svc''" "new_Ingress ''lab-demo'' ''i''" sample_Pod]
    by (simp add: Let_def new_Service_def)
qed

end
