(* ===== verification/NotebookLabController.thy ===== *)
theory NotebookLabController
  imports InstanceLabController
begin

text \<open>
  internal/controller/notebooklab_controller.go: the reconciler of NotebookLab. A notebook has a
  lifecycle (purge after inactivity, pause when idle or too old), a workspace claim, a secret with
  the token, a deployment, a service and an ingress, all in its own namespace and owned by it.
\<close>

definition appLabelKey :: string where "appLabelKey = ''app''"

definition set_nbt :: "(NotebookLabStatus \<Rightarrow> NotebookLabStatus) \<Rightarrow> NotebookLab \<Rightarrow> NotebookLab" where
  "set_nbt f nb = nb\<lparr>nb_Status := f (nb_Status nb)\<rparr>"

lemma set_nbt_simps [simp]:
  "nb_Meta (set_nbt f nb) = nb_Meta nb" "nb_Spec (set_nbt f nb) = nb_Spec nb"
  "nb_Status (set_nbt f nb) = f (nb_Status nb)"
  by (simp_all add: set_nbt_def)

definition nb_Name :: "NotebookLab \<Rightarrow> string" where "nb_Name nb = om_Name (nb_Meta nb)"
definition nb_Namespace :: "NotebookLab \<Rightarrow> string" where "nb_Namespace nb = om_Namespace (nb_Meta nb)"

definition nb_child :: "NotebookLab \<Rightarrow> string \<Rightarrow> NamespacedName" where
  "nb_child nb n = \<lparr>nn_Namespace = nb_Namespace nb, nn_Name = n\<rparr>"

definition nb_child_meta :: "NotebookLab \<Rightarrow> string \<Rightarrow> ObjectMeta" where
  "nb_child_meta nb n = (new_meta (nb_Namespace nb) n)\<lparr>om_Labels := om_Labels (nb_Meta nb)\<rparr>"

section \<open>Lifecycle\<close>

definition lastActive :: "NotebookLab \<Rightarrow> Time" where
  "lastActive nb = (case nbt_LastActiveTime (nb_Status nb) of
     None \<Rightarrow> om_CreationTimestamp (nb_Meta nb) | Some t \<Rightarrow> t)"

definition time_since :: "'w api \<Rightarrow> Time \<Rightarrow> ('w, Duration) io" where
  "time_since k t = do { now \<leftarrow> time_now k; ret (Time_Sub now t) }"

definition maxInactiveDuration :: "LifecycleSpec \<Rightarrow> Duration" where
  "maxInactiveDuration lc = Duration_of_int32 (lc_PurgeAfterInactiveDays lc) * 24 * Hour"

definition maxIdleDuration :: "LifecycleSpec \<Rightarrow> Duration" where
  "maxIdleDuration lc = Duration_of_int32 (lc_IdleTimeoutMinutes lc) * Minute"

definition maxLifespanDuration :: "LifecycleSpec \<Rightarrow> Duration" where
  "maxLifespanDuration lc = Duration_of_int32 (lc_MaxLifespanHours lc) * Hour"

text \<open>Part 1: the purge. It returns whether the notebook was purged, the requeue time and an error.\<close>

definition NotebookLab_purge :: "'w api \<Rightarrow> NotebookLab \<Rightarrow> LifecycleSpec
    \<Rightarrow> ('w, bool \<times> Duration \<times> error option) io" where
  "NotebookLab_purge k nb lc =
     (if sint (lc_PurgeAfterInactiveDays lc) > 0 then do {
        inactiveDuration \<leftarrow> time_since k (lastActive nb);
        (if sint inactiveDuration \<ge> sint (maxInactiveDuration lc) then do {
           g \<leftarrow> api_get (pvcs k) OnPVC (nb_child nb (nb_Name nb @ ''-workspace''));
           _ \<leftarrow> (case g of Inl _ \<Rightarrow> ret () | Inr pvc \<Rightarrow> do { _ \<leftarrow> api_delete (pvcs k) OnPVC pvc; ret () });
           d \<leftarrow> api_delete (notebooklabs k) OnNotebookLab nb;
           (case d of Some e \<Rightarrow> ret (False, 0, Some e) | None \<Rightarrow> ret (True, 0, None))
         }
         else ret (False, maxInactiveDuration lc - inactiveDuration, None))
      }
      else ret (False, 0, None))"

text \<open>
  Parts 2 and 3 have one shape: a pause when the elapsed time has reached its bound, and otherwise
  a requeue time. A successful Patch overwrites the notebook with the response.
\<close>

definition pause_notebook :: "'w api \<Rightarrow> NotebookLab \<Rightarrow> ('w, error option \<times> NotebookLab) io" where
  "pause_notebook k nb = do {
     let nb' = nb\<lparr>nb_Spec := (nb_Spec nb)\<lparr>nbs_Replicas := Some 0\<rparr>\<rparr>;
     u \<leftarrow> api_patch (notebooklabs k) OnNotebookLab nb nb';
     (case u of Inl e \<Rightarrow> ret (Some e, nb') | Inr r \<Rightarrow> ret (None, r))
   }"

definition earlier :: "Duration \<Rightarrow> Duration \<Rightarrow> Duration" where
  "earlier requeueAfter remaining =
     (if requeueAfter = 0 \<or> sint remaining < sint requeueAfter then remaining else requeueAfter)"

definition NotebookLab_pause_after :: "'w api \<Rightarrow> NotebookLab \<Rightarrow> int32 \<Rightarrow> Time \<Rightarrow> Duration \<Rightarrow> Duration
    \<Rightarrow> ('w, error option \<times> Duration \<times> NotebookLab) io" where
  "NotebookLab_pause_after k nb setting start bound requeueAfter =
     (if sint setting > 0 \<and> nbt_Phase (nb_Status nb) = NotebookPhaseRunning then do {
        elapsed \<leftarrow> time_since k start;
        (if sint elapsed \<ge> sint bound then do {
           (e, nb') \<leftarrow> pause_notebook k nb;
           ret (e, requeueAfter, nb')
         }
         else ret (None, earlier requeueAfter (bound - elapsed), nb))
      }
      else ret (None, requeueAfter, nb))"

text \<open>
  The whole of reconcileLifecycle. Part 3 reads notebook.Spec.Lifecycle again, through a pointer a
  Patch may have overwritten.
\<close>

definition NotebookLab_reconcileLifecycle :: "'w api \<Rightarrow> NotebookLab
    \<Rightarrow> ('w, (bool \<times> Duration \<times> error option \<times> NotebookLab) outcome) io" where
  "NotebookLab_reconcileLifecycle k nb =
     (case nbs_Lifecycle (nb_Spec nb) of None \<Rightarrow> ret (Returned (False, 0, None, nb))
      | Some lc \<Rightarrow> do {
          (purged, requeue1, e1) \<leftarrow> NotebookLab_purge k nb lc;
          (if e1 \<noteq> None \<or> purged then ret (Returned (purged, 0, e1, nb))
           else do {
             (e2, requeue2, nb2) \<leftarrow> NotebookLab_pause_after k nb (lc_IdleTimeoutMinutes lc) (lastActive nb)
               (maxIdleDuration lc) requeue1;
             (if e2 \<noteq> None then ret (Returned (False, 0, e2, nb2))
              else case nbs_Lifecycle (nb_Spec nb2) of None \<Rightarrow> ret Panicked
              | Some lc2 \<Rightarrow> do {
                  (e3, requeue3, nb3) \<leftarrow> NotebookLab_pause_after k nb2 (lc_MaxLifespanHours lc2)
                    (om_CreationTimestamp (nb_Meta nb2)) (maxLifespanDuration lc2) requeue2;
                  (if e3 \<noteq> None then ret (Returned (False, 0, e3, nb3))
                   else ret (Returned (False, requeue3, None, nb3)))
                })
           })
        })"

section \<open>The workspace claim\<close>

text \<open>Create an object after setting the owner reference on its metadata.\<close>

definition set_owner :: "platform \<Rightarrow> NotebookLab \<Rightarrow> ObjectMeta \<Rightarrow> error + ObjectMeta" where
  "set_owner px nb m = SetControllerReference px ''NotebookLab'' (nb_Meta nb) m"

definition new_workspace_claim :: "NotebookLab \<Rightarrow> WorkspaceSpec \<Rightarrow> PersistentVolumeClaim" where
  "new_workspace_claim nb ws = \<lparr>pvc_Meta = nb_child_meta nb (nb_Name nb @ ''-workspace''),
     pvc_StorageClassName = (if ws_StorageClassName ws \<noteq> '''' then Some (ws_StorageClassName ws) else None),
     pvc_AccessModes = [''ReadWriteOnce''], pvc_Requests = [''storage'' \<mapsto> ws_Size ws]\<rparr>"

definition NotebookLab_reconcileWorkspacePVC :: "platform \<Rightarrow> 'w api \<Rightarrow> NotebookLab \<Rightarrow> WorkspaceSpec
    \<Rightarrow> ('w, error option) io" where
  "NotebookLab_reconcileWorkspacePVC px k nb ws = do {
     g \<leftarrow> api_get (pvcs k) OnPVC (nb_child nb (nb_Name nb @ ''-workspace''));
     case g of
       Inl err \<Rightarrow> (if IsNotFound err then
           (case set_owner px nb (pvc_Meta (new_workspace_claim nb ws)) of
              Inl e \<Rightarrow> ret (Some e)
            | Inr m \<Rightarrow> do {
                c \<leftarrow> api_create (pvcs k) OnPVC ((new_workspace_claim nb ws)\<lparr>pvc_Meta := m\<rparr>);
                ret (err_of c)
              })
         else ret (Some err))
     | Inr _ \<Rightarrow> ret None
   }"

section \<open>The token\<close>

definition default_token :: "NotebookLab \<Rightarrow> string" where
  "default_token nb = nb_Name nb @ ''-token-sec''"

definition new_token_secret :: "NotebookLab \<Rightarrow> Secret" where
  "new_token_secret nb = \<lparr>sec_Meta = nb_child_meta nb (nb_Name nb @ ''-secret''),
     sec_StringData = [''token'' \<mapsto> default_token nb], sec_Data = Map.empty\<rparr>"

text \<open>Indexing a Go map with an absent key gives the zero value, here the empty string.\<close>

definition NotebookLab_reconcileNotebookSecret :: "platform \<Rightarrow> 'w api \<Rightarrow> NotebookLab
    \<Rightarrow> ('w, error + string) io" where
  "NotebookLab_reconcileNotebookSecret px k nb = do {
     g \<leftarrow> api_get (secrets k) OnSecret (nb_child nb (nb_Name nb @ ''-secret''));
     case g of
       Inl err \<Rightarrow> (if IsNotFound err then
           (case set_owner px nb (sec_Meta (new_token_secret nb)) of
              Inl e \<Rightarrow> ret (Inl e)
            | Inr m \<Rightarrow> do {
                c \<leftarrow> api_create (secrets k) OnSecret ((new_token_secret nb)\<lparr>sec_Meta := m\<rparr>);
                ret (case c of Inl e \<Rightarrow> Inl e | Inr _ \<Rightarrow> Inr (default_token nb))
              })
         else ret (Inl err))
     | Inr secret \<Rightarrow> ret (Inr (case sec_Data secret ''token'' of None \<Rightarrow> '''' | Some t \<Rightarrow> t))
   }"

section \<open>The deployment\<close>

definition wanted_replicas :: "NotebookLab \<Rightarrow> int32" where
  "wanted_replicas nb = (case nbs_Replicas (nb_Spec nb) of None \<Rightarrow> 1 | Some n \<Rightarrow> n)"

definition workspace_of :: "NotebookLab \<Rightarrow> WorkspaceSpec option" where
  "workspace_of nb = (case nbs_Storage (nb_Spec nb) of None \<Rightarrow> None | Some st \<Rightarrow> st_Workspace st)"

definition datasets_of :: "NotebookLab \<Rightarrow> DatasetSpec list" where
  "datasets_of nb = (case nbs_Storage (nb_Spec nb) of None \<Rightarrow> [] | Some st \<Rightarrow> st_Datasets st)"

definition tmp_of :: "NotebookLab \<Rightarrow> TmpSpec option" where
  "tmp_of nb = (case nbs_Storage (nb_Spec nb) of None \<Rightarrow> None | Some st \<Rightarrow> st_Tmp st)"

definition NotebookLab_volumes :: "platform \<Rightarrow> NotebookLab \<Rightarrow> Volume list" where
  "NotebookLab_volumes px nb =
     (case workspace_of nb of None \<Rightarrow> []
      | Some _ \<Rightarrow> [\<lparr>v_Name = ''workspace'', v_Source = ClaimSource (nb_Name nb @ ''-workspace'') False\<rparr>]) @
     map (\<lambda>ds. \<lparr>v_Name = ds_Name ds, v_Source = ClaimSource (ds_PVCName ds) True\<rparr>) (datasets_of nb) @
     [\<lparr>v_Name = ''tmp'', v_Source = EmptyDir (case tmp_of nb of None \<Rightarrow> None
        | Some t \<Rightarrow> if Quantity_IsZero px (tmp_SizeLimit t) then None else Some (tmp_SizeLimit t))\<rparr>]"

definition NotebookLab_mounts :: "NotebookLab \<Rightarrow> VolumeMount list" where
  "NotebookLab_mounts nb =
     (case workspace_of nb of None \<Rightarrow> [] | Some ws \<Rightarrow> [plain_mount ''workspace'' (ws_MountPath ws)]) @
     map (\<lambda>ds. \<lparr>vm_Name = ds_Name ds, vm_MountPath = ds_MountPath ds, vm_ReadOnly = True\<rparr>) (datasets_of nb) @
     [plain_mount ''tmp'' (case tmp_of nb of None \<Rightarrow> ''/tmp''
        | Some t \<Rightarrow> if tmp_MountPath t \<noteq> '''' then tmp_MountPath t else ''/tmp'')]"

definition gpu_enabled :: "NotebookLab \<Rightarrow> bool" where
  "gpu_enabled nb = (case nbs_GPU (nb_Spec nb) of None \<Rightarrow> False | Some g \<Rightarrow> gpu_Enable g)"

definition NotebookLab_tolerations :: "NotebookLab \<Rightarrow> Toleration list" where
  "NotebookLab_tolerations nb =
     (if gpu_enabled nb \<and> nbs_Tolerations (nb_Spec nb) = []
      then [\<lparr>tol_Key = ''nvidia.com/gpu'', tol_Operator = ''Exists'', tol_Value = '''', tol_Effect = ''NoSchedule''\<rparr>]
      else nbs_Tolerations (nb_Spec nb))"

fun setOrUpdateEnv :: "EnvVar list \<Rightarrow> string \<Rightarrow> string \<Rightarrow> EnvVar list" where
  "setOrUpdateEnv [] name v = [\<lparr>ev_Name = name, ev_Value = v, ev_SecretKeyRef = None\<rparr>]"
| "setOrUpdateEnv (e # es) name v =
     (if ev_Name e = name then e\<lparr>ev_Value := v\<rparr> # es else e # setOrUpdateEnv es name v)"

text \<open>Integer division of Go truncates toward zero.\<close>

definition mebibytes :: "int64 \<Rightarrow> int64" where
  "mebibytes v = word_of_int (if sint v \<ge> 0 then sint v div 1048576 else - ((- sint v) div 1048576))"

definition set_limit :: "string \<Rightarrow> Quantity \<Rightarrow> Container \<Rightarrow> Container" where
  "set_limit r q c = c\<lparr>ct_Resources := (ct_Resources c)\<lparr>rr_Limits := (rr_Limits (ct_Resources c))(r \<mapsto> q)\<rparr>\<rparr>"

definition set_env :: "string \<Rightarrow> string \<Rightarrow> Container \<Rightarrow> Container" where
  "set_env n v c = c\<lparr>ct_Env := setOrUpdateEnv (ct_Env c) n v\<rparr>"

definition inject_hami :: "platform \<Rightarrow> HAMiSpec \<Rightarrow> Container \<Rightarrow> Container" where
  "inject_hami px h c0 =
     (let memMiB = mebibytes (Quantity_Value px (hami_Memory h));
          c1 = (if Quantity_IsZero px (hami_Memory h) then c0
            else set_env ''CUDA_VGPU_MEM'' (itoa (sint memMiB)) (set_limit ''nvidia.com/gpumem'' (NewQuantity px memMiB) c0))
      in if sint (hami_Cores h) > 0
         then set_env ''CUDA_VGPU_CORES'' (itoa (sint (hami_Cores h)))
           (set_limit ''nvidia.com/gpucores'' (NewQuantity px (int64_of_int32 (hami_Cores h))) c1)
         else c1)"

definition NotebookLab_injectGPUResources :: "platform \<Rightarrow> GPUSpec \<Rightarrow> Container \<Rightarrow> Container" where
  "NotebookLab_injectGPUResources px gpu c =
     (if gpu_Type gpu = ''mig'' then
        (case gpu_MIG gpu of None \<Rightarrow> c
         | Some mig \<Rightarrow> if mig_Profile mig \<noteq> ''''
             then set_limit (''nvidia.com/mig-'' @ mig_Profile mig) (NewQuantity px 1) c else c)
      else
        (let c1 = set_limit ''nvidia.com/gpu'' (NewQuantity px 1) c in
         case gpu_HAMi gpu of None \<Rightarrow> c1 | Some h \<Rightarrow> inject_hami px h c1))"

definition NotebookLab_security :: "NotebookLab \<Rightarrow> SecurityContext" where
  "NotebookLab_security nb = (if gpu_enabled nb
     then \<lparr>sc_Privileged = None, sc_AllowPrivilegeEscalation = Some True, sc_DropCapabilities = None, sc_AppArmorProfile = None\<rparr>
     else \<lparr>sc_Privileged = None, sc_AllowPrivilegeEscalation = Some False, sc_DropCapabilities = Some [''ALL''],
       sc_AppArmorProfile = None\<rparr>)"

definition NotebookLab_container :: "platform \<Rightarrow> NotebookLab \<Rightarrow> Container" where
  "NotebookLab_container px nb =
     (let c = \<lparr>ct_Name = ''jupyter'', ct_Image = nbs_Image (nb_Spec nb), ct_ImagePullPolicy = '''', ct_Command = [],
            ct_VolumeMounts = NotebookLab_mounts nb, ct_Ports = [],
            ct_Env = [\<lparr>ev_Name = ''JUPYTER_TOKEN'', ev_Value = '''', ev_SecretKeyRef = Some (nb_Name nb @ ''-secret'', ''token'')\<rparr>],
            ct_Resources = nbs_Resources (nb_Spec nb), ct_PostStart = None,
            ct_SecurityContext = Some (NotebookLab_security nb)\<rparr>
      in case nbs_GPU (nb_Spec nb) of None \<Rightarrow> c
         | Some gpu \<Rightarrow> if gpu_enabled nb then NotebookLab_injectGPUResources px gpu c else c)"

definition NotebookLab_pod_spec :: "platform \<Rightarrow> NotebookLab \<Rightarrow> PodSpec" where
  "NotebookLab_pod_spec px nb = new_PodSpec\<lparr>ps_AutomountServiceAccountToken := Some False,
     ps_SecurityContext := Some \<lparr>psc_RunAsNonRoot = Some True, psc_RunAsUser = Some 1000, psc_RunAsGroup = Some 1000,
       psc_FSGroup = Some 1000, psc_SeccompProfile = Some ''RuntimeDefault'', psc_AppArmorProfile = None\<rparr>,
     ps_Containers := [NotebookLab_container px nb], ps_Volumes := NotebookLab_volumes px nb,
     ps_NodeSelector := nbs_NodeSelector (nb_Spec nb), ps_Tolerations := NotebookLab_tolerations nb,
     ps_ImagePullSecrets := nbs_ImagePullSecrets (nb_Spec nb)\<rparr>"

definition NotebookLab_deployment :: "platform \<Rightarrow> NotebookLab \<Rightarrow> Deployment" where
  "NotebookLab_deployment px nb = \<lparr>dep_Meta = nb_child_meta nb (nb_Name nb),
     dep_Replicas = Some (wanted_replicas nb), dep_Strategy = ''Recreate'',
     dep_Selector = [appLabelKey \<mapsto> nb_Name nb], dep_TemplateLabels = [appLabelKey \<mapsto> nb_Name nb],
     dep_TemplateSpec = NotebookLab_pod_spec px nb, dep_StatusReplicas = 0, dep_ReadyReplicas = 0\<rparr>"

text \<open>What the patch of an existing deployment carries over.\<close>

definition carry_over :: "Deployment \<Rightarrow> Deployment \<Rightarrow> Deployment" where
  "carry_over deploy old = old\<lparr>dep_Meta := (dep_Meta old)\<lparr>om_Labels := om_Labels (dep_Meta deploy)\<rparr>,
     dep_Replicas := dep_Replicas deploy, dep_Strategy := dep_Strategy deploy,
     dep_TemplateLabels := dep_TemplateLabels deploy, dep_TemplateSpec := dep_TemplateSpec deploy\<rparr>"

definition NotebookLab_reconcileJupyterDeployment :: "platform \<Rightarrow> 'w api \<Rightarrow> NotebookLab
    \<Rightarrow> ('w, error option) io" where
  "NotebookLab_reconcileJupyterDeployment px k nb = do {
     s \<leftarrow> NotebookLab_reconcileNotebookSecret px k nb;
     case s of Inl e \<Rightarrow> ret (Some e)
     | Inr _ \<Rightarrow>
        (case set_owner px nb (dep_Meta (NotebookLab_deployment px nb)) of Inl e \<Rightarrow> ret (Some e)
         | Inr m \<Rightarrow> let deploy = (NotebookLab_deployment px nb)\<lparr>dep_Meta := m\<rparr> in do {
             g \<leftarrow> api_get (deployments k) OnDeployment (nb_child nb (nb_Name nb));
             (case g of
                Inl err \<Rightarrow> (if IsNotFound err then do {
                    c \<leftarrow> api_create (deployments k) OnDeployment deploy;
                    ret (err_of c)
                  } else ret (Some err))
              | Inr existingDeploy \<Rightarrow> do {
                  p \<leftarrow> api_patch (deployments k) OnDeployment existingDeploy (carry_over deploy existingDeploy);
                  ret (err_of p)
                })
           })
   }"

text \<open>The variables and the limits of a container, as what is read after a write.\<close>

definition env_value :: "EnvVar list \<Rightarrow> string \<Rightarrow> string option" where
  "env_value es = map_of (map (\<lambda>e. (ev_Name e, ev_Value e)) es)"

definition limits_of :: "Container \<Rightarrow> ResourceList" where
  "limits_of c = rr_Limits (ct_Resources c)"

lemma env_value_put: "env_value (setOrUpdateEnv es n v) = (env_value es)(n \<mapsto> v)"
  by (induction es n v rule: setOrUpdateEnv.induct) (auto simp: env_value_def fun_eq_iff)

interpretation env: upsert env_value "\<lambda>n v es. setOrUpdateEnv es n v"
  by unfold_locales (rule env_value_put)

interpretation container_env: upsert "\<lambda>c. env_value (ct_Env c)" set_env
  by unfold_locales (simp add: set_env_def env_value_put)

interpretation container_limits: upsert limits_of set_limit
  by unfold_locales (simp add: limits_of_def set_limit_def)

lemma env_names: "map ev_Name (setOrUpdateEnv es n v) =
  (if n \<in> ev_Name ` set es then map ev_Name es else map ev_Name es @ [n])"
  by (induction es n v rule: setOrUpdateEnv.induct) auto

section \<open>The service and the ingress\<close>

definition new_notebook_service :: "NotebookLab \<Rightarrow> Service" where
  "new_notebook_service nb = \<lparr>svc_Meta = nb_child_meta nb (nb_Name nb @ ''-svc''),
     svc_Selector = [appLabelKey \<mapsto> nb_Name nb], svc_Type = '''',
     svc_Ports = [\<lparr>sp_Name = ''http'', sp_Port = 8888, sp_TargetPort = 0, sp_Protocol = ''''\<rparr>]\<rparr>"

definition new_notebook_ingress :: "NotebookLab \<Rightarrow> Ingress" where
  "new_notebook_ingress nb = \<lparr>ing_Meta = (nb_child_meta nb (nb_Name nb @ ''-ingress''))\<lparr>om_Annotations := [
       ''nginx.ingress.kubernetes.io/proxy-read-timeout'' \<mapsto> ''3600'',
       ''nginx.ingress.kubernetes.io/proxy-send-timeout'' \<mapsto> ''3600'',
       ''nginx.ingress.kubernetes.io/websocket-services'' \<mapsto> nb_Name nb @ ''-svc'']\<rparr>,
     ing_ClassName = None, ing_TLS = [],
     ing_Rules = [\<lparr>ir_Host = nb_Name nb @ ''.local'', ir_Paths = [\<lparr>hp_Path = ''/'', hp_PathType = ''Prefix'',
       hp_ServiceName = nb_Name nb @ ''-svc'', hp_ServicePort = 8888\<rparr>]\<rparr>]\<rparr>"

definition NotebookLab_ensure_service :: "platform \<Rightarrow> 'w api \<Rightarrow> NotebookLab \<Rightarrow> ('w, error option) io" where
  "NotebookLab_ensure_service px k nb = do {
     g \<leftarrow> api_get (services k) OnService (nb_child nb (nb_Name nb @ ''-svc''));
     case g of
       Inl err \<Rightarrow> (if IsNotFound err then
           (case set_owner px nb (svc_Meta (new_notebook_service nb)) of
              Inl e \<Rightarrow> ret (Some e)
            | Inr m \<Rightarrow> do {
                c \<leftarrow> api_create (services k) OnService ((new_notebook_service nb)\<lparr>svc_Meta := m\<rparr>);
                ret (err_of c)
              })
         else ret (Some err))
     | Inr _ \<Rightarrow> ret None
   }"

definition NotebookLab_ensure_ingress :: "platform \<Rightarrow> 'w api \<Rightarrow> NotebookLab \<Rightarrow> ('w, error option) io" where
  "NotebookLab_ensure_ingress px k nb = do {
     g \<leftarrow> api_get (ingresses k) OnIngress (nb_child nb (nb_Name nb @ ''-ingress''));
     case g of
       Inl err \<Rightarrow> (if IsNotFound err then
           (case set_owner px nb (ing_Meta (new_notebook_ingress nb)) of
              Inl e \<Rightarrow> ret (Some e)
            | Inr m \<Rightarrow> do {
                c \<leftarrow> api_create (ingresses k) OnIngress ((new_notebook_ingress nb)\<lparr>ing_Meta := m\<rparr>);
                ret (err_of c)
              })
         else ret (Some err))
     | Inr _ \<Rightarrow> ret None
   }"

definition NotebookLab_reconcileNetworking :: "platform \<Rightarrow> 'w api \<Rightarrow> NotebookLab \<Rightarrow> ('w, error option) io" where
  "NotebookLab_reconcileNetworking px k nb = do {
     e \<leftarrow> NotebookLab_ensure_service px k nb;
     (if e \<noteq> None then ret e else NotebookLab_ensure_ingress px k nb)
   }"

section \<open>Status\<close>

definition NotebookLab_phase :: "int32 \<Rightarrow> Deployment \<Rightarrow> NotebookLabPhase" where
  "NotebookLab_phase replicas deploy =
     (if replicas = 0 then (if dep_StatusReplicas deploy = 0 then PhasePaused else PhasePausing)
      else if sint (dep_ReadyReplicas deploy) > 0 then NotebookPhaseRunning else PhaseProvisioning)"

definition NotebookLab_updateNotebookStatus :: "platform \<Rightarrow> 'w api \<Rightarrow> NotebookLab \<Rightarrow> ('w, error option) io" where
  "NotebookLab_updateNotebookStatus px k nb = do {
     g \<leftarrow> api_get (deployments k) OnDeployment (nb_child nb (nb_Name nb));
     case g of
       Inl err \<Rightarrow> (if IsNotFound err then do {
           u \<leftarrow> api_status_update (notebooklabs k) OnNotebookLab (set_nbt (\<lambda>s. s\<lparr>nbt_Phase := PhaseProvisioning\<rparr>) nb);
           ret (err_of u)
         } else ret (Some err))
     | Inr deploy \<Rightarrow> do {
         t \<leftarrow> NotebookLab_reconcileNotebookSecret px k nb;
         let token = (case t of Inl _ \<Rightarrow> default_token nb | Inr token \<Rightarrow> token);
         u \<leftarrow> api_status_update (notebooklabs k) OnNotebookLab (set_nbt (\<lambda>s. s\<lparr>
           nbt_Phase := NotebookLab_phase (wanted_replicas nb) deploy,
           nbt_PVCName := nb_Name nb @ ''-workspace'',
           nbt_AccessURL := ''https://'' @ nb_Name nb @ ''.local/lab?token='' @ token\<rparr>) nb);
         ret (err_of u)
       }
   }"

definition NotebookLab_updateStatusError :: "'w api \<Rightarrow> NotebookLab \<Rightarrow> error
    \<Rightarrow> ('w, Result \<times> error option) io" where
  "NotebookLab_updateStatusError k nb err = do {
     _ \<leftarrow> api_status_update (notebooklabs k) OnNotebookLab (set_nbt (\<lambda>s. s\<lparr>nbt_Phase := NotebookPhaseFailed\<rparr>) nb);
     ret (no_result, Some err)
   }"

section \<open>Reconcile\<close>

text \<open>Steps 2 to 5 of Reconcile.\<close>

definition NotebookLab_provision :: "platform \<Rightarrow> 'w api \<Rightarrow> NotebookLab \<Rightarrow> Duration
    \<Rightarrow> ('w, Result \<times> error option) io" where
  "NotebookLab_provision px k nb requeueAfter = do {
     e1 \<leftarrow> (case workspace_of nb of None \<Rightarrow> ret None | Some ws \<Rightarrow> NotebookLab_reconcileWorkspacePVC px k nb ws);
     case e1 of Some e \<Rightarrow> NotebookLab_updateStatusError k nb e
     | None \<Rightarrow> do {
     e2 \<leftarrow> NotebookLab_reconcileJupyterDeployment px k nb;
     case e2 of Some e \<Rightarrow> NotebookLab_updateStatusError k nb e
     | None \<Rightarrow> do {
     e3 \<leftarrow> NotebookLab_reconcileNetworking px k nb;
     case e3 of Some e \<Rightarrow> NotebookLab_updateStatusError k nb e
     | None \<Rightarrow> do {
     e4 \<leftarrow> NotebookLab_updateNotebookStatus px k nb;
     case e4 of Some e \<Rightarrow> ret (no_result, Some e)
     | None \<Rightarrow> ret (\<lparr>RequeueAfter = requeueAfter\<rparr>, None)
   }}}}"

definition NotebookLab_Reconcile :: "platform \<Rightarrow> 'w api \<Rightarrow> NamespacedName
    \<Rightarrow> ('w, (Result \<times> error option) outcome) io" where
  "NotebookLab_Reconcile px k req = do {
     r \<leftarrow> api_get (notebooklabs k) OnNotebookLab req;
     case r of
       Inl err \<Rightarrow> (if IsNotFound err then ret (Returned (no_result, None)) else ret (Returned (no_result, Some err)))
     | Inr nb0 \<Rightarrow> do {
         l \<leftarrow> NotebookLab_reconcileLifecycle k nb0;
         case l of Panicked \<Rightarrow> ret Panicked
         | Returned (purged, requeueAfter, err, nb) \<Rightarrow>
             (if err \<noteq> None then ret (Returned (no_result, err))
              else if purged then ret (Returned (no_result, None))
              else do {
                x \<leftarrow> NotebookLab_provision px k nb requeueAfter;
                ret (Returned x)
              })
       }
   }"

section \<open>An abstract account of a run\<close>

text \<open>The lifecycle: one rule per way each of its three parts can go.\<close>

abbreviation workspace_key :: "NotebookLab \<Rightarrow> NamespacedName" where
  "workspace_key nb \<equiv> nb_child nb (nb_Name nb @ ''-workspace'')"

inductive claim_run :: "NotebookLab \<Rightarrow> event list \<Rightarrow> bool" for nb where
  no_claim: "claim_run nb [OnPVC (Get (workspace_key nb) (Inl e))]"
| claim_deleted: "claim_run nb [OnPVC (Get (workspace_key nb) (Inr pvc)), OnPVC (Delete pvc d)]"

inductive purge_run :: "NotebookLab \<Rightarrow> LifecycleSpec \<Rightarrow> event list \<Rightarrow> bool \<times> Duration \<times> error option \<Rightarrow> bool"
  for nb lc where
  no_purge: "\<not> sint (lc_PurgeAfterInactiveDays lc) > 0 \<Longrightarrow> purge_run nb lc [] (False, 0, None)"
| still_active: "sint (lc_PurgeAfterInactiveDays lc) > 0 \<Longrightarrow> elapsed = Time_Sub now (lastActive nb) \<Longrightarrow>
     sint elapsed < sint (maxInactiveDuration lc) \<Longrightarrow>
     purge_run nb lc [Now now] (False, maxInactiveDuration lc - elapsed, None)"
| purge: "sint (lc_PurgeAfterInactiveDays lc) > 0 \<Longrightarrow> elapsed = Time_Sub now (lastActive nb) \<Longrightarrow>
     sint (maxInactiveDuration lc) \<le> sint elapsed \<Longrightarrow> claim_run nb c \<Longrightarrow>
     purge_run nb lc (Now now # c @ [OnNotebookLab (Delete nb d)]) (d = None, 0, d)"

abbreviation paused :: "NotebookLab \<Rightarrow> NotebookLab" where
  "paused nb \<equiv> nb\<lparr>nb_Spec := (nb_Spec nb)\<lparr>nbs_Replicas := Some 0\<rparr>\<rparr>"

inductive pause_run :: "NotebookLab \<Rightarrow> int32 \<Rightarrow> Time \<Rightarrow> Duration \<Rightarrow> Duration \<Rightarrow> event list
    \<Rightarrow> error option \<times> Duration \<times> NotebookLab \<Rightarrow> bool" for nb setting start bound rq where
  no_rule: "\<not> (sint setting > 0 \<and> nbt_Phase (nb_Status nb) = NotebookPhaseRunning) \<Longrightarrow>
     pause_run nb setting start bound rq [] (None, rq, nb)"
| not_due: "sint setting > 0 \<Longrightarrow> nbt_Phase (nb_Status nb) = NotebookPhaseRunning \<Longrightarrow>
     elapsed = Time_Sub now start \<Longrightarrow> sint elapsed < sint bound \<Longrightarrow>
     pause_run nb setting start bound rq [Now now] (None, earlier rq (bound - elapsed), nb)"
| pause: "sint setting > 0 \<Longrightarrow> nbt_Phase (nb_Status nb) = NotebookPhaseRunning \<Longrightarrow>
     elapsed = Time_Sub now start \<Longrightarrow> sint bound \<le> sint elapsed \<Longrightarrow>
     pause_run nb setting start bound rq [Now now, OnNotebookLab (Patch nb (paused nb) u)]
       (err_of u, rq, case u of Inl _ \<Rightarrow> paused nb | Inr r \<Rightarrow> r)"

abbreviation idle_run :: "NotebookLab \<Rightarrow> LifecycleSpec \<Rightarrow> Duration \<Rightarrow> event list
    \<Rightarrow> error option \<times> Duration \<times> NotebookLab \<Rightarrow> bool" where
  "idle_run nb lc rq \<equiv> pause_run nb (lc_IdleTimeoutMinutes lc) (lastActive nb) (maxIdleDuration lc) rq"

abbreviation lifespan_run :: "NotebookLab \<Rightarrow> LifecycleSpec \<Rightarrow> Duration \<Rightarrow> event list
    \<Rightarrow> error option \<times> Duration \<times> NotebookLab \<Rightarrow> bool" where
  "lifespan_run nb lc rq \<equiv> pause_run nb (lc_MaxLifespanHours lc) (om_CreationTimestamp (nb_Meta nb)) (maxLifespanDuration lc) rq"

inductive lifecycle_run :: "NotebookLab \<Rightarrow> event list
    \<Rightarrow> (bool \<times> Duration \<times> error option \<times> NotebookLab) outcome \<Rightarrow> bool" for nb where
  no_lifecycle: "nbs_Lifecycle (nb_Spec nb) = None \<Longrightarrow> lifecycle_run nb [] (Returned (False, 0, None, nb))"
| purge_ends: "nbs_Lifecycle (nb_Spec nb) = Some lc \<Longrightarrow> purge_run nb lc evs (p, rq, e) \<Longrightarrow> e \<noteq> None \<or> p \<Longrightarrow>
     lifecycle_run nb evs (Returned (p, 0, e, nb))"
| idle_fails: "nbs_Lifecycle (nb_Spec nb) = Some lc \<Longrightarrow> purge_run nb lc evs1 (False, rq1, None) \<Longrightarrow>
     idle_run nb lc rq1 evs2 (Some e, rq2, nb2) \<Longrightarrow>
     lifecycle_run nb (evs1 @ evs2) (Returned (False, 0, Some e, nb2))"
| lifecycle_lost: "nbs_Lifecycle (nb_Spec nb) = Some lc \<Longrightarrow> purge_run nb lc evs1 (False, rq1, None) \<Longrightarrow>
     idle_run nb lc rq1 evs2 (None, rq2, nb2) \<Longrightarrow> nbs_Lifecycle (nb_Spec nb2) = None \<Longrightarrow>
     lifecycle_run nb (evs1 @ evs2) Panicked"
| lifespan_ends: "nbs_Lifecycle (nb_Spec nb) = Some lc \<Longrightarrow> purge_run nb lc evs1 (False, rq1, None) \<Longrightarrow>
     idle_run nb lc rq1 evs2 (None, rq2, nb2) \<Longrightarrow> nbs_Lifecycle (nb_Spec nb2) = Some lc2 \<Longrightarrow>
     lifespan_run nb2 lc2 rq2 evs3 (e, rq3, nb3) \<Longrightarrow>
     lifecycle_run nb (evs1 @ evs2 @ evs3) (Returned (False, if e = None then rq3 else 0, e, nb3))"

lemma purge_yields: "yields (NotebookLab_purge k nb lc) (purge_run nb lc)"
proof -
  have c: "yields (case g of Inl _ \<Rightarrow> ret () | Inr pvc \<Rightarrow> do { _ \<leftarrow> api_delete (pvcs k) OnPVC pvc; ret () })
      (\<lambda>evs _. claim_run nb (OnPVC (Get (workspace_key nb) g) # evs))" for g
    by (intro ev_intro) (auto intro: claim_run.intros)
  have p: "purge_run nb lc (Now now # x # evs @ [OnNotebookLab (Delete nb d)]) (d = None, 0, d)"
    if "sint (lc_PurgeAfterInactiveDays lc) > 0" "claim_run nb (x # evs)"
      "sint (maxInactiveDuration lc) \<le> sint (Time_Sub now (lastActive nb))" for now x evs d
    using purge[of lc _ now nb "x # evs" d, OF that(1) refl that(3,2)] by simp
  note p1 = p[where d = None, simplified] and p2 = p[where d = "Some e" for e, simplified]
  show ?thesis
    unfolding NotebookLab_purge_def time_since_def State_Monad.bind_assoc State_Monad.bind_left_identity
    by (intro ev_intro yields_bind[OF c]) (auto intro: no_purge still_active p1 p2)
qed

lemma pause_yields: "yields (NotebookLab_pause_after k nb setting start bound rq) (pause_run nb setting start bound rq)"
  unfolding NotebookLab_pause_after_def time_since_def pause_notebook_def Let_def State_Monad.bind_assoc
    State_Monad.bind_left_identity
proof (intro ev_intro yields_bind_perform, goal_cases)
  case (1 now u)
  then show ?case
    using pause[of setting nb "Time_Sub now start" now start bound rq u] by (cases u) (auto intro!: yields_return)
qed (auto intro: pause_run.intros)

lemma lifecycle_yields: "yields (NotebookLab_reconcileLifecycle k nb) (lifecycle_run nb)"
  unfolding NotebookLab_reconcileLifecycle_def
proof (intro ev_intro yields_bind[OF purge_yields] yields_bind[OF pause_yields], goal_cases)
  case (5 lc evs1 x p y rq1 e1 evs2 x2 e2 y2 rq2 nb2 lc2 evs3 x3 e3 y3 rq3 nb3)
  then show ?case using lifespan_ends[of nb lc evs1 rq1 evs2 rq2 nb2 lc2 evs3 e3 rq3 nb3] by auto
next
  case (6 lc evs1 x p y rq1 e1 evs2 x2 e2 y2 rq2 nb2 lc2 evs3 x3 e3 y3 rq3 nb3)
  then show ?case using lifespan_ends[of nb lc evs1 rq1 evs2 rq2 nb2 lc2 evs3 e3 rq3 nb3] by auto
qed (auto intro: lifecycle_run.intros)

text \<open>
  Get or create: the shape of the four children a notebook never overwrites. wanted is the object
  with its owner set, or the error of setting it.
\<close>

inductive ensure_run :: "('o call \<Rightarrow> event) \<Rightarrow> NamespacedName \<Rightarrow> error + 'o \<Rightarrow> event list \<Rightarrow> error + 'o \<Rightarrow> bool"
  for on key wanted where
  present: "ensure_run on key wanted [on (Get key (Inr x))] (Inr x)"
| unread: "\<not> IsNotFound e \<Longrightarrow> ensure_run on key wanted [on (Get key (Inl e))] (Inl e)"
| unownable: "IsNotFound e \<Longrightarrow> wanted = Inl e' \<Longrightarrow> ensure_run on key wanted [on (Get key (Inl e))] (Inl e')"
| create_fails: "IsNotFound e \<Longrightarrow> wanted = Inr x \<Longrightarrow>
     ensure_run on key wanted [on (Get key (Inl e)), on (Create x (Inl e'))] (Inl e')"
| creates: "IsNotFound e \<Longrightarrow> wanted = Inr x \<Longrightarrow>
     ensure_run on key wanted [on (Get key (Inl e)), on (Create x (Inr y))] (Inr x)"

definition wanted_claim :: "platform \<Rightarrow> NotebookLab \<Rightarrow> WorkspaceSpec \<Rightarrow> error + PersistentVolumeClaim" where
  "wanted_claim px nb ws = map_sum id (\<lambda>m. (new_workspace_claim nb ws)\<lparr>pvc_Meta := m\<rparr>)
     (set_owner px nb (nb_child_meta nb (nb_Name nb @ ''-workspace'')))"

definition wanted_secret :: "platform \<Rightarrow> NotebookLab \<Rightarrow> error + Secret" where
  "wanted_secret px nb = map_sum id (\<lambda>m. (new_token_secret nb)\<lparr>sec_Meta := m\<rparr>)
     (set_owner px nb (nb_child_meta nb (nb_Name nb @ ''-secret'')))"

definition wanted_service :: "platform \<Rightarrow> NotebookLab \<Rightarrow> error + Service" where
  "wanted_service px nb = map_sum id (\<lambda>m. (new_notebook_service nb)\<lparr>svc_Meta := m\<rparr>)
     (set_owner px nb (nb_child_meta nb (nb_Name nb @ ''-svc'')))"

definition wanted_ingress :: "platform \<Rightarrow> NotebookLab \<Rightarrow> error + Ingress" where
  "wanted_ingress px nb = map_sum id (\<lambda>m. (new_notebook_ingress nb)\<lparr>ing_Meta := m\<rparr>)
     (set_owner px nb (ing_Meta (new_notebook_ingress nb)))"

definition wanted_deployment :: "platform \<Rightarrow> NotebookLab \<Rightarrow> error + Deployment" where
  "wanted_deployment px nb = map_sum id (\<lambda>m. (NotebookLab_deployment px nb)\<lparr>dep_Meta := m\<rparr>)
     (set_owner px nb (nb_child_meta nb (nb_Name nb)))"

abbreviation "nb_claim_run px nb ws \<equiv> ensure_run OnPVC (workspace_key nb) (wanted_claim px nb ws)"
abbreviation "nb_secret_run px nb \<equiv> ensure_run OnSecret (nb_child nb (nb_Name nb @ ''-secret'')) (wanted_secret px nb)"
abbreviation "nb_service_run px nb \<equiv> ensure_run OnService (nb_child nb (nb_Name nb @ ''-svc'')) (wanted_service px nb)"
abbreviation "nb_ingress_run px nb \<equiv> ensure_run OnIngress (nb_child nb (nb_Name nb @ ''-ingress'')) (wanted_ingress px nb)"

lemma nb_claim_yields:
  "yields (NotebookLab_reconcileWorkspacePVC px k nb ws) (\<lambda>evs e. \<exists>r. nb_claim_run px nb ws evs r \<and> e = err_of r)"
  unfolding NotebookLab_reconcileWorkspacePVC_def
proof (intro ev_intro, goal_cases)
  case (1 r err e) then show ?case
    by (intro exI[of _ "Inl e"]) (simp add: wanted_claim_def new_workspace_claim_def unownable)
next
  case (2 r err m c) then show ?case
    by (cases c) (auto simp: wanted_claim_def new_workspace_claim_def intro!: exI create_fails creates)
next
  case (3 r err) then show ?case by (intro exI[of _ "Inl err"]) (simp add: unread)
next
  case (4 r x) then show ?case by (intro exI[of _ "Inr x"]) (simp add: present)
qed

lemma nb_service_yields:
  "yields (NotebookLab_ensure_service px k nb) (\<lambda>evs e. \<exists>r. nb_service_run px nb evs r \<and> e = err_of r)"
  unfolding NotebookLab_ensure_service_def
proof (intro ev_intro, goal_cases)
  case (1 r err e) then show ?case
    by (intro exI[of _ "Inl e"]) (simp add: wanted_service_def new_notebook_service_def unownable)
next
  case (2 r err m c) then show ?case
    by (cases c) (auto simp: wanted_service_def new_notebook_service_def intro!: exI create_fails creates)
next
  case (3 r err) then show ?case by (intro exI[of _ "Inl err"]) (simp add: unread)
next
  case (4 r x) then show ?case by (intro exI[of _ "Inr x"]) (simp add: present)
qed

lemma nb_ingress_yields:
  "yields (NotebookLab_ensure_ingress px k nb) (\<lambda>evs e. \<exists>r. nb_ingress_run px nb evs r \<and> e = err_of r)"
  unfolding NotebookLab_ensure_ingress_def
proof (intro ev_intro, goal_cases)
  case (1 r err e) then show ?case
    by (intro exI[of _ "Inl e"]) (simp add: wanted_ingress_def unownable)
next
  case (2 r err m c) then show ?case
    by (cases c) (auto simp: wanted_ingress_def intro!: exI create_fails creates)
next
  case (3 r err) then show ?case by (intro exI[of _ "Inl err"]) (simp add: unread)
next
  case (4 r x) then show ?case by (intro exI[of _ "Inr x"]) (simp add: present)
qed

definition token_of :: "NotebookLab \<Rightarrow> event list \<Rightarrow> Secret \<Rightarrow> string" where
  "token_of nb evs s = (if length evs = 1 then (case sec_Data s ''token'' of None \<Rightarrow> '''' | Some t \<Rightarrow> t) else default_token nb)"

lemma nb_secret_yields:
  "yields (NotebookLab_reconcileNotebookSecret px k nb)
     (\<lambda>evs t. \<exists>r. nb_secret_run px nb evs r \<and> t = map_sum id (token_of nb evs) r)"
  unfolding NotebookLab_reconcileNotebookSecret_def
proof (intro ev_intro, goal_cases)
  case (1 r err e) then show ?case
    by (intro exI[of _ "Inl e"]) (simp add: wanted_secret_def new_token_secret_def unownable)
next
  case (2 r err m c) then show ?case
  proof (cases c)
    case (Inl e)
    then show ?thesis using 2 by (intro exI[of _ "Inl e"]) (simp add: wanted_secret_def new_token_secret_def create_fails)
  next
    case (Inr y)
    then show ?thesis using 2
      by (intro exI[of _ "Inr ((new_token_secret nb)\<lparr>sec_Meta := m\<rparr>)"])
        (simp add: wanted_secret_def new_token_secret_def creates token_of_def)
  qed
next
  case (3 r err) then show ?case by (intro exI[of _ "Inl err"]) (simp add: unread)
next
  case (4 r x) then show ?case by (intro exI[of _ "Inr x"]) (simp add: present token_of_def)
qed

inductive deployment_run :: "platform \<Rightarrow> NotebookLab \<Rightarrow> event list \<Rightarrow> error option \<Rightarrow> bool" for px nb where
  no_token: "nb_secret_run px nb s (Inl e) \<Longrightarrow> deployment_run px nb s (Some e)"
| no_owner: "nb_secret_run px nb s (Inr x) \<Longrightarrow> wanted_deployment px nb = Inl e \<Longrightarrow> deployment_run px nb s (Some e)"
| deployment_unread: "nb_secret_run px nb s (Inr x) \<Longrightarrow> wanted_deployment px nb = Inr d \<Longrightarrow> \<not> IsNotFound e \<Longrightarrow>
     deployment_run px nb (s @ [OnDeployment (Get (nb_child nb (nb_Name nb)) (Inl e))]) (Some e)"
| deployment_created: "nb_secret_run px nb s (Inr x) \<Longrightarrow> wanted_deployment px nb = Inr d \<Longrightarrow> IsNotFound e \<Longrightarrow>
     deployment_run px nb (s @ [OnDeployment (Get (nb_child nb (nb_Name nb)) (Inl e)), OnDeployment (Create d c)]) (err_of c)"
| deployment_patched: "nb_secret_run px nb s (Inr x) \<Longrightarrow> wanted_deployment px nb = Inr d \<Longrightarrow>
     deployment_run px nb (s @ [OnDeployment (Get (nb_child nb (nb_Name nb)) (Inr old)),
       OnDeployment (Patch old (carry_over d old) c)]) (err_of c)"

lemma nb_deployment_yields:
  "yields (NotebookLab_reconcileJupyterDeployment px k nb) (deployment_run px nb)"
  unfolding NotebookLab_reconcileJupyterDeployment_def
proof (rule yields_bind[OF nb_secret_yields], elim exE conjE, goal_cases)
  case (1 s t r)
  note s = 1(1)
  show ?case
  proof (cases r)
    case (Inl e)
    then show ?thesis using s 1(2) by (auto intro!: yields_return no_token)
  next
    case (Inr x)
    have w: "wanted_deployment px nb = map_sum id (\<lambda>m. (NotebookLab_deployment px nb)\<lparr>dep_Meta := m\<rparr>)
        (set_owner px nb (dep_Meta (NotebookLab_deployment px nb)))"
      by (simp add: wanted_deployment_def NotebookLab_deployment_def)
    show ?thesis
      unfolding 1(2) Inr map_sum.simps sum.case Let_def
      by (intro ev_intro)
        (use s Inr in \<open>auto simp: w intro: deployment_run.intros\<close>)
  qed
qed

inductive networking_run :: "platform \<Rightarrow> NotebookLab \<Rightarrow> event list \<Rightarrow> error option \<Rightarrow> bool" for px nb where
  no_service: "nb_service_run px nb s (Inl e) \<Longrightarrow> networking_run px nb s (Some e)"
| with_service: "nb_service_run px nb s (Inr x) \<Longrightarrow> nb_ingress_run px nb i r \<Longrightarrow> networking_run px nb (s @ i) (err_of r)"

lemma nb_networking_yields: "yields (NotebookLab_reconcileNetworking px k nb) (networking_run px nb)"
  unfolding NotebookLab_reconcileNetworking_def
  by (intro ev_intro yields_bind[OF nb_service_yields] yields_conseq[OF nb_ingress_yields])
    (auto simp: err_of_eq intro: networking_run.intros)

definition shown_notebook :: "NotebookLab \<Rightarrow> Deployment \<Rightarrow> string \<Rightarrow> NotebookLab" where
  "shown_notebook nb deploy token = set_nbt (\<lambda>s. s\<lparr>
     nbt_Phase := NotebookLab_phase (wanted_replicas nb) deploy,
     nbt_PVCName := nb_Name nb @ ''-workspace'',
     nbt_AccessURL := ''https://'' @ nb_Name nb @ ''.local/lab?token='' @ token\<rparr>) nb"

definition with_phase :: "NotebookLabPhase \<Rightarrow> NotebookLab \<Rightarrow> NotebookLab" where
  "with_phase ph nb = set_nbt (\<lambda>s. s\<lparr>nbt_Phase := ph\<rparr>) nb"

inductive notebook_status_run :: "platform \<Rightarrow> NotebookLab \<Rightarrow> event list \<Rightarrow> error option \<Rightarrow> bool" for px nb where
  not_deployed: "IsNotFound e \<Longrightarrow> notebook_status_run px nb
     [OnDeployment (Get (nb_child nb (nb_Name nb)) (Inl e)), OnNotebookLab (StatusUpdate (with_phase PhaseProvisioning nb) u)]
     (err_of u)"
| not_readable: "\<not> IsNotFound e \<Longrightarrow> notebook_status_run px nb
     [OnDeployment (Get (nb_child nb (nb_Name nb)) (Inl e))] (Some e)"
| shown: "nb_secret_run px nb s r \<Longrightarrow>
     token = (case r of Inl _ \<Rightarrow> default_token nb | Inr x \<Rightarrow> token_of nb s x) \<Longrightarrow>
     notebook_status_run px nb (OnDeployment (Get (nb_child nb (nb_Name nb)) (Inr deploy)) # s @
       [OnNotebookLab (StatusUpdate (shown_notebook nb deploy token) u)]) (err_of u)"

lemma nb_status_yields: "yields (NotebookLab_updateNotebookStatus px k nb) (notebook_status_run px nb)"
  unfolding NotebookLab_updateNotebookStatus_def with_phase_def[symmetric] Let_def
proof (intro ev_intro yields_bind[OF nb_secret_yields] yields_bind_perform; (elim exE conjE)?)
  fix g :: "error + Deployment" and deploy s t r u
  assume r: "nb_secret_run px nb s r" "t = map_sum id (token_of nb s) r"
  have "(case t of Inl _ \<Rightarrow> default_token nb | Inr token \<Rightarrow> token) =
      (case r of Inl _ \<Rightarrow> default_token nb | Inr x \<Rightarrow> token_of nb s x)"
    by (cases r) (simp_all add: r(2))
  moreover assume "g = Inr deploy"
  ultimately show "notebook_status_run px nb (OnDeployment (Get (nb_child nb (nb_Name nb)) g) # s @
      [OnNotebookLab (StatusUpdate (set_nbt (\<lambda>s. s\<lparr>nbt_Phase := NotebookLab_phase (wanted_replicas nb) deploy,
        nbt_PVCName := nb_Name nb @ ''-workspace'', nbt_AccessURL := ''https://'' @ nb_Name nb @ ''.local/lab?token='' @
          (case t of Inl _ \<Rightarrow> default_token nb | Inr token \<Rightarrow> token)\<rparr>) nb) u)]) (err_of u)"
    using shown[OF r(1) refl, of deploy u] by (simp add: shown_notebook_def)
qed (auto intro: notebook_status_run.intros)

text \<open>The claim is reconciled only for a notebook with a workspace.\<close>

inductive workspace_run :: "platform \<Rightarrow> NotebookLab \<Rightarrow> event list \<Rightarrow> error option \<Rightarrow> bool" for px nb where
  no_workspace: "workspace_of nb = None \<Longrightarrow> workspace_run px nb [] None"
| workspace: "workspace_of nb = Some ws \<Longrightarrow> nb_claim_run px nb ws evs r \<Longrightarrow> workspace_run px nb evs (err_of r)"

abbreviation mark_notebook :: "NotebookLab \<Rightarrow> error + NotebookLab \<Rightarrow> event" where
  "mark_notebook nb u \<equiv> OnNotebookLab (StatusUpdate (with_phase NotebookPhaseFailed nb) u)"

inductive notebook_provision_run :: "platform \<Rightarrow> NotebookLab \<Rightarrow> Duration \<Rightarrow> event list \<Rightarrow> Result \<times> error option \<Rightarrow> bool"
  for px nb rq where
  workspace_failed: "workspace_run px nb a (Some e) \<Longrightarrow>
     notebook_provision_run px nb rq (a @ [mark_notebook nb u]) (no_result, Some e)"
| deployment_failed: "workspace_run px nb a None \<Longrightarrow> deployment_run px nb b (Some e) \<Longrightarrow>
     notebook_provision_run px nb rq (a @ b @ [mark_notebook nb u]) (no_result, Some e)"
| networking_failed: "workspace_run px nb a None \<Longrightarrow> deployment_run px nb b None \<Longrightarrow> networking_run px nb c (Some e) \<Longrightarrow>
     notebook_provision_run px nb rq (a @ b @ c @ [mark_notebook nb u]) (no_result, Some e)"
| status_failed: "workspace_run px nb a None \<Longrightarrow> deployment_run px nb b None \<Longrightarrow> networking_run px nb c None \<Longrightarrow>
     notebook_status_run px nb d (Some e) \<Longrightarrow>
     notebook_provision_run px nb rq (a @ b @ c @ d) (no_result, Some e)"
| notebook_done: "workspace_run px nb a None \<Longrightarrow> deployment_run px nb b None \<Longrightarrow> networking_run px nb c None \<Longrightarrow>
     notebook_status_run px nb d None \<Longrightarrow>
     notebook_provision_run px nb rq (a @ b @ c @ d) (\<lparr>RequeueAfter = rq\<rparr>, None)"

lemma nb_fail_yields:
  "yields (NotebookLab_updateStatusError k nb e) (\<lambda>evs r. \<exists>u. evs = [mark_notebook nb u] \<and> r = (no_result, Some e))"
  unfolding NotebookLab_updateStatusError_def with_phase_def[symmetric] by (intro ev_intro) auto

lemma workspace_yields:
  "yields (case workspace_of nb of None \<Rightarrow> ret None | Some ws \<Rightarrow> NotebookLab_reconcileWorkspacePVC px k nb ws) (workspace_run px nb)"
  by (intro ev_intro yields_conseq[OF nb_claim_yields]) (auto intro: workspace_run.intros)

lemma nb_provision_yields: "yields (NotebookLab_provision px k nb rq) (notebook_provision_run px nb rq)"
  unfolding NotebookLab_provision_def
  by (intro ev_intro yields_bind[OF workspace_yields] yields_bind[OF nb_deployment_yields]
      yields_bind[OF nb_networking_yields] yields_bind[OF nb_status_yields] yields_conseq[OF nb_fail_yields])
    (auto intro: notebook_provision_run.intros)

inductive NotebookLab_run :: "platform \<Rightarrow> NamespacedName \<Rightarrow> event list
    \<Rightarrow> (Result \<times> error option) outcome \<Rightarrow> bool" for px req where
  notebook_gone: "IsNotFound e \<Longrightarrow> NotebookLab_run px req [OnNotebookLab (Get req (Inl e))] (Returned (no_result, None))"
| notebook_unread: "\<not> IsNotFound e \<Longrightarrow>
     NotebookLab_run px req [OnNotebookLab (Get req (Inl e))] (Returned (no_result, Some e))"
| notebook_panic: "lifecycle_run nb evs Panicked \<Longrightarrow> NotebookLab_run px req (OnNotebookLab (Get req (Inr nb)) # evs) Panicked"
| lifecycle_stops: "lifecycle_run nb evs (Returned (p, rq, e, nb')) \<Longrightarrow> e \<noteq> None \<or> p \<Longrightarrow>
     NotebookLab_run px req (OnNotebookLab (Get req (Inr nb)) # evs) (Returned (no_result, e))"
| notebook_provisioned: "lifecycle_run nb evs (Returned (False, rq, None, nb')) \<Longrightarrow>
     notebook_provision_run px nb' rq evs' r \<Longrightarrow>
     NotebookLab_run px req (OnNotebookLab (Get req (Inr nb)) # evs @ evs') (Returned r)"

lemma NotebookLab_Reconcile_yields: "yields (NotebookLab_Reconcile px k req) (NotebookLab_run px req)"
  unfolding NotebookLab_Reconcile_def
proof (intro ev_intro yields_bind[OF lifecycle_yields], goal_cases)
  case (3 r nb evs l)
  then show ?case
    by (cases l) (auto intro!: yields_return yields_if yields_bind[OF nb_provision_yields] yields_case_prod
      intro: NotebookLab_run.intros split: outcome.splits prod.splits)
qed (auto intro: NotebookLab_run.intros)

lemmas NotebookLab_events = yields_run[OF NotebookLab_Reconcile_yields]

end
