(* ===== verification/NotebookLabLifecycle.thy ===== *)
theory NotebookLabLifecycle
  imports NotebookLabController
begin

text \<open>
  The lifecycle of a notebook: when a run purges it, pauses it, leaves it alone and wakes up again,
  with the arithmetic of the bounds. Every property is read off the abstract account of the runs
  (NotebookLab_run, lifecycle_run); the applications to a concrete API stand at the end.
\<close>

section \<open>The outcome of a run\<close>

lemma ensure_run_owns:
  "ensure_run on key wanted evs r \<Longrightarrow> e \<in> set evs \<Longrightarrow> \<exists>c. e = on c"
  by (auto elim!: ensure_run.cases)

text \<open>
  A run dereferences a nil pointer only after a Patch of the notebook was answered with a notebook
  that has no lifecycle any more: the third part of the lifecycle reads the pointer again, without a
  test, through the object the answer has overwritten.
\<close>

theorem NotebookLab_panics_only:
  assumes "result_of (NotebookLab_Reconcile px k req) w = Panicked"
  shows "\<exists>base obj nb. OnNotebookLab (Patch base obj (Inr nb)) \<in> set (events_of (NotebookLab_Reconcile px k req) w) \<and>
     nbs_Lifecycle (nb_Spec nb) = None"
  using NotebookLab_events[of px req k w] unfolding assms
proof (cases rule: NotebookLab_run.cases)
  case (notebook_panic nb evs)
  from notebook_panic(2) show ?thesis
  proof (cases rule: lifecycle_run.cases)
    case (lifecycle_lost lc evs1 rq1 evs2 rq2 nb2)
    from lifecycle_lost(4) show ?thesis
      using lifecycle_lost(1,2,5) notebook_panic(1)
      by (cases rule: pause_run.cases) (auto split: sum.splits simp: err_of_eq)
  qed
qed

section \<open>Purging\<close>

lemma max_inactive_exact:
  assumes "sint (lc_PurgeAfterInactiveDays lc) \<le> 106751" "0 \<le> sint (lc_PurgeAfterInactiveDays lc)"
  shows "sint (maxInactiveDuration lc) = sint (lc_PurgeAfterInactiveDays lc) * 86400000000000"
proof -
  let ?d = "Duration_of_int32 (lc_PurgeAfterInactiveDays lc)"
  have 24: "sint (24 :: int64) = 24" using sint_word_of_int64[of 24] by (simp add: fits64_def)
  have 1: "sint (?d * 24) = sint (lc_PurgeAfterInactiveDays lc) * 24"
    using sint_mult64[of ?d 24] assms by (simp add: fits64_def 24)
  have "sint (?d * 24 * Hour) = sint (?d * 24) * sint Hour"
    by (rule sint_mult64) (use assms in \<open>simp add: fits64_def 1\<close>)
  then show ?thesis unfolding maxInactiveDuration_def by (simp add: 1)
qed

lemma claim_run_writes: "claim_run nb evs \<Longrightarrow> e \<in> set evs \<Longrightarrow> \<exists>c. e = OnPVC c"
  by (auto elim!: claim_run.cases)

lemma pause_run_deletes: "pause_run nb s st b rq evs r \<Longrightarrow> OnNotebookLab (Delete x d) \<notin> set evs"
  by (auto elim!: pause_run.cases)

lemma workspace_run_events: "workspace_run px nb evs r \<Longrightarrow> e \<in> set evs \<Longrightarrow> \<exists>c. e = OnPVC c"
  by (auto elim!: workspace_run.cases dest: ensure_run_owns)

lemma deployment_run_events:
  "deployment_run px nb evs r \<Longrightarrow> e \<in> set evs \<Longrightarrow> (\<exists>c. e = OnSecret c) \<or> (\<exists>c. e = OnDeployment c)"
  by (auto elim!: deployment_run.cases dest: ensure_run_owns)

lemma networking_run_events:
  "networking_run px nb evs r \<Longrightarrow> e \<in> set evs \<Longrightarrow> (\<exists>c. e = OnService c) \<or> (\<exists>c. e = OnIngress c)"
  by (auto elim!: networking_run.cases) (blast dest: ensure_run_owns)+

lemma status_run_events:
  "notebook_status_run px nb evs r \<Longrightarrow> e \<in> set evs \<Longrightarrow> (\<exists>c. e = OnSecret c) \<or> (\<exists>c. e = OnDeployment c) \<or>
    (\<exists>x u. e = OnNotebookLab (StatusUpdate x u))"
  by (auto elim!: notebook_status_run.cases dest: ensure_run_owns)

lemmas notebook_events = workspace_run_events deployment_run_events networking_run_events status_run_events

lemma provision_run_notebook_calls:
  "notebook_provision_run px nb rq evs r \<Longrightarrow> OnNotebookLab c \<in> set evs \<Longrightarrow> \<exists>x u. c = StatusUpdate x u"
  by (auto elim!: notebook_provision_run.cases dest!: notebook_events)

lemma purge_run_deletes:
  assumes "purge_run nb' lc evs (p, rq, e)" "OnNotebookLab (Delete nb d) \<in> set evs"
  shows "\<exists>now c. evs = Now now # c @ [OnNotebookLab (Delete nb d)] \<and> nb' = nb \<and>
     0 < sint (lc_PurgeAfterInactiveDays lc) \<and> sint (maxInactiveDuration lc) \<le> sint (Time_Sub now (lastActive nb)) \<and>
     claim_run nb c \<and> (p \<or> e \<noteq> None)"
  using assms by (cases rule: purge_run.cases) (auto dest: claim_run_writes)

lemma purge_bound:
  assumes "0 < sint (lc_PurgeAfterInactiveDays lc)" "sint (maxInactiveDuration lc) \<le> sint (Time_Sub now t)"
  shows "106751 < sint (lc_PurgeAfterInactiveDays lc) \<or> t + sint (lc_PurgeAfterInactiveDays lc) * 86400000000000 \<le> now"
proof (cases "106751 < sint (lc_PurgeAfterInactiveDays lc)")
  case False
  then have "sint (maxInactiveDuration lc) = sint (lc_PurgeAfterInactiveDays lc) * 86400000000000"
    using assms(1) by (intro max_inactive_exact) linarith+
  then show ?thesis using assms by (simp add: sint_Time_Sub) linarith
qed simp

lemma lifecycle_run_deletes:
  assumes run: "lifecycle_run nb' evs r" and del: "OnNotebookLab (Delete nb d) \<in> set evs"
  shows "\<exists>lc now rest. evs = Now now # rest \<and> nb' = nb \<and> nbs_Lifecycle (nb_Spec nb) = Some lc \<and>
     0 < sint (lc_PurgeAfterInactiveDays lc) \<and>
     sint (maxInactiveDuration lc) \<le> sint (Time_Sub now (lastActive nb)) \<and>
     list_all (\<lambda>e. \<exists>c. e = OnPVC c) (butlast rest)"
  using assms
proof (cases rule: lifecycle_run.cases)
  case (purge_ends lc p rq e)
  from purge_run_deletes[OF purge_ends(3) del] show ?thesis
    using purge_ends(2) by (auto simp: list_all_iff dest: claim_run_writes)
qed (use del purge_run_deletes pause_run_deletes in \<open>fastforce\<close>)+

text \<open>
  C4: A notebook is deleted only when it has a positive purge setting and, by the clock the run read right
  after it, the last activity is at least that many days ago, or the setting is too large for a
  Duration; before the deletion the run touches nothing but the workspace claim.
\<close>

theorem NotebookLab_purges_only_inactive:
  assumes "OnNotebookLab (Delete nb d) \<in> set (events_of (NotebookLab_Reconcile px k req) w)"
  shows "\<exists>lc now rest. events_of (NotebookLab_Reconcile px k req) w = OnNotebookLab (Get req (Inr nb)) # Now now # rest \<and>
     nbs_Lifecycle (nb_Spec nb) = Some lc \<and> 0 < sint (lc_PurgeAfterInactiveDays lc) \<and>
     (106751 < sint (lc_PurgeAfterInactiveDays lc) \<or>
      lastActive nb + sint (lc_PurgeAfterInactiveDays lc) * 86400000000000 \<le> now) \<and>
     list_all (\<lambda>e. \<exists>c. e = OnPVC c) (butlast rest)"
proof -
  show ?thesis
    using NotebookLab_events[of px req k w]
  proof (cases rule: NotebookLab_run.cases)
    case (notebook_panic nb' evs)
    then show ?thesis using lifecycle_run_deletes[OF notebook_panic(3)] assms purge_bound by fastforce
  next
    case (lifecycle_stops nb' evs p rq e nb'')
    then show ?thesis using lifecycle_run_deletes[OF lifecycle_stops(3)] assms purge_bound by fastforce
  next
    case (notebook_provisioned nb' evs rq nb'' evs' r)
    have "OnNotebookLab (Delete nb d) \<notin> set evs'"
      using provision_run_notebook_calls[OF notebook_provisioned(4)] by blast
    then have "OnNotebookLab (Delete nb d) \<in> set evs" using assms notebook_provisioned(1) by auto
    from lifecycle_run_deletes[OF notebook_provisioned(3) this] notebook_provisioned(3) show ?thesis
      by (auto elim!: lifecycle_run.cases purge_run.cases dest: claim_run_writes pause_run_deletes)
  qed (use assms in auto)
qed

text \<open>
  With a purge setting of 106752 days the bound wraps to a negative Duration and any notebook is
  deleted in its first run, whatever its age.
\<close>

theorem NotebookLab_purge_overflow:
  assumes get: "k_get (notebooklabs k) req w = (Inr nb, w1)"
    and lc: "nbs_Lifecycle (nb_Spec nb) = Some lc" "lc_PurgeAfterInactiveDays lc = 106752"
    and now: "clock k w1 = (now, w2)" "lastActive nb \<le> now"
  shows "\<exists>d. OnNotebookLab (Delete nb d) \<in> set (events_of (NotebookLab_Reconcile px k req) w)"
proof -
  have "sint (106752 :: int32) = 106752" by simp
  moreover have "maxInactiveDuration lc = word_of_int (106752 * 86400000000000)"
    unfolding maxInactiveDuration_def lc(2) Duration_of_int32_def Hour_def by simp
  then have "sint (maxInactiveDuration lc) < 0" by simp
  moreover have "0 \<le> sint (Time_Sub now (lastActive nb))" using now(2) by (simp add: sint_Time_Sub)
  ultimately have due: "0 < sint (lc_PurgeAfterInactiveDays lc)"
      "sint (maxInactiveDuration lc) \<le> sint (Time_Sub now (lastActive nb))"
    using lc(2) by auto
  show ?thesis
    using get lc(1) now(1) due
    by (simp add: events_of_def NotebookLab_Reconcile_def NotebookLab_reconcileLifecycle_def NotebookLab_purge_def
        time_since_def split: prod.splits sum.splits option.splits)
qed

section \<open>Pausing\<close>

text \<open>The notebook a run works on: the one it fetched, or what a Patch of it returned.\<close>

definition held :: "NamespacedName \<Rightarrow> event list \<Rightarrow> NotebookLab \<Rightarrow> bool" where
  "held req evs nb \<longleftrightarrow> OnNotebookLab (Get req (Inr nb)) \<in> set evs \<or>
     (\<exists>base obj. OnNotebookLab (Patch base obj (Inr nb)) \<in> set evs)"

lemma elapsed_bound: "0 < sint b \<Longrightarrow> sint b \<le> sint (Time_Sub now t) \<Longrightarrow> t + sint (b :: Duration) \<le> now"
  by (simp add: sint_Time_Sub)

lemma max_idle_minutes:
  "0 < sint (lc_IdleTimeoutMinutes lc) \<Longrightarrow> sint (lc_IdleTimeoutMinutes lc) \<le> 153722867 \<Longrightarrow>
   sint (maxIdleDuration lc) = sint (lc_IdleTimeoutMinutes lc) * 60000000000"
  unfolding maxIdleDuration_def by (subst sint_mult64) (simp_all add: fits64_def)

lemma max_lifespan_hours:
  "0 < sint (lc_MaxLifespanHours lc) \<Longrightarrow> sint (lc_MaxLifespanHours lc) \<le> 2562047 \<Longrightarrow>
   sint (maxLifespanDuration lc) = sint (lc_MaxLifespanHours lc) * 3600000000000"
  unfolding maxLifespanDuration_def by (subst sint_mult64) (simp_all add: fits64_def)

text \<open>
  When a pause is due, in minutes and hours of real time: the idle timeout has passed since the last
  activity, or the lifespan since the creation. A setting whose bound does not fit a Duration (from
  153722868 minutes and from 2562048 hours on) wraps and gives no such guarantee.
\<close>

definition pause_due :: "NotebookLab \<Rightarrow> Time \<Rightarrow> bool" where
  "pause_due nb now \<longleftrightarrow> nbt_Phase (nb_Status nb) = NotebookPhaseRunning \<and>
     (\<exists>lc. nbs_Lifecycle (nb_Spec nb) = Some lc \<and>
       (0 < sint (lc_IdleTimeoutMinutes lc) \<and>
          (153722867 < sint (lc_IdleTimeoutMinutes lc) \<or> lastActive nb + sint (lc_IdleTimeoutMinutes lc) * 60000000000 \<le> now) \<or>
        0 < sint (lc_MaxLifespanHours lc) \<and>
          (2562047 < sint (lc_MaxLifespanHours lc) \<or>
           om_CreationTimestamp (nb_Meta nb) + sint (lc_MaxLifespanHours lc) * 3600000000000 \<le> now)))"

lemma idle_due:
  assumes "nbt_Phase (nb_Status nb) = NotebookPhaseRunning" "nbs_Lifecycle (nb_Spec nb) = Some lc"
    "0 < sint (lc_IdleTimeoutMinutes lc)" "sint (maxIdleDuration lc) \<le> sint (Time_Sub now (lastActive nb))"
  shows "pause_due nb now"
  using assms max_idle_minutes[of lc] elapsed_bound[of "maxIdleDuration lc" now "lastActive nb"]
  unfolding pause_due_def by fastforce

lemma lifespan_due:
  assumes "nbt_Phase (nb_Status nb) = NotebookPhaseRunning" "nbs_Lifecycle (nb_Spec nb) = Some lc"
    "0 < sint (lc_MaxLifespanHours lc)"
    "sint (maxLifespanDuration lc) \<le> sint (Time_Sub now (om_CreationTimestamp (nb_Meta nb)))"
  shows "pause_due nb now"
  using assms max_lifespan_hours[of lc] elapsed_bound[of "maxLifespanDuration lc" now "om_CreationTimestamp (nb_Meta nb)"]
  unfolding pause_due_def by fastforce

lemma pause_run_patch:
  assumes "pause_run nb s st b rq evs r" and "OnNotebookLab (Patch base obj u) \<in> set evs"
  shows "\<exists>now. evs = [Now now, OnNotebookLab (Patch base obj u)] \<and> base = nb \<and> obj = paused nb \<and> 0 < sint s \<and>
     nbt_Phase (nb_Status nb) = NotebookPhaseRunning \<and> sint b \<le> sint (Time_Sub now st)"
  using assms by (cases rule: pause_run.cases) auto

lemma purge_run_patch: "purge_run nb lc evs r \<Longrightarrow> OnNotebookLab (Patch base obj u) \<notin> set evs"
  by (auto elim!: purge_run.cases dest: claim_run_writes)

lemma pause_run_answer:
  "pause_run nb s st b rq evs (None, rq', nb') \<Longrightarrow> nb' = nb \<or> (\<exists>base obj. OnNotebookLab (Patch base obj (Inr nb')) \<in> set evs)"
  by (cases rule: pause_run.cases, assumption) (auto simp: err_of_eq)

definition pauses :: "NotebookLab \<Rightarrow> event list \<Rightarrow> NotebookLab \<Rightarrow> NotebookLab \<Rightarrow> error + NotebookLab \<Rightarrow> bool" where
  "pauses nb evs base obj u \<longleftrightarrow> (\<exists>before now after. evs = before @ [Now now, OnNotebookLab (Patch base obj u)] @ after \<and>
     (base = nb \<or> (\<exists>b x. OnNotebookLab (Patch b x (Inr base)) \<in> set before)) \<and> obj = paused base \<and> pause_due base now)"

lemma pauses_append: "pauses nb evs base obj u \<Longrightarrow> pauses nb (evs @ rest) base obj u"
  unfolding pauses_def by (metis append_assoc)

lemma lifecycle_run_patch:
  assumes "lifecycle_run nb evs r" and "OnNotebookLab (Patch base obj u) \<in> set evs"
  shows "pauses nb evs base obj u"
proof -
  have idle: "pauses nb (evs1 @ evs2) base obj u"
    if i: "OnNotebookLab (Patch base obj u) \<in> set evs2" "idle_run nb lc rq evs2 r2" "nbs_Lifecycle (nb_Spec nb) = Some lc"
    for evs1 evs2 lc rq r2
  proof -
    obtain now where p: "evs2 = [Now now, OnNotebookLab (Patch base obj u)]" "base = nb" "obj = paused nb"
      "0 < sint (lc_IdleTimeoutMinutes lc)" "nbt_Phase (nb_Status nb) = NotebookPhaseRunning"
      "sint (maxIdleDuration lc) \<le> sint (Time_Sub now (lastActive nb))"
      using pause_run_patch[OF i(2,1)] by blast
    then show ?thesis unfolding pauses_def using idle_due[OF p(5) i(3) p(4,6)]
      by (intro exI[of _ evs1] exI[of _ now] exI[of _ "[]"]) simp
  qed
  from assms(1) show ?thesis
  proof (cases rule: lifecycle_run.cases)
    case (idle_fails lc evs1 rq1 evs2 e rq2 nb2)
    then show ?thesis using assms(2) idle[OF _ idle_fails(5,3)] purge_run_patch[OF idle_fails(4)] by auto
  next
    case (lifecycle_lost lc evs1 rq1 evs2 rq2 nb2)
    then show ?thesis using assms(2) idle[OF _ lifecycle_lost(5,3)] purge_run_patch[OF lifecycle_lost(4)] by auto
  next
    case (lifespan_ends lc evs1 rq1 evs2 rq2 nb2 lc2 evs3 e rq3 nb3)
    show ?thesis
    proof (cases "OnNotebookLab (Patch base obj u) \<in> set evs2")
      case True
      from pauses_append[OF idle[OF True lifespan_ends(5,3)], of evs1 evs3] show ?thesis using lifespan_ends(1) by simp
    next
      case False
      then have i: "OnNotebookLab (Patch base obj u) \<in> set evs3"
        using assms(2) lifespan_ends(1) purge_run_patch[OF lifespan_ends(4)] by auto
      obtain now where p: "evs3 = [Now now, OnNotebookLab (Patch base obj u)]" "base = nb2" "obj = paused nb2"
        "0 < sint (lc_MaxLifespanHours lc2)" "nbt_Phase (nb_Status nb2) = NotebookPhaseRunning"
        "sint (maxLifespanDuration lc2) \<le> sint (Time_Sub now (om_CreationTimestamp (nb_Meta nb2)))"
        using pause_run_patch[OF lifespan_ends(7) i] by blast
      have "pause_due base now" using lifespan_due[OF p(5) lifespan_ends(6) p(4,6)] p(2) by simp
      then show ?thesis unfolding pauses_def using p pause_run_answer[OF lifespan_ends(5)] lifespan_ends(1)
        by (intro exI[of _ "evs1 @ evs2"] exI[of _ now] exI[of _ "[]"]) auto
    qed
  qed (use assms(2) in \<open>auto dest: purge_run_patch\<close>)
qed

text \<open>
  C20: The notebook is patched only to set its replicas to zero, directly after a reading of the clock, only in
  the phase Running and only when, at that reading, the idle timeout has passed since the last activity
  or the lifespan since the creation, or the setting is too large for a Duration. What is patched is
  the notebook the run has fetched or an earlier Patch has returned.
\<close>

theorem NotebookLab_pauses_only_due:
  assumes "OnNotebookLab (Patch base obj u) \<in> set (events_of (NotebookLab_Reconcile px k req) w)"
  shows "obj = paused base \<and>
     (\<exists>before now after. events_of (NotebookLab_Reconcile px k req) w =
        before @ [Now now, OnNotebookLab (Patch base obj u)] @ after \<and> held req before base \<and> pause_due base now)"
proof -
  have life: ?thesis
    if run: "events_of (NotebookLab_Reconcile px k req) w = OnNotebookLab (Get req (Inr nb)) # evs @ rest"
      "lifecycle_run nb evs r" "OnNotebookLab (Patch base obj u) \<in> set evs" for nb evs rest r
  proof -
    obtain before now after where p: "evs = before @ [Now now, OnNotebookLab (Patch base obj u)] @ after"
      "base = nb \<or> (\<exists>b x. OnNotebookLab (Patch b x (Inr base)) \<in> set before)" "obj = paused base" "pause_due base now"
      using lifecycle_run_patch[OF run(2,3)] unfolding pauses_def by blast
    then have "held req (OnNotebookLab (Get req (Inr nb)) # before) base" by (auto simp: held_def)
    with p show ?thesis
      unfolding run(1) by (intro conjI exI[of _ "OnNotebookLab (Get req (Inr nb)) # before"] exI[of _ now] exI[of _ "after @ rest"]) simp_all
  qed
  show ?thesis
    using NotebookLab_events[of px req k w]
  proof (cases rule: NotebookLab_run.cases)
    case (notebook_panic nb evs)
    then show ?thesis using assms life[of nb evs "[]"] by auto
  next
    case (lifecycle_stops nb evs p rq e nb')
    then show ?thesis using assms life[of nb evs "[]"] by auto
  next
    case (notebook_provisioned nb evs rq nb' evs' r)
    then have "OnNotebookLab (Patch base obj u) \<in> set evs"
      using assms provision_run_notebook_calls[OF notebook_provisioned(4)] by auto
    then show ?thesis using life notebook_provisioned(1,3) by blast
  qed (use assms in auto)
qed

lemma pause_run_due:
  assumes "pause_run nb s st b rq evs r" and "0 < sint s" and "nbt_Phase (nb_Status nb) = NotebookPhaseRunning"
    and "\<And>now. Now now \<in> set evs \<Longrightarrow> sint b \<le> sint (Time_Sub now st)"
  shows "\<exists>u. OnNotebookLab (Patch nb (paused nb) u) \<in> set evs"
  using assms by (cases rule: pause_run.cases) force+

lemma purge_run_ends:
  assumes "purge_run nb lc evs (p, rq, e)" and "e \<noteq> None \<or> p"
  shows "\<exists>now d. Now now \<in> set evs \<and> OnNotebookLab (Delete nb d) \<in> set evs \<and> 0 < sint (lc_PurgeAfterInactiveDays lc) \<and>
     sint (maxInactiveDuration lc) \<le> sint (Time_Sub now (lastActive nb))"
  using assms by (cases rule: purge_run.cases) auto

definition repaused :: "NotebookLab \<Rightarrow> LifecycleSpec \<Rightarrow> event list \<Rightarrow> bool" where
  "repaused nb lc evs \<longleftrightarrow> (\<exists>u. OnNotebookLab (Patch nb (paused nb) u) \<in> set evs) \<or>
     0 < sint (lc_PurgeAfterInactiveDays lc) \<and> (\<exists>d. OnNotebookLab (Delete nb d) \<in> set evs) \<and>
     (\<exists>now. Now now \<in> set evs \<and> (106751 < sint (lc_PurgeAfterInactiveDays lc) \<or>
        lastActive nb + sint (lc_PurgeAfterInactiveDays lc) * 86400000000000 \<le> now))"

lemma lifecycle_run_pauses_idle:
  assumes lc: "nbs_Lifecycle (nb_Spec nb) = Some lc"
      "0 < sint (lc_IdleTimeoutMinutes lc)" "sint (lc_IdleTimeoutMinutes lc) \<le> 153722867"
    and nb: "nbt_Phase (nb_Status nb) = NotebookPhaseRunning"
    and run: "lifecycle_run nb evs r"
    and clock: "\<And>now. Now now \<in> set evs \<Longrightarrow> lastActive nb + sint (lc_IdleTimeoutMinutes lc) * 60000000000 \<le> now"
  shows "repaused nb lc evs"
proof -
  have bound: "sint (maxIdleDuration lc) = sint (lc_IdleTimeoutMinutes lc) * 60000000000"
    using max_idle_minutes lc(2,3) by blast
  have due: "sint (maxIdleDuration lc) \<le> sint (Time_Sub now (lastActive nb))" if "Now now \<in> set evs" for now
    using clock[OF that] lc(2,3) unfolding bound by (simp add: sint_Time_Sub)
  have idle: "repaused nb lc evs"
    if "idle_run nb lc rq evs2 r2" "set evs2 \<subseteq> set evs" for rq evs2 r2
    using pause_run_due[OF that(1) lc(2) nb] due that(2) unfolding repaused_def by blast
  from run show ?thesis
  proof (cases rule: lifecycle_run.cases)
    case (purge_ends lc' p rq e)
    then have "lc' = lc" using lc(1) by simp
    with purge_run_ends[OF purge_ends(3,4)] purge_bound show ?thesis unfolding repaused_def by blast
  qed (use lc(1) idle in \<open>fastforce\<close>)+
qed

lemma lifecycle_run_no_get: "lifecycle_run nb' evs r \<Longrightarrow> OnNotebookLab (Get req g) \<notin> set evs"
  by (auto elim!: lifecycle_run.cases purge_run.cases pause_run.cases dest: claim_run_writes)

text \<open>
  C21: A notebook without a recorded activity is idle since its creation. So once the idle timeout (one that
  fits a Duration, at most 153722867 minutes) has passed since the creation at every reading of the
  clock, every run that reads the notebook in the phase Running pauses it again, whatever replicas its
  user has asked for in the meantime; only a run in which the purge is due as well deletes it instead.
\<close>

theorem NotebookLab_resume_repaused:
  assumes fetched: "OnNotebookLab (Get req (Inr nb)) \<in> set (events_of (NotebookLab_Reconcile px k req) w)"
    and lc: "nbs_Lifecycle (nb_Spec nb) = Some lc"
      "0 < sint (lc_IdleTimeoutMinutes lc)" "sint (lc_IdleTimeoutMinutes lc) \<le> 153722867"
    and nb: "nbt_Phase (nb_Status nb) = NotebookPhaseRunning" "nbt_LastActiveTime (nb_Status nb) = None"
    and clock: "\<And>now. Now now \<in> set (events_of (NotebookLab_Reconcile px k req) w) \<Longrightarrow>
      om_CreationTimestamp (nb_Meta nb) + sint (lc_IdleTimeoutMinutes lc) * 60000000000 \<le> now"
  shows "(\<exists>u. OnNotebookLab (Patch nb (paused nb) u) \<in> set (events_of (NotebookLab_Reconcile px k req) w)) \<or>
     0 < sint (lc_PurgeAfterInactiveDays lc) \<and>
     (\<exists>d. OnNotebookLab (Delete nb d) \<in> set (events_of (NotebookLab_Reconcile px k req) w)) \<and>
     (\<exists>now. Now now \<in> set (events_of (NotebookLab_Reconcile px k req) w) \<and>
        (106751 < sint (lc_PurgeAfterInactiveDays lc) \<or>
         om_CreationTimestamp (nb_Meta nb) + sint (lc_PurgeAfterInactiveDays lc) * 86400000000000 \<le> now))"
proof -
  let ?evs = "events_of (NotebookLab_Reconcile px k req) w"
  have active: "lastActive nb = om_CreationTimestamp (nb_Meta nb)" using nb(2) by (simp add: lastActive_def)
  have life: "repaused nb lc ?evs" if "lifecycle_run nb' evs r" "?evs = OnNotebookLab (Get req (Inr nb')) # evs @ rest"
    "OnNotebookLab (Get req (Inr nb)) \<notin> set rest" for nb' evs rest r
  proof -
    have "nb' = nb" using fetched that(2,3) lifecycle_run_no_get[OF that(1)] by auto
    with that(1,2) lifecycle_run_pauses_idle[OF lc nb(1), of evs r] clock have "repaused nb lc evs"
      by (auto simp: active)
    then show ?thesis unfolding repaused_def that(2) by auto
  qed
  have "repaused nb lc ?evs"
    using NotebookLab_events[of px req k w]
  proof (cases rule: NotebookLab_run.cases)
    case (notebook_panic nb' evs)
    then show ?thesis using life[of nb' evs _ "[]"] by simp
  next
    case (lifecycle_stops nb' evs p rq e nb'')
    then show ?thesis using life[of nb' evs _ "[]"] by simp
  next
    case (notebook_provisioned nb' evs rq nb'' evs' r)
    have "OnNotebookLab (Get req (Inr nb)) \<notin> set evs'"
      using provision_run_notebook_calls[OF notebook_provisioned(4)] by blast
    then show ?thesis using life[OF notebook_provisioned(3,1)] by blast
  qed (use fetched in auto)
  then show ?thesis unfolding repaused_def active .
qed

section \<open>What a run leaves alone\<close>

lemma shown_keeps [simp]:
  "nbt_LastActiveTime (nb_Status (shown_notebook nb d t)) = nbt_LastActiveTime (nb_Status nb)"
  "nb_Meta (shown_notebook nb d t) = nb_Meta nb" "nb_Spec (shown_notebook nb d t) = nb_Spec nb"
  "nbt_LastActiveTime (nb_Status (with_phase ph nb)) = nbt_LastActiveTime (nb_Status nb)"
  "nb_Meta (with_phase ph nb) = nb_Meta nb" "nb_Spec (with_phase ph nb) = nb_Spec nb"
  by (simp_all add: shown_notebook_def with_phase_def)

lemma provision_run_status:
  assumes "notebook_provision_run px nb rq evs r" and "OnNotebookLab (StatusUpdate x u) \<in> set evs"
  shows "nb_Meta x = nb_Meta nb \<and> nb_Spec x = nb_Spec nb \<and>
     nbt_LastActiveTime (nb_Status x) = nbt_LastActiveTime (nb_Status nb)"
proof -
  have st: "nb_Meta x = nb_Meta nb \<and> nb_Spec x = nb_Spec nb \<and>
     nbt_LastActiveTime (nb_Status x) = nbt_LastActiveTime (nb_Status nb)"
    if "notebook_status_run px nb evs e" "OnNotebookLab (StatusUpdate x u) \<in> set evs" for evs e
    using that by (auto elim!: notebook_status_run.cases dest: ensure_run_owns)
  from assms show ?thesis
    by (cases rule: notebook_provision_run.cases) (auto dest: st notebook_events)
qed

lemma lifecycle_run_held:
  assumes "lifecycle_run nb evs (Returned (p, rq, None, nb'))"
  shows "nb' = nb \<or> (\<exists>base obj. OnNotebookLab (Patch base obj (Inr nb')) \<in> set evs)"
proof -
  have one: "nb' = nb \<or> OnNotebookLab (Patch nb (paused nb) (Inr nb')) \<in> set evs"
    if "pause_run nb s st b rq evs (None, rq', nb')" for nb s st b rq evs rq' nb'
    using that by (cases rule: pause_run.cases) (auto split: sum.splits simp: err_of_eq)
  from assms show ?thesis
    by (cases rule: lifecycle_run.cases) (auto dest!: one)
qed

text \<open>
  No run records an activity: the status it writes keeps the time of the last activity, and the spec,
  of the notebook it read or was answered.
\<close>

theorem NotebookLab_last_active_untouched:
  assumes "OnNotebookLab (StatusUpdate x u) \<in> set (events_of (NotebookLab_Reconcile px k req) w)"
  shows "\<exists>nb. held req (events_of (NotebookLab_Reconcile px k req) w) nb \<and> nb_Spec x = nb_Spec nb \<and>
     nbt_LastActiveTime (nb_Status x) = nbt_LastActiveTime (nb_Status nb)"
proof -
  have life: "OnNotebookLab (StatusUpdate x u) \<notin> set evs" if "lifecycle_run nb evs r" for nb evs r
    using that by (auto elim!: lifecycle_run.cases purge_run.cases pause_run.cases dest: claim_run_writes)
  show ?thesis
    using NotebookLab_events[of px req k w]
  proof (cases rule: NotebookLab_run.cases)
    case (notebook_provisioned nb evs rq nb' evs' r)
    then have "OnNotebookLab (StatusUpdate x u) \<in> set evs'" using assms life by auto
    from provision_run_status[OF notebook_provisioned(4) this] show ?thesis
      using lifecycle_run_held[OF notebook_provisioned(3)] notebook_provisioned(1)
      by (intro exI[of _ nb']) (auto simp: held_def)
  qed (use assms life in auto)
qed

section \<open>Waking up\<close>

text \<open>The settings whose bounds fit in a Duration.\<close>

definition lifecycle_in_range :: "LifecycleSpec \<Rightarrow> bool" where
  "lifecycle_in_range lc \<longleftrightarrow> sint (lc_PurgeAfterInactiveDays lc) \<le> 106751 \<and>
     sint (lc_IdleTimeoutMinutes lc) \<le> 153722867 \<and> sint (lc_MaxLifespanHours lc) \<le> 2562047"

text \<open>A requeue after rq comes, counted from a reading of the clock in the run, by the deadline.\<close>

definition wakes :: "event list \<Rightarrow> Time \<Rightarrow> Duration \<Rightarrow> bool" where
  "wakes evs deadline rq \<longleftrightarrow> 0 < sint rq \<and> (\<exists>now. Now now \<in> set evs \<and> now + sint rq \<le> deadline)"

lemma wakes_mono: "wakes evs dl rq \<Longrightarrow> set evs \<subseteq> set evs' \<Longrightarrow> 0 < sint rq' \<Longrightarrow> sint rq' \<le> sint rq \<Longrightarrow> wakes evs' dl rq'"
  unfolding wakes_def by force

lemma max_idle_exact:
  assumes "lifecycle_in_range lc" "0 < sint (lc_IdleTimeoutMinutes lc)"
  shows "sint (maxIdleDuration lc) = sint (lc_IdleTimeoutMinutes lc) * 60000000000"
  using assms by (intro max_idle_minutes) (simp_all add: lifecycle_in_range_def)

lemma max_lifespan_exact:
  assumes "lifecycle_in_range lc" "0 < sint (lc_MaxLifespanHours lc)"
  shows "sint (maxLifespanDuration lc) = sint (lc_MaxLifespanHours lc) * 3600000000000"
  using assms by (intro max_lifespan_hours) (simp_all add: lifecycle_in_range_def)

lemma remaining:
  assumes "start \<le> now" and "sint (Time_Sub now start) < sint (bound :: Duration)"
  shows "0 < sint (bound - Time_Sub now start) \<and> now + sint (bound - Time_Sub now start) = start + sint bound"
proof -
  have b: "sint bound < 2 ^ 63" using fits64_sint[of bound] by (simp add: fits64_def)
  then have t: "sint (Time_Sub now start) = now - start" using assms by (simp add: sint_Time_Sub)
  have "sint (bound - Time_Sub now start) = sint bound - (now - start)"
    using assms b unfolding t[symmetric] by (intro sint_diff64) (auto simp: fits64_def t)
  then show ?thesis using assms(2) t by simp
qed

lemma earlier_least:
  assumes "0 < sint d" and "rq = 0 \<or> 0 < sint rq"
  shows "0 < sint (earlier rq d) \<and> sint (earlier rq d) \<le> sint d \<and> (rq \<noteq> 0 \<longrightarrow> sint (earlier rq d) \<le> sint rq)"
  using assms unfolding earlier_def by auto

lemma pause_run_wakes:
  assumes run: "pause_run nb s st b rq evs (None, rq', nb')"
    and quiet: "\<And>base obj u. OnNotebookLab (Patch base obj u) \<notin> set evs"
    and clock: "\<And>now. Now now \<in> set evs \<Longrightarrow> st \<le> now" and rq: "rq = 0 \<or> 0 < sint rq"
  shows "nb' = nb \<and> (rq' = 0 \<or> 0 < sint rq') \<and> (rq \<noteq> 0 \<longrightarrow> 0 < sint rq' \<and> sint rq' \<le> sint rq) \<and>
     (0 < sint s \<and> nbt_Phase (nb_Status nb) = NotebookPhaseRunning \<longrightarrow> wakes evs (st + sint b) rq')"
  using run
proof (cases rule: pause_run.cases)
  case no_rule
  then show ?thesis using rq by auto
next
  case (not_due elapsed now)
  have d: "0 < sint (b - elapsed)" "now + sint (b - elapsed) = st + sint b"
    using remaining[of st now b] clock not_due by auto
  note e = earlier_least[OF d(1) rq]
  have "wakes evs (st + sint b) (earlier rq (b - elapsed))"
    unfolding wakes_def not_due(1) using e d(2) by (intro conjI exI[of _ now]) auto
  then show ?thesis using e not_due by auto
next
  case (pause elapsed now u)
  then show ?thesis using quiet by auto
qed

lemma purge_run_wakes:
  assumes run: "purge_run nb lc evs (False, rq, None)" and quiet: "\<And>d. OnNotebookLab (Delete nb d) \<notin> set evs"
    and clock: "\<And>now. Now now \<in> set evs \<Longrightarrow> lastActive nb \<le> now"
  shows "(rq = 0 \<or> 0 < sint rq) \<and> (0 < sint (lc_PurgeAfterInactiveDays lc) \<longrightarrow>
     rq \<noteq> 0 \<and> wakes evs (lastActive nb + sint (maxInactiveDuration lc)) rq)"
  using run
proof (cases rule: purge_run.cases)
  case (still_active elapsed now)
  have "0 < sint (maxInactiveDuration lc - elapsed) \<and> now + sint (maxInactiveDuration lc - elapsed) =
      lastActive nb + sint (maxInactiveDuration lc)"
    using remaining[of "lastActive nb" now "maxInactiveDuration lc"] clock still_active by auto
  then show ?thesis using still_active by (auto simp: wakes_def)
qed (use quiet in auto)

lemma lifecycle_run_wakes:
  assumes run: "lifecycle_run nb evs (Returned (False, rq, None, nb'))"
    and lc: "nbs_Lifecycle (nb_Spec nb) = Some lc" "lifecycle_in_range lc"
    and quiet: "\<And>base obj u. OnNotebookLab (Patch base obj u) \<notin> set evs" "\<And>d. OnNotebookLab (Delete nb d) \<notin> set evs"
    and clock: "\<And>now. Now now \<in> set evs \<Longrightarrow> lastActive nb \<le> now \<and> om_CreationTimestamp (nb_Meta nb) \<le> now"
  shows "(0 < sint (lc_PurgeAfterInactiveDays lc) \<longrightarrow>
        wakes evs (lastActive nb + sint (lc_PurgeAfterInactiveDays lc) * 86400000000000) rq) \<and>
     (0 < sint (lc_IdleTimeoutMinutes lc) \<and> nbt_Phase (nb_Status nb) = NotebookPhaseRunning \<longrightarrow>
        wakes evs (lastActive nb + sint (lc_IdleTimeoutMinutes lc) * 60000000000) rq) \<and>
     (0 < sint (lc_MaxLifespanHours lc) \<and> nbt_Phase (nb_Status nb) = NotebookPhaseRunning \<longrightarrow>
        wakes evs (om_CreationTimestamp (nb_Meta nb) + sint (lc_MaxLifespanHours lc) * 3600000000000) rq)"
  using run
proof (cases rule: lifecycle_run.cases)
  case (lifespan_ends lc1 evs1 rq1 evs2 rq2 nb2 lc2 evs3 rq3)
  have [simp]: "lc1 = lc" "evs = evs1 @ evs2 @ evs3" "rq3 = rq"
    using lifespan_ends(1-3) lc(1) by (auto simp: HOL.induct_true_def)
  have p: "(rq1 = 0 \<or> 0 < sint rq1) \<and> (0 < sint (lc_PurgeAfterInactiveDays lc) \<longrightarrow>
      rq1 \<noteq> 0 \<and> wakes evs1 (lastActive nb + sint (maxInactiveDuration lc)) rq1)"
    using lifespan_ends quiet clock by (intro purge_run_wakes) auto
  have i: "nb2 = nb \<and> (rq2 = 0 \<or> 0 < sint rq2) \<and> (rq1 \<noteq> 0 \<longrightarrow> 0 < sint rq2 \<and> sint rq2 \<le> sint rq1) \<and>
     (0 < sint (lc_IdleTimeoutMinutes lc) \<and> nbt_Phase (nb_Status nb) = NotebookPhaseRunning \<longrightarrow>
        wakes evs2 (lastActive nb + sint (maxIdleDuration lc)) rq2)"
    using lifespan_ends quiet clock p by (intro pause_run_wakes) auto
  have [simp]: "nb2 = nb" "lc2 = lc" using i lifespan_ends lc(1) by auto
  have l: "nb' = nb \<and> (rq = 0 \<or> 0 < sint rq) \<and> (rq2 \<noteq> 0 \<longrightarrow> 0 < sint rq \<and> sint rq \<le> sint rq2) \<and>
     (0 < sint (lc_MaxLifespanHours lc) \<and> nbt_Phase (nb_Status nb) = NotebookPhaseRunning \<longrightarrow>
        wakes evs3 (om_CreationTimestamp (nb_Meta nb) + sint (maxLifespanDuration lc)) rq)"
    using lifespan_ends quiet clock i by (intro pause_run_wakes) auto
  have "wakes evs (lastActive nb + sint (lc_PurgeAfterInactiveDays lc) * 86400000000000) rq"
    if z: "0 < sint (lc_PurgeAfterInactiveDays lc)"
  proof -
    have "sint (maxInactiveDuration lc) = sint (lc_PurgeAfterInactiveDays lc) * 86400000000000"
      using z lc(2) by (intro max_inactive_exact) (auto simp: lifecycle_in_range_def)
    moreover have "0 < sint rq \<and> sint rq \<le> sint rq1" using p i l z by auto
    ultimately show ?thesis using p z wakes_mono[of evs1 _ rq1 evs rq] by auto
  qed
  moreover have "wakes evs (lastActive nb + sint (lc_IdleTimeoutMinutes lc) * 60000000000) rq"
    if z: "0 < sint (lc_IdleTimeoutMinutes lc) \<and> nbt_Phase (nb_Status nb) = NotebookPhaseRunning"
  proof -
    have w: "wakes evs2 (lastActive nb + sint (maxIdleDuration lc)) rq2" using i z by blast
    then have "rq2 \<noteq> 0" by (auto simp: wakes_def)
    then show ?thesis using l z w max_idle_exact[OF lc(2)] wakes_mono[of evs2 _ rq2 evs rq] by auto
  qed
  moreover have "wakes evs (om_CreationTimestamp (nb_Meta nb) + sint (lc_MaxLifespanHours lc) * 3600000000000) rq"
    if z: "0 < sint (lc_MaxLifespanHours lc) \<and> nbt_Phase (nb_Status nb) = NotebookPhaseRunning"
  proof -
    have w: "wakes evs3 (om_CreationTimestamp (nb_Meta nb) + sint (maxLifespanDuration lc)) rq" using l z by blast
    then show ?thesis using z max_lifespan_exact[OF lc(2)] wakes_mono[of evs3 _ rq evs rq] by (auto simp: wakes_def)
  qed
  ultimately show ?thesis by blast
qed (use lc(1) in auto)

lemma purged_deletes: "lifecycle_run nb evs (Returned (True, rq, None, nb')) \<Longrightarrow> \<exists>d. OnNotebookLab (Delete nb d) \<in> set evs"
  by (auto elim!: lifecycle_run.cases purge_run.cases split: if_splits)

text \<open>
  C14: A successful run that neither paused nor deleted the notebook asks to be repeated no later than each
  of the deadlines that apply: the purge and, in the phase Running, the idle timeout and the lifespan.
  The settings are the ones whose bounds fit a Duration and the clock is not before the start.
\<close>

theorem NotebookLab_wakes_in_time:
  assumes fetched: "OnNotebookLab (Get req (Inr nb)) \<in> set (events_of (NotebookLab_Reconcile px k req) w)"
    and finished: "result_of (NotebookLab_Reconcile px k req) w = Returned (\<lparr>RequeueAfter = rq\<rparr>, None)"
    and lc: "nbs_Lifecycle (nb_Spec nb) = Some lc" "lifecycle_in_range lc"
    and quiet: "\<And>base obj u. OnNotebookLab (Patch base obj u) \<notin> set (events_of (NotebookLab_Reconcile px k req) w)"
      "\<And>d. OnNotebookLab (Delete nb d) \<notin> set (events_of (NotebookLab_Reconcile px k req) w)"
    and clock: "\<And>now. Now now \<in> set (events_of (NotebookLab_Reconcile px k req) w) \<Longrightarrow>
      lastActive nb \<le> now \<and> om_CreationTimestamp (nb_Meta nb) \<le> now"
  shows "(0 < sint (lc_PurgeAfterInactiveDays lc) \<longrightarrow> wakes (events_of (NotebookLab_Reconcile px k req) w)
        (lastActive nb + sint (lc_PurgeAfterInactiveDays lc) * 86400000000000) rq) \<and>
     (0 < sint (lc_IdleTimeoutMinutes lc) \<and> nbt_Phase (nb_Status nb) = NotebookPhaseRunning \<longrightarrow>
        wakes (events_of (NotebookLab_Reconcile px k req) w) (lastActive nb + sint (lc_IdleTimeoutMinutes lc) * 60000000000) rq) \<and>
     (0 < sint (lc_MaxLifespanHours lc) \<and> nbt_Phase (nb_Status nb) = NotebookPhaseRunning \<longrightarrow>
        wakes (events_of (NotebookLab_Reconcile px k req) w)
          (om_CreationTimestamp (nb_Meta nb) + sint (lc_MaxLifespanHours lc) * 3600000000000) rq)"
  using NotebookLab_events[of px req k w]
proof (cases rule: NotebookLab_run.cases)
  case (lifecycle_stops nb' evs p rq' e nb'')
  have "p \<and> e = None" using lifecycle_stops(2,4) finished by (auto simp: no_result_def)
  moreover have "nb' = nb"
    using fetched lifecycle_stops(1,3)
    by (auto elim!: lifecycle_run.cases purge_run.cases pause_run.cases dest: claim_run_writes)
  ultimately show ?thesis
    using purged_deletes[of nb evs rq' nb''] lifecycle_stops(1,3) quiet(2) by auto
next
  case (notebook_provisioned nb' evs rq' nb'' evs' r)
  have rq: "rq' = rq"
    using notebook_provisioned(2,4) finished by (auto elim!: notebook_provision_run.cases)
  have "OnNotebookLab (Get req (Inr nb)) \<notin> set evs \<union> set evs'"
    using notebook_provisioned(3) provision_run_notebook_calls[OF notebook_provisioned(4)]
    by (auto elim!: lifecycle_run.cases purge_run.cases pause_run.cases dest: claim_run_writes)
  then have nb: "nb' = nb" using fetched notebook_provisioned(1) by auto
  have m: "wakes (events_of (NotebookLab_Reconcile px k req) w) dl rq" if "wakes evs dl rq" for dl
    using that unfolding wakes_def notebook_provisioned(1) by auto
  show ?thesis
    using lifecycle_run_wakes[OF notebook_provisioned(3)[unfolded nb rq] lc] quiet clock m
    unfolding notebook_provisioned(1) by auto
qed (use fetched finished in auto)

section \<open>Concrete runs\<close>

lemmas NotebookLab_code = NotebookLab_Reconcile_def NotebookLab_reconcileLifecycle_def NotebookLab_purge_def
  NotebookLab_pause_after_def pause_notebook_def time_since_def NotebookLab_provision_def
  NotebookLab_reconcileWorkspacePVC_def NotebookLab_reconcileJupyterDeployment_def
  NotebookLab_reconcileNotebookSecret_def NotebookLab_reconcileNetworking_def NotebookLab_ensure_service_def
  NotebookLab_ensure_ingress_def NotebookLab_updateNotebookStatus_def NotebookLab_updateStatusError_def

abbreviation "nb_key \<equiv> \<lparr>nn_Namespace = ''default'', nn_Name = ''nb''\<rparr>"

definition sample_lifecycle :: LifecycleSpec where
  "sample_lifecycle = \<lparr>lc_IdleTimeoutMinutes = 30, lc_MaxLifespanHours = 8, lc_PurgeAfterInactiveDays = 7\<rparr>"

lemma sample_lifecycle_simps [simp]:
  "sint (lc_IdleTimeoutMinutes sample_lifecycle) = 30" "sint (lc_MaxLifespanHours sample_lifecycle) = 8"
  "sint (lc_PurgeAfterInactiveDays sample_lifecycle) = 7" "lifecycle_in_range sample_lifecycle"
  by (simp_all add: sample_lifecycle_def lifecycle_in_range_def)

lemma sample_bounds [simp]:
  "sint (maxInactiveDuration sample_lifecycle) = 604800000000000"
  "sint (maxIdleDuration sample_lifecycle) = 1800000000000"
  "sint (maxLifespanDuration sample_lifecycle) = 28800000000000"
  using max_inactive_exact[of sample_lifecycle] max_idle_exact[of sample_lifecycle] max_lifespan_exact[of sample_lifecycle]
  by simp_all

lemma sample_NotebookLab_simps [simp]:
  "nbs_Lifecycle (nb_Spec sample_NotebookLab) = Some sample_lifecycle"
  "nbt_Phase (nb_Status sample_NotebookLab) = NotebookPhaseRunning"
  "nbt_LastActiveTime (nb_Status sample_NotebookLab) = None"
  "lastActive sample_NotebookLab = 0" "om_CreationTimestamp (nb_Meta sample_NotebookLab) = 0"
  "nb_Namespace sample_NotebookLab = ''default''" "nb_Name sample_NotebookLab = ''nb''"
  "workspace_of sample_NotebookLab = Some \<lparr>ws_Size = Quantity 10, ws_StorageClassName = '''', ws_MountPath = ''/workspace''\<rparr>"
  by (simp_all add: sample_NotebookLab_def sample_lifecycle_def lastActive_def new_meta_def nb_Namespace_def nb_Name_def
      workspace_of_def)

lemma paused_simps [simp]:
  "nb_Namespace (paused nb) = nb_Namespace nb" "nb_Name (paused nb) = nb_Name nb"
  "workspace_of (paused nb) = workspace_of nb" "lastActive (paused nb) = lastActive nb" "wanted_replicas (paused nb) = 0"
  by (simp_all add: nb_Namespace_def nb_Name_def workspace_of_def lastActive_def wanted_replicas_def split: option.splits)

lemma sample_set_owner [simp]: "set_owner sample_platform nb m = Inr (m\<lparr>om_OwnerReferences :=
    [\<lparr>or_Kind = ''NotebookLab'', or_Name = om_Name (nb_Meta nb), or_UID = om_UID (nb_Meta nb), or_Controller = True\<rparr>]\<rparr>)"
  by (simp add: set_owner_def sample_platform_def)

text \<open>A kind of which nothing exists yet, and an API in which the notebook has no child.\<close>

definition absent_kind :: "('w, 'o) kind_api" where
  "absent_kind = (fails_with (NotFoundError ''''))\<lparr>k_create := (\<lambda>x w. (Inr x, w))\<rparr>"

lemma absent_kind_simps [simp]:
  "k_get absent_kind = (\<lambda>_ w. (Inl (NotFoundError ''''), w))" "k_create absent_kind = (\<lambda>x w. (Inr x, w))"
  by (simp_all add: absent_kind_def)

definition fresh_api :: "NotebookLab \<Rightarrow> Time api" where
  "fresh_api nb = (sample_api sample_ClusterLab sample_InstanceLab nb)\<lparr>pvcs := absent_kind, secrets := absent_kind,
     services := absent_kind, ingresses := absent_kind, deployments := absent_kind\<rparr>"

lemma fresh_api_simps [simp]:
  "notebooklabs (fresh_api nb) = fixed_kind nb" "pvcs (fresh_api nb) = absent_kind" "secrets (fresh_api nb) = absent_kind"
  "services (fresh_api nb) = absent_kind" "ingresses (fresh_api nb) = absent_kind"
  "deployments (fresh_api nb) = absent_kind" "clock (fresh_api nb) = (\<lambda>w. (w, w + 1))"
  by (simp_all add: fresh_api_def)

abbreviation "nb_api \<equiv> fresh_api sample_NotebookLab"

text \<open>A notebook whose response to a Patch has no lifecycle any more.\<close>

abbreviation "stripped_NotebookLab \<equiv> sample_NotebookLab\<lparr>nb_Spec := (nb_Spec sample_NotebookLab)\<lparr>nbs_Lifecycle := None\<rparr>\<rparr>"

abbreviation "stripping_api \<equiv> nb_api\<lparr>notebooklabs := (fixed_kind sample_NotebookLab)
  \<lparr>k_patch := (\<lambda>_ _ w. (Inr stripped_NotebookLab, w))\<rparr>\<rparr>"

theorem NotebookLab_panics_only_witness:
  "result_of (NotebookLab_Reconcile sample_platform stripping_api nb_key) 3000000000000 = Panicked \<and>
   (\<exists>base obj nb. OnNotebookLab (Patch base obj (Inr nb)) \<in>
     set (events_of (NotebookLab_Reconcile sample_platform stripping_api nb_key) 3000000000000) \<and>
     nbs_Lifecycle (nb_Spec nb) = None)"
proof -
  have p: "result_of (NotebookLab_Reconcile sample_platform stripping_api nb_key) 3000000000000 = Panicked"
    by (simp add: result_of_def NotebookLab_code sint_Time_Sub Let_def)
  then show ?thesis using NotebookLab_panics_only[OF p] by blast
qed

theorem NotebookLab_purges_only_inactive_witness:
  "\<exists>d now rest. events_of (NotebookLab_Reconcile sample_platform nb_api nb_key) 700000000000000 =
     OnNotebookLab (Get nb_key (Inr sample_NotebookLab)) # Now now # rest \<and> 7 * 86400000000000 \<le> now"
proof -
  have d: "OnNotebookLab (Delete sample_NotebookLab None) \<in>
      set (events_of (NotebookLab_Reconcile sample_platform nb_api nb_key) 700000000000000)"
    by (simp add: events_of_def NotebookLab_code sint_Time_Sub Let_def)
  then show ?thesis using NotebookLab_purges_only_inactive[OF d] by auto
qed

abbreviation "long_lifecycle \<equiv> sample_lifecycle\<lparr>lc_PurgeAfterInactiveDays := 106752\<rparr>"

definition long_NotebookLab :: NotebookLab where
  "long_NotebookLab = sample_NotebookLab\<lparr>nb_Spec := (nb_Spec sample_NotebookLab)\<lparr>nbs_Lifecycle := Some long_lifecycle\<rparr>\<rparr>"

abbreviation "long_api \<equiv> fresh_api long_NotebookLab"

theorem NotebookLab_purge_overflow_witness:
  "\<exists>d. OnNotebookLab (Delete long_NotebookLab d) \<in> set (events_of (NotebookLab_Reconcile sample_platform long_api nb_key) 0)"
  by (rule NotebookLab_purge_overflow[where ?w1.0 = 0 and ?w2.0 = 1 and now = 0 and lc = long_lifecycle])
    (simp_all add: long_NotebookLab_def lastActive_def)

theorem NotebookLab_pauses_only_due_witness:
  "\<exists>now. Now now \<in> set (events_of (NotebookLab_Reconcile sample_platform nb_api nb_key) 3000000000000) \<and>
     pause_due sample_NotebookLab now"
proof -
  have "OnNotebookLab (Patch sample_NotebookLab (paused sample_NotebookLab) (Inr (paused sample_NotebookLab))) \<in>
      set (events_of (NotebookLab_Reconcile sample_platform nb_api nb_key) 3000000000000)"
    by (simp add: events_of_def NotebookLab_code sint_Time_Sub Let_def)
  from NotebookLab_pauses_only_due[OF this] show ?thesis by fastforce
qed

text \<open>A notebook with the documented settings, whose user has asked for one replica again.\<close>

definition resumed_NotebookLab :: NotebookLab where
  "resumed_NotebookLab = sample_NotebookLab\<lparr>nb_Spec := (nb_Spec sample_NotebookLab)\<lparr>nbs_Replicas := Some 1\<rparr>\<rparr>"

lemma resumed_NotebookLab_simps [simp]:
  "nbs_Lifecycle (nb_Spec resumed_NotebookLab) = Some sample_lifecycle"
  "nbt_Phase (nb_Status resumed_NotebookLab) = NotebookPhaseRunning"
  "nbt_LastActiveTime (nb_Status resumed_NotebookLab) = None" "om_CreationTimestamp (nb_Meta resumed_NotebookLab) = 0"
  "lastActive resumed_NotebookLab = 0"
  "workspace_of resumed_NotebookLab = workspace_of sample_NotebookLab"
  by (simp_all add: resumed_NotebookLab_def lastActive_def workspace_of_def)

theorem NotebookLab_resume_repaused_witness:
  "\<exists>u. OnNotebookLab (Patch resumed_NotebookLab (paused resumed_NotebookLab) u) \<in>
     set (events_of (NotebookLab_Reconcile sample_platform (fresh_api resumed_NotebookLab) nb_key) 3000000000000)"
proof -
  let ?evs = "events_of (NotebookLab_Reconcile sample_platform (fresh_api resumed_NotebookLab) nb_key) 3000000000000"
  have get: "OnNotebookLab (Get nb_key (Inr resumed_NotebookLab)) \<in> set ?evs"
    and now: "\<And>now. Now now \<in> set ?evs \<Longrightarrow> 0 + sint (lc_IdleTimeoutMinutes sample_lifecycle) * 60000000000 \<le> now \<and> now < 604800000000000"
    by (auto simp: events_of_def NotebookLab_code sint_Time_Sub Let_def)
  from NotebookLab_resume_repaused[OF get, of sample_lifecycle] now show ?thesis by fastforce
qed

text \<open>The first run of a young notebook.\<close>

lemma young_run:
  "OnNotebookLab (Get nb_key (Inr sample_NotebookLab)) \<in> set (events_of (NotebookLab_Reconcile sample_platform nb_api nb_key) 0)"
  "\<exists>rq. result_of (NotebookLab_Reconcile sample_platform nb_api nb_key) 0 = Returned (\<lparr>RequeueAfter = rq\<rparr>, None)"
  "OnNotebookLab (Patch base obj v) \<notin> set (events_of (NotebookLab_Reconcile sample_platform nb_api nb_key) 0)"
  "OnNotebookLab (Delete nb d) \<notin> set (events_of (NotebookLab_Reconcile sample_platform nb_api nb_key) 0)"
  "Now now \<in> set (events_of (NotebookLab_Reconcile sample_platform nb_api nb_key) 0) \<Longrightarrow> 0 \<le> now"
  "\<exists>x u. OnNotebookLab (StatusUpdate x u) \<in> set (events_of (NotebookLab_Reconcile sample_platform nb_api nb_key) 0)"
  "\<exists>s c. OnSecret (Create s c) \<in> set (events_of (NotebookLab_Reconcile sample_platform nb_api nb_key) 0)"
  by (auto simp: events_of_def result_of_def NotebookLab_code sint_Time_Sub Let_def)

theorem NotebookLab_last_active_untouched_witness:
  "\<exists>x u nb. OnNotebookLab (StatusUpdate x u) \<in> set (events_of (NotebookLab_Reconcile sample_platform nb_api nb_key) 0) \<and>
     held nb_key (events_of (NotebookLab_Reconcile sample_platform nb_api nb_key) 0) nb \<and>
     nbt_LastActiveTime (nb_Status x) = nbt_LastActiveTime (nb_Status nb)"
proof -
  obtain x u where x: "OnNotebookLab (StatusUpdate x u) \<in> set (events_of (NotebookLab_Reconcile sample_platform nb_api nb_key) 0)"
    using young_run(6) by blast
  from x NotebookLab_last_active_untouched[OF x] show ?thesis by blast
qed

theorem NotebookLab_wakes_in_time_witness:
  "\<exists>rq. result_of (NotebookLab_Reconcile sample_platform nb_api nb_key) 0 = Returned (\<lparr>RequeueAfter = rq\<rparr>, None) \<and>
     wakes (events_of (NotebookLab_Reconcile sample_platform nb_api nb_key) 0) 1800000000000 rq"
proof -
  obtain rq where r: "result_of (NotebookLab_Reconcile sample_platform nb_api nb_key) 0 = Returned (\<lparr>RequeueAfter = rq\<rparr>, None)"
    using young_run(2) by blast
  have "lastActive sample_NotebookLab \<le> now \<and> om_CreationTimestamp (nb_Meta sample_NotebookLab) \<le> now"
    if "Now now \<in> set (events_of (NotebookLab_Reconcile sample_platform nb_api nb_key) 0)" for now
    using young_run(5)[OF that] by simp
  from r NotebookLab_wakes_in_time[OF young_run(1) r sample_NotebookLab_simps(1) sample_lifecycle_simps(4) young_run(3,4) this]
  show ?thesis by auto
qed

end
