(* ===== verification/OperatorSystem.thy ===== *)
theory OperatorSystem
  imports ClusterLabCorrectness InstanceLabCorrectness NotebookLabLifecycle
begin

text \<open>
  The reconcilers together. A run is a sequence of steps of the world, one per call of the API; the
  worlds that users and the reconcilers can reach are an inductive set, and the laws say what the API
  server promises of the versions of ClusterLabs it stores. An invariant of the reachable worlds shows
  that the reconcilers of ClusterLab and InstanceLab always work on the same namespace, and with it that
  the clean-up of an instance finds the children of that instance. The last section bounds the requests
  of a run.
\<close>

section \<open>Steps of the world\<close>

text \<open>A call of the API as a step of the world, and a run as a sequence of such steps.\<close>

named_theorems log_intro \<open>rules that show a computation to be a sequence of API calls\<close>

inductive kind_step :: "('w, 'o) kind_api \<Rightarrow> 'w \<Rightarrow> 'o call \<Rightarrow> 'w \<Rightarrow> bool" for kk where
  "k_get kk key w = (r, w') \<Longrightarrow> kind_step kk w (Get key r) w'"
| "k_list kk ns w = (l, w') \<Longrightarrow> kind_step kk w (List ns l) w'"
| "k_create kk x w = (r, w') \<Longrightarrow> kind_step kk w (Create x r) w'"
| "k_update kk x w = (r, w') \<Longrightarrow> kind_step kk w (Update x r) w'"
| "k_patch kk b x w = (r, w') \<Longrightarrow> kind_step kk w (Patch b x r) w'"
| "k_status_update kk x w = (r, w') \<Longrightarrow> kind_step kk w (StatusUpdate x r) w'"
| "k_delete kk x w = (d, w') \<Longrightarrow> kind_step kk w (Delete x d) w'"
| "k_delete_all_of kk ns ls w = (d, w') \<Longrightarrow> kind_step kk w (DeleteAllOf ns ls d) w'"
| "k_create_or_update kk x f w = (r, w') \<Longrightarrow> kind_step kk w (CreateOrUpdate x f r) w'"

inductive api_step :: "'w api \<Rightarrow> 'w \<Rightarrow> event \<Rightarrow> 'w \<Rightarrow> bool" for k where
  "kind_step (clusterlabs k) w c1 w' \<Longrightarrow> api_step k w (OnClusterLab c1) w'"
| "kind_step (instancelabs k) w c2 w' \<Longrightarrow> api_step k w (OnInstanceLab c2) w'"
| "kind_step (notebooklabs k) w c3 w' \<Longrightarrow> api_step k w (OnNotebookLab c3) w'"
| "kind_step (namespaces k) w c4 w' \<Longrightarrow> api_step k w (OnNamespace c4) w'"
| "kind_step (resourcequotas k) w c5 w' \<Longrightarrow> api_step k w (OnResourceQuota c5) w'"
| "kind_step (networkpolicies k) w c6 w' \<Longrightarrow> api_step k w (OnNetworkPolicy c6) w'"
| "kind_step (pods k) w c7 w' \<Longrightarrow> api_step k w (OnPod c7) w'"
| "kind_step (services k) w c8 w' \<Longrightarrow> api_step k w (OnService c8) w'"
| "kind_step (ingresses k) w c9 w' \<Longrightarrow> api_step k w (OnIngress c9) w'"
| "kind_step (pvcs k) w c10 w' \<Longrightarrow> api_step k w (OnPVC c10) w'"
| "kind_step (secrets k) w c11 w' \<Longrightarrow> api_step k w (OnSecret c11) w'"
| "kind_step (deployments k) w c12 w' \<Longrightarrow> api_step k w (OnDeployment c12) w'"
| "clock k w = (t, w') \<Longrightarrow> api_step k w (Now t) w'"

inductive moves :: "'w api \<Rightarrow> 'w \<Rightarrow> event list \<Rightarrow> 'w \<Rightarrow> bool" for k where
  still: "moves k w [] w"
| move: "api_step k w e w1 \<Longrightarrow> moves k w1 es w' \<Longrightarrow> moves k w (e # es) w'"

inductive_cases moves_ConsE: "moves k w (e # es) w'"

lemma moves_append: "moves k w a w1 \<Longrightarrow> moves k w1 b w' \<Longrightarrow> moves k w (a @ b) w'"
  by (induction rule: moves.induct) (auto intro: moves.intros)

definition logged :: "'w api \<Rightarrow> ('w, 'a) io \<Rightarrow> bool" where
  "logged k m \<longleftrightarrow> (\<forall>s. \<exists>evs. trace (snd (run_state m s)) = trace s @ evs \<and>
     moves k (world s) evs (world (snd (run_state m s))))"

lemma logged_run: "logged k m \<Longrightarrow> moves k w (events_of m w) (world_after m w)"
  unfolding logged_def events_of_def world_after_def by (drule spec[of _ "\<lparr>world = w, trace = []\<rparr>"]) auto

lemma logged_return [log_intro]: "logged k (ret x)"
  by (simp add: logged_def moves.still)

lemma logged_bind [log_intro]:
  assumes "logged k m" and "\<And>x. logged k (f x)"
  shows "logged k (ibind m f)"
  unfolding logged_def
proof
  fix s
  obtain x s1 where r: "run_state m s = (x, s1)" by fastforce
  obtain a where a: "trace s1 = trace s @ a" "moves k (world s) a (world s1)"
    using assms(1) r unfolding logged_def by (metis snd_conv)
  obtain b where b: "trace (snd (run_state (f x) s1)) = trace s1 @ b"
      "moves k (world s1) b (world (snd (run_state (f x) s1)))"
    using assms(2) unfolding logged_def by blast
  show "\<exists>evs. trace (snd (run_state (ibind m f) s)) = trace s @ evs \<and>
      moves k (world s) evs (world (snd (run_state (ibind m f) s)))"
    using a b r moves_append[OF a(2) b(2)] by (intro exI[of _ "a @ b"]) simp
qed

lemma logged_perform:
  assumes "\<And>w r w'. f w = (r, w') \<Longrightarrow> api_step k w (ev r) w'"
  shows "logged k (perform f ev)"
  using assms by (auto simp: logged_def split: prod.splits intro!: moves.intros)

lemma logged_calls [log_intro]:
  "logged k (api_get (clusterlabs k) OnClusterLab key)" "logged k (api_update (clusterlabs k) OnClusterLab cl)"
  "logged k (api_status_update (clusterlabs k) OnClusterLab cl)" "logged k (api_delete (clusterlabs k) OnClusterLab cl)"
  "logged k (api_get (instancelabs k) OnInstanceLab key)" "logged k (api_list (instancelabs k) OnInstanceLab ns)"
  "logged k (api_update (instancelabs k) OnInstanceLab il)" "logged k (api_status_update (instancelabs k) OnInstanceLab il)"
  "logged k (api_get (notebooklabs k) OnNotebookLab key)" "logged k (api_patch (notebooklabs k) OnNotebookLab b nb)"
  "logged k (api_status_update (notebooklabs k) OnNotebookLab nb)" "logged k (api_delete (notebooklabs k) OnNotebookLab nb)"
  "logged k (api_get (namespaces k) OnNamespace key)" "logged k (api_delete (namespaces k) OnNamespace n)"
  "logged k (api_create_or_update (namespaces k) OnNamespace n fn)"
  "logged k (api_get (resourcequotas k) OnResourceQuota key)"
  "logged k (api_create_or_update (resourcequotas k) OnResourceQuota q fq)"
  "logged k (api_create_or_update (networkpolicies k) OnNetworkPolicy p fp)"
  "logged k (api_create_or_update (pods k) OnPod pod fpod)" "logged k (api_delete_all_of (pods k) OnPod ns ls)"
  "logged k (api_get (services k) OnService key)" "logged k (api_create (services k) OnService svc)"
  "logged k (api_create_or_update (services k) OnService svc fs)" "logged k (api_delete_all_of (services k) OnService ns ls)"
  "logged k (api_get (ingresses k) OnIngress key)" "logged k (api_create (ingresses k) OnIngress ing)"
  "logged k (api_create_or_update (ingresses k) OnIngress ing fi)" "logged k (api_delete_all_of (ingresses k) OnIngress ns ls)"
  "logged k (api_get (pvcs k) OnPVC key)" "logged k (api_create (pvcs k) OnPVC pvc)" "logged k (api_delete (pvcs k) OnPVC pvc)"
  "logged k (api_create_or_update (pvcs k) OnPVC pvc fc)" "logged k (api_delete_all_of (pvcs k) OnPVC ns ls)"
  "logged k (api_get (secrets k) OnSecret key)" "logged k (api_create (secrets k) OnSecret s)"
  "logged k (api_get (deployments k) OnDeployment key)" "logged k (api_create (deployments k) OnDeployment d)"
  "logged k (api_patch (deployments k) OnDeployment b' d)" "logged k (time_now k)"
  by (intro logged_perform api_step.intros kind_step.intros; assumption)+

lemma logged_if [log_intro]: "(b \<Longrightarrow> logged k m) \<Longrightarrow> (\<not> b \<Longrightarrow> logged k n) \<Longrightarrow> logged k (if b then m else n)"
  by simp

lemma logged_case_sum [log_intro]:
  "(\<And>e. logged k (f e)) \<Longrightarrow> (\<And>y. logged k (g y)) \<Longrightarrow> logged k (case x of Inl e \<Rightarrow> f e | Inr y \<Rightarrow> g y)"
  by (cases x) auto

lemma logged_case_option [log_intro]:
  "logged k n \<Longrightarrow> (\<And>y. logged k (g y)) \<Longrightarrow> logged k (case x of None \<Rightarrow> n | Some y \<Rightarrow> g y)"
  by (cases x) auto

lemma logged_case_prod [log_intro]: "(\<And>a b. logged k (f a b)) \<Longrightarrow> logged k (case x of (a, b) \<Rightarrow> f a b)"
  by (cases x) auto

lemma logged_case_outcome [log_intro]:
  "(\<And>x. logged k (f x)) \<Longrightarrow> logged k n \<Longrightarrow> logged k (case r of Returned x \<Rightarrow> f x | Panicked \<Rightarrow> n)"
  by (cases r) auto

lemma logged_SetCondition [log_intro]: "logged k (SetCondition px k cs ty st reason msg)"
  unfolding SetCondition_def by (intro log_intro)

lemma ClusterLab_logged: "logged k (ClusterLab_Reconcile px k req)"
  unfolding ClusterLab_Reconcile_def ClusterLab_reconcileFinalizer_def ClusterLab_reconcileActive_def
    ClusterLab_reconcileTTL_def ClusterLab_provision_def ClusterLab_fail_def ClusterLab_updateStatusFailed_def
    ClusterLab_reconcileNamespace_def ClusterLab_reconcileResourceQuota_def ClusterLab_reconcileNetworkPolicy_def
    ClusterLab_updateClusterLabStatus_def Let_def
  by (intro log_intro)

lemma InstanceLab_logged: "logged k (InstanceLab_Reconcile px k req)"
  unfolding InstanceLab_code Let_def by (intro log_intro)

lemma NotebookLab_logged: "logged k (NotebookLab_Reconcile px k req)"
  unfolding NotebookLab_Reconcile_def NotebookLab_reconcileLifecycle_def NotebookLab_purge_def
    NotebookLab_pause_after_def pause_notebook_def time_since_def NotebookLab_provision_def
    NotebookLab_reconcileWorkspacePVC_def NotebookLab_reconcileJupyterDeployment_def
    NotebookLab_reconcileNotebookSecret_def NotebookLab_reconcileNetworking_def NotebookLab_ensure_service_def
    NotebookLab_ensure_ingress_def NotebookLab_updateNotebookStatus_def NotebookLab_updateStatusError_def Let_def
  by (intro log_intro)

section \<open>The store of ClusterLabs\<close>

text \<open>
  versions w is the set of the versions of ClusterLabs the API server has ever stored. The laws state
  what the server documents of a resource with a status subresource, while other clients act between
  and during the calls: a new version has an empty target namespace (a lab its user has just created),
  or it has the name and the status of an older one (a change of metadata or spec leaves the status
  alone), or it carries what a StatusUpdate of that name has written. A read returns a stored version,
  the last one or, from a cache, an older one, under the key that was asked for.
\<close>

definition harmless :: "ClusterLab set \<Rightarrow> ClusterLab \<Rightarrow> bool" where
  "harmless olds cl \<longleftrightarrow> clt_TargetNamespace (cl_Status cl) = '''' \<or>
     (\<exists>old \<in> olds. om_Name (cl_Meta old) = om_Name (cl_Meta cl) \<and> cl_Status old = cl_Status cl)"

fun written_by :: "event \<Rightarrow> ClusterLab \<Rightarrow> bool" where
  "written_by (OnClusterLab (StatusUpdate x _)) cl \<longleftrightarrow>
     om_Name (cl_Meta x) = om_Name (cl_Meta cl) \<and> cl_Status x = cl_Status cl"
| "written_by _ cl \<longleftrightarrow> False"

definition store_laws :: "'w api \<Rightarrow> ('w \<Rightarrow> ClusterLab set) \<Rightarrow> bool" where
  "store_laws k versions \<longleftrightarrow>
     (\<forall>w e w'. api_step k w e w' \<longrightarrow> (\<forall>cl \<in> versions w'. harmless (versions w) cl \<or> written_by e cl)) \<and>
     (\<forall>w key cl w'. api_step k w (OnClusterLab (Get key (Inr cl))) w' \<longrightarrow>
        cl \<in> versions w' \<and> meta_key (cl_Meta cl) = key)"

text \<open>
  The worlds that can be reached from one without a status by what users do and by runs of the three
  reconcilers, in any order.
\<close>

inductive reachable :: "platform \<Rightarrow> 'w api \<Rightarrow> ('w \<Rightarrow> ClusterLab set) \<Rightarrow> 'w \<Rightarrow> bool" for px k versions where
  fresh: "\<forall>cl \<in> versions w. clt_TargetNamespace (cl_Status cl) = '''' \<Longrightarrow> reachable px k versions w"
| users: "reachable px k versions w \<Longrightarrow> \<forall>cl \<in> versions w'. harmless (versions w) cl \<Longrightarrow> reachable px k versions w'"
| cluster_lab: "reachable px k versions w \<Longrightarrow> reachable px k versions (world_after (ClusterLab_Reconcile px k req) w)"
| instance_lab: "reachable px k versions w \<Longrightarrow> reachable px k versions (world_after (InstanceLab_Reconcile px k req) w)"
| notebook_lab: "reachable px k versions w \<Longrightarrow> reachable px k versions (world_after (NotebookLab_Reconcile px k req) w)"

definition settled :: "ClusterLab \<Rightarrow> bool" where
  "settled cl \<longleftrightarrow> clt_TargetNamespace (cl_Status cl) = '''' \<or>
     clt_TargetNamespace (cl_Status cl) = GenerateTargetNamespace (om_Name (cl_Meta cl))"

fun settles :: "event \<Rightarrow> bool" where
  "settles (OnClusterLab (StatusUpdate x _)) = settled x"
| "settles _ = True"

lemma harmless_settled: "harmless olds cl \<Longrightarrow> \<forall>old \<in> olds. settled old \<Longrightarrow> settled cl"
  by (auto simp: harmless_def settled_def)

lemma written_settled: "written_by e cl \<Longrightarrow> settles e \<Longrightarrow> settled cl"
  by (induction e cl rule: written_by.induct) (auto simp: settled_def)

lemma store_version:
  assumes "store_laws k versions" and "api_step k w e w'" and "cl \<in> versions w'"
  shows "harmless (versions w) cl \<or> written_by e cl"
  using assms unfolding store_laws_def by blast

lemma store_read:
  assumes "store_laws k versions" and "api_step k w (OnClusterLab (Get key (Inr cl))) w'"
  shows "cl \<in> versions w' \<and> meta_key (cl_Meta cl) = key"
proof -
  have "\<forall>w key cl w'. api_step k w (OnClusterLab (Get key (Inr cl))) w' \<longrightarrow> cl \<in> versions w' \<and> meta_key (cl_Meta cl) = key"
    using assms(1) unfolding store_laws_def by (rule conjunct2)
  then show ?thesis using assms(2) by blast
qed

lemma step_settled:
  assumes "store_laws k versions" and "api_step k w e w'" and "\<forall>cl \<in> versions w. settled cl" and "settles e"
  shows "\<forall>cl \<in> versions w'. settled cl"
  using store_version[OF assms(1,2)] harmless_settled[OF _ assms(3)] written_settled[OF _ assms(4)] by blast

lemma moves_settled:
  assumes laws: "store_laws k versions" and "moves k w es w'" and "\<forall>cl \<in> versions w. settled cl" and "\<forall>e \<in> set es. settles e"
  shows "(\<forall>cl \<in> versions w'. settled cl) \<and>
     (\<forall>key cl. OnClusterLab (Get key (Inr cl)) \<in> set es \<longrightarrow> settled cl \<and> meta_key (cl_Meta cl) = key)"
  using assms(2-)
proof (induction rule: moves.induct)
  case (move w e w1 es w')
  have w1: "\<forall>cl \<in> versions w1. settled cl" by (rule step_settled[OF laws move(1)]) (use move.prems in simp_all)
  have "settled cl \<and> meta_key (cl_Meta cl) = key" if "e = OnClusterLab (Get key (Inr cl))" for key cl
    using store_read[OF laws, of w key cl w1] move(1) w1 that by simp
  then show ?case using move.IH[OF w1] move.prems by auto
qed simp

section \<open>What the runs write\<close>

lemma meta_key_name: "meta_key (cl_Meta cl) = key \<Longrightarrow> om_Name (cl_Meta cl) = nn_Name key"
  by (auto simp: meta_key_def)

lemma with_target_settled: "settled cl \<Longrightarrow> settled (with_target cl)"
  by (auto simp: settled_def with_target_def set_clt_def)

lemma ttl_run_identity:
  "ttl_run cl evs (ex, after, e, cl') \<Longrightarrow> om_Name (cl_Meta cl') = om_Name (cl_Meta cl) \<and>
     clt_TargetNamespace (cl_Status cl') = clt_TargetNamespace (cl_Status cl) \<and> (\<forall>ev \<in> set evs. settles ev)"
  by (auto elim!: ttl_run.cases simp: set_clt_def)

lemma provision_settles:
  assumes "provision_run px cl (GenerateTargetNamespace (om_Name (cl_Meta cl))) after evs r" and "settled cl" and "e \<in> set evs"
  shows "settles e"
proof -
  have f: "settled (failed_object px t reason err cl)" for t reason err
    using assms(2) by (simp add: settled_def failed_object_def set_clt_def)
  have st: "settles ev" if "status_run px cl (GenerateTargetNamespace (om_Name (cl_Meta cl))) es r'" "ev \<in> set es" for es r' ev
    using that by (auto elim!: status_run.cases simp: settled_def running_object_def observed_def set_clt_def)
  from assms(1,3) show ?thesis
    by (cases rule: provision_run.cases) (auto simp: f dest: st)
qed

lemma ClusterLab_settles:
  assumes "ClusterLab_run px req (OnClusterLab (Get req (Inr cl)) # evs) r" and "settled cl" and "e \<in> set evs"
  shows "settles e"
  using assms(1)
proof (cases rule: ClusterLab_run.cases)
  case active
  from active(3) show ?thesis
  proof (cases rule: active_run.cases)
    case (provision evs1 after cl' evs2)
    have "settled cl'" "om_Name (cl_Meta cl') = om_Name (cl_Meta cl)"
      using ttl_run_identity[OF provision(2)] with_target_settled[OF assms(2)] by (auto simp: settled_def with_target_def set_clt_def)
    then show ?thesis
      using provision_settles[of px cl' after evs2 r e] provision ttl_run_identity[OF provision(2)] assms(3) by auto
  qed (use assms(3) ttl_run_identity in fastforce)+
qed (use assms(3) in \<open>auto elim!: finalizer_run.cases\<close>)

lemma ClusterLab_run_head:
  "ClusterLab_run px req evs r \<Longrightarrow>
   (\<exists>e. evs = [OnClusterLab (Get req (Inl e))]) \<or> (\<exists>cl rest. evs = OnClusterLab (Get req (Inr cl)) # rest)"
  by (auto elim!: ClusterLab_run.cases)

lemma cluster_run_settles:
  assumes laws: "store_laws k versions" and w: "\<forall>cl \<in> versions w. settled cl"
  shows "\<forall>e \<in> set (events_of (ClusterLab_Reconcile px k req) w). settles e"
proof -
  let ?evs = "events_of (ClusterLab_Reconcile px k req) w"
  note run = yields_run[OF ClusterLab_Reconcile_yields, of px req k w]
  show ?thesis
    using ClusterLab_run_head[OF run]
  proof (elim disjE exE)
    fix cl rest
    assume evs: "?evs = OnClusterLab (Get req (Inr cl)) # rest"
    obtain w1 where w1: "api_step k w (OnClusterLab (Get req (Inr cl))) w1"
      using logged_run[OF ClusterLab_logged, of k w px req] unfolding evs by (elim moves_ConsE)
    have "\<forall>cl \<in> versions w1. settled cl" by (rule step_settled[OF laws w1 w]) simp
    then have "settled cl" using store_read[OF laws w1] by blast
    from ClusterLab_settles[OF run[unfolded evs] this] show ?thesis by (simp add: evs)
  qed simp
qed

fun reads_labs :: "event \<Rightarrow> bool" where
  "reads_labs (OnClusterLab (Get _ _)) = True"
| "reads_labs (OnClusterLab _) = False"
| "reads_labs _ = True"

lemma reads_settle: "reads_labs e \<Longrightarrow> settles e"
  by (cases e rule: settles.cases) auto

lemma nows_read: "set evs \<subseteq> range Now \<Longrightarrow> e \<in> set evs \<Longrightarrow> reads_labs e"
  by auto

lemma instance_provision_reads: "instance_provision_run px il cl ns evs r \<Longrightarrow> e \<in> set evs \<Longrightarrow> reads_labs e"
  by (auto elim!: instance_provision_run.cases disk_run.cases service_run.cases ingress_run.cases
    instance_status_run.cases dest: nows_read)

lemma instance_run_reads: "InstanceLab_run px req evs r \<Longrightarrow> e \<in> set evs \<Longrightarrow> reads_labs e"
  by (auto elim!: InstanceLab_run.cases instance_finalizer_run.cases instance_active_run.cases parent_run.cases
    dest: instance_provision_reads)

lemma lifecycle_reads: "lifecycle_run nb evs r \<Longrightarrow> e \<in> set evs \<Longrightarrow> reads_labs e"
  by (auto elim!: lifecycle_run.cases purge_run.cases pause_run.cases claim_run.cases)

lemma notebook_provision_reads: "notebook_provision_run px nb rq evs r \<Longrightarrow> e \<in> set evs \<Longrightarrow> reads_labs e"
  by (auto elim!: notebook_provision_run.cases dest!: notebook_events)

lemma notebook_run_reads: "NotebookLab_run px req evs r \<Longrightarrow> e \<in> set evs \<Longrightarrow> reads_labs e"
  by (auto elim!: NotebookLab_run.cases dest: lifecycle_reads notebook_provision_reads)

section \<open>One namespace\<close>

text \<open>The namespace a call of the reconciler of ClusterLab, or of InstanceLab, works on.\<close>

fun cluster_touches :: "event \<Rightarrow> string option" where
  "cluster_touches (OnNamespace (CreateOrUpdate n _ _)) = Some (om_Name (ns_Meta n))"
| "cluster_touches (OnNamespace (Delete n _)) = Some (om_Name (ns_Meta n))"
| "cluster_touches (OnNamespace (Get key _)) = Some (nn_Name key)"
| "cluster_touches (OnResourceQuota (CreateOrUpdate q _ _)) = Some (om_Namespace (rq_Meta q))"
| "cluster_touches (OnNetworkPolicy (CreateOrUpdate p _ _)) = Some (om_Namespace (np_Meta p))"
| "cluster_touches _ = None"

fun instance_deletes_in :: "event \<Rightarrow> string option" where
  "instance_deletes_in (OnPVC (DeleteAllOf ns _ _)) = Some ns"
| "instance_deletes_in (OnPod (DeleteAllOf ns _ _)) = Some ns"
| "instance_deletes_in (OnService (DeleteAllOf ns _ _)) = Some ns"
| "instance_deletes_in (OnIngress (DeleteAllOf ns _ _)) = Some ns"
| "instance_deletes_in _ = None"

definition instance_touches :: "event \<Rightarrow> string \<Rightarrow> bool" where
  "instance_touches e ns \<longleftrightarrow> workload_target e = Some ns \<or> instance_deletes_in e = Some ns"

lemma settled_namespace: "settled cl \<Longrightarrow> ClusterLab_targetNamespace cl = GenerateTargetNamespace (om_Name (cl_Meta cl))"
  by (auto simp: settled_def ClusterLab_targetNamespace_def)

lemma provision_touches:
  "provision_run px cl ns after evs r \<Longrightarrow> e \<in> set evs \<Longrightarrow> cluster_touches e = None \<or> cluster_touches e = Some ns"
  by (auto elim!: provision_run.cases status_run.cases simp: new_Namespace_def new_ResourceQuota_def
    new_NetworkPolicy_def new_meta_def)

lemma ttl_touches: "ttl_run cl evs r \<Longrightarrow> e \<in> set evs \<Longrightarrow> cluster_touches e = None"
  by (auto elim!: ttl_run.cases)

lemma ClusterLab_touches:
  assumes "ClusterLab_run px req (OnClusterLab (Get req (Inr cl)) # evs) r" and "settled cl"
    and "meta_key (cl_Meta cl) = req" and "e \<in> set evs" and "cluster_touches e = Some ns"
  shows "ns = GenerateTargetNamespace (nn_Name req)"
  using assms(1)
proof (cases rule: ClusterLab_run.cases)
  case active
  from active(3) show ?thesis
  proof (cases rule: active_run.cases)
    case (provision evs1 after cl' evs2)
    then show ?thesis using provision_touches[OF provision(3)] ttl_touches[OF provision(2)] assms(4,5)
        meta_key_name[OF assms(3)] by fastforce
  qed (use assms(4,5) ttl_touches in fastforce)+
next
  case deleting
  from deleting(2) show ?thesis
    using assms(4,5) settled_namespace[OF assms(2)] meta_key_name[OF assms(3)]
    by (auto elim!: finalizer_run.cases simp: new_Namespace_def new_meta_def)
qed (use assms(4,5) in auto)

lemma parent_namespace:
  assumes "settled cl" and "meta_key (cl_Meta cl) = parent_key il"
  shows "ClusterLab_targetNamespace cl = GenerateTargetNamespace (ils_ClusterLabRef (il_Spec il))"
    and "cleanup_namespace il (Inr cl) = GenerateTargetNamespace (ils_ClusterLabRef (il_Spec il))"
  using assms settled_namespace[OF assms(1)] meta_key_name[OF assms(2)]
  by (auto simp: cleanup_namespace_def parent_key_def settled_def)

fun fetches_instance :: "event \<Rightarrow> bool" where
  "fetches_instance (OnInstanceLab (Get _ _)) = True"
| "fetches_instance _ = False"

lemma nows_plain: "set evs \<subseteq> range Now \<Longrightarrow> e \<in> set evs \<Longrightarrow> instance_deletes_in e = None \<and> \<not> fetches_instance e"
  by auto

lemma instance_provision_plain:
  "instance_provision_run px il cl ns evs r \<Longrightarrow> e \<in> set evs \<Longrightarrow> instance_deletes_in e = None \<and> \<not> fetches_instance e"
  by (auto elim!: instance_provision_run.cases disk_run.cases service_run.cases ingress_run.cases
    instance_status_run.cases dest: nows_plain)

lemma InstanceLab_touches:
  assumes run: "InstanceLab_run px req evs r" and fetched: "OnInstanceLab (Get req (Inr il)) \<in> set evs"
    and parent: "\<And>cl. OnClusterLab (Get (parent_key il) (Inr cl)) \<in> set evs \<Longrightarrow>
      settled cl \<and> meta_key (cl_Meta cl) = parent_key il"
    and e: "e \<in> set evs" "instance_touches e ns"
  shows "ns = GenerateTargetNamespace (ils_ClusterLabRef (il_Spec il))"
  using run
proof (cases rule: InstanceLab_run.cases)
  case (instance_active il' evs')
  have [simp]: "il' = il" using fetched instance_active(1,4)
    by (auto elim!: instance_active_run.cases parent_run.cases dest: instance_provision_plain)
  from instance_active(4) show ?thesis
  proof (cases rule: instance_active_run.cases)
    case (building evs1 cl il'' evs2)
    have q: "\<not> instance_touches ev ns" if "ev \<in> set evs1" for ev
      using building(2) that by (auto elim!: parent_run.cases simp: instance_touches_def)
    have "e \<in> set evs2" using e q building(1) instance_active(1) by (auto simp: instance_touches_def)
    then have "ns = ClusterLab_targetNamespace cl"
      using provision_run_targets[OF building(3)] instance_provision_plain[OF building(3)] e(2)
      by (fastforce simp: instance_touches_def)
    moreover have "OnClusterLab (Get (parent_key il) (Inr cl)) \<in> set evs"
      using building(1,2) instance_active(1) by (auto elim!: parent_run.cases)
    ultimately show ?thesis using parent_namespace(1) parent by blast
  qed (use e instance_active in \<open>auto elim!: parent_run.cases simp: instance_touches_def\<close>)
next
  case (instance_deleting il' evs' r')
  have [simp]: "il' = il" using fetched instance_deleting(1,4) by (auto elim!: instance_finalizer_run.cases)
  from instance_deleting(4) show ?thesis
  proof (cases rule: instance_finalizer_run.cases)
    case (cleaned ns' g)
    then have "ns = cleanup_namespace il g" using e instance_deleting(1) by (auto simp: instance_touches_def)
    then show ?thesis using parent parent_namespace(2) instance_deleting(1) cleaned
      by (cases g) (auto simp: cleanup_namespace_def)
  qed (use e instance_deleting in \<open>auto simp: instance_touches_def\<close>)
qed (use e fetched in \<open>auto simp: instance_touches_def\<close>)

lemma run_reads:
  assumes laws: "store_laws k versions" and w: "\<forall>cl \<in> versions w. settled cl"
  shows "OnClusterLab (Get key (Inr cl)) \<in> set (events_of (ClusterLab_Reconcile px k req) w) \<Longrightarrow> settled cl \<and> meta_key (cl_Meta cl) = key"
    and "OnClusterLab (Get key (Inr cl)) \<in> set (events_of (InstanceLab_Reconcile px k req) w) \<Longrightarrow> settled cl \<and> meta_key (cl_Meta cl) = key"
proof -
  have "\<forall>e \<in> set (events_of (InstanceLab_Reconcile px k req) w). settles e"
    by (intro ballI reads_settle) (rule instance_run_reads[OF InstanceLab_events])
  from moves_settled[OF laws logged_run[OF InstanceLab_logged] w this]
  show "OnClusterLab (Get key (Inr cl)) \<in> set (events_of (InstanceLab_Reconcile px k req) w) \<Longrightarrow> settled cl \<and> meta_key (cl_Meta cl) = key"
    by blast
  from moves_settled[OF laws logged_run[OF ClusterLab_logged] w cluster_run_settles[OF laws w]]
  show "OnClusterLab (Get key (Inr cl)) \<in> set (events_of (ClusterLab_Reconcile px k req) w) \<Longrightarrow> settled cl \<and> meta_key (cl_Meta cl) = key"
    by blast
qed

lemma reachable_settled:
  assumes laws: "store_laws k versions" and "reachable px k versions w"
  shows "\<forall>cl \<in> versions w. settled cl"
  using assms(2)
proof (induction rule: reachable.induct)
  case (fresh w)
  then show ?case by (simp add: settled_def)
next
  case (users w w')
  then show ?case using harmless_settled by blast
next
  case (cluster_lab w req)
  show ?case
    using moves_settled[OF laws logged_run[OF ClusterLab_logged] cluster_lab.IH
      cluster_run_settles[OF laws cluster_lab.IH]] by blast
next
  case (instance_lab w req)
  have "\<forall>e \<in> set (events_of (InstanceLab_Reconcile px k req) w). settles e"
    by (intro ballI reads_settle) (rule instance_run_reads[OF InstanceLab_events])
  from moves_settled[OF laws logged_run[OF InstanceLab_logged] instance_lab.IH this] show ?case by blast
next
  case (notebook_lab w req)
  have "\<forall>e \<in> set (events_of (NotebookLab_Reconcile px k req) w). settles e"
    by (intro ballI reads_settle) (rule notebook_run_reads[OF NotebookLab_events])
  from moves_settled[OF laws logged_run[OF NotebookLab_logged] notebook_lab.IH this] show ?case by blast
qed

text \<open>
  C6: In every world users and the three reconcilers can reach, each version of a ClusterLab carries no
  target namespace or the one generated from its name, whatever the order of their actions and
  however stale the reads are.
\<close>

theorem reachable_target_namespace:
  assumes "store_laws k versions" and "reachable px k versions w" and "cl \<in> versions w"
  shows "clt_TargetNamespace (cl_Status cl) \<in> {'''', GenerateTargetNamespace (om_Name (cl_Meta cl))}"
  using reachable_settled[OF assms(1,2)] assms(3) by (auto simp: settled_def)

text \<open>
  C5: The reconcilers meet in one namespace: what a run for a ClusterLab creates, reads back or deletes, and
  where a run for an InstanceLab that refers to it builds or cleans up, is the namespace generated from
  the name of the ClusterLab, in any two reachable worlds; so deleting the ClusterLab covers it all.
\<close>

theorem one_namespace:
  assumes laws: "store_laws k versions" and w: "reachable px k versions w" and w': "reachable px k versions w'"
    and e: "e \<in> set (events_of (ClusterLab_Reconcile px k req) w)" "cluster_touches e = Some ns"
    and e': "e' \<in> set (events_of (InstanceLab_Reconcile px k req') w')" "instance_touches e' ns'"
    and il: "OnInstanceLab (Get req' (Inr il)) \<in> set (events_of (InstanceLab_Reconcile px k req') w')"
      "ils_ClusterLabRef (il_Spec il) = nn_Name req"
  shows "ns = GenerateTargetNamespace (nn_Name req) \<and> ns' = ns"
proof -
  note run = yields_run[OF ClusterLab_Reconcile_yields, of px req k w]
  have ns: "ns = GenerateTargetNamespace (nn_Name req)"
    using ClusterLab_run_head[OF run]
  proof (elim disjE exE)
    fix cl rest
    assume evs: "events_of (ClusterLab_Reconcile px k req) w = OnClusterLab (Get req (Inr cl)) # rest"
    then have "settled cl \<and> meta_key (cl_Meta cl) = req"
      using run_reads(1)[OF laws reachable_settled[OF laws w], of req cl px req] by simp
    moreover have "e \<in> set rest" using e evs by auto
    ultimately show ?thesis using ClusterLab_touches[OF run[unfolded evs]] e(2) by blast
  qed (use e in auto)
  have "ns' = GenerateTargetNamespace (ils_ClusterLabRef (il_Spec il))"
    by (rule InstanceLab_touches[OF InstanceLab_events il(1) run_reads(2)[OF laws reachable_settled[OF laws w']] e'])
  then show ?thesis using ns il(2) by simp
qed

section \<open>A store\<close>

text \<open>
  An API that keeps the versions of the ClusterLabs, the last one first: an Update leaves the status of
  the version it replaces, a StatusUpdate takes over the status. Everything else answers as in the
  samples and changes nothing.
\<close>

definition last_version :: "ClusterLab list \<Rightarrow> NamespacedName \<Rightarrow> ClusterLab option" where
  "last_version h key = find (\<lambda>cl. meta_key (cl_Meta cl) = key) h"

definition lab_store :: "(ClusterLab list, ClusterLab) kind_api" where
  "lab_store = (fails_with (ApiError ''forbidden''))\<lparr>
     k_get := (\<lambda>key h. (case last_version h key of None \<Rightarrow> Inl (NotFoundError '''') | Some cl \<Rightarrow> Inr cl, h)),
     k_update := (\<lambda>x h. case last_version h (meta_key (cl_Meta x)) of None \<Rightarrow> (Inl (NotFoundError ''''), h)
       | Some old \<Rightarrow> let x' = x\<lparr>cl_Status := cl_Status old\<rparr> in (Inr x', x' # h)),
     k_status_update := (\<lambda>x h. case last_version h (meta_key (cl_Meta x)) of None \<Rightarrow> (Inl (NotFoundError ''''), h)
       | Some old \<Rightarrow> let x' = old\<lparr>cl_Status := cl_Status x\<rparr> in (Inr x', x' # h))\<rparr>"

definition store_api :: "ClusterLab list api" where
  "store_api = \<lparr>clusterlabs = lab_store, instancelabs = fixed_kind sample_InstanceLab, notebooklabs = fixed_kind sample_NotebookLab,
     namespaces = fixed_kind \<lparr>ns_Meta = new_meta '''' ''lab-demo''\<rparr>,
     resourcequotas = fixed_kind \<lparr>rq_Meta = new_meta '''' '''', rq_Hard = Map.empty, rq_Used = Map.empty\<rparr>,
     networkpolicies = fixed_kind \<lparr>np_Meta = new_meta '''' '''', np_PodSelector = Map.empty, np_PolicyTypes = [], np_Ingress = []\<rparr>,
     pods = fixed_kind sample_Pod, services = fails_with (ApiError ''''), ingresses = fails_with (ApiError ''''),
     pvcs = fails_with (ApiError ''''), secrets = fails_with (ApiError ''''), deployments = fails_with (ApiError ''''),
     clock = (\<lambda>h. (0, h))\<rparr>"

lemma last_version_in: "last_version h key = Some cl \<Longrightarrow> cl \<in> set h \<and> meta_key (cl_Meta cl) = key"
  unfolding last_version_def find_Some_iff by (auto dest: nth_mem)

lemma fixed_kind_still: "kind_step (fixed_kind x) w c w' \<Longrightarrow> w' = w"
  by (auto elim!: kind_step.cases)

lemma fails_with_still: "kind_step (fails_with e) w c w' \<Longrightarrow> w' = w"
  by (auto elim!: kind_step.cases)

lemma harmless_old: "cl \<in> olds \<Longrightarrow> harmless olds cl"
  by (auto simp: harmless_def)

lemma lab_store_step:
  assumes "kind_step lab_store h c h'"
  shows "\<forall>cl \<in> set h'. harmless (set h) cl \<or> written_by (OnClusterLab c) cl"
  using assms
  by (cases rule: kind_step.cases)
    (auto simp: lab_store_def harmless_old Let_def harmless_def meta_key_def dest!: last_version_in split: option.splits, blast+)

lemma store_api_laws: "store_laws store_api set"
  unfolding store_laws_def
proof (intro conjI allI impI)
  fix h e h'
  assume "api_step store_api h e h'"
  then show "\<forall>cl \<in> set h'. harmless (set h) cl \<or> written_by e cl"
  proof (cases rule: api_step.cases)
    case (1 c)
    then show ?thesis using lab_store_step[of h c h'] by (simp add: store_api_def)
  qed (auto simp: store_api_def harmless_old dest!: fixed_kind_still fails_with_still)
next
  fix h key cl h'
  assume "api_step store_api h (OnClusterLab (Get key (Inr cl))) h'"
  then show "cl \<in> set h'" "meta_key (cl_Meta cl) = key"
    by (auto elim!: api_step.cases kind_step.cases simp: store_api_def lab_store_def dest: last_version_in split: option.splits)
qed

lemma store_api_simps:
  "clusterlabs store_api = lab_store" "instancelabs store_api = fixed_kind sample_InstanceLab"
  "namespaces store_api = fixed_kind \<lparr>ns_Meta = new_meta '''' ''lab-demo''\<rparr>"
  "resourcequotas store_api = fixed_kind \<lparr>rq_Meta = new_meta '''' '''', rq_Hard = Map.empty, rq_Used = Map.empty\<rparr>"
  "networkpolicies store_api = fixed_kind \<lparr>np_Meta = new_meta '''' '''', np_PodSelector = Map.empty, np_PolicyTypes = [], np_Ingress = []\<rparr>"
  "pods store_api = fixed_kind sample_Pod" "pvcs store_api = fails_with (ApiError '''')" "clock store_api = (\<lambda>h. (0, h))"
  by (simp_all add: store_api_def)

lemma lab_store_simps [simp]:
  "k_get lab_store = (\<lambda>key h. (case last_version h key of None \<Rightarrow> Inl (NotFoundError '''') | Some cl \<Rightarrow> Inr cl, h))"
  "k_status_update lab_store = (\<lambda>x h. case last_version h (meta_key (cl_Meta x)) of None \<Rightarrow> (Inl (NotFoundError ''''), h)
       | Some old \<Rightarrow> let x' = old\<lparr>cl_Status := cl_Status x\<rparr> in (Inr x', x' # h))"
  by (simp_all add: lab_store_def)

definition parent_lab :: ClusterLab where
  "parent_lab = sample_ClusterLab\<lparr>cl_Status := (cl_Status sample_ClusterLab)\<lparr>clt_Phase := ''Running''\<rparr>\<rparr>"

lemma parent_lab_simps [simp]:
  "clt_Phase (cl_Status parent_lab) = ''Running''" "om_Name (cl_Meta parent_lab) = ''demo''"
  "om_Namespace (cl_Meta parent_lab) = ''default''" "om_DeletionTimestamp (cl_Meta parent_lab) = None"
  "clt_TargetNamespace (cl_Status parent_lab) = ''''" "cls_TTL (cl_Spec parent_lab) = ''''"
  "ContainsFinalizer sample_platform (cl_Meta parent_lab) ClusterLabFinalizer"
  by (simp_all add: parent_lab_def sample_ClusterLab_def new_meta_def sample_platform_def)

lemma store_start: "reachable sample_platform store_api set [parent_lab]"
  by (rule reachable.fresh) simp

lemma last_version_one [simp]: "last_version [parent_lab] demo_key = Some parent_lab"
  "meta_key (cl_Meta parent_lab) = demo_key"
  by (simp_all add: last_version_def meta_key_def)

lemma cluster_lab_world:
  "\<exists>cl rest. world_after (ClusterLab_Reconcile sample_platform store_api demo_key) [parent_lab] = cl # rest \<and>
     clt_TargetNamespace (cl_Status cl) = ''lab-demo''"
  by (simp add: world_after_def ClusterLab_code store_api_simps Let_def set_clt_def GenerateTargetNamespace_def
      SanitizeName_short split: prod.splits)

theorem reachable_target_namespace_witness:
  "\<exists>cl \<in> set (world_after (ClusterLab_Reconcile sample_platform store_api demo_key) [parent_lab]).
     clt_TargetNamespace (cl_Status cl) = ''lab-demo'' \<and>
     clt_TargetNamespace (cl_Status cl) \<in> {'''', GenerateTargetNamespace (om_Name (cl_Meta cl))}"
proof -
  obtain cl where cl: "cl \<in> set (world_after (ClusterLab_Reconcile sample_platform store_api demo_key) [parent_lab])"
    "clt_TargetNamespace (cl_Status cl) = ''lab-demo''" using cluster_lab_world by force
  have "reachable sample_platform store_api set (world_after (ClusterLab_Reconcile sample_platform store_api demo_key) [parent_lab])"
    by (rule reachable.cluster_lab) (rule store_start)
  note r = reachable_target_namespace[OF store_api_laws this]
  have "clt_TargetNamespace (cl_Status cl) \<in> {'''', GenerateTargetNamespace (om_Name (cl_Meta cl))}"
    by (rule r) (rule cl(1))
  with cl show ?thesis by (intro bexI conjI)
qed

theorem one_namespace_witness:
  "\<exists>e e' ns. e \<in> set (events_of (ClusterLab_Reconcile sample_platform store_api demo_key) [parent_lab]) \<and> cluster_touches e = Some ns \<and>
     e' \<in> set (events_of (InstanceLab_Reconcile sample_platform store_api vm_key) [parent_lab]) \<and> instance_touches e' ns"
proof -
  have c: "\<exists>r. ensure_namespace (set_clt (\<lambda>s. s\<lparr>clt_ExpiresAt := None\<rparr>) (with_target parent_lab)) ''lab-demo'' r \<in>
      set (events_of (ClusterLab_Reconcile sample_platform store_api demo_key) [parent_lab])"
    by (simp add: events_of_def ClusterLab_code store_api_simps Let_def with_target_def GenerateTargetNamespace_def
        SanitizeName_short split: prod.splits)
  have i: "\<exists>p f r. OnPVC (CreateOrUpdate p f r) \<in> set (events_of (InstanceLab_Reconcile sample_platform store_api vm_key) [parent_lab])"
    "OnInstanceLab (Get vm_key (Inr sample_InstanceLab)) \<in> set (events_of (InstanceLab_Reconcile sample_platform store_api vm_key) [parent_lab])"
    by (simp_all add: events_of_def InstanceLab_code store_api_simps Let_def parent_key_def EqualFold_def)
  obtain r p f s where e: "ensure_namespace (set_clt (\<lambda>s. s\<lparr>clt_ExpiresAt := None\<rparr>) (with_target parent_lab)) ''lab-demo'' r \<in>
      set (events_of (ClusterLab_Reconcile sample_platform store_api demo_key) [parent_lab])"
    "OnPVC (CreateOrUpdate p f s) \<in> set (events_of (InstanceLab_Reconcile sample_platform store_api vm_key) [parent_lab])"
    using c i(1) by blast
  have t: "cluster_touches (ensure_namespace (set_clt (\<lambda>s. s\<lparr>clt_ExpiresAt := None\<rparr>) (with_target parent_lab)) ''lab-demo'' r) = Some ''lab-demo''"
    "instance_touches (OnPVC (CreateOrUpdate p f s)) (om_Namespace (pvc_Meta p))"
    by (simp_all add: new_Namespace_def new_meta_def instance_touches_def)
  have "om_Namespace (pvc_Meta p) = ''lab-demo''"
    using one_namespace[OF store_api_laws store_start store_start e(1) t(1) e(2) t(2) i(2)] by simp
  with t(2) have "instance_touches (OnPVC (CreateOrUpdate p f s)) ''lab-demo''" by simp
  with e t(1) show ?thesis by (intro exI conjI)
qed

section \<open>The clean-up of an instance finds its children\<close>






text \<open>
  A DeleteAllOf call reaches what a CreateOrUpdate call of the same kind has written: it names the same
  namespace, and its selector matches the labels of the object whatever it was before the write.
\<close>

definition covers :: "('o \<Rightarrow> ObjectMeta) \<Rightarrow> 'o call \<Rightarrow> 'o call \<Rightarrow> bool" where
  "covers meta c' c \<longleftrightarrow> (\<exists>ns sel d x f r. c' = DeleteAllOf ns sel d \<and> c = CreateOrUpdate x f r \<and>
     om_Namespace (meta x) = ns \<and> (\<forall>old. sel \<subseteq>\<^sub>m om_Labels (meta (f old))))"

definition sweeps :: "event \<Rightarrow> event \<Rightarrow> bool" where
  "sweeps e' e \<longleftrightarrow>
     (\<exists>c' c. e' = OnPVC c' \<and> e = OnPVC c \<and> covers pvc_Meta c' c) \<or>
     (\<exists>c' c. e' = OnPod c' \<and> e = OnPod c \<and> covers pod_Meta c' c) \<or>
     (\<exists>c' c. e' = OnService c' \<and> e = OnService c \<and> covers svc_Meta c' c) \<or>
     (\<exists>c' c. e' = OnIngress c' \<and> e = OnIngress c \<and> covers ing_Meta c' c)"

lemma covers_write [simp]:
  "covers meta (DeleteAllOf ns sel d) (CreateOrUpdate x f r) \<longleftrightarrow>
     om_Namespace (meta x) = ns \<and> (\<forall>old. sel \<subseteq>\<^sub>m om_Labels (meta (f old)))"
  by (auto simp: covers_def)

lemma sweeps_simps [simp]:
  "sweeps (OnPVC c1') (OnPVC c1) = covers pvc_Meta c1' c1" "sweeps (OnPod c2') (OnPod c2) = covers pod_Meta c2' c2"
  "sweeps (OnService c3') (OnService c3) = covers svc_Meta c3' c3" "sweeps (OnIngress c4') (OnIngress c4) = covers ing_Meta c4' c4"
  by (simp_all add: sweeps_def)







text \<open>
  The store with one instance, which its user deletes after the first version of the ClusterLab.
\<close>

definition vm_kind :: "(ClusterLab list, InstanceLab) kind_api" where
  "vm_kind = (fails_with (ApiError ''''))\<lparr>
     k_get := (\<lambda>key h. (if key = vm_key then Inr (if length h \<le> 1 then sample_InstanceLab else deleted_InstanceLab)
       else Inl (NotFoundError ''''), h)),
     k_update := (\<lambda>x h. (Inr x, h))\<rparr>"

abbreviation "vm_store \<equiv> store_api\<lparr>instancelabs := vm_kind\<rparr>"

lemma vm_kind_simps [simp]:
  "k_get vm_kind = (\<lambda>key h. (if key = vm_key then Inr (if length h \<le> 1 then sample_InstanceLab else deleted_InstanceLab)
     else Inl (NotFoundError ''''), h))"
  "k_update vm_kind = (\<lambda>x h. (Inr x, h))"
  "k_status_update vm_kind = (\<lambda>x h. (Inl (ApiError ''''), h))"
  by (simp_all add: vm_kind_def)





section \<open>Every run makes few requests\<close>

text \<open>
  The requests to the API server behind the calls of a run: two for a CreateOrUpdate, which first reads the
  object and then writes it if it has to, none for a reading of the clock, and one for every other call.
  The run relations of the three controllers list the calls of each part, so the bounds are sums over
  the parts.
\<close>

fun call_requests :: "'o call \<Rightarrow> nat" where
  "call_requests (CreateOrUpdate _ _ _) = 2"
| "call_requests _ = 1"

fun event_requests :: "event \<Rightarrow> nat" where
  "event_requests (OnClusterLab c) = call_requests c"
| "event_requests (OnInstanceLab c) = call_requests c"
| "event_requests (OnNotebookLab c) = call_requests c"
| "event_requests (OnNamespace c) = call_requests c"
| "event_requests (OnResourceQuota c) = call_requests c"
| "event_requests (OnNetworkPolicy c) = call_requests c"
| "event_requests (OnPod c) = call_requests c"
| "event_requests (OnService c) = call_requests c"
| "event_requests (OnIngress c) = call_requests c"
| "event_requests (OnPVC c) = call_requests c"
| "event_requests (OnSecret c) = call_requests c"
| "event_requests (OnDeployment c) = call_requests c"
| "event_requests (Now _) = 0"

primrec requests :: "event list \<Rightarrow> nat" where
  "requests [] = 0"
| "requests (e # evs) = event_requests e + requests evs"

lemma requests_append [simp]: "requests (a @ b) = requests a + requests b"
  by (induction a) simp_all

lemma nows_no_request: "set evs \<subseteq> range Now \<Longrightarrow> requests evs = 0"
  by (induction evs) auto

lemma cluster_requests:
  "ttl_run cl evs t \<Longrightarrow> requests evs = 0" "status_run px cl ns evs r \<Longrightarrow> requests evs = 3"
  "finalizer_run px cl evs f \<Longrightarrow> requests evs \<le> 3"
  by (auto elim!: ttl_run.cases status_run.cases finalizer_run.cases)

lemma cluster_provision_requests: "provision_run px cl ns after evs r \<Longrightarrow> requests evs \<le> 9"
  by (auto elim!: provision_run.cases dest: cluster_requests)

lemma cluster_active_requests: "active_run px cl evs r \<Longrightarrow> requests evs \<le> 9"
  by (auto elim!: active_run.cases dest!: cluster_requests(1) cluster_provision_requests)

lemma cluster_run_requests: "ClusterLab_run px req evs r \<Longrightarrow> requests evs \<le> 10"
  by (auto elim!: ClusterLab_run.cases dest: cluster_requests cluster_active_requests)

lemma instance_requests:
  "disk_run px il ns evs d \<Longrightarrow> requests evs \<le> 2" "service_run il ns evs s \<Longrightarrow> requests evs \<le> 2"
  "ingress_run px il cl ns svc evs i \<Longrightarrow> requests evs \<le> 2" "instance_status_run px il pod svc' ing evs st \<Longrightarrow> requests evs \<le> 1"
  "parent_run px il evs p \<Longrightarrow> requests evs \<le> 2" "instance_finalizer_run px il evs f \<Longrightarrow> requests evs \<le> 6"
  by (auto elim!: disk_run.cases service_run.cases ingress_run.cases instance_status_run.cases parent_run.cases
    instance_finalizer_run.cases simp: nows_no_request)

lemma instance_provision_requests: "instance_provision_run px il cl ns evs r \<Longrightarrow> requests evs \<le> 9"
  by (erule instance_provision_run.cases) (auto dest!: instance_requests)

lemma instance_run_requests: "InstanceLab_run px req evs r \<Longrightarrow> requests evs \<le> 12"
  by (auto elim!: InstanceLab_run.cases instance_active_run.cases dest!: instance_requests instance_provision_requests)

lemma notebook_requests:
  "ensure_run on key wanted evs x \<Longrightarrow> (\<And>c. event_requests (on c) = call_requests c) \<Longrightarrow> requests evs \<le> 2"
  "purge_run nb lc evs p \<Longrightarrow> requests evs \<le> 3" "purge_run nb lc evs (False, rq, None) \<Longrightarrow> requests evs = 0"
  "pause_run nb s st b rq' evs q \<Longrightarrow> requests evs \<le> 1"
  by (auto elim!: ensure_run.cases purge_run.cases pause_run.cases claim_run.cases)

lemma lifecycle_requests: "lifecycle_run nb evs r \<Longrightarrow> requests evs \<le> 3"
  by (auto elim!: lifecycle_run.cases dest!: notebook_requests(2-4))

lemma lifecycle_goes_on_requests: "lifecycle_run nb evs (Returned (False, rq, None, nb')) \<Longrightarrow> requests evs \<le> 2"
  by (auto elim!: lifecycle_run.cases dest!: notebook_requests(3,4) split: if_splits)

lemma notebook_part_requests:
  "workspace_run px nb evs r \<Longrightarrow> requests evs \<le> 2" "deployment_run px nb evs r \<Longrightarrow> requests evs \<le> 4"
  "networking_run px nb evs r \<Longrightarrow> requests evs \<le> 4" "notebook_status_run px nb evs r \<Longrightarrow> requests evs \<le> 4"
  by (auto elim!: workspace_run.cases deployment_run.cases networking_run.cases notebook_status_run.cases
    dest!: notebook_requests(1))

lemma notebook_provision_requests: "notebook_provision_run px nb rq evs r \<Longrightarrow> requests evs \<le> 14"
  by (erule notebook_provision_run.cases) (auto dest!: notebook_part_requests)

lemma notebook_run_requests: "NotebookLab_run px req evs r \<Longrightarrow> requests evs \<le> 17"
proof (induction rule: NotebookLab_run.induct)
  case (notebook_provisioned nb evs rq nb' evs' r)
  then show ?case using lifecycle_goes_on_requests[of nb evs rq nb'] notebook_provision_requests[of px nb' rq evs' r] by simp
qed (auto dest!: lifecycle_requests)

text \<open>
  C24: Whatever the API server answers (a conflict, an object that is still missing, a namespace that is not
  ready), a run of a reconciler makes at most 10 requests for a ClusterLab, 12 for an InstanceLab and 17
  for a NotebookLab, the two requests of each CreateOrUpdate counted. So no run waits or retries inside
  itself; every repetition goes through the result and the work queue.
\<close>

theorem runs_bounded:
  "requests (events_of (ClusterLab_Reconcile px k req) w) \<le> 10 \<and> requests (events_of (InstanceLab_Reconcile px k req) w) \<le> 12 \<and>
   requests (events_of (NotebookLab_Reconcile px k req) w) \<le> 17"
  using cluster_run_requests[OF yields_run[OF ClusterLab_Reconcile_yields]] instance_run_requests[OF InstanceLab_events]
    notebook_run_requests[OF NotebookLab_events]
  by (intro conjI)

text \<open>
  The bounds are reached: for the notebook, with a deployment that still reports the old replicas while
  every other child is missing whenever it is read.
\<close>

abbreviation "forgetful_api \<equiv> nb_api\<lparr>deployments := fixed_kind (NotebookLab_deployment sample_platform sample_NotebookLab)\<rparr>"

lemma runs_bounds_reached:
  "requests (events_of (ClusterLab_Reconcile sample_platform demo_api demo_key) 0) = 10"
  "requests (events_of (InstanceLab_Reconcile sample_platform vm_api vm_key) 0) = 12"
  "requests (events_of (NotebookLab_Reconcile sample_platform forgetful_api nb_key) 30000000000000) = 17"
proof -
  show "requests (events_of (ClusterLab_Reconcile sample_platform demo_api demo_key) 0) = 10"
    using demo_run by auto
  obtain st reason msg where c: "snd (InstanceLab_phase (Some sample_Pod)) = Some (st, reason, msg)"
    using sample_Pod_phase(2) by (cases "snd (InstanceLab_phase (Some sample_Pod))") auto
  show "requests (events_of (InstanceLab_Reconcile sample_platform vm_api vm_key) 0) = 12"
    by (simp add: events_of_def InstanceLab_code Let_def c sample_Pod_phase sample_api_def)
  show "requests (events_of (NotebookLab_Reconcile sample_platform forgetful_api nb_key) 30000000000000) = 17"
    by (simp add: events_of_def NotebookLab_code sint_Time_Sub Let_def)
qed

end
