(* ===== verification/NotebookLabCorrectness.thy ===== *)
theory NotebookLabCorrectness
  imports NotebookLabLifecycle
begin

text \<open>
  The objects of a notebook: what a run creates and when, what it reports, how the objects refer to
  each other and what a GPU adds to them. The contract of a child that is created when missing is the
  locale owned_child, and what its calls do when they fail the locale child_calls; both are
  interpreted on the five kinds of children.
\<close>

section \<open>What a run creates\<close>

text \<open>
  A trace is guarded when each creation comes directly after a read that found nothing under the key
  of the created object; missing is the key, with its kind, of the last such read.
\<close>

fun creates_object :: "event \<Rightarrow> (string \<times> ObjectMeta) option" where
  "creates_object (OnPVC (Create x _)) = Some (''PersistentVolumeClaim'', pvc_Meta x)"
| "creates_object (OnSecret (Create x _)) = Some (''Secret'', sec_Meta x)"
| "creates_object (OnService (Create x _)) = Some (''Service'', svc_Meta x)"
| "creates_object (OnIngress (Create x _)) = Some (''Ingress'', ing_Meta x)"
| "creates_object (OnDeployment (Create x _)) = Some (''Deployment'', dep_Meta x)"
| "creates_object _ = None"

fun finds_nothing :: "event \<Rightarrow> (string \<times> NamespacedName) option" where
  "finds_nothing (OnPVC (Get key (Inl (NotFoundError _)))) = Some (''PersistentVolumeClaim'', key)"
| "finds_nothing (OnSecret (Get key (Inl (NotFoundError _)))) = Some (''Secret'', key)"
| "finds_nothing (OnService (Get key (Inl (NotFoundError _)))) = Some (''Service'', key)"
| "finds_nothing (OnIngress (Get key (Inl (NotFoundError _)))) = Some (''Ingress'', key)"
| "finds_nothing (OnDeployment (Get key (Inl (NotFoundError _)))) = Some (''Deployment'', key)"
| "finds_nothing _ = None"

fun guarded :: "(string \<times> NamespacedName) option \<Rightarrow> event list \<Rightarrow> bool" where
  "guarded missing [] = True"
| "guarded missing (e # es) = ((case creates_object e of None \<Rightarrow> True
     | Some (kind, m) \<Rightarrow> missing = Some (kind, meta_key m)) \<and> guarded (finds_nothing e) es)"

lemma guarded_weaken: "guarded None evs \<Longrightarrow> guarded missing evs"
  by (cases evs) (auto split: option.splits)

lemma guarded_append: "guarded missing evs \<Longrightarrow> guarded None evs' \<Longrightarrow> guarded missing (evs @ evs')"
  by (induction missing evs rule: guarded.induct) (auto intro: guarded_weaken)

lemma guarded_uncreating: "(\<And>e. e \<in> set evs \<Longrightarrow> creates_object e = None) \<Longrightarrow> guarded missing evs"
  by (induction evs arbitrary: missing) auto

definition owned_by :: "NotebookLab \<Rightarrow> ObjectMeta \<Rightarrow> bool" where
  "owned_by nb m \<longleftrightarrow> om_Namespace m = nb_Namespace nb \<and> om_Labels m = om_Labels (nb_Meta nb) \<and>
     (\<exists>r \<in> set (om_OwnerReferences m). or_Kind r = ''NotebookLab'' \<and> or_Name r = nb_Name nb \<and>
        or_UID r = om_UID (nb_Meta nb) \<and> or_Controller r)"

lemma set_owner_facts:
  assumes "owner_laws px" and "set_owner px nb m = Inr m'"
    and "om_Namespace m = nb_Namespace nb" "om_Labels m = om_Labels (nb_Meta nb)"
  shows "owned_by nb m' \<and> meta_key m' = meta_key m"
proof -
  obtain refs r where "m' = m\<lparr>om_OwnerReferences := refs\<rparr>" "r \<in> set refs" "or_Kind r = ''NotebookLab''"
      "or_Name r = om_Name (nb_Meta nb)" "or_UID r = om_UID (nb_Meta nb)" "or_Controller r"
    using assms(1,2) unfolding owner_laws_def set_owner_def by blast
  then show ?thesis using assms(3,4) by (auto simp: owned_by_def meta_key_def nb_Name_def)
qed

lemma nb_child_meta_simps [simp]:
  "om_Namespace (nb_child_meta nb n) = nb_Namespace nb" "om_Labels (nb_child_meta nb n) = om_Labels (nb_Meta nb)"
  "meta_key (nb_child_meta nb n) = nb_child nb n" "om_Name (nb_child_meta nb n) = n"
  by (simp_all add: nb_child_meta_def meta_key_def nb_child_def)

definition creates_well :: "NotebookLab \<Rightarrow> event list \<Rightarrow> bool" where
  "creates_well nb evs \<longleftrightarrow> guarded None evs \<and> list_all (\<lambda>e. case creates_object e of None \<Rightarrow> True
     | Some (kind, m) \<Rightarrow> owned_by nb m) evs"

lemma creates_well_append: "creates_well nb a \<Longrightarrow> creates_well nb b \<Longrightarrow> creates_well nb (a @ b)"
  by (simp add: creates_well_def guarded_append)

lemma creates_well_none: "list_all (\<lambda>e. creates_object e = None) evs \<Longrightarrow> creates_well nb evs"
  by (auto simp: creates_well_def list_all_iff intro: guarded_uncreating)

lemma creates_well_one: "creates_object e = None \<Longrightarrow> creates_well nb [e]"
  by (simp add: creates_well_none)

lemma not_found: "IsNotFound e \<Longrightarrow> \<exists>s. e = NotFoundError s"
  by (cases e) auto

text \<open>
  The contract of a child that is created when it is missing: the calls of its kind, and an object
  that, once its owner is set, carries the key it was looked up under and belongs to the notebook.
\<close>

locale owned_child =
  fixes on :: "'o call \<Rightarrow> event" and kind :: string and meta :: "'o \<Rightarrow> ObjectMeta"
    and px :: platform and nb :: NotebookLab and key :: NamespacedName and wanted :: "error + 'o"
  assumes creation: "creates_object (on (Create x c)) = Some (kind, meta x)"
    and reading: "creates_object (on (Get key' r)) = None"
    and missing: "finds_nothing (on (Get key' (Inl (NotFoundError s)))) = Some (kind, key')"
    and wanted_owned: "owner_laws px \<Longrightarrow> wanted = Inr x \<Longrightarrow> owned_by nb (meta x) \<and> meta_key (meta x) = key"
begin

lemma created_well:
  assumes "owner_laws px" and "IsNotFound e" and "wanted = Inr x"
  shows "creates_well nb [on (Get key (Inl e)), on (Create x c)]"
  using not_found[OF assms(2)] wanted_owned[OF assms(1,3)]
  by (auto simp: creates_well_def creation reading missing)

lemma ensured_well:
  assumes "owner_laws px" and "ensure_run on key wanted evs r"
  shows "creates_well nb evs"
  using assms(2)
  by (cases rule: ensure_run.cases) (auto simp: reading created_well[OF assms(1)] intro: creates_well_one)

end

interpretation nb_claim: owned_child OnPVC "''PersistentVolumeClaim''" pvc_Meta px nb "workspace_key nb" "wanted_claim px nb ws"
  by unfold_locales (auto simp: wanted_claim_def map_sum_def split: sum.splits dest: set_owner_facts)

interpretation nb_secret: owned_child OnSecret "''Secret''" sec_Meta px nb "nb_child nb (nb_Name nb @ ''-secret'')" "wanted_secret px nb"
  by unfold_locales (auto simp: wanted_secret_def map_sum_def split: sum.splits dest: set_owner_facts)

interpretation nb_service: owned_child OnService "''Service''" svc_Meta px nb "nb_child nb (nb_Name nb @ ''-svc'')" "wanted_service px nb"
  by unfold_locales (auto simp: wanted_service_def map_sum_def split: sum.splits dest: set_owner_facts)

lemma notebook_ingress_meta [simp]:
  "om_Namespace (ing_Meta (new_notebook_ingress nb)) = nb_Namespace nb"
  "om_Labels (ing_Meta (new_notebook_ingress nb)) = om_Labels (nb_Meta nb)"
  "meta_key (ing_Meta (new_notebook_ingress nb)) = nb_child nb (nb_Name nb @ ''-ingress'')"
  by (simp_all add: new_notebook_ingress_def meta_key_def nb_child_def)

interpretation nb_ingress: owned_child OnIngress "''Ingress''" ing_Meta px nb "nb_child nb (nb_Name nb @ ''-ingress'')" "wanted_ingress px nb"
  by unfold_locales (auto simp: wanted_ingress_def map_sum_def split: sum.splits dest: set_owner_facts)

interpretation nb_deployment: owned_child OnDeployment "''Deployment''" dep_Meta px nb "nb_child nb (nb_Name nb)" "wanted_deployment px nb"
  by unfold_locales (auto simp: wanted_deployment_def map_sum_def split: sum.splits dest: set_owner_facts)

lemma deployment_creates_well:
  assumes "owner_laws px" and "deployment_run px nb evs r"
  shows "creates_well nb evs"
  using assms(2)
  by (cases rule: deployment_run.cases)
    (auto intro!: creates_well_append nb_deployment.created_well[OF assms(1)] intro: nb_secret.ensured_well[OF assms(1)]
      creates_well_none)

lemma provision_creates_well:
  assumes "owner_laws px" and "notebook_provision_run px nb rq evs r"
  shows "creates_well nb evs"
proof -
  note own = nb_claim.ensured_well[OF assms(1)] nb_service.ensured_well[OF assms(1)] nb_ingress.ensured_well[OF assms(1)]
  have w: "creates_well nb a" if "workspace_run px nb a e" for a e
    using that by (auto elim!: workspace_run.cases intro: own creates_well_none)
  have n: "creates_well nb c" if "networking_run px nb c e" for c e
    using that by (auto elim!: networking_run.cases intro!: creates_well_append intro: own)
  have s: "creates_well nb d" if "notebook_status_run px nb d e" for d e
    using that
  proof (cases rule: notebook_status_run.cases)
    case (shown s r token deploy u)
    have "creates_well nb ([OnDeployment (Get (nb_child nb (nb_Name nb)) (Inr deploy))] @ s @
       [OnNotebookLab (StatusUpdate (shown_notebook nb deploy token) u)])"
      by (intro creates_well_append nb_secret.ensured_well[OF assms(1) shown(3)] creates_well_none) simp_all
    then show ?thesis using shown(1) by simp
  qed (simp_all add: creates_well_none)
  from assms(2) show ?thesis
  proof (cases rule: notebook_provision_run.cases)
    case (workspace_failed a e u)
    show ?thesis unfolding workspace_failed(1) by (intro creates_well_append creates_well_one w[OF workspace_failed(3)]) simp
  next
    case (deployment_failed a b e u)
    then show ?thesis
      by (simp only:) (intro creates_well_append creates_well_one w[OF deployment_failed(3)]
        deployment_creates_well[OF assms(1) deployment_failed(4)], simp)
  next
    case (networking_failed a b c e u)
    then show ?thesis
      by (simp only:) (intro creates_well_append creates_well_one w[OF networking_failed(3)]
        deployment_creates_well[OF assms(1) networking_failed(4)] n[OF networking_failed(5)], simp)
  next
    case (status_failed a b c d e)
    then show ?thesis
      by (simp only:) (intro creates_well_append w[OF status_failed(3)]
        deployment_creates_well[OF assms(1) status_failed(4)] n[OF status_failed(5)] s[OF status_failed(6)])
  next
    case (notebook_done a b c d)
    then show ?thesis
      by (simp only:) (intro creates_well_append w[OF notebook_done(3)]
        deployment_creates_well[OF assms(1) notebook_done(4)] n[OF notebook_done(5)] s[OF notebook_done(6)])
  qed
qed

text \<open>
  C9: Each child is created only directly after a read that did not find its key, in the namespace and
  with the labels of the notebook and with a controller reference to it.
\<close>

theorem NotebookLab_children_created_once:
  assumes laws: "owner_laws px"
  shows "guarded None (events_of (NotebookLab_Reconcile px k req) w) \<and>
     (\<exists>nb. list_all (\<lambda>e. case creates_object e of None \<Rightarrow> True
        | Some (kind, m) \<Rightarrow> held req (events_of (NotebookLab_Reconcile px k req) w) nb \<and> owned_by nb m)
        (events_of (NotebookLab_Reconcile px k req) w))"
proof -
  have life: "creates_object e = None" if "lifecycle_run nb evs r" "e \<in> set evs" for nb evs r e
    using that by (auto elim!: lifecycle_run.cases purge_run.cases pause_run.cases claim_run.cases)
  show ?thesis
    using NotebookLab_events[of px req k w]
  proof (cases rule: NotebookLab_run.cases)
    case (notebook_provisioned nb evs rq nb' evs' r)
    have "creates_well nb' ([OnNotebookLab (Get req (Inr nb))] @ evs @ evs')"
      using life[OF notebook_provisioned(3)]
      by (intro creates_well_append provision_creates_well[OF laws notebook_provisioned(4)] creates_well_none)
        (simp_all add: list_all_iff)
    moreover have "held req (events_of (NotebookLab_Reconcile px k req) w) nb'"
      using lifecycle_run_held[OF notebook_provisioned(3)] notebook_provisioned(1) by (auto simp: held_def)
    ultimately show ?thesis unfolding notebook_provisioned(1) creates_well_def
      by (intro conjI exI[of _ nb']) (auto simp: list_all_iff split: option.splits)
  qed (use life in \<open>auto simp: list_all_iff intro!: guarded_uncreating\<close>)
qed

section \<open>Failures\<close>

text \<open>The writes to the children, when they fail, and the reads that do.\<close>

fun failed_child_write :: "event \<Rightarrow> error option" where
  "failed_child_write (OnPVC (Create _ (Inl e))) = Some e"
| "failed_child_write (OnSecret (Create _ (Inl e))) = Some e"
| "failed_child_write (OnDeployment (Create _ (Inl e))) = Some e"
| "failed_child_write (OnDeployment (Patch _ _ (Inl e))) = Some e"
| "failed_child_write (OnService (Create _ (Inl e))) = Some e"
| "failed_child_write (OnIngress (Create _ (Inl e))) = Some e"
| "failed_child_write _ = None"

text \<open>A read fails when it is answered with an error other than not found.\<close>

fun read_error :: "error + 'a \<Rightarrow> error option" where
  "read_error (Inl e) = (if IsNotFound e then None else Some e)"
| "read_error (Inr _) = None"

fun failed_child_read :: "event \<Rightarrow> error option" where
  "failed_child_read (OnPVC (Get _ r)) = read_error r"
| "failed_child_read (OnSecret (Get _ r)) = read_error r"
| "failed_child_read (OnDeployment (Get _ r)) = read_error r"
| "failed_child_read (OnService (Get _ r)) = read_error r"
| "failed_child_read (OnIngress (Get _ r)) = read_error r"
| "failed_child_read _ = None"

text \<open>Where a step stopped with an error: at its last call, or at the owner reference of the child.\<close>

definition stopped :: "platform \<Rightarrow> NotebookLab \<Rightarrow> event list \<Rightarrow> error \<Rightarrow> bool" where
  "stopped px nb evs e \<longleftrightarrow> (\<exists>pre x. evs = pre @ [x] \<and> (failed_child_write x = Some e \<or> failed_child_read x = Some e)) \<or>
     (\<exists>m. set_owner px nb m = Inl e)"

lemma stopped_append: "stopped px nb evs e \<Longrightarrow> stopped px nb (before @ evs) e"
  unfolding stopped_def by (metis append_assoc)

text \<open>
  The contract of the calls of a child: what their failures are. A child that is created when it is
  missing ends its step with the error of the call that failed.
\<close>

locale child_calls =
  fixes on :: "'o call \<Rightarrow> event"
  assumes write_failure: "failed_child_write (on (Create x c)) = err_of c"
    and read_no_write: "failed_child_write (on (Get key r)) = None"
    and read_failure: "failed_child_read (on (Get key r)) = read_error r"
begin

lemma ensured_failure:
  assumes "ensure_run on key wanted evs r" and "x \<in> set evs" and "failed_child_write x = Some e"
  shows "r = Inl e \<and> (\<exists>nf y. IsNotFound nf \<and> x = on (Create y (Inl e)) \<and> evs = [on (Get key (Inl nf)), x])"
  using assms by (cases rule: ensure_run.cases) (auto simp: write_failure read_no_write, blast)

lemma ensured_error:
  assumes "ensure_run on key (map_sum id f (set_owner px nb m)) evs (Inl e)"
  shows "stopped px nb evs e"
  using assms
proof (cases rule: ensure_run.cases)
  case unread
  then show ?thesis unfolding stopped_def by (auto simp: read_failure intro!: exI[of _ "[]"])
next
  case (unownable e0)
  then show ?thesis unfolding stopped_def by (auto simp: map_sum_def split: sum.splits)
next
  case (create_fails e0 x)
  then show ?thesis unfolding stopped_def by (auto simp: write_failure intro!: exI[of _ "[on (Get key (Inl e0))]"])
qed

end

interpretation claim_calls: child_calls OnPVC
  by unfold_locales (auto simp: err_of_def split: sum.splits)

interpretation secret_calls: child_calls OnSecret
  by unfold_locales (auto simp: err_of_def split: sum.splits)

interpretation service_calls: child_calls OnService
  by unfold_locales (auto simp: err_of_def split: sum.splits)

interpretation ingress_calls: child_calls OnIngress
  by unfold_locales (auto simp: err_of_def split: sum.splits)

interpretation deployment_calls: child_calls OnDeployment
  by unfold_locales (auto simp: err_of_def split: sum.splits)

lemma claim_failure:
  "workspace_run px nb evs r \<Longrightarrow> x \<in> set evs \<Longrightarrow> failed_child_write x = Some e \<Longrightarrow> r = Some e \<and> (\<exists>pre. evs = pre @ [x])"
  by (erule workspace_run.cases) (auto dest!: claim_calls.ensured_failure)

lemma secret_only: "nb_secret_run px nb evs r \<Longrightarrow> x \<in> set evs \<Longrightarrow> \<exists>c. x = OnSecret c"
  by (auto elim!: ensure_run.cases)

lemma secret_no_failure: "nb_secret_run px nb evs (Inr y) \<Longrightarrow> x \<in> set evs \<Longrightarrow> failed_child_write x = None"
  by (auto elim!: ensure_run.cases)

lemma deployment_failure:
  assumes "deployment_run px nb evs r" and "x \<in> set evs" and "failed_child_write x = Some e"
  shows "r = Some e \<and> (\<exists>pre. evs = pre @ [x])"
  using assms(1)
proof (cases rule: deployment_run.cases)
  case (no_token e')
  then show ?thesis using secret_calls.ensured_failure[OF no_token(2) assms(2,3)] by auto
next
  case (deployment_created s x' d e' c)
  then show ?thesis using assms(2,3) by (cases c) (auto dest: secret_no_failure)
next
  case (deployment_patched s x' d old c)
  then show ?thesis using assms(2,3) by (cases c) (auto dest: secret_no_failure)
qed (use assms(2,3) in \<open>auto dest: secret_no_failure\<close>)

lemma networking_failure:
  assumes "networking_run px nb evs r" and "x \<in> set evs" and "failed_child_write x = Some e"
  shows "r = Some e \<and> (\<exists>pre. evs = pre @ [x])"
  using assms(1)
proof (cases rule: networking_run.cases)
  case (no_service e')
  then show ?thesis using service_calls.ensured_failure[OF no_service(2) assms(2,3)] by auto
next
  case (with_service s x' i q)
  have "failed_child_write y = None" if "y \<in> set s" for y
    using with_service(3) that by (auto elim!: ensure_run.cases)
  then have "x \<in> set i" using assms(2,3) with_service(1) by auto
  from ingress_calls.ensured_failure[OF with_service(4) this assms(3)] show ?thesis using with_service(1,2) by auto
qed

text \<open>A secret that could not be created again while the status was being written.\<close>

lemma status_failure:
  assumes "notebook_status_run px nb evs r" and "x \<in> set evs" and "failed_child_write x = Some e"
  shows "\<exists>d nf s y u. x = OnSecret (Create s (Inl e)) \<and> IsNotFound nf \<and> evs = [OnDeployment (Get (nb_child nb (nb_Name nb)) (Inr d)),
      OnSecret (Get (nb_child nb (nb_Name nb @ ''-secret'')) (Inl nf)), x, OnNotebookLab (StatusUpdate y u)] \<and>
    y = shown_notebook nb d (default_token nb) \<and> r = err_of u"
  using assms(1)
proof (cases rule: notebook_status_run.cases)
  case (shown s q token d u)
  then have "x \<in> set s" using assms(2,3) by auto
  from secret_calls.ensured_failure[OF shown(3) this assms(3)] show ?thesis using shown(1,2,4) by auto
qed (use assms(2,3) in auto)

lemma lifecycle_no_child: "lifecycle_run nb evs r \<Longrightarrow> x \<in> set evs \<Longrightarrow> failed_child_write x = None"
  by (auto elim!: lifecycle_run.cases purge_run.cases pause_run.cases claim_run.cases)

lemma kept_identity [simp]:
  "nb_child (shown_notebook nb d t) n = nb_child nb n" "nb_Name (shown_notebook nb d t) = nb_Name nb"
  "wanted_replicas (shown_notebook nb d t) = wanted_replicas nb"
  by (simp_all add: nb_child_def nb_Name_def nb_Namespace_def wanted_replicas_def)

text \<open>The run has read the secret or has created it.\<close>

definition secret_found :: "NotebookLab \<Rightarrow> event list \<Rightarrow> bool" where
  "secret_found nb evs \<longleftrightarrow> (\<exists>y. OnSecret (Get (nb_child nb (nb_Name nb @ ''-secret'')) (Inr y)) \<in> set evs) \<or>
     (\<exists>s y. OnSecret (Create s (Inr y)) \<in> set evs)"

lemma deployment_has_secret: "deployment_run px nb evs None \<Longrightarrow> secret_found nb evs"
  unfolding secret_found_def by (auto elim!: deployment_run.cases ensure_run.cases)

lemma with_phase_phase [simp]: "nbt_Phase (nb_Status (with_phase ph nb)) = ph"
  by (simp add: with_phase_def)

lemma shown_default_url:
  "nbt_AccessURL (nb_Status (shown_notebook nb d (default_token nb))) =
    ''https://'' @ nb_Name nb @ ''.local/lab?token='' @ nb_Name nb @ ''-token-sec''"
  by (simp add: shown_notebook_def default_token_def)

lemma part_failure:
  assumes "workspace_run px nb a p \<and> x \<in> set a \<or> deployment_run px nb a p \<and> x \<in> set a \<or> networking_run px nb a p \<and> x \<in> set a"
    and "failed_child_write x = Some e"
  shows "p = Some e \<and> (\<exists>pre. a = pre @ [x])"
  using assms claim_failure deployment_failure networking_failure by blast

lemma provision_failure:
  assumes "notebook_provision_run px nb rq evs r" and "x \<in> set evs" and "failed_child_write x = Some e"
  shows "r = (no_result, Some e) \<and> (\<exists>pre u. evs = pre @ [x, mark_notebook nb u]) \<or>
    (\<exists>pre d nf s y u rq'. x = OnSecret (Create s (Inl e)) \<and> IsNotFound nf \<and>
       evs = pre @ [OnDeployment (Get (nb_child nb (nb_Name nb)) (Inr d)),
         OnSecret (Get (nb_child nb (nb_Name nb @ ''-secret'')) (Inl nf)), x, OnNotebookLab (StatusUpdate y u)] \<and>
       y = shown_notebook nb d (default_token nb) \<and> r = (rq', err_of u) \<and> secret_found nb pre)"
proof -
  note none = part_failure[OF _ assms(3)]
  have status: ?thesis
    if d: "notebook_status_run px nb d q" "x \<in> set d" "evs = (a @ b @ c) @ d" "deployment_run px nb b None" "r = (rq', q)"
    for a b c d q rq'
  proof -
    have "secret_found nb (a @ b @ c)" using deployment_has_secret[OF d(4)] by (simp add: secret_found_def) blast
    then show ?thesis using status_failure[OF d(1,2) assms(3)] unfolding d(3,5) by blast
  qed
  have failed: ?thesis
    if f: "Some e' = Some e \<and> (\<exists>pre. b = pre @ [x])" "evs = a @ b @ [mark_notebook nb u]" "r = (no_result, Some e')"
    for a b e' u
  proof -
    obtain pre where "b = pre @ [x]" using f(1) by blast
    then have "evs = (a @ pre) @ [x, mark_notebook nb u]" using f(2) by simp
    then show ?thesis using f(1,3) by blast
  qed
  from assms(1) show ?thesis
  proof (cases rule: notebook_provision_run.cases)
    case (workspace_failed a e' u)
    then have "x \<in> set a" using assms(2,3) by auto
    then show ?thesis using failed[of e' a "[]" u] none[of px nb a "Some e'"] workspace_failed by simp
  next
    case (deployment_failed a b e' u)
    then have "x \<in> set b" using assms(2,3) none[of px nb a None] by auto
    then show ?thesis using failed[of e' b a u] none[of px nb b "Some e'"] deployment_failed by simp
  next
    case (networking_failed a b c e' u)
    then have "x \<in> set c" using assms(2,3) none[of px nb a None] none[of px nb b None] by auto
    then show ?thesis using failed[of e' c "a @ b" u] none[of px nb c "Some e'"] networking_failed by simp
  next
    case (status_failed a b c d e')
    then have "x \<in> set d" using assms(2) none[of px nb a None] none[of px nb b None] none[of px nb c None] by auto
    then show ?thesis using status[OF status_failed(6), of a b c] status_failed by simp
  next
    case (notebook_done a b c d)
    then have "x \<in> set d" using assms(2) none[of px nb a None] none[of px nb b None] none[of px nb c None] by auto
    then show ?thesis using status[OF notebook_done(6), of a b c] notebook_done by simp
  qed
qed

text \<open>
  C19: When writing a child fails (the claim, the secret, the deployment, the service or the ingress), the
  run returns that error and publishes the phase Failed directly after the failed write, as its last
  call. There is one exception, a defect: a secret that the run has found or created, that is gone
  when the status is written and that cannot be created again. Its error is dropped, and the run ends
  by publishing an address with the token of a secret that does not exist.
\<close>

theorem NotebookLab_failure_reported:
  assumes "x \<in> set (events_of (NotebookLab_Reconcile px k req) w)" and "failed_child_write x = Some e"
  shows "result_of (NotebookLab_Reconcile px k req) w = Returned (no_result, Some e) \<and>
       (\<exists>before nb u. events_of (NotebookLab_Reconcile px k req) w = before @ [x, OnNotebookLab (StatusUpdate nb u)] \<and>
          nbt_Phase (nb_Status nb) = NotebookPhaseFailed) \<or>
     (\<exists>before d nf s nb u rq. x = OnSecret (Create s (Inl e)) \<and> IsNotFound nf \<and> secret_found nb before \<and>
        events_of (NotebookLab_Reconcile px k req) w = before @ [OnDeployment (Get (nb_child nb (nb_Name nb)) (Inr d)),
          OnSecret (Get (nb_child nb (nb_Name nb @ ''-secret'')) (Inl nf)), x, OnNotebookLab (StatusUpdate nb u)] \<and>
        nbt_AccessURL (nb_Status nb) = ''https://'' @ nb_Name nb @ ''.local/lab?token='' @ nb_Name nb @ ''-token-sec'' \<and>
        result_of (NotebookLab_Reconcile px k req) w = Returned (rq, err_of u))"
  using NotebookLab_events[of px req k w]
proof (cases rule: NotebookLab_run.cases)
  case (notebook_provisioned nb evs rq nb' evs' r)
  let ?pre = "OnNotebookLab (Get req (Inr nb)) # evs"
  have x: "x \<in> set evs'" using assms lifecycle_no_child[OF notebook_provisioned(3)] notebook_provisioned(1) by auto
  have evs: "events_of (NotebookLab_Reconcile px k req) w = ?pre @ evs'" using notebook_provisioned(1) by simp
  from provision_failure[OF notebook_provisioned(4) x assms(2)] show ?thesis
  proof (elim disjE)
    assume "r = (no_result, Some e) \<and> (\<exists>pre u. evs' = pre @ [x, mark_notebook nb' u])"
    then show ?thesis using evs notebook_provisioned(2) by (metis append_assoc with_phase_phase)
  next
    assume "\<exists>pre d nf s y u rq'. x = OnSecret (Create s (Inl e)) \<and> IsNotFound nf \<and>
       evs' = pre @ [OnDeployment (Get (nb_child nb' (nb_Name nb')) (Inr d)),
         OnSecret (Get (nb_child nb' (nb_Name nb' @ ''-secret'')) (Inl nf)), x, OnNotebookLab (StatusUpdate y u)] \<and>
       y = shown_notebook nb' d (default_token nb') \<and> r = (rq', err_of u) \<and> secret_found nb' pre"
    then obtain pre d nf s u rq' where p: "x = OnSecret (Create s (Inl e))" "IsNotFound nf"
       "evs' = pre @ [OnDeployment (Get (nb_child nb' (nb_Name nb')) (Inr d)),
         OnSecret (Get (nb_child nb' (nb_Name nb' @ ''-secret'')) (Inl nf)), x,
         OnNotebookLab (StatusUpdate (shown_notebook nb' d (default_token nb')) u)]"
       "r = (rq', err_of u)" "secret_found nb' pre" by blast
    have "secret_found (shown_notebook nb' d (default_token nb')) (?pre @ pre)"
      using p(5) by (auto simp: secret_found_def)
    then show ?thesis using p evs notebook_provisioned(2)
      by (intro disjI2 exI[of _ "?pre @ pre"] exI[of _ d] exI[of _ nf] exI[of _ s]
          exI[of _ "shown_notebook nb' d (default_token nb')"] exI[of _ u] exI[of _ rq'])
        (simp add: shown_default_url)
  qed
qed (use assms in \<open>auto dest: lifecycle_no_child\<close>)

section \<open>The status\<close>

text \<open>
  What a phase other than Failed says about a deployment: which of the four it is follows from the
  replicas the notebook asks for and from what the deployment reports.
\<close>

definition phase_shows :: "NotebookLab \<Rightarrow> Deployment \<Rightarrow> bool" where
  "phase_shows nb d \<longleftrightarrow> (let wanted = (nbs_Replicas (nb_Spec nb) \<noteq> Some 0); phase = nbt_Phase (nb_Status nb) in
     (phase = NotebookPhaseRunning \<longleftrightarrow> wanted \<and> 0 < sint (dep_ReadyReplicas d)) \<and>
     (phase = PhaseProvisioning \<longleftrightarrow> wanted \<and> sint (dep_ReadyReplicas d) \<le> 0) \<and>
     (phase = PhasePaused \<longleftrightarrow> \<not> wanted \<and> dep_StatusReplicas d = 0) \<and>
     (phase = PhasePausing \<longleftrightarrow> \<not> wanted \<and> dep_StatusReplicas d \<noteq> 0))"

lemma notebook_phases [simp]:
  "NotebookPhaseFailed \<noteq> NotebookPhaseRunning" "PhaseProvisioning \<noteq> NotebookPhaseRunning"
  "PhasePaused \<noteq> NotebookPhaseRunning" "PhasePausing \<noteq> NotebookPhaseRunning"
  "PhasePaused \<noteq> PhasePausing" "PhasePaused \<noteq> PhaseProvisioning" "PhasePausing \<noteq> PhaseProvisioning"
  "NotebookPhaseRunning \<noteq> PhaseProvisioning" "NotebookPhaseRunning \<noteq> PhasePaused" "NotebookPhaseRunning \<noteq> PhasePausing"
  "PhasePausing \<noteq> PhasePaused" "PhaseProvisioning \<noteq> PhasePaused" "PhaseProvisioning \<noteq> PhasePausing"
  by (simp_all add: NotebookPhaseFailed_def NotebookPhaseRunning_def PhaseProvisioning_def PhasePaused_def PhasePausing_def)

lemma wanted_none: "wanted_replicas nb = 0 \<longleftrightarrow> nbs_Replicas (nb_Spec nb) = Some 0"
  by (simp add: wanted_replicas_def split: option.splits)

lemma shown_phase: "phase_shows (shown_notebook nb d token) d"
  by (simp add: phase_shows_def Let_def shown_notebook_def NotebookLab_phase_def wanted_none not_less)

text \<open>
  The calls end with a reading of the deployment, but for those of the secret, and it shows the phase; a
  deployment that is not found shows Provisioning.
\<close>

definition reads_deployment :: "event list \<Rightarrow> NotebookLab \<Rightarrow> bool" where
  "reads_deployment evs nb \<longleftrightarrow> (\<exists>before g s. evs = before @ OnDeployment (Get (nb_child nb (nb_Name nb)) g) # s \<and>
     (\<forall>e \<in> set s. \<exists>c. e = OnSecret c) \<and>
     (case g of Inl e \<Rightarrow> IsNotFound e \<and> nbt_Phase (nb_Status nb) = PhaseProvisioning | Inr d \<Rightarrow> phase_shows nb d))"

lemma reads_deployment_append: "reads_deployment evs nb \<Longrightarrow> reads_deployment (before @ evs) nb"
  unfolding reads_deployment_def by (metis append_assoc)

lemma status_reads:
  assumes "notebook_status_run px nb evs r" and "OnNotebookLab (StatusUpdate x u) \<in> set evs"
  shows "\<exists>before. evs = before @ [OnNotebookLab (StatusUpdate x u)] \<and> reads_deployment before x"
  using assms(1)
proof (cases rule: notebook_status_run.cases)
  case (not_deployed e v)
  then show ?thesis using assms(2) unfolding reads_deployment_def
    by (auto simp: nb_child_def nb_Name_def nb_Namespace_def intro!: exI[of _ "[]"])
next
  case (shown s q token d v)
  then have x: "x = shown_notebook nb d token" "v = u" using assms(2) by (auto dest: secret_only)
  have "reads_deployment (OnDeployment (Get (nb_child nb (nb_Name nb)) (Inr d)) # s) x"
    unfolding reads_deployment_def x using secret_only[OF shown(3)]
    by (intro exI[of _ "[]"] exI[of _ "Inr d"] exI[of _ s]) (simp add: shown_phase)
  then show ?thesis using shown(1) x by auto
qed (use assms(2) in auto)

lemma set_owner_meta: "nb_Meta nb = nb_Meta nb' \<Longrightarrow> set_owner px nb = set_owner px nb'"
  by (simp add: set_owner_def fun_eq_iff)

lemma claim_stops: "workspace_run px nb evs (Some e) \<Longrightarrow> stopped px nb evs e"
  by (erule workspace_run.cases) (auto simp: err_of_eq wanted_claim_def intro: claim_calls.ensured_error)

lemma deployment_stops:
  assumes "deployment_run px nb evs (Some e)"
  shows "stopped px nb evs e"
  using assms
proof (cases rule: deployment_run.cases)
  case no_token
  then show ?thesis by (simp add: wanted_secret_def secret_calls.ensured_error)
next
  case (no_owner x)
  then show ?thesis by (auto simp: stopped_def wanted_deployment_def map_sum_def split: sum.splits)
qed (auto simp: stopped_def err_of_eq intro: exI[of _ "s @ [a]" for s a])

lemma networking_stops:
  assumes "networking_run px nb evs (Some e)"
  shows "stopped px nb evs e"
  using assms
proof (cases rule: networking_run.cases)
  case no_service
  then show ?thesis by (simp add: wanted_service_def service_calls.ensured_error)
next
  case (with_service s x i q)
  then have "stopped px nb i e" by (auto simp: wanted_ingress_def err_of_eq intro: ingress_calls.ensured_error)
  then show ?thesis unfolding with_service(1) by (rule stopped_append)
qed

lemma stopped_with_phase: "stopped px nb evs e \<Longrightarrow> stopped px (with_phase ph nb) evs e"
  using set_owner_meta[of nb "with_phase ph nb" px] by (simp add: stopped_def)

lemma provision_status:
  assumes "notebook_provision_run px nb rq evs r" and "OnNotebookLab (StatusUpdate x u) \<in> set evs"
  shows "\<exists>before. evs = before @ [OnNotebookLab (StatusUpdate x u)] \<and>
     (nbt_Phase (nb_Status x) = NotebookPhaseFailed \<and> (\<exists>e. r = (no_result, Some e) \<and> stopped px x before e) \<or>
      reads_deployment before x)"
proof -
  have no: "OnNotebookLab (StatusUpdate x u) \<notin> set a \<union> set b \<union> set c"
    if "workspace_run px nb a p \<or> a = []" "deployment_run px nb b q \<or> b = []" "networking_run px nb c s \<or> c = []" for a b c p q s
    using that by (auto dest: notebook_events)
  have failed: ?thesis if "evs = a @ [mark_notebook nb v]" "OnNotebookLab (StatusUpdate x u) \<notin> set a"
    "r = (no_result, Some e)" "stopped px nb a e" for a v e
    using that assms(2) by (auto dest: stopped_with_phase)
  have status: ?thesis if d: "evs = a @ d" "OnNotebookLab (StatusUpdate x u) \<notin> set a" "notebook_status_run px nb d q" for a d q
  proof -
    have "OnNotebookLab (StatusUpdate x u) \<in> set d" using d(1,2) assms(2) by auto
    then obtain before where "d = before @ [OnNotebookLab (StatusUpdate x u)]" "reads_deployment before x"
      using status_reads[OF d(3)] by blast
    then show ?thesis using d(1) by (intro exI[of _ "a @ before"]) (auto intro: reads_deployment_append)
  qed
  from assms(1) show ?thesis
  proof (cases rule: notebook_provision_run.cases)
    case (workspace_failed a e v)
    have "OnNotebookLab (StatusUpdate x u) \<notin> set a" using no[of a "Some e" "[]" None "[]" None] workspace_failed(3) by simp
    from failed[OF workspace_failed(1) this workspace_failed(2) claim_stops[OF workspace_failed(3)]] show ?thesis .
  next
    case (deployment_failed a b e v)
    have "OnNotebookLab (StatusUpdate x u) \<notin> set (a @ b)"
      using no[of a None b "Some e" "[]" None] deployment_failed(3,4) by simp
    from failed[of "a @ b", OF _ this deployment_failed(2) stopped_append[OF deployment_stops[OF deployment_failed(4)]]]
    show ?thesis using deployment_failed(1) by simp
  next
    case (networking_failed a b c e v)
    have "OnNotebookLab (StatusUpdate x u) \<notin> set ((a @ b) @ c)"
      using no[of a None b None c "Some e"] networking_failed(3-5) by simp
    from failed[of "(a @ b) @ c", OF _ this networking_failed(2) stopped_append[OF networking_stops[OF networking_failed(5)]]]
    show ?thesis using networking_failed(1) by simp
  next
    case (status_failed a b c d e)
    have "OnNotebookLab (StatusUpdate x u) \<notin> set (a @ b @ c)" using no[of a None b None c None] status_failed(3-5) by simp
    from status[of "a @ b @ c", OF _ this status_failed(6)] show ?thesis using status_failed(1) by simp
  next
    case (notebook_done a b c d)
    have "OnNotebookLab (StatusUpdate x u) \<notin> set (a @ b @ c)" using no[of a None b None c None] notebook_done(3-5) by simp
    from status[of "a @ b @ c", OF _ this notebook_done(6)] show ?thesis using notebook_done(1) by simp
  qed
qed

lemma lifecycle_run_quiet: "lifecycle_run nb evs r \<Longrightarrow> OnNotebookLab (StatusUpdate x u) \<notin> set evs"
  by (auto elim!: lifecycle_run.cases purge_run.cases pause_run.cases dest: claim_run_writes)

text \<open>
  C12: A published status is the last call of its run, and its phase is what the run has just found. It is
  Failed only in a run that returns the error at which a step before has stopped (a call to a child that
  failed, or an owner reference that could not be set). Otherwise it is what the last reading of the
  deployment shows, directly before but for the calls of the secret: with replicas wanted, Running
  exactly when one is ready and Provisioning when none is, or when there is no deployment yet; with
  none wanted, Paused exactly when none is left and Pausing while some are.
\<close>

theorem NotebookLab_status_truthful:
  assumes "OnNotebookLab (StatusUpdate x u) \<in> set (events_of (NotebookLab_Reconcile px k req) w)"
  shows "\<exists>before. events_of (NotebookLab_Reconcile px k req) w = before @ [OnNotebookLab (StatusUpdate x u)] \<and>
     (nbt_Phase (nb_Status x) = NotebookPhaseFailed \<and>
        (\<exists>e. result_of (NotebookLab_Reconcile px k req) w = Returned (no_result, Some e) \<and> stopped px x before e) \<or>
      (\<exists>pre g secrets. before = pre @ OnDeployment (Get (nb_child x (nb_Name x)) g) # secrets \<and>
        (\<forall>e \<in> set secrets. \<exists>c. e = OnSecret c) \<and>
        (case g of Inl e \<Rightarrow> IsNotFound e \<and> nbt_Phase (nb_Status x) = PhaseProvisioning | Inr d \<Rightarrow> phase_shows x d)))"
  using NotebookLab_events[of px req k w]
proof (cases rule: NotebookLab_run.cases)
  case (notebook_provisioned nb evs rq nb' evs' r)
  let ?pre = "OnNotebookLab (Get req (Inr nb)) # evs"
  have evs: "events_of (NotebookLab_Reconcile px k req) w = ?pre @ evs'" using notebook_provisioned(1) by simp
  have "OnNotebookLab (StatusUpdate x u) \<in> set evs'"
    using assms lifecycle_run_quiet[OF notebook_provisioned(3)] evs by auto
  then obtain before where b: "evs' = before @ [OnNotebookLab (StatusUpdate x u)]"
    "nbt_Phase (nb_Status x) = NotebookPhaseFailed \<and> (\<exists>e. r = (no_result, Some e) \<and> stopped px x before e) \<or>
      reads_deployment before x"
    using provision_status[OF notebook_provisioned(4)] by blast
  have "events_of (NotebookLab_Reconcile px k req) w = (?pre @ before) @ [OnNotebookLab (StatusUpdate x u)]"
    unfolding evs b(1) by simp
  moreover have "nbt_Phase (nb_Status x) = NotebookPhaseFailed \<and>
        (\<exists>e. result_of (NotebookLab_Reconcile px k req) w = Returned (no_result, Some e) \<and> stopped px x (?pre @ before) e) \<or>
      reads_deployment (?pre @ before) x"
    using b(2) notebook_provisioned(2) stopped_append[of px x before _ ?pre] reads_deployment_append[of before x ?pre] by blast
  ultimately show ?thesis unfolding reads_deployment_def by blast
qed (use assms lifecycle_run_quiet in auto)

section \<open>The token\<close>

lemma secret_created:
  "nb_secret_run px nb evs r \<Longrightarrow> OnSecret (Create s c) \<in> set evs \<Longrightarrow>
   sec_StringData s = [''token'' \<mapsto> nb_Name nb @ ''-token-sec'']"
  by (auto elim!: ensure_run.cases simp: wanted_secret_def map_sum_def new_token_secret_def default_token_def
    split: sum.splits)

lemma provision_secret:
  assumes "notebook_provision_run px nb rq evs r" and "OnSecret (Create s c) \<in> set evs"
  shows "sec_StringData s = [''token'' \<mapsto> nb_Name nb @ ''-token-sec'']"
proof -
  have d: "sec_StringData s = [''token'' \<mapsto> nb_Name nb @ ''-token-sec'']"
    if "deployment_run px nb b q" "OnSecret (Create s c) \<in> set b" for b q
    using that by (auto elim!: deployment_run.cases dest: secret_created)
  have st: "sec_StringData s = [''token'' \<mapsto> nb_Name nb @ ''-token-sec'']"
    if "notebook_status_run px nb b q" "OnSecret (Create s c) \<in> set b" for b q
    using that by (auto elim!: notebook_status_run.cases dest: secret_created)
  from assms show ?thesis
    by (cases rule: notebook_provision_run.cases)
      (auto dest: d st workspace_run_events networking_run_events)
qed

text \<open>
  Every secret a run creates holds the name of the notebook with a fixed suffix as its token, a value
  anybody who knows the name can compute.
\<close>

theorem NotebookLab_token_predictable:
  assumes "OnSecret (Create s c) \<in> set (events_of (NotebookLab_Reconcile px k req) w)"
  shows "\<exists>nb. held req (events_of (NotebookLab_Reconcile px k req) w) nb \<and>
     sec_StringData s = [''token'' \<mapsto> nb_Name nb @ ''-token-sec'']"
proof -
  have life: "OnSecret (Create s c) \<notin> set evs" if "lifecycle_run nb evs r" for nb evs r
    using that by (auto elim!: lifecycle_run.cases purge_run.cases pause_run.cases dest: claim_run_writes)
  show ?thesis
    using NotebookLab_events[of px req k w]
  proof (cases rule: NotebookLab_run.cases)
    case (notebook_provisioned nb evs rq nb' evs' r)
    then have "OnSecret (Create s c) \<in> set evs'" using assms life by auto
    from provision_secret[OF notebook_provisioned(4) this] show ?thesis
      using lifecycle_run_held[OF notebook_provisioned(3)] notebook_provisioned(1)
      by (intro exI[of _ nb']) (auto simp: held_def)
  qed (use assms life in auto)
qed

section \<open>What the objects refer to\<close>

text \<open>
  C35: The objects of a notebook fit together: the deployment and the service select the pods of the
  template, the ingress leads to the service and its port, each mount of the container has its volume
  in order, and all live in the namespace of the notebook.
\<close>

theorem NotebookLab_references_resolve:
  "dep_Selector (NotebookLab_deployment px nb) \<subseteq>\<^sub>m dep_TemplateLabels (NotebookLab_deployment px nb) \<and>
   svc_Selector (new_notebook_service nb) = dep_TemplateLabels (NotebookLab_deployment px nb) \<and>
   (\<exists>r p sp. ing_Rules (new_notebook_ingress nb) = [r] \<and> ir_Paths r = [p] \<and>
      svc_Ports (new_notebook_service nb) = [sp] \<and>
      hp_ServiceName p = om_Name (svc_Meta (new_notebook_service nb)) \<and> hp_ServicePort p = sp_Port sp) \<and>
   (\<exists>c. ps_Containers (dep_TemplateSpec (NotebookLab_deployment px nb)) = [c] \<and>
      map vm_Name (ct_VolumeMounts c) = map v_Name (ps_Volumes (dep_TemplateSpec (NotebookLab_deployment px nb)))) \<and>
   list_all (\<lambda>m. om_Namespace m = nb_Namespace nb)
     [dep_Meta (NotebookLab_deployment px nb), svc_Meta (new_notebook_service nb), ing_Meta (new_notebook_ingress nb),
      sec_Meta (new_token_secret nb)]"
proof -
  have "ct_VolumeMounts (inject_hami px h c) = ct_VolumeMounts c" for h c
    by (simp add: inject_hami_def set_env_def set_limit_def Let_def)
  then have "ct_VolumeMounts (NotebookLab_injectGPUResources px g c) = ct_VolumeMounts c" for g c
    by (simp add: NotebookLab_injectGPUResources_def set_limit_def Let_def split: option.splits)
  then have "ct_VolumeMounts (NotebookLab_container px nb) = NotebookLab_mounts nb"
    by (simp add: NotebookLab_container_def Let_def split: option.splits)
  moreover have "map vm_Name (NotebookLab_mounts nb) = map v_Name (NotebookLab_volumes px nb)"
    by (simp add: NotebookLab_mounts_def NotebookLab_volumes_def plain_mount_def comp_def split: option.splits)
  ultimately show ?thesis
    by (simp add: NotebookLab_deployment_def new_notebook_service_def new_notebook_ingress_def new_token_secret_def
        NotebookLab_pod_spec_def nb_child_meta_def new_meta_def)
qed

text \<open>
  What setOrUpdateEnv writes under a name is read back, other names keep their value, a second write
  replaces the first, and no name becomes a duplicate.
\<close>

theorem setOrUpdateEnv_roundtrip:
  "env_value (setOrUpdateEnv es n v) n = Some v \<and> env_value (setOrUpdateEnv es n v) m = (if m = n then Some v else env_value es m) \<and>
   setOrUpdateEnv (setOrUpdateEnv es n u) n v = setOrUpdateEnv es n v \<and>
   distinct (map ev_Name (setOrUpdateEnv es n v)) = distinct (map ev_Name es)"
proof -
  have "setOrUpdateEnv (setOrUpdateEnv es n u) n v = setOrUpdateEnv es n v"
    by (induction es) auto
  moreover have "distinct (map ev_Name (setOrUpdateEnv es n v)) = distinct (map ev_Name es)"
    unfolding env_names by auto
  ultimately show ?thesis by (simp add: env.look_same env.look_other)
qed

section \<open>GPUs\<close>

text \<open>What the specification of a GPU asks for, as two maps.\<close>

definition hami_limits :: "platform \<Rightarrow> HAMiSpec \<Rightarrow> ResourceList" where
  "hami_limits px h r =
     (if r = ''nvidia.com/gpumem'' \<and> \<not> Quantity_IsZero px (hami_Memory h)
      then Some (NewQuantity px (mebibytes (Quantity_Value px (hami_Memory h))))
      else if r = ''nvidia.com/gpucores'' \<and> 0 < sint (hami_Cores h)
      then Some (NewQuantity px (int64_of_int32 (hami_Cores h))) else None)"

definition gpu_limits :: "platform \<Rightarrow> GPUSpec \<Rightarrow> ResourceList" where
  "gpu_limits px g =
     (if gpu_Type g = ''mig''
      then (case gpu_MIG g of None \<Rightarrow> Map.empty
        | Some m \<Rightarrow> if mig_Profile m = '''' then Map.empty else [''nvidia.com/mig-'' @ mig_Profile m \<mapsto> NewQuantity px 1])
      else [''nvidia.com/gpu'' \<mapsto> NewQuantity px 1] ++
        (case gpu_HAMi g of None \<Rightarrow> Map.empty | Some h \<Rightarrow> hami_limits px h))"

definition gpu_env :: "platform \<Rightarrow> GPUSpec \<Rightarrow> string \<Rightarrow> string option" where
  "gpu_env px g n = (case gpu_HAMi g of None \<Rightarrow> None | Some h \<Rightarrow>
     if gpu_Type g = ''mig'' then None
     else if n = ''CUDA_VGPU_MEM'' \<and> \<not> Quantity_IsZero px (hami_Memory h)
     then Some (itoa (sint (mebibytes (Quantity_Value px (hami_Memory h)))))
     else if n = ''CUDA_VGPU_CORES'' \<and> 0 < sint (hami_Cores h) then Some (itoa (sint (hami_Cores h))) else None)"

lemma set_kept [simp]:
  "limits_of (set_env n v c) = limits_of c" "ct_Env (set_limit r q c) = ct_Env c"
  by (simp_all add: limits_of_def set_env_def set_limit_def)

lemma hami_injected:
  "limits_of (inject_hami px h c) = limits_of c ++ hami_limits px h"
  "env_value (ct_Env (inject_hami px h c)) n = (if n = ''CUDA_VGPU_MEM'' \<and> \<not> Quantity_IsZero px (hami_Memory h)
     then Some (itoa (sint (mebibytes (Quantity_Value px (hami_Memory h)))))
     else if n = ''CUDA_VGPU_CORES'' \<and> 0 < sint (hami_Cores h) then Some (itoa (sint (hami_Cores h)))
     else env_value (ct_Env c) n)"
proof -
  show "limits_of (inject_hami px h c) = limits_of c ++ hami_limits px h"
    unfolding inject_hami_def Let_def
    by (auto simp: container_limits.look_put hami_limits_def map_add_def fun_eq_iff)
  show "env_value (ct_Env (inject_hami px h c)) n = (if n = ''CUDA_VGPU_MEM'' \<and> \<not> Quantity_IsZero px (hami_Memory h)
     then Some (itoa (sint (mebibytes (Quantity_Value px (hami_Memory h)))))
     else if n = ''CUDA_VGPU_CORES'' \<and> 0 < sint (hami_Cores h) then Some (itoa (sint (hami_Cores h)))
     else env_value (ct_Env c) n)"
    unfolding inject_hami_def Let_def by (auto simp: container_env.look_put)
qed

text \<open>
  C34: Injecting a GPU adds exactly the limits and variables its specification asks for (one MIG slice, or
  one GPU with the memory and cores of HAMi) and leaves the requests, the mounts and the security
  context of the container alone.
\<close>

theorem NotebookLab_gpu_request:
  "limits_of (NotebookLab_injectGPUResources px g c) = limits_of c ++ gpu_limits px g \<and>
   env_value (ct_Env (NotebookLab_injectGPUResources px g c)) = env_value (ct_Env c) ++ gpu_env px g \<and>
   rr_Requests (ct_Resources (NotebookLab_injectGPUResources px g c)) = rr_Requests (ct_Resources c) \<and>
   ct_VolumeMounts (NotebookLab_injectGPUResources px g c) = ct_VolumeMounts c \<and>
   ct_SecurityContext (NotebookLab_injectGPUResources px g c) = ct_SecurityContext c"
proof -
  have rest: "rr_Requests (ct_Resources (inject_hami px h d)) = rr_Requests (ct_Resources d) \<and>
      ct_VolumeMounts (inject_hami px h d) = ct_VolumeMounts d \<and> ct_SecurityContext (inject_hami px h d) = ct_SecurityContext d"
    for h d
    by (simp add: inject_hami_def set_env_def set_limit_def Let_def)
  have l: "limits_of (NotebookLab_injectGPUResources px g c) = limits_of c ++ gpu_limits px g"
    by (simp add: NotebookLab_injectGPUResources_def gpu_limits_def hami_injected(1) container_limits.look_put Let_def
        split: option.splits)
  have e: "env_value (ct_Env (NotebookLab_injectGPUResources px g c)) = env_value (ct_Env c) ++ gpu_env px g"
    by (rule ext) (simp add: NotebookLab_injectGPUResources_def gpu_env_def map_add_def hami_injected(2) Let_def
        split: option.splits)
  have "rr_Requests (ct_Resources (NotebookLab_injectGPUResources px g c)) = rr_Requests (ct_Resources c) \<and>
      ct_VolumeMounts (NotebookLab_injectGPUResources px g c) = ct_VolumeMounts c \<and>
      ct_SecurityContext (NotebookLab_injectGPUResources px g c) = ct_SecurityContext c"
    by (simp add: NotebookLab_injectGPUResources_def rest Let_def set_limit_def split: option.splits)
  with l e show ?thesis by blast
qed

text \<open>
  The memory of a HAMi slice in mebibytes is the byte count divided and rounded toward zero, with its
  sign, for every 64-bit count.
\<close>

theorem NotebookLab_mebibytes_bounds:
  "\<bar>sint (mebibytes v)\<bar> * 1048576 \<le> \<bar>sint v\<bar> \<and> \<bar>sint v\<bar> < (\<bar>sint (mebibytes v)\<bar> + 1) * 1048576 \<and>
   (sint (mebibytes v) \<noteq> 0 \<longrightarrow> sgn (sint (mebibytes v)) = sgn (sint v))"
proof -
  have b: "- (2 ^ 63) \<le> sint v" "sint v < 2 ^ 63" using fits64_sint[of v] by (simp_all add: fits64_def)
  have "sint (mebibytes v) = (if sint v \<ge> 0 then sint v div 1048576 else - ((- sint v) div 1048576))"
    unfolding mebibytes_def using b by (intro sint_word_of_int64) (auto simp: fits64_def)
  then show ?thesis by (auto simp: sgn_if)
qed

section \<open>A pause takes effect in the run that decides it\<close>

fun written_deployment :: "event \<Rightarrow> Deployment option" where
  "written_deployment (OnDeployment (Create d _)) = Some d"
| "written_deployment (OnDeployment (Patch _ d _)) = Some d"
| "written_deployment _ = None"

interpretation nb_patch: mutator "carry_over deploy" dep_Meta
  by unfold_locales (simp_all add: carry_over_def)

lemma secret_no_deployment: "nb_secret_run px nb evs r \<Longrightarrow> e \<in> set evs \<Longrightarrow> written_deployment e = None"
  by (auto elim!: ensure_run.cases)

lemma wanted_deployment_keeps:
  "wanted_deployment px nb = Inr d \<Longrightarrow> \<exists>m. d = (NotebookLab_deployment px nb)\<lparr>dep_Meta := m\<rparr>"
  by (auto simp: wanted_deployment_def map_sum_def split: sum.splits)

lemma deployment_run_written:
  assumes "deployment_run px nb evs r" and "e \<in> set evs" and "written_deployment e = Some d"
  shows "dep_Replicas d = Some (wanted_replicas nb)"
  using assms
  by (cases rule: deployment_run.cases)
    (auto dest: secret_no_deployment dest!: wanted_deployment_keeps simp: carry_over_def NotebookLab_deployment_def)

lemma provision_run_written:
  assumes "notebook_provision_run px nb rq evs r" and "e \<in> set evs" and "written_deployment e = Some d"
  shows "dep_Replicas d = Some (wanted_replicas nb)"
proof -
  have w: "written_deployment e = None" if "workspace_run px nb a p" "e \<in> set a" for a p
    using workspace_run_events[OF that] by auto
  have n: "written_deployment e = None" if "networking_run px nb a p" "e \<in> set a" for a p
    using networking_run_events[OF that] by auto
  have s: "written_deployment e = None" if "notebook_status_run px nb a p" "e \<in> set a" for a p
    using that by (auto elim!: notebook_status_run.cases dest: secret_no_deployment)
  from assms(1) show ?thesis
    by (cases rule: notebook_provision_run.cases)
      (use assms(2,3) in \<open>auto dest: w n s deployment_run_written\<close>)
qed

lemma lifecycle_no_deployment: "lifecycle_run nb evs r \<Longrightarrow> e \<in> set evs \<Longrightarrow> written_deployment e = None"
  by (auto elim!: lifecycle_run.cases purge_run.cases pause_run.cases claim_run.cases)

text \<open>The answers to the Patch calls of the notebook, in order.\<close>

fun patch_answer :: "event \<Rightarrow> (error + NotebookLab) option" where
  "patch_answer (OnNotebookLab (Patch _ _ u)) = Some u"
| "patch_answer _ = None"

abbreviation "patch_answers evs \<equiv> List.map_filter patch_answer evs"

lemma patch_answer_None: "patch_answer e = None \<longleftrightarrow> (\<forall>base obj u. e \<noteq> OnNotebookLab (Patch base obj u))"
  by (cases e rule: patch_answer.cases) auto

lemma no_patch_answers: "(\<And>e. e \<in> set evs \<Longrightarrow> patch_answer e = None) \<Longrightarrow> patch_answers evs = []"
  by (induction evs) (simp_all add: List.map_filter_simps)

lemma map_filter_append: "List.map_filter f (xs @ ys) = List.map_filter f xs @ List.map_filter f ys"
  by (simp add: List.map_filter_def)

lemma pause_run_answers:
  "pause_run nb s st b rq evs (None, rq', nb') \<Longrightarrow> patch_answers evs = [] \<and> nb' = nb \<or> patch_answers evs = [Inr nb']"
  by (cases rule: pause_run.cases, assumption) (auto simp: err_of_eq List.map_filter_simps)

lemma purge_run_answers: "purge_run nb lc evs r \<Longrightarrow> patch_answers evs = []"
  by (rule no_patch_answers) (auto elim!: purge_run.cases claim_run.cases)

lemma lifecycle_run_answers:
  assumes "lifecycle_run nb evs (Returned (p, rq, None, nb'))" and "patch_answers evs \<noteq> []"
  shows "last (patch_answers evs) = Inr nb'"
  using assms(1)
proof (cases rule: lifecycle_run.cases)
  case (purge_ends lc rq1)
  then show ?thesis using assms(2) purge_run_answers by auto
next
  case (lifespan_ends lc evs1 rq1 evs2 rq2 nb2 lc2 evs3 rq3)
  then have l: "lifespan_run nb2 lc2 rq2 evs3 (None, rq3, nb')" and evs: "evs = evs1 @ evs2 @ evs3"
    by (simp_all add: HOL.induct_true_def)
  have "patch_answers evs = patch_answers evs2 @ patch_answers evs3"
    unfolding evs map_filter_append using purge_run_answers[OF lifespan_ends(5)] by simp
  then show ?thesis using assms(2) pause_run_answers[OF lifespan_ends(6)] pause_run_answers[OF l] by auto
qed (use assms(2) in \<open>auto simp: List.map_filter_simps\<close>)

text \<open>A deployment the API server has accepted.\<close>

fun deployed :: "event \<Rightarrow> Deployment option" where
  "deployed (OnDeployment (Create d (Inr _))) = Some d"
| "deployed (OnDeployment (Patch _ d (Inr _))) = Some d"
| "deployed _ = None"

lemma deployed_written: "deployed e = Some d \<Longrightarrow> written_deployment e = Some d"
  by (cases e rule: deployed.cases) auto

lemma deployment_run_deploys:
  assumes "deployment_run px nb evs None"
  shows "\<exists>e \<in> set evs. \<exists>d. deployed e = Some d"
  using assms by (cases rule: deployment_run.cases) (auto simp: err_of_eq)

lemma status_run_publishes:
  assumes "notebook_status_run px nb evs None"
  shows "\<exists>x v. OnNotebookLab (StatusUpdate x (Inr v)) \<in> set evs"
  using assms by (cases rule: notebook_status_run.cases) (auto simp: err_of_eq)

lemma reads_running:
  assumes "reads_deployment evs nb" and "nbt_Phase (nb_Status nb) = NotebookPhaseRunning"
  shows "nbs_Replicas (nb_Spec nb) \<noteq> Some 0"
proof -
  obtain g where "case g of Inl e \<Rightarrow> IsNotFound e \<and> nbt_Phase (nb_Status nb) = PhaseProvisioning | Inr d \<Rightarrow> phase_shows nb d"
    using assms(1) unfolding reads_deployment_def by blast
  then show ?thesis using assms(2) by (cases g) (auto simp: phase_shows_def Let_def)
qed

lemma provision_run_pauses:
  assumes run: "notebook_provision_run px nb rq evs r" and zero: "nbs_Replicas (nb_Spec nb) = Some 0"
  shows "(\<forall>e \<in> set evs. \<forall>d. written_deployment e = Some d \<longrightarrow> dep_Replicas d = Some 0) \<and>
     (\<forall>x u. OnNotebookLab (StatusUpdate x u) \<in> set evs \<longrightarrow> nbt_Phase (nb_Status x) \<noteq> NotebookPhaseRunning) \<and>
     (snd r = None \<longrightarrow> (\<exists>e \<in> set evs. \<exists>d. deployed e = Some d \<and> dep_Replicas d = Some 0) \<and>
        (\<exists>x v. OnNotebookLab (StatusUpdate x (Inr v)) \<in> set evs))"
proof -
  have z: "wanted_replicas nb = 0" using zero by (simp add: wanted_none)
  have written: "\<forall>e \<in> set evs. \<forall>d. written_deployment e = Some d \<longrightarrow> dep_Replicas d = Some 0"
    using provision_run_written[OF run] z by simp
  have "nbt_Phase (nb_Status x) \<noteq> NotebookPhaseRunning" if s: "OnNotebookLab (StatusUpdate x u) \<in> set evs" for x u
    using provision_status[OF run s] provision_run_status[OF run s] zero
    by (auto dest: reads_running)
  moreover have "(\<exists>e \<in> set evs. \<exists>d. deployed e = Some d) \<and> (\<exists>x v. OnNotebookLab (StatusUpdate x (Inr v)) \<in> set evs)" if "snd r = None"
    using run that
    by (cases rule: notebook_provision_run.cases) (auto dest!: deployment_run_deploys status_run_publishes)
  ultimately show ?thesis using written deployed_written by blast
qed

lemma suffix_after: "xs @ ys = before @ e # after \<Longrightarrow> e \<notin> set ys \<Longrightarrow> \<exists>zs. after = zs @ ys"
  by (auto simp: append_eq_append_conv2 append_eq_Cons_conv)

text \<open>
  C17: When the lifecycle pauses a notebook and the answer to its last Patch carries the replicas the Patch
  asked for, the same run scales the deployment to zero unless it returns an error: every deployment it
  writes has no replicas, it never publishes the phase Running, and when it returns without an error,
  then after the Patch the API server has accepted a deployment with zero replicas and a status.
\<close>

theorem NotebookLab_pause_takes_effect:
  assumes paused: "events_of (NotebookLab_Reconcile px k req) w = before @ OnNotebookLab (Patch base obj (Inr nb)) # after"
    and final: "\<And>base obj u. OnNotebookLab (Patch base obj u) \<notin> set after"
    and answered: "nbs_Replicas (nb_Spec nb) = nbs_Replicas (nb_Spec obj)"
  shows "(\<forall>e \<in> set (events_of (NotebookLab_Reconcile px k req) w). \<forall>d. written_deployment e = Some d \<longrightarrow> dep_Replicas d = Some 0) \<and>
     (\<forall>x u. OnNotebookLab (StatusUpdate x u) \<in> set (events_of (NotebookLab_Reconcile px k req) w) \<longrightarrow>
        nbt_Phase (nb_Status x) \<noteq> NotebookPhaseRunning) \<and>
     (\<forall>rq. result_of (NotebookLab_Reconcile px k req) w = Returned (rq, None) \<longrightarrow>
        (\<exists>e \<in> set after. \<exists>d. deployed e = Some d \<and> dep_Replicas d = Some 0) \<and>
        (\<exists>x v. OnNotebookLab (StatusUpdate x (Inr v)) \<in> set after))"
  using NotebookLab_events[of px req k w]
proof (cases rule: NotebookLab_run.cases)
  case (lifecycle_stops nb0 evs p rq e nb')
  have "OnNotebookLab (Patch base obj (Inr nb)) \<in> set evs" using paused lifecycle_stops(1) by (auto simp: Cons_eq_append_conv)
  moreover from this have "e \<noteq> None"
    using lifecycle_stops(3,4) by (auto elim!: lifecycle_run.cases dest: purge_run_patch)
  ultimately show ?thesis
    using lifecycle_stops(1,2) lifecycle_run_quiet[OF lifecycle_stops(3)] lifecycle_no_deployment[OF lifecycle_stops(3)]
    by auto
next
  case (notebook_provisioned nb0 evs rq nb' evs' r)
  have patch: "OnNotebookLab (Patch base obj (Inr nb)) \<notin> set evs'"
    using provision_run_notebook_calls[OF notebook_provisioned(4)] by blast
  have evs: "(OnNotebookLab (Get req (Inr nb0)) # evs) @ evs' = before @ OnNotebookLab (Patch base obj (Inr nb)) # after"
    using paused notebook_provisioned(1) by simp
  obtain zs where after: "after = zs @ evs'" using suffix_after[OF evs patch] by blast
  have answers: "patch_answers (OnNotebookLab (Get req (Inr nb0)) # evs) = patch_answers before @ [Inr nb]"
  proof -
    have "OnNotebookLab (Get req (Inr nb0)) # evs = before @ OnNotebookLab (Patch base obj (Inr nb)) # zs"
      using evs unfolding after by simp
    moreover have "patch_answers zs = []"
      by (rule no_patch_answers) (use final after in \<open>auto simp: patch_answer_None\<close>)
    ultimately show ?thesis by (simp add: map_filter_append List.map_filter_simps)
  qed
  then have "patch_answers evs = patch_answers before @ [Inr nb]" by (simp add: List.map_filter_simps)
  then have nb: "nb' = nb" using lifecycle_run_answers[OF notebook_provisioned(3)] by simp
  have "OnNotebookLab (Patch base obj (Inr nb)) \<in> set evs" using evs patch
    by (metis Un_iff event.inject(3) call.distinct(7) in_set_conv_decomp set_ConsD set_append)
  from lifecycle_run_patch[OF notebook_provisioned(3) this] have "nbs_Replicas (nb_Spec nb') = Some 0"
    using answered nb by (auto simp: pauses_def)
  from provision_run_pauses[OF notebook_provisioned(4) this] show ?thesis
    using lifecycle_no_deployment[OF notebook_provisioned(3)] lifecycle_run_quiet[OF notebook_provisioned(3)]
      notebook_provisioned(1,2) after by auto
next
  case (notebook_panic nb0 evs)
  then show ?thesis using lifecycle_run_quiet lifecycle_no_deployment by auto
qed (use paused in \<open>auto simp: append_eq_Cons_conv\<close>)

section \<open>Applications\<close>

theorem NotebookLab_children_created_once_witness:
  "guarded None (events_of (NotebookLab_Reconcile sample_platform nb_api nb_key) 0)"
  by (rule conjunct1[OF NotebookLab_children_created_once[OF sample_owners]])

abbreviation "serviceless_api \<equiv> nb_api\<lparr>services := fails_with (NotFoundError '''')\<rparr>"

theorem NotebookLab_failure_reported_witness:
  "result_of (NotebookLab_Reconcile sample_platform serviceless_api nb_key) 0 = Returned (no_result, Some (NotFoundError ''''))"
proof -
  have "\<exists>s. OnService (Create s (Inl (NotFoundError ''''))) \<in> set (events_of (NotebookLab_Reconcile sample_platform serviceless_api nb_key) 0)"
    by (simp add: events_of_def NotebookLab_code sint_Time_Sub Let_def)
  then obtain s where "OnService (Create s (Inl (NotFoundError ''''))) \<in>
      set (events_of (NotebookLab_Reconcile sample_platform serviceless_api nb_key) 0)" by blast
  from NotebookLab_failure_reported[OF this] show ?thesis by simp
qed

abbreviation "ready_deployment \<equiv> (NotebookLab_deployment sample_platform sample_NotebookLab)\<lparr>dep_ReadyReplicas := 1\<rparr>"
abbreviation "ready_api \<equiv> nb_api\<lparr>deployments := fixed_kind ready_deployment\<rparr>"

theorem NotebookLab_status_truthful_witness:
  "\<exists>x u. OnNotebookLab (StatusUpdate x u) \<in> set (events_of (NotebookLab_Reconcile sample_platform ready_api nb_key) 0) \<and>
     nbt_Phase (nb_Status x) = NotebookPhaseRunning \<and> phase_shows x ready_deployment"
proof -
  let ?evs = "events_of (NotebookLab_Reconcile sample_platform ready_api nb_key) 0"
  have w: "wanted_replicas sample_NotebookLab = 1" by (simp add: wanted_replicas_def sample_NotebookLab_def)
  have "NotebookLab_phase (wanted_replicas sample_NotebookLab) ready_deployment = NotebookPhaseRunning"
    unfolding w by (simp add: NotebookLab_phase_def)
  then have "\<exists>x u. OnNotebookLab (StatusUpdate x u) \<in> set ?evs \<and> nbt_Phase (nb_Status x) = NotebookPhaseRunning"
    and only: "\<And>key g. OnDeployment (Get key g) \<in> set ?evs \<Longrightarrow> g = Inr ready_deployment"
    by (auto simp: events_of_def NotebookLab_code sint_Time_Sub Let_def)
  then obtain x u where x: "OnNotebookLab (StatusUpdate x u) \<in> set ?evs" "nbt_Phase (nb_Status x) = NotebookPhaseRunning" by blast
  obtain pre g s where "?evs = (pre @ OnDeployment (Get (nb_child x (nb_Name x)) g) # s) @ [OnNotebookLab (StatusUpdate x u)]"
    "case g of Inl e \<Rightarrow> IsNotFound e \<and> nbt_Phase (nb_Status x) = PhaseProvisioning | Inr d \<Rightarrow> phase_shows x d"
    using NotebookLab_status_truthful[OF x(1)] x(2) by fastforce
  moreover from this(1) have "g = Inr ready_deployment" by (intro only[of "nb_child x (nb_Name x)"]) simp
  ultimately show ?thesis using x by auto
qed

theorem NotebookLab_token_predictable_witness:
  "\<exists>s c nb. OnSecret (Create s c) \<in> set (events_of (NotebookLab_Reconcile sample_platform nb_api nb_key) 0) \<and>
     sec_StringData s = [''token'' \<mapsto> nb_Name nb @ ''-token-sec'']"
proof -
  obtain s c where s: "OnSecret (Create s c) \<in> set (events_of (NotebookLab_Reconcile sample_platform nb_api nb_key) 0)"
    using young_run(7) by blast
  from s NotebookLab_token_predictable[OF s] show ?thesis by blast
qed

theorem NotebookLab_pause_takes_effect_witness:
  "\<exists>d. \<exists>e \<in> set (events_of (NotebookLab_Reconcile sample_platform nb_api nb_key) 3000000000000).
     deployed e = Some d \<and> dep_Replicas d = Some 0"
proof -
  let ?evs = "events_of (NotebookLab_Reconcile sample_platform nb_api nb_key) 3000000000000"
  obtain after where a: "?evs = [OnNotebookLab (Get nb_key (Inr sample_NotebookLab)), Now 3000000000000, Now 3000000000001] @
      OnNotebookLab (Patch sample_NotebookLab (paused sample_NotebookLab) (Inr (paused sample_NotebookLab))) # after"
    "\<And>base obj u. OnNotebookLab (Patch base obj u) \<notin> set after"
    by (auto simp: events_of_def NotebookLab_code sint_Time_Sub Let_def)
  obtain rq where r: "result_of (NotebookLab_Reconcile sample_platform nb_api nb_key) 3000000000000 = Returned (rq, None)"
    by (auto simp: result_of_def NotebookLab_code sint_Time_Sub Let_def)
  from NotebookLab_pause_takes_effect[OF a(1,2) refl] r have
    "\<exists>e \<in> set after. \<exists>d. deployed e = Some d \<and> dep_Replicas d = Some 0" by blast
  then show ?thesis unfolding a(1) by auto
qed

end
