(* ===== verification/Manager.thy ===== *)
theory Manager
  imports Prelude
begin

text \<open>
  cmd/main.go: the process of the operator. Its command line is read by Go's package flag, which is
  modelled here (parseOne, strconv.ParseBool and the two kinds of flags the source declares); the
  flags that other packages declare on the same command line (zap's and kubeconfig) are a parameter.
  The options become the configuration of the webhook server, of the metrics server and of the
  manager, and the start-up is the sequence of calls main makes, each of which may fail.
\<close>

section \<open>The command line\<close>

record flag_options =
  metricsAddr :: string
  probeAddr :: string
  enableLeaderElection :: bool
  secureMetrics :: bool
  webhookCertPath :: string
  webhookCertName :: string
  webhookCertKey :: string
  metricsCertPath :: string
  metricsCertName :: string
  metricsCertKey :: string
  enableHTTP2 :: bool

definition default_options :: flag_options where
  "default_options = \<lparr>metricsAddr = ''0'', probeAddr = '':8081'', enableLeaderElection = False,
     secureMetrics = True, webhookCertPath = '''', webhookCertName = ''tls.crt'', webhookCertKey = ''tls.key'',
     metricsCertPath = '''', metricsCertName = ''tls.crt'', metricsCertKey = ''tls.key'', enableHTTP2 = False\<rparr>"

text \<open>strconv.ParseBool.\<close>

definition ParseBool :: "string \<Rightarrow> bool option" where
  "ParseBool s = (if s \<in> set [''1'', ''t'', ''T'', ''true'', ''TRUE'', ''True''] then Some True
     else if s \<in> set [''0'', ''f'', ''F'', ''false'', ''FALSE'', ''False''] then Some False else None)"

text \<open>
  A declared flag: the variable StringVar or BoolVar binds it to, as the update of the options a value
  causes. Foreign is a flag of another package, of which the model knows whether it is boolean and
  which values it accepts.
\<close>

datatype flag_decl =
    StringVar "string \<Rightarrow> flag_options \<Rightarrow> flag_options"
  | BoolVar "bool \<Rightarrow> flag_options \<Rightarrow> flag_options"
  | Foreign bool "string \<Rightarrow> bool"

definition declared_flags :: "(string \<times> flag_decl) list" where
  "declared_flags = [
     (''metrics-bind-address'', StringVar (\<lambda>v p. p\<lparr>metricsAddr := v\<rparr>)),
     (''health-probe-bind-address'', StringVar (\<lambda>v p. p\<lparr>probeAddr := v\<rparr>)),
     (''leader-elect'', BoolVar (\<lambda>b p. p\<lparr>enableLeaderElection := b\<rparr>)),
     (''metrics-secure'', BoolVar (\<lambda>b p. p\<lparr>secureMetrics := b\<rparr>)),
     (''webhook-cert-path'', StringVar (\<lambda>v p. p\<lparr>webhookCertPath := v\<rparr>)),
     (''webhook-cert-name'', StringVar (\<lambda>v p. p\<lparr>webhookCertName := v\<rparr>)),
     (''webhook-cert-key'', StringVar (\<lambda>v p. p\<lparr>webhookCertKey := v\<rparr>)),
     (''metrics-cert-path'', StringVar (\<lambda>v p. p\<lparr>metricsCertPath := v\<rparr>)),
     (''metrics-cert-name'', StringVar (\<lambda>v p. p\<lparr>metricsCertName := v\<rparr>)),
     (''metrics-cert-key'', StringVar (\<lambda>v p. p\<lparr>metricsCertKey := v\<rparr>)),
     (''enable-http2'', BoolVar (\<lambda>b p. p\<lparr>enableHTTP2 := b\<rparr>))]"

type_synonym foreign_flags = "(string \<times> bool \<times> (string \<Rightarrow> bool)) list"

definition find_flag :: "foreign_flags \<Rightarrow> string \<Rightarrow> flag_decl option" where
  "find_flag foreign n = (case map_of declared_flags n of Some d \<Rightarrow> Some d
     | None \<Rightarrow> map_option (\<lambda>(b, ok). Foreign b ok) (map_of foreign n))"

fun IsBoolFlag :: "flag_decl \<Rightarrow> bool" where
  "IsBoolFlag (StringVar _) = False"
| "IsBoolFlag (BoolVar _) = True"
| "IsBoolFlag (Foreign b _) = b"

text \<open>Value.Set: the options after it, or None when it refuses the value.\<close>

fun flag_Set :: "flag_decl \<Rightarrow> string \<Rightarrow> flag_options \<Rightarrow> flag_options option" where
  "flag_Set (StringVar f) v p = Some (f v p)"
| "flag_Set (BoolVar f) v p = (case ParseBool v of None \<Rightarrow> None | Some b \<Rightarrow> Some (f b p))"
| "flag_Set (Foreign _ ok) v p = (if ok v then Some p else None)"

text \<open>
  The shapes of an argument: not a flag (the parse stops), the terminator of two minus signs, bad
  syntax, or a name with the value after the first equals sign that is not its first character.
\<close>

datatype flag_arg = NoFlag | Terminator | BadSyntax | FlagArg string "string option"

definition split_value :: "string \<Rightarrow> string \<times> string option" where
  "split_value name = (let n = hd name # takeWhile (\<lambda>c. c \<noteq> CHR ''='') (tl name);
     rest = dropWhile (\<lambda>c. c \<noteq> CHR ''='') (tl name)
     in (n, if rest = [] then None else Some (tl rest)))"

definition flag_arg_of :: "string \<Rightarrow> flag_arg" where
  "flag_arg_of s =
     (if length s < 2 \<or> hd s \<noteq> CHR ''-'' then NoFlag
      else if s = ''--'' then Terminator
      else (let name = (if s ! 1 = CHR ''-'' then drop 2 s else drop 1 s)
        in if name = [] \<or> hd name = CHR ''-'' \<or> hd name = CHR ''='' then BadSyntax
           else (let (n, v) = split_value name in FlagArg n v)))"

text \<open>
  flag.Parse on the command line, which exits on an error: status 0 for a request of help, 2 for any
  other error. The result is the exit status or the options.
\<close>

fun flag_Parse :: "foreign_flags \<Rightarrow> flag_options \<Rightarrow> string list \<Rightarrow> nat + flag_options" where
  "flag_Parse foreign p [] = Inr p"
| "flag_Parse foreign p (s # args) =
     (case flag_arg_of s of
        NoFlag \<Rightarrow> Inr p
      | Terminator \<Rightarrow> Inr p
      | BadSyntax \<Rightarrow> Inl 2
      | FlagArg n v \<Rightarrow>
          (case find_flag foreign n of
             None \<Rightarrow> Inl (if n = ''help'' \<or> n = ''h'' then 0 else 2)
           | Some d \<Rightarrow>
               (if IsBoolFlag d then
                  (case flag_Set d (case v of None \<Rightarrow> ''true'' | Some x \<Rightarrow> x) p of
                     None \<Rightarrow> Inl 2 | Some p' \<Rightarrow> flag_Parse foreign p' args)
                else
                  (case v of
                     Some x \<Rightarrow> (case flag_Set d x p of None \<Rightarrow> Inl 2 | Some p' \<Rightarrow> flag_Parse foreign p' args)
                   | None \<Rightarrow> (case args of [] \<Rightarrow> Inl 2
                       | x # args' \<Rightarrow> (case flag_Set d x p of None \<Rightarrow> Inl 2 | Some p' \<Rightarrow> flag_Parse foreign p' args'))))))"

section \<open>The configuration of the servers\<close>

text \<open>A tls.Config, as far as main changes it; an element of tlsOpts is a function on it.\<close>

record tls_config =
  NextProtos :: "string list"

definition disableHTTP2 :: "tls_config \<Rightarrow> tls_config" where
  "disableHTTP2 c = c\<lparr>NextProtos := [''http/1.1'']\<rparr>"

definition tlsOpts :: "flag_options \<Rightarrow> (tls_config \<Rightarrow> tls_config) list" where
  "tlsOpts p = (if \<not> enableHTTP2 p then [disableHTTP2] else [])"

record webhook_options =
  wo_TLSOpts :: "(tls_config \<Rightarrow> tls_config) list"
  wo_CertDir :: string
  wo_CertName :: string
  wo_KeyName :: string

definition webhookServerOptions :: "flag_options \<Rightarrow> webhook_options" where
  "webhookServerOptions p =
     (let w = \<lparr>wo_TLSOpts = tlsOpts p, wo_CertDir = '''', wo_CertName = '''', wo_KeyName = ''''\<rparr>
      in if length (webhookCertPath p) > 0
         then w\<lparr>wo_CertDir := webhookCertPath p, wo_CertName := webhookCertName p, wo_KeyName := webhookCertKey p\<rparr>
         else w)"

text \<open>Of FilterProvider, whether it is set to WithAuthenticationAndAuthorization.\<close>

record metrics_options =
  mo_BindAddress :: string
  mo_SecureServing :: bool
  mo_TLSOpts :: "(tls_config \<Rightarrow> tls_config) list"
  mo_FilterProvider :: bool
  mo_CertDir :: string
  mo_CertName :: string
  mo_KeyName :: string

definition metricsServerOptions :: "flag_options \<Rightarrow> metrics_options" where
  "metricsServerOptions p =
     (let m0 = \<lparr>mo_BindAddress = metricsAddr p, mo_SecureServing = secureMetrics p, mo_TLSOpts = tlsOpts p,
            mo_FilterProvider = False, mo_CertDir = '''', mo_CertName = '''', mo_KeyName = ''''\<rparr>;
          m1 = (if secureMetrics p then m0\<lparr>mo_FilterProvider := True\<rparr> else m0)
      in if length (metricsCertPath p) > 0
         then m1\<lparr>mo_CertDir := metricsCertPath p, mo_CertName := metricsCertName p, mo_KeyName := metricsCertKey p\<rparr>
         else m1)"

record manager_options =
  mgr_Metrics :: metrics_options
  mgr_WebhookServer :: webhook_options
  mgr_HealthProbeBindAddress :: string
  mgr_LeaderElection :: bool
  mgr_LeaderElectionID :: string

definition managerOptions :: "flag_options \<Rightarrow> manager_options" where
  "managerOptions p = \<lparr>mgr_Metrics = metricsServerOptions p, mgr_WebhookServer = webhookServerOptions p,
     mgr_HealthProbeBindAddress = probeAddr p, mgr_LeaderElection = enableLeaderElection p,
     mgr_LeaderElectionID = ''942fbe98.devops.toiyeuptit.com''\<rparr>"

section \<open>The start-up\<close>

text \<open>The calls of main that may fail. The environment answers each with success or not.\<close>

datatype boot_step =
    AddToScheme string
  | GetConfigOrDie
  | NewManager manager_options
  | SetupWithManager string
  | AddHealthzCheck string
  | AddReadyzCheck string
  | Start

text \<open>
  A run makes the calls in order. A failure of one ends the process: in init with the status 2 of a
  panic (utilruntime.Must), in main with the status 1 (os.Exit). The result is the list of the calls
  made and the exit status; after Start has returned without an error it is 0.
\<close>

definition failure_status :: "boot_step \<Rightarrow> nat" where
  "failure_status s = (case s of AddToScheme _ \<Rightarrow> 2 | _ \<Rightarrow> 1)"

fun boot :: "(boot_step \<Rightarrow> bool) \<Rightarrow> boot_step list \<Rightarrow> boot_step list \<times> nat" where
  "boot succeeds [] = ([], 0)"
| "boot succeeds (s # ss) = (if succeeds s then (case boot succeeds ss of (made, status) \<Rightarrow> (s # made, status))
     else ([s], failure_status s))"

definition init_steps :: "boot_step list" where
  "init_steps = [AddToScheme ''clientgoscheme'', AddToScheme ''labv1alpha1'']"

definition main_steps :: "flag_options \<Rightarrow> boot_step list" where
  "main_steps p = [GetConfigOrDie, NewManager (managerOptions p), SetupWithManager ''clusterlab'',
     SetupWithManager ''instancelab'', AddHealthzCheck ''healthz'', AddReadyzCheck ''readyz'', Start]"

definition operator_main :: "foreign_flags \<Rightarrow> (boot_step \<Rightarrow> bool) \<Rightarrow> string list
    \<Rightarrow> boot_step list \<times> nat" where
  "operator_main foreign succeeds args =
     (case boot succeeds init_steps of (made, status) \<Rightarrow>
        if status \<noteq> 0 then (made, status)
        else (case flag_Parse foreign default_options args of
            Inl status' \<Rightarrow> (made, status')
          | Inr p \<Rightarrow> (case boot succeeds (main_steps p) of (made', status') \<Rightarrow> (made @ made', status'))))"

section \<open>Reading the flags back\<close>

definition show_bool :: "bool \<Rightarrow> string" where
  "show_bool b = (if b then ''true'' else ''false'')"

definition flag_text :: "string \<Rightarrow> string \<Rightarrow> string" where
  "flag_text n v = ''--'' @ n @ CHR ''='' # v"

definition print_flags :: "flag_options \<Rightarrow> string list" where
  "print_flags p = [
     flag_text ''metrics-bind-address'' (metricsAddr p),
     flag_text ''health-probe-bind-address'' (probeAddr p),
     flag_text ''leader-elect'' (show_bool (enableLeaderElection p)),
     flag_text ''metrics-secure'' (show_bool (secureMetrics p)),
     flag_text ''webhook-cert-path'' (webhookCertPath p),
     flag_text ''webhook-cert-name'' (webhookCertName p),
     flag_text ''webhook-cert-key'' (webhookCertKey p),
     flag_text ''metrics-cert-path'' (metricsCertPath p),
     flag_text ''metrics-cert-name'' (metricsCertName p),
     flag_text ''metrics-cert-key'' (metricsCertKey p),
     flag_text ''enable-http2'' (show_bool (enableHTTP2 p))]"

lemma ParseBool_show [simp]: "ParseBool (show_bool b) = Some b"
  by (simp add: ParseBool_def show_bool_def)

lemma split_value_eq:
  assumes "n \<noteq> []" and "CHR ''='' \<notin> set n"
  shows "split_value (n @ CHR ''='' # v) = (n, Some v)"
proof -
  obtain c m where n: "n = c # m" using assms(1) by (cases n) auto
  have "CHR ''='' \<notin> set m" using assms(2) n by simp
  then have "takeWhile (\<lambda>c. c \<noteq> CHR ''='') (m @ CHR ''='' # v) = m"
      "dropWhile (\<lambda>c. c \<noteq> CHR ''='') (m @ CHR ''='' # v) = CHR ''='' # v"
    by (induction m) auto
  then show ?thesis by (simp add: split_value_def n)
qed

lemma flag_arg_of_eq:
  assumes "n \<noteq> []" and "hd n \<noteq> CHR ''-''" and "CHR ''='' \<notin> set n"
  shows "flag_arg_of (flag_text n v) = FlagArg n (Some v)"
  using assms split_value_eq[OF assms(1,3)] by (cases n) (auto simp: flag_arg_of_def flag_text_def Let_def)

lemma flag_Parse_eq:
  assumes "n \<noteq> []" and "hd n \<noteq> CHR ''-''" and "CHR ''='' \<notin> set n" and "find_flag foreign n = Some d"
    and "flag_Set d v q = Some q'"
  shows "flag_Parse foreign q (flag_text n v # args) = flag_Parse foreign q' args"
  using assms by (simp only: flag_Parse.simps flag_arg_of_eq[OF assms(1-3)] flag_arg.case option.case) simp

lemma declared_found: "map_of declared_flags n = Some d \<Longrightarrow> find_flag foreign n = Some d"
  by (simp add: find_flag_def)

lemma flag_Parse_declared:
  "flag_Parse foreign q (flag_text ''metrics-bind-address'' v # args) = flag_Parse foreign (q\<lparr>metricsAddr := v\<rparr>) args"
  "flag_Parse foreign q (flag_text ''health-probe-bind-address'' v # args) = flag_Parse foreign (q\<lparr>probeAddr := v\<rparr>) args"
  "flag_Parse foreign q (flag_text ''leader-elect'' (show_bool b) # args) = flag_Parse foreign (q\<lparr>enableLeaderElection := b\<rparr>) args"
  "flag_Parse foreign q (flag_text ''metrics-secure'' (show_bool b) # args) = flag_Parse foreign (q\<lparr>secureMetrics := b\<rparr>) args"
  "flag_Parse foreign q (flag_text ''webhook-cert-path'' v # args) = flag_Parse foreign (q\<lparr>webhookCertPath := v\<rparr>) args"
  "flag_Parse foreign q (flag_text ''webhook-cert-name'' v # args) = flag_Parse foreign (q\<lparr>webhookCertName := v\<rparr>) args"
  "flag_Parse foreign q (flag_text ''webhook-cert-key'' v # args) = flag_Parse foreign (q\<lparr>webhookCertKey := v\<rparr>) args"
  "flag_Parse foreign q (flag_text ''metrics-cert-path'' v # args) = flag_Parse foreign (q\<lparr>metricsCertPath := v\<rparr>) args"
  "flag_Parse foreign q (flag_text ''metrics-cert-name'' v # args) = flag_Parse foreign (q\<lparr>metricsCertName := v\<rparr>) args"
  "flag_Parse foreign q (flag_text ''metrics-cert-key'' v # args) = flag_Parse foreign (q\<lparr>metricsCertKey := v\<rparr>) args"
  "flag_Parse foreign q (flag_text ''enable-http2'' (show_bool b) # args) = flag_Parse foreign (q\<lparr>enableHTTP2 := b\<rparr>) args"
  by - (rule flag_Parse_eq[OF _ _ _ declared_found], simp, simp, simp, simp add: declared_flags_def, simp)+

text \<open>
  C38: Flags printed from options are read back as those options, whatever was set before and whatever
  flags other packages declare, and the rest of the command line is read on top of them.
\<close>

theorem flags_roundtrip:
  "flag_Parse foreign q (print_flags p @ args) = flag_Parse foreign p args"
proof -
  have eq: "q\<lparr>metricsAddr := metricsAddr p, probeAddr := probeAddr p, enableLeaderElection := enableLeaderElection p,
      secureMetrics := secureMetrics p, webhookCertPath := webhookCertPath p, webhookCertName := webhookCertName p,
      webhookCertKey := webhookCertKey p, metricsCertPath := metricsCertPath p, metricsCertName := metricsCertName p,
      metricsCertKey := metricsCertKey p, enableHTTP2 := enableHTTP2 p\<rparr> = p"
    by (rule flag_options.equality) simp_all
  show ?thesis by (simp only: print_flags_def append.simps flag_Parse_declared eq)
qed

section \<open>The start-up\<close>

lemma boot_made:
  "boot succeeds ss = (made, status) \<Longrightarrow>
   \<exists>n. made = take n ss \<and> (\<forall>s \<in> set (butlast made). succeeds s) \<and>
     (status = 0 \<longleftrightarrow> made = ss \<and> (\<forall>s \<in> set ss. succeeds s))"
proof (induction ss arbitrary: made status)
  case (Cons s ss)
  show ?case
  proof (cases "succeeds s")
    case True
    obtain made' where b: "boot succeeds ss = (made', status)" "made = s # made'"
      using Cons.prems True by (auto split: prod.splits)
    from Cons.IH[OF b(1)] obtain n where "made' = take n ss" "\<forall>s \<in> set (butlast made'). succeeds s"
      "status = 0 \<longleftrightarrow> made' = ss \<and> (\<forall>s \<in> set ss. succeeds s)" by blast
    then show ?thesis using True b(2) by (intro exI[of _ "Suc n"]) auto
  next
    case False
    then show ?thesis using Cons.prems
      by (intro exI[of _ 1]) (auto simp: failure_status_def split: boot_step.splits)
  qed
qed auto

lemma operator_main_made:
  assumes "operator_main foreign succeeds args = (made, status)" and "s \<in> set made" and "s \<notin> set init_steps"
  shows "\<exists>p made'. flag_Parse foreign default_options args = Inr p \<and> made = init_steps @ made' \<and> s \<in> set made' \<and>
     (\<forall>s \<in> set init_steps. succeeds s) \<and> boot succeeds (main_steps p) = (made', status)"
proof -
  obtain made0 status0 where b: "boot succeeds init_steps = (made0, status0)" by fastforce
  from boot_made[OF b] obtain n where i: "made0 = take n init_steps"
    "status0 = 0 \<longleftrightarrow> made0 = init_steps \<and> (\<forall>s \<in> set init_steps. succeeds s)" by blast
  have "s \<notin> set made0" using assms(3) i(1) by (auto dest: in_set_takeD)
  then show ?thesis using assms(1,2) b i(2)
    by (auto simp: operator_main_def split: if_splits sum.splits prod.splits)
qed

lemma operator_main_step:
  assumes "s \<in> set (fst (operator_main foreign succeeds args))" and "s \<notin> set init_steps"
  shows "\<exists>p. flag_Parse foreign default_options args = Inr p \<and> s \<in> set (main_steps p)"
proof -
  obtain made status where m: "operator_main foreign succeeds args = (made, status)" by fastforce
  have "s \<in> set made" using assms(1) m by simp
  from operator_main_made[OF m this assms(2)] obtain p made' where p:
    "flag_Parse foreign default_options args = Inr p" "s \<in> set made'" "boot succeeds (main_steps p) = (made', status)" by blast
  from boot_made[OF p(3)] obtain n where "made' = take n (main_steps p)" by blast
  then show ?thesis using p(1,2) in_set_takeD[of s n "main_steps p"] by simp
qed

text \<open>
  C39: The manager is started only after the schemes, the configuration, the manager itself, the two
  controllers and both checks have been set up without an error, in that order, on the options of the
  command line; the exit status is then 0 exactly when Start returns without an error.
\<close>

theorem operator_start_order:
  assumes "Start \<in> set (fst (operator_main foreign succeeds args))"
  shows "\<exists>p. flag_Parse foreign default_options args = Inr p \<and>
     fst (operator_main foreign succeeds args) = init_steps @ main_steps p \<and>
     (\<forall>s \<in> set (butlast (init_steps @ main_steps p)). succeeds s) \<and>
     (snd (operator_main foreign succeeds args) = 0 \<longleftrightarrow> succeeds Start)"
proof -
  obtain made status where m: "operator_main foreign succeeds args = (made, status)" by fastforce
  have "Start \<notin> set init_steps" by (simp add: init_steps_def)
  from operator_main_made[OF m _ this] assms m obtain p made' where p:
    "flag_Parse foreign default_options args = Inr p" "made = init_steps @ made'" "Start \<in> set made'"
    "\<forall>s \<in> set init_steps. succeeds s" "boot succeeds (main_steps p) = (made', status)" by auto
  from boot_made[OF p(5)] obtain n where n: "made' = take n (main_steps p)" "\<forall>s \<in> set (butlast made'). succeeds s"
    "status = 0 \<longleftrightarrow> made' = main_steps p \<and> (\<forall>s \<in> set (main_steps p). succeeds s)" by blast
  have "made' = main_steps p"
  proof (cases "n < 7")
    case True
    then have "Start \<notin> set (take n (main_steps p))"
      by (auto simp: main_steps_def less_Suc_eq numeral_eq_Suc)
    then show ?thesis using p(3) n(1) by simp
  qed (use n(1) in \<open>simp add: main_steps_def\<close>)
  moreover have "(\<forall>s \<in> set (main_steps p). succeeds s) \<longleftrightarrow> (\<forall>s \<in> set (butlast (main_steps p)). succeeds s) \<and> succeeds Start"
    by (auto simp: main_steps_def)
  moreover have "set (butlast (init_steps @ main_steps p)) = set init_steps \<union> set (butlast (main_steps p))"
    by (auto simp: init_steps_def main_steps_def)
  ultimately show ?thesis using p n m by auto
qed

theorem operator_start_order_witness:
  "\<exists>p. fst (operator_main [] (\<lambda>_. True) [''--leader-elect'']) = init_steps @ main_steps p"
proof -
  have s: "flag_arg_of ''--leader-elect'' = FlagArg ''leader-elect'' None"
    by (simp add: flag_arg_of_def split_value_def Let_def)
  have f: "find_flag [] ''leader-elect'' = Some (BoolVar (\<lambda>b p. p\<lparr>enableLeaderElection := b\<rparr>))"
    by (simp add: find_flag_def declared_flags_def)
  have "Start \<in> set (fst (operator_main [] (\<lambda>_. True) [''--leader-elect'']))"
    by (simp add: operator_main_def init_steps_def main_steps_def s f ParseBool_def)
  from operator_start_order[OF this] show ?thesis by blast
qed

text \<open>The reconciler of NotebookLab is never set up.\<close>

lemma operator_serves_no_notebook: "SetupWithManager ''notebooklab'' \<notin> set (fst (operator_main foreign succeeds args))"
proof
  assume a: "SetupWithManager ''notebooklab'' \<in> set (fst (operator_main foreign succeeds args))"
  have "SetupWithManager ''notebooklab'' \<notin> set init_steps" by (simp add: init_steps_def)
  from operator_main_step[OF a this] show False by (simp add: main_steps_def)
qed

section \<open>HTTP/2\<close>

lemma flag_Set_http2:
  assumes "find_flag foreign n = Some d" and "flag_Set d v p = Some p'" and "n \<noteq> ''enable-http2''"
  shows "enableHTTP2 p' = enableHTTP2 p"
proof (cases "map_of declared_flags n")
  case None
  then show ?thesis using assms by (auto simp: find_flag_def split: if_splits)
next
  case (Some a)
  then have "d = a" using assms(1) by (simp add: find_flag_def)
  then show ?thesis using Some assms(2,3) by (auto simp: declared_flags_def split: if_splits option.splits)
qed

definition asks_http2 :: "string \<Rightarrow> bool" where
  "asks_http2 s = (case flag_arg_of s of FlagArg n _ \<Rightarrow> n = ''enable-http2'' | _ \<Rightarrow> False)"

lemma flag_Parse_http2:
  "flag_Parse foreign p args = Inr p' \<Longrightarrow> list_all (\<lambda>s. \<not> asks_http2 s) args \<Longrightarrow> enableHTTP2 p' = enableHTTP2 p"
proof (induction foreign p args rule: flag_Parse.induct)
  case (2 foreign p s args)
  show ?case
  proof (cases "flag_arg_of s")
    case (FlagArg n v)
    then have n: "n \<noteq> ''enable-http2''" using "2.prems"(2) by (simp add: asks_http2_def)
    obtain d where d: "find_flag foreign n = Some d" using "2.prems"(1) FlagArg by (auto split: option.splits)
    note keep = flag_Set_http2[OF d _ n]
    show ?thesis
      using "2.prems" FlagArg d keep "2.IH"
      by (auto split: option.splits if_splits list.splits)
  qed (use "2.prems" in auto)
qed simp

text \<open>The configuration a server starts from is changed by its options, in order.\<close>

definition apply_opts :: "(tls_config \<Rightarrow> tls_config) list \<Rightarrow> tls_config \<Rightarrow> tls_config" where
  "apply_opts fs c = fold (\<lambda>f c. f c) fs c"

text \<open>
  Unless an argument names enable-http2, both servers of the manager offer only HTTP/1.1 whatever their
  configuration was before, and the metrics endpoint is filtered exactly when it is served securely.
\<close>

theorem operator_http2_only_on_request:
  assumes "NewManager mo \<in> set (fst (operator_main foreign succeeds args))" and "list_all (\<lambda>s. \<not> asks_http2 s) args"
  shows "NextProtos (apply_opts (mo_TLSOpts (mgr_Metrics mo)) c) = [''http/1.1''] \<and>
     NextProtos (apply_opts (wo_TLSOpts (mgr_WebhookServer mo)) c) = [''http/1.1''] \<and>
     mo_FilterProvider (mgr_Metrics mo) = mo_SecureServing (mgr_Metrics mo)"
proof -
  have "NewManager mo \<notin> set init_steps" by (simp add: init_steps_def)
  from operator_main_step[OF assms(1) this] obtain p where
    p: "flag_Parse foreign default_options args = Inr p" "NewManager mo \<in> set (main_steps p)" by blast
  from p(2) have mo: "mo = managerOptions p" by (simp add: main_steps_def)
  have "\<not> enableHTTP2 p" using flag_Parse_http2[OF p(1) assms(2)] by (simp add: default_options_def)
  then show ?thesis
    by (simp add: mo managerOptions_def metricsServerOptions_def webhookServerOptions_def tlsOpts_def disableHTTP2_def
        apply_opts_def Let_def)
qed

theorem operator_http2_only_on_request_witness:
  "\<exists>mo. NewManager mo \<in> set (fst (operator_main [] (\<lambda>_. True) [''--metrics-secure=false''])) \<and>
     NextProtos (apply_opts (mo_TLSOpts (mgr_Metrics mo)) \<lparr>NextProtos = [''h2'']\<rparr>) = [''http/1.1'']"
proof -
  have s: "flag_arg_of ''--metrics-secure=false'' = FlagArg ''metrics-secure'' (Some ''false'')"
    by (simp add: flag_arg_of_def split_value_def Let_def)
  then have q: "list_all (\<lambda>s. \<not> asks_http2 s) [''--metrics-secure=false'']" by (simp add: asks_http2_def)
  have f: "find_flag [] ''metrics-secure'' = Some (BoolVar (\<lambda>b p. p\<lparr>secureMetrics := b\<rparr>))"
    by (simp add: find_flag_def declared_flags_def)
  obtain mo where mo: "NewManager mo \<in> set (fst (operator_main [] (\<lambda>_. True) [''--metrics-secure=false'']))"
    by (simp add: operator_main_def init_steps_def main_steps_def s f ParseBool_def)
  from mo operator_http2_only_on_request[OF mo q] show ?thesis by blast
qed

end
