(* ===== verification/Wakeups.thy ===== *)
theory Wakeups
  imports InstanceLabCorrectness ClusterLabCorrectness NotebookLabCorrectness Manager
begin

text \<open>
  Which changes wake which reconciler: the three functions SetupWithManager, the types that the package
  api/v1alpha1 adds to the scheme, and the controllers main sets up. A controller is the data its
  builder collects; what the handlers of controller-runtime request for a changed object is an
  argument. The theorems compose the watches with the runs of the reconcilers: what a run reads or
  creates, against what wakes it.
\<close>

section \<open>The scheme\<close>

record GroupVersion =
  gv_Group :: string
  gv_Version :: string

definition SchemeGroupVersion :: GroupVersion where
  "SchemeGroupVersion = \<lparr>gv_Group = ''lab.ngtukien.id.vn'', gv_Version = ''v1alpha1''\<rparr>"

text \<open>
  The functions in the scheme builder, first its own and then those the init functions of the files
  register, in the order of the files.
\<close>

datatype scheme_function = AddToGroupVersion GroupVersion | AddKnownTypes GroupVersion "string list"

definition ClusterLab_init :: "scheme_function list \<Rightarrow> scheme_function list" where
  "ClusterLab_init b = b @ [AddKnownTypes SchemeGroupVersion [''ClusterLab'', ''ClusterLabList'']]"

definition InstanceLab_init :: "scheme_function list \<Rightarrow> scheme_function list" where
  "InstanceLab_init b = b @ [AddKnownTypes SchemeGroupVersion [''InstanceLab'', ''InstanceLabList'']]"

definition NotebookLab_init :: "scheme_function list \<Rightarrow> scheme_function list" where
  "NotebookLab_init b = b @ [AddKnownTypes SchemeGroupVersion [''NotebookLab'', ''NotebookLabList'']]"

definition NewSchemeBuilder :: "scheme_function list" where
  "NewSchemeBuilder = [AddToGroupVersion SchemeGroupVersion]"

definition SchemeBuilder :: "scheme_function list" where
  "SchemeBuilder = NotebookLab_init (InstanceLab_init (ClusterLab_init NewSchemeBuilder))"

fun known_types :: "scheme_function list \<Rightarrow> string list" where
  "known_types [] = []"
| "known_types (AddKnownTypes _ ts # fs) = ts @ known_types fs"
| "known_types (AddToGroupVersion _ # fs) = known_types fs"

section \<open>Objects and controllers\<close>

datatype api_object =
    AClusterLab ClusterLab
  | AnInstanceLab InstanceLab
  | ANotebookLab NotebookLab
  | ANamespace Namespace
  | AResourceQuota ResourceQuota
  | ANetworkPolicy NetworkPolicy
  | APod Pod
  | AService Service
  | AnIngress Ingress
  | APersistentVolumeClaim PersistentVolumeClaim
  | ASecret Secret
  | ADeployment Deployment

fun kind_of :: "api_object \<Rightarrow> string" where
  "kind_of (AClusterLab _) = ''ClusterLab''"
| "kind_of (AnInstanceLab _) = ''InstanceLab''"
| "kind_of (ANotebookLab _) = ''NotebookLab''"
| "kind_of (ANamespace _) = ''Namespace''"
| "kind_of (AResourceQuota _) = ''ResourceQuota''"
| "kind_of (ANetworkPolicy _) = ''NetworkPolicy''"
| "kind_of (APod _) = ''Pod''"
| "kind_of (AService _) = ''Service''"
| "kind_of (AnIngress _) = ''Ingress''"
| "kind_of (APersistentVolumeClaim _) = ''PersistentVolumeClaim''"
| "kind_of (ASecret _) = ''Secret''"
| "kind_of (ADeployment _) = ''Deployment''"

fun meta_of :: "api_object \<Rightarrow> ObjectMeta" where
  "meta_of (AClusterLab x) = cl_Meta x"
| "meta_of (AnInstanceLab x) = il_Meta x"
| "meta_of (ANotebookLab x) = nb_Meta x"
| "meta_of (ANamespace x) = ns_Meta x"
| "meta_of (AResourceQuota x) = rq_Meta x"
| "meta_of (ANetworkPolicy x) = np_Meta x"
| "meta_of (APod x) = pod_Meta x"
| "meta_of (AService x) = svc_Meta x"
| "meta_of (AnIngress x) = ing_Meta x"
| "meta_of (APersistentVolumeClaim x) = pvc_Meta x"
| "meta_of (ASecret x) = sec_Meta x"
| "meta_of (ADeployment x) = dep_Meta x"

fun as_watched :: "api_object \<Rightarrow> watched" where
  "as_watched (AnInstanceLab il) = WatchedInstanceLab il"
| "as_watched _ = WatchedOther"

record controller =
  ctl_For :: string
  ctl_Owns :: "string list"
  ctl_Watches :: "(string \<times> (api_object \<Rightarrow> NamespacedName list)) list"
  ctl_Name :: "string option"

definition ClusterLab_SetupWithManager :: controller where
  "ClusterLab_SetupWithManager = \<lparr>ctl_For = ''ClusterLab'', ctl_Owns = [],
     ctl_Watches = [(''InstanceLab'', findParentClusterLab \<circ> as_watched)], ctl_Name = Some ''clusterlab''\<rparr>"

definition InstanceLab_SetupWithManager :: controller where
  "InstanceLab_SetupWithManager = \<lparr>ctl_For = ''InstanceLab'', ctl_Owns = [], ctl_Watches = [],
     ctl_Name = Some ''instancelab''\<rparr>"

definition NotebookLab_SetupWithManager :: controller where
  "NotebookLab_SetupWithManager = \<lparr>ctl_For = ''NotebookLab'',
     ctl_Owns = [''Deployment'', ''PersistentVolumeClaim'', ''Service'', ''Ingress'', ''Secret''],
     ctl_Watches = [], ctl_Name = None\<rparr>"

lemmas setup_defs = ClusterLab_SetupWithManager_def InstanceLab_SetupWithManager_def NotebookLab_SetupWithManager_def

text \<open>The controllers a run of main has set up.\<close>

definition controller_of :: "boot_step \<Rightarrow> controller option" where
  "controller_of s = (case s of SetupWithManager n \<Rightarrow>
       if n = ''clusterlab'' then Some ClusterLab_SetupWithManager
       else if n = ''instancelab'' then Some InstanceLab_SetupWithManager
       else None
     | _ \<Rightarrow> None)"

definition controllers :: "boot_step list \<Rightarrow> controller set" where
  "controllers made = {c. Some c \<in> controller_of ` set made}"

section \<open>Requests\<close>

text \<open>
  The handlers of For and Owns. Their documentation promises: a request for the changed object, and a
  request for the owner of the given kind that its controller reference names, in its namespace.
\<close>

record handlers =
  EnqueueRequestForObject :: "api_object \<Rightarrow> NamespacedName list"
  EnqueueRequestForOwner :: "string \<Rightarrow> api_object \<Rightarrow> NamespacedName list"

definition handler_laws :: "handlers \<Rightarrow> bool" where
  "handler_laws h \<longleftrightarrow> (\<forall>ob. EnqueueRequestForObject h ob = [meta_key (meta_of ob)]) \<and>
     (\<forall>k ob r. r \<in> set (om_OwnerReferences (meta_of ob)) \<and> or_Controller r \<and> or_Kind r = k \<longrightarrow>
        \<lparr>nn_Namespace = om_Namespace (meta_of ob), nn_Name = or_Name r\<rparr> \<in> set (EnqueueRequestForOwner h k ob))"

text \<open>The requests a change of an object puts into the queue of a controller.\<close>

definition requests :: "handlers \<Rightarrow> controller \<Rightarrow> api_object \<Rightarrow> NamespacedName list" where
  "requests h c ob =
     (if kind_of ob = ctl_For c then EnqueueRequestForObject h ob else []) @
     (if kind_of ob \<in> set (ctl_Owns c) then EnqueueRequestForOwner h (ctl_For c) ob else []) @
     concat (map (\<lambda>(k, f). if kind_of ob = k then f ob else []) (ctl_Watches c))"

section \<open>What wakes a reconciler\<close>

lemma main_controllers: "controllers (fst (operator_main foreign succeeds args)) \<subseteq>
    {ClusterLab_SetupWithManager, InstanceLab_SetupWithManager}"
  by (auto simp: controllers_def controller_of_def split: boot_step.splits if_splits)

lemma main_kinds_known: "c \<in> controllers made \<Longrightarrow>
    ctl_For c \<in> set (known_types SchemeBuilder) \<and> fst ` set (ctl_Watches c) \<subseteq> set (known_types SchemeBuilder)"
  by (auto simp: controllers_def controller_of_def setup_defs SchemeBuilder_def ClusterLab_init_def InstanceLab_init_def
      NotebookLab_init_def NewSchemeBuilder_def split: boot_step.splits if_splits)

text \<open>
  C25: Whatever a run of an instance learns of a ClusterLab it reads under one key, and a change of the
  instance wakes the reconciler of ClusterLab for exactly that key, where the instance is counted.
\<close>

theorem instance_wakes_parent:
  assumes "OnInstanceLab (Get req (Inr il)) \<in> set (events_of (InstanceLab_Reconcile px k req) w)"
    and "OnClusterLab (Get key g) \<in> set (events_of (InstanceLab_Reconcile px k req) w)"
    and "ils_ClusterLabRef (il_Spec il) \<noteq> ''''"
  shows "requests h ClusterLab_SetupWithManager (AnInstanceLab il) = [key] \<and>
     (\<forall>cl. meta_key (cl_Meta cl) = key \<longrightarrow> refers_to (om_Name (cl_Meta cl)) il \<and> om_Namespace (cl_Meta cl) = om_Namespace (il_Meta il))"
proof -
  have prov: "ev \<notin> {OnClusterLab (Get key g), OnInstanceLab (Get req (Inr il))}"
    if "instance_provision_run px il' cl ns evs r" "ev \<in> set evs" for il' cl ns evs r ev
    using that by (auto elim!: instance_provision_run.cases disk_run.cases service_run.cases ingress_run.cases instance_status_run.cases)
  have parent: "(OnClusterLab (Get key g) \<in> set evs \<longrightarrow> key = parent_key il0) \<and> OnInstanceLab (Get req (Inr il)) \<notin> set evs"
    if "parent_run px il0 evs p" for il0 evs p
    using that by (auto elim!: parent_run.cases)
  have active: "(OnClusterLab (Get key g) \<in> set evs \<longrightarrow> key = parent_key il0) \<and> OnInstanceLab (Get req (Inr il)) \<notin> set evs"
    if "instance_active_run px il0 evs r" for il0 evs r
    using that
  proof (cases rule: instance_active_run.cases)
    case (building evs1 cl il' evs2)
    then show ?thesis using parent[OF building(2)] prov[OF building(3)] by auto
  qed (use parent in auto)
  have "key = parent_key il"
    using InstanceLab_events[of px req k w] assms(1,2)
    by (cases rule: InstanceLab_run.cases) (auto dest: active elim!: instance_finalizer_run.cases)
  then show ?thesis
    using assms(3) by (auto simp: requests_def setup_defs parent_key_def meta_key_def refers_to_def)
qed

lemma created_wakes:
  assumes "handler_laws h" and "owned_by nb m" and "creates_object e = Some (kind_of ob, m)" and "meta_of ob = m"
  shows "meta_key (nb_Meta nb) \<in> set (requests h NotebookLab_SetupWithManager ob)"
proof -
  obtain r where r: "r \<in> set (om_OwnerReferences m)" "or_Kind r = ''NotebookLab''" "or_Name r = nb_Name nb" "or_Controller r"
      "om_Namespace m = nb_Namespace nb" using assms(2) unfolding owned_by_def by blast
  have "\<lparr>nn_Namespace = om_Namespace (meta_of ob), nn_Name = or_Name r\<rparr> \<in> set (EnqueueRequestForOwner h ''NotebookLab'' ob)"
    using assms(1) r assms(4) unfolding handler_laws_def by blast
  moreover have "kind_of ob \<in> set (ctl_Owns NotebookLab_SetupWithManager)"
    using assms(3) by (cases e rule: creates_object.cases) (auto simp: setup_defs)
  ultimately show ?thesis using r assms(4) by (simp add: requests_def meta_key_def setup_defs nb_Name_def nb_Namespace_def)
qed

text \<open>
  C26: Every object a run creates for a notebook wakes the reconciler of NotebookLab for that notebook when it
  changes: its kind is among the owned ones and its controller reference names the notebook.
\<close>

theorem notebook_children_wake:
  assumes "owner_laws px" and "handler_laws h"
    and "e \<in> set (events_of (NotebookLab_Reconcile px k req) w)" and "creates_object e = Some (kind_of ob, meta_of ob)"
  shows "\<exists>nb. held req (events_of (NotebookLab_Reconcile px k req) w) nb \<and>
     meta_key (nb_Meta nb) \<in> set (requests h NotebookLab_SetupWithManager ob)"
proof -
  have life: "creates_object e = None" if "lifecycle_run nb evs r" "e \<in> set evs" for nb evs r
    using that by (auto elim!: lifecycle_run.cases purge_run.cases pause_run.cases claim_run.cases)
  show ?thesis
    using NotebookLab_events[of px req k w]
  proof (cases rule: NotebookLab_run.cases)
    case (notebook_provisioned nb evs rq nb' evs' r)
    then have "e \<in> set evs'" using assms(3,4) life[OF notebook_provisioned(3)] by auto
    then have "owned_by nb' (meta_of ob)"
      using provision_creates_well[OF assms(1) notebook_provisioned(4)] assms(4)
      by (auto simp: creates_well_def list_all_iff)
    then have "meta_key (nb_Meta nb') \<in> set (requests h NotebookLab_SetupWithManager ob)"
      by (rule created_wakes[OF assms(2) _ assms(4) refl])
    moreover have "held req (events_of (NotebookLab_Reconcile px k req) w) nb'"
      using lifecycle_run_held[OF notebook_provisioned(3)] notebook_provisioned(1) by (auto simp: held_def)
    ultimately show ?thesis by blast
  qed (use assms(3,4) life in auto)
qed

text \<open>
  C27: The pod of an instance is seen only by the runs that happen anyway. A run that has written the pod never asks
  to be repeated, and in the operator no later change of a pod, or of any other child of an instance or a
  ClusterLab, wakes any controller: so the phase of an instance whose pod starts or dies
  stays as it was published until something else wakes the instance.
\<close>

theorem instance_pod_unseen:
  assumes "OnPod (CreateOrUpdate p f r) \<in> set (events_of (InstanceLab_Reconcile px k req) w)"
    and "result_of (InstanceLab_Reconcile px k req) w = Returned (x, e)"
    and "c \<in> controllers (fst (operator_main foreign succeeds args))"
    and "kind_of ob \<in> {''Pod'', ''Service'', ''Ingress'', ''PersistentVolumeClaim'', ''Namespace'', ''ResourceQuota'', ''NetworkPolicy''}"
  shows "x = no_result \<and> requests h c ob = []"
proof
  have parent: "OnPod (CreateOrUpdate p f r) \<notin> set evs" if "parent_run px il evs q" for il evs q
    using that by (auto elim!: parent_run.cases)
  have prov: "y = no_result" if "instance_provision_run px il cl ns evs (Returned (y, d))" for il cl ns evs y d
    using that by (auto elim!: instance_provision_run.cases)
  show "x = no_result"
    using InstanceLab_events[of px req k w] unfolding assms(2)
  proof (cases rule: InstanceLab_run.cases)
    case (instance_active il evs)
    from instance_active(4) show ?thesis
    proof (cases rule: instance_active_run.cases)
      case (waiting evs1 c il' t u)
      then show ?thesis using parent[OF waiting(4)] instance_active(1) assms(1) by auto
    next
      case (building evs1 cl il' evs2)
      then show ?thesis using prov by blast
    qed auto
  qed (auto elim!: instance_finalizer_run.cases)
  have "c = ClusterLab_SetupWithManager \<or> c = InstanceLab_SetupWithManager"
    using main_controllers[of foreign succeeds args] assms(3) by blast
  then show "requests h c ob = []"
    by (rule disjE; use assms(4) in \<open>cases ob; simp add: requests_def setup_defs\<close>)
qed

section \<open>Applications\<close>

definition sample_handlers :: handlers where
  "sample_handlers = \<lparr>EnqueueRequestForObject = (\<lambda>ob. [meta_key (meta_of ob)]),
     EnqueueRequestForOwner = (\<lambda>k ob. map (\<lambda>r. \<lparr>nn_Namespace = om_Namespace (meta_of ob), nn_Name = or_Name r\<rparr>)
       (filter (\<lambda>r. or_Controller r \<and> or_Kind r = k) (om_OwnerReferences (meta_of ob))))\<rparr>"

lemma sample_handler_laws: "handler_laws sample_handlers"
  by (auto simp: handler_laws_def sample_handlers_def)

theorem notebook_children_wake_witness:
  "\<exists>s c (nb :: NotebookLab). OnSecret (Create s c) \<in> set (events_of (NotebookLab_Reconcile sample_platform nb_api nb_key) 0) \<and>
     meta_key (nb_Meta nb) \<in> set (requests sample_handlers NotebookLab_SetupWithManager (ASecret s))"
proof -
  obtain s c where s: "OnSecret (Create s c) \<in> set (events_of (NotebookLab_Reconcile sample_platform nb_api nb_key) 0)"
    using young_run(7) by blast
  have "creates_object (OnSecret (Create s c)) = Some (kind_of (ASecret s), meta_of (ASecret s))" by simp
  from notebook_children_wake[OF sample_owners sample_handler_laws s this] s show ?thesis by blast
qed

theorem instance_wakes_parent_witness:
  "\<exists>il. OnInstanceLab (Get vm_key (Inr il)) \<in> set (events_of (InstanceLab_Reconcile sample_platform early_api vm_key) 0) \<and>
     requests sample_handlers ClusterLab_SetupWithManager (AnInstanceLab il) = [parent_key il]"
proof -
  have phase: "clt_Phase (cl_Status sample_ClusterLab) = ''''" by (simp add: sample_ClusterLab_def)
  have "OnInstanceLab (Get vm_key (Inr sample_InstanceLab)) \<in> set (events_of (InstanceLab_Reconcile sample_platform early_api vm_key) 0)"
    "\<exists>g. OnClusterLab (Get (parent_key sample_InstanceLab) g) \<in> set (events_of (InstanceLab_Reconcile sample_platform early_api vm_key) 0)"
    using phase by (simp_all add: events_of_def InstanceLab_code Let_def EqualFold_def)
  then obtain g where e: "OnInstanceLab (Get vm_key (Inr sample_InstanceLab)) \<in> set (events_of (InstanceLab_Reconcile sample_platform early_api vm_key) 0)"
    "OnClusterLab (Get (parent_key sample_InstanceLab) g) \<in> set (events_of (InstanceLab_Reconcile sample_platform early_api vm_key) 0)"
    by blast
  have "ils_ClusterLabRef (il_Spec sample_InstanceLab) \<noteq> ''''" by (simp add: sample_InstanceLab_def)
  from instance_wakes_parent[OF e this] e(1) show ?thesis by blast
qed

theorem instance_pod_unseen_witness:
  "\<exists>p f. OnPod (CreateOrUpdate p f (Inr sample_Pod)) \<in> set (events_of (InstanceLab_Reconcile sample_platform vm_api vm_key) 0) \<and>
     requests sample_handlers InstanceLab_SetupWithManager (APod sample_Pod) = []"
proof -
  obtain p f where p: "OnPod (CreateOrUpdate p f (Inr sample_Pod)) \<in>
     set (events_of (InstanceLab_Reconcile sample_platform vm_api vm_key) 0)"
    using vm_run(1) by blast
  have no_panic: "result_of (InstanceLab_Reconcile sample_platform vm_api vm_key) 0 \<noteq> Panicked"
    using InstanceLab_events[of sample_platform vm_key vm_api 0]
    by (auto elim!: InstanceLab_run.cases instance_active_run.cases dest: provision_run_no_panic)
  obtain x e where r: "result_of (InstanceLab_Reconcile sample_platform vm_api vm_key) 0 = Returned (x, e)"
    using no_panic by (metis outcome.exhaust surj_pair)
  have c: "InstanceLab_SetupWithManager \<in> controllers (fst (operator_main [] (\<lambda>_. True) []))"
    by (simp add: controllers_def operator_main_def init_steps_def main_steps_def controller_of_def image_iff)
  have "kind_of (APod sample_Pod) = ''Pod''" by simp
  with instance_pod_unseen[OF p r c, of "APod sample_Pod"] p show ?thesis by blast
qed

end
