(* ===== verification/Memory.thy ===== *)
theory Memory
  imports ApiTypes "HOL-Library.State_Monad"
begin

text \<open>
  Memory as the generated deep copies see it, for the one place of the program where sharing is the
  point. A memory is the list of the variables and arrays a Go program has allocated, in the order of
  their allocation: an address is a position in the list, an allocation appends, nothing is freed. The
  theory holds the allocation primitives, the notion of a view (which value a Go value denotes in a
  memory, and which addresses it reaches), the contract of a deep copy as a locale, and the lemmas that
  build the contract of a structure, a slice or a pointer from those of its parts.
\<close>

section \<open>Pointers and slices\<close>

text \<open>
  A pointer to a variable, which is an element of an allocated array (a variable of its own is an array
  of one element). A slice is an array with a start and a length; nil is None in both cases.
\<close>

datatype pointer = Pointer (points_to: nat) (points_at: nat)

datatype slice = Slice (backing: nat) (start: nat) (len: nat)

type_synonym ('c, 'a) memory_state = "('c list, 'a) state"

definition allocate :: "'c \<Rightarrow> ('c, nat) memory_state" where
  "allocate c = State (\<lambda>h. (length h, h @ [c]))"

text \<open>
  The way values of one Go type are kept in a memory: how an array of them is a cell, and which cells
  are such arrays.
\<close>

record ('c, 'e) kind =
  array_cell :: "'e list \<Rightarrow> 'c"
  as_array :: "'c \<Rightarrow> 'e list option"

definition elements :: "('c, 'e) kind \<Rightarrow> 'c list \<Rightarrow> nat \<Rightarrow> 'e list option" where
  "elements k h a = (if a < length h then as_array k (h ! a) else None)"

definition slice_elements :: "('c, 'e) kind \<Rightarrow> 'c list \<Rightarrow> slice \<Rightarrow> 'e list option" where
  "slice_elements k h s = (case elements k h (backing s) of
     None \<Rightarrow> None
   | Some es \<Rightarrow> if start s + len s \<le> length es then Some (take (len s) (drop (start s) es)) else None)"

definition pointee :: "('c, 'e) kind \<Rightarrow> 'c list \<Rightarrow> pointer \<Rightarrow> 'e option" where
  "pointee k h p = (case elements k h (points_to p) of
     None \<Rightarrow> None
   | Some es \<Rightarrow> if points_at p < length es then Some (es ! points_at p) else None)"

section \<open>Views\<close>

text \<open>
  A view says what a Go value denotes in a memory, if every address in it is allocated and holds a
  value of the right type, and which addresses can be reached from it.
\<close>

record ('c, 'a, 'v) view =
  reads :: "'c list \<Rightarrow> 'a \<Rightarrow> 'v option"
  cells :: "'c list \<Rightarrow> 'a \<Rightarrow> nat set"

definition plain :: "('c, 'a, 'a) view" where
  "plain = \<lparr>reads = (\<lambda>_ x. Some x), cells = (\<lambda>_ _. {})\<rparr>"

definition along :: "('a \<Rightarrow> 'b) \<Rightarrow> ('v \<Rightarrow> 'u) \<Rightarrow> ('c, 'b, 'v) view \<Rightarrow> ('c, 'a, 'u) view" where
  "along f g w = \<lparr>reads = (\<lambda>h x. map_option g (reads w h (f x))), cells = (\<lambda>h x. cells w h (f x))\<rparr>"

definition both :: "('c, 'a, 'v) view \<Rightarrow> ('c, 'b, 'u) view \<Rightarrow> ('c, 'a \<times> 'b, 'v \<times> 'u) view" where
  "both w w' = \<lparr>reads = (\<lambda>h (x, y). case (reads w h x, reads w' h y) of
       (Some v, Some u) \<Rightarrow> Some (v, u) | _ \<Rightarrow> None),
     cells = (\<lambda>h (x, y). cells w h x \<union> cells w' h y)\<rparr>"

definition optional :: "('c, 'a, 'v) view \<Rightarrow> ('c, 'a option, 'v option) view" where
  "optional w = \<lparr>reads = (\<lambda>h x. case x of None \<Rightarrow> Some None | Some y \<Rightarrow> map_option Some (reads w h y)),
     cells = (\<lambda>h x. case x of None \<Rightarrow> {} | Some y \<Rightarrow> cells w h y)\<rparr>"

definition pointed :: "('c, 'e) kind \<Rightarrow> ('c, 'e, 'v) view \<Rightarrow> ('c, pointer, 'v) view" where
  "pointed k w = \<lparr>reads = (\<lambda>h p. Option.bind (pointee k h p) (reads w h)),
     cells = (\<lambda>h p. insert (points_to p) (case pointee k h p of None \<Rightarrow> {} | Some x \<Rightarrow> cells w h x))\<rparr>"

definition sliced :: "('c, 'e) kind \<Rightarrow> ('c, 'e, 'v) view \<Rightarrow> ('c, slice, 'v list) view" where
  "sliced k w = \<lparr>reads = (\<lambda>h s. Option.bind (slice_elements k h s) (\<lambda>es. those (map (reads w h) es))),
     cells = (\<lambda>h s. insert (backing s)
       (case slice_elements k h s of None \<Rightarrow> {} | Some es \<Rightarrow> \<Union> (cells w h ` set es)))\<rparr>"

lemmas view_defs = plain_def along_def both_def optional_def pointed_def sliced_def

section \<open>The contract of a deep copy\<close>

text \<open>
  A view is local when what a value denotes depends only on the addresses it reaches, all of them
  allocated. A deep copy of a value only allocates: it leaves every older address alone, and its
  result denotes the same value and reaches only new addresses.
\<close>

locale local_view =
  fixes w :: "('c, 'a, 'v) view"
  assumes allocated: "reads w h x = Some v \<Longrightarrow> cells w h x \<subseteq> {..<length h}"
    and frame: "reads w h x = Some v \<Longrightarrow> cells w h x \<subseteq> {..<length h'} \<Longrightarrow>
      (\<And>a. a \<in> cells w h x \<Longrightarrow> h' ! a = h ! a) \<Longrightarrow> reads w h' x = Some v \<and> cells w h' x = cells w h x"
begin

lemma stays: "reads w h x = Some v \<Longrightarrow> reads w (h @ e) x = Some v \<and> cells w (h @ e) x = cells w h x"
  by (rule frame) (use allocated[of h x v] in \<open>auto simp: nth_append\<close>)

end

locale deep_copier = local_view w for w :: "('c, 'a, 'v) view" +
  fixes copy :: "'a \<Rightarrow> ('c, 'a) memory_state"
  assumes copied: "reads w h x = Some v \<Longrightarrow> run_state (copy x) h = (y, h') \<Longrightarrow>
    \<exists>e. h' = h @ e \<and> reads w h' y = Some v \<and> cells w h' y \<inter> {..<length h} = {}"
begin

lemma original_kept:
  "reads w h x = Some v \<Longrightarrow> run_state (copy x) h = (y, h') \<Longrightarrow> reads w h' x = Some v \<and> cells w h' x = cells w h x"
  using copied stays by blast

lemma separate:
  assumes "reads w h x = Some v" "run_state (copy x) h = (y, h')"
  shows "cells w h' x \<inter> cells w h' y = {}"
  using copied[OF assms] original_kept[OF assms] allocated[OF assms(1)] by auto

lemma isolated:
  assumes "reads w h x = Some v" "run_state (copy x) h = (y, h')"
    and "length h'' \<ge> length h'" "\<And>a. a < length h' \<Longrightarrow> a \<notin> cells w h' y \<Longrightarrow> h'' ! a = h' ! a"
  shows "reads w h'' x = Some v"
proof -
  note kept = original_kept[OF assms(1,2)]
  have s: "cells w h' x \<subseteq> {..<length h'}" using allocated kept by blast
  show ?thesis
    by (rule frame[of h', THEN conjunct1]) (use kept s separate[OF assms(1,2)] assms(3,4) in \<open>auto\<close>)
qed

lemma copy_kept:
  assumes "reads w h x = Some v" "run_state (copy x) h = (y, h')"
    and "length h'' \<ge> length h'" "\<And>a. a < length h' \<Longrightarrow> a \<in> cells w h' y \<Longrightarrow> h'' ! a = h' ! a"
  shows "reads w h'' y = Some v"
proof -
  have y: "reads w h' y = Some v" using copied[OF assms(1,2)] by blast
  show ?thesis
    by (rule frame[of h', THEN conjunct1]) (use y allocated[OF y] assms(3,4) in \<open>auto\<close>)
qed

end

section \<open>The contract, part by part\<close>

named_theorems copiers \<open>deep copies and the views they respect\<close>

lemma plain_view [copiers]: "deep_copier plain State_Monad.return"
  by unfold_locales (auto simp: plain_def)

lemma along_local:
  assumes w: "local_view w"
  shows "local_view (along f g w)"
proof (rule local_view.intro)
  fix h x v assume "reads (along f g w) h x = Some v"
  then obtain u where u: "reads w h (f x) = Some u" "v = g u" by (auto simp: along_def)
  show "cells (along f g w) h x \<subseteq> {..<length h}"
    using local_view.allocated[OF w u(1)] by (simp add: along_def)
  fix h'
  assume "cells (along f g w) h x \<subseteq> {..<length h'}" "\<And>a. a \<in> cells (along f g w) h x \<Longrightarrow> h' ! a = h ! a"
  with local_view.frame[OF w u(1), of h'] u(2)
  show "reads (along f g w) h' x = Some v \<and> cells (along f g w) h' x = cells (along f g w) h x"
    by (simp add: along_def)
qed

lemma along_copier:
  assumes w: "deep_copier w c" and "\<And>x. copy x = State_Monad.bind (c (f x)) (\<lambda>p. State_Monad.return (mk x p))"
    and "\<And>x p. f (mk x p) = p"
  shows "deep_copier (along f g w) copy"
proof (intro deep_copier.intro deep_copier_axioms.intro along_local)
  show "local_view w" using w by (rule deep_copier.axioms)
  fix h x v y h'
  assume r: "reads (along f g w) h x = Some v" and "run_state (copy x) h = (y, h')"
  then obtain u p where "reads w h (f x) = Some u" "v = g u" "run_state (c (f x)) h = (p, h')" "y = mk x p"
    using assms(2) by (auto simp: along_def split: prod.splits)
  with deep_copier.copied[OF w, of h "f x" u p h'] assms(3)
  show "\<exists>e. h' = h @ e \<and> reads (along f g w) h' y = Some v \<and> cells (along f g w) h' y \<inter> {..<length h} = {}"
    by (auto simp: along_def)
qed

lemma both_local:
  assumes w: "local_view w" and w': "local_view w'"
  shows "local_view (both w w')"
proof (rule local_view.intro)
  fix h p v assume "reads (both w w') h p = Some v"
  then obtain x y a b where u: "p = (x, y)" "v = (a, b)" "reads w h x = Some a" "reads w' h y = Some b"
    by (cases p) (auto simp: both_def split: option.splits)
  show "cells (both w w') h p \<subseteq> {..<length h}"
    using local_view.allocated[OF w u(3)] local_view.allocated[OF w' u(4)] by (simp add: both_def u(1))
  fix h'
  assume "cells (both w w') h p \<subseteq> {..<length h'}" "\<And>a. a \<in> cells (both w w') h p \<Longrightarrow> h' ! a = h ! a"
  with local_view.frame[OF w u(3), of h'] local_view.frame[OF w' u(4), of h']
  show "reads (both w w') h' p = Some v \<and> cells (both w w') h' p = cells (both w w') h p"
    by (simp add: both_def u(1,2))
qed

definition both_copy :: "('a \<Rightarrow> ('c, 'a) memory_state) \<Rightarrow> ('b \<Rightarrow> ('c, 'b) memory_state)
    \<Rightarrow> 'a \<times> 'b \<Rightarrow> ('c, 'a \<times> 'b) memory_state" where
  "both_copy c c' p = do {
     x \<leftarrow> c (fst p);
     y \<leftarrow> c' (snd p);
     State_Monad.return (x, y)
   }"

lemma both_copier [copiers]:
  assumes w: "deep_copier w c" and w': "deep_copier w' c'"
  shows "deep_copier (both w w') (both_copy c c')"
proof (intro deep_copier.intro deep_copier_axioms.intro both_local)
  show "local_view w" "local_view w'" using w w' by (auto dest: deep_copier.axioms)
  fix h p v q h'
  assume r: "reads (both w w') h p = Some v" and s: "run_state (both_copy c c' p) h = (q, h')"
  obtain x y where p: "p = (x, y)" by (cases p)
  from r obtain a b where v: "v = (a, b)" "reads w h x = Some a" "reads w' h y = Some b"
    by (auto simp: both_def p split: option.splits)
  from s obtain x' y' h1 where q: "q = (x', y')" "run_state (c x) h = (x', h1)" "run_state (c' y) h1 = (y', h')"
    by (auto simp: both_copy_def p split: prod.splits)
  obtain e where e: "h1 = h @ e" "reads w h1 x' = Some a" "cells w h1 x' \<inter> {..<length h} = {}"
    using deep_copier.copied[OF w v(2) q(2)] by blast
  have "reads w' h1 y = Some b" using local_view.stays[OF deep_copier.axioms(1)[OF w'] v(3)] e(1) by blast
  then obtain e' where e': "h' = h1 @ e'" "reads w' h' y' = Some b" "cells w' h' y' \<inter> {..<length h1} = {}"
    using deep_copier.copied[OF w' _ q(3)] by blast
  have "reads w h' x' = Some a" "cells w h' x' = cells w h1 x'"
    using local_view.stays[OF deep_copier.axioms(1)[OF w] e(2)] e'(1) by blast+
  with e e' show "\<exists>e. h' = h @ e \<and> reads (both w w') h' q = Some v \<and> cells (both w w') h' q \<inter> {..<length h} = {}"
    by (auto simp: both_def q v)
qed

lemma optional_local:
  assumes w: "local_view w"
  shows "local_view (optional w)"
proof (rule local_view.intro)
  fix h x v assume r: "reads (optional w) h x = Some v"
  show "cells (optional w) h x \<subseteq> {..<length h}"
    using r local_view.allocated[OF w] by (cases x) (auto simp: optional_def)
  fix h'
  assume h': "cells (optional w) h x \<subseteq> {..<length h'}" "\<And>a. a \<in> cells (optional w) h x \<Longrightarrow> h' ! a = h ! a"
  show "reads (optional w) h' x = Some v \<and> cells (optional w) h' x = cells (optional w) h x"
  proof (cases x)
    case (Some y)
    then obtain u where u: "reads w h y = Some u" "v = Some u" using r by (auto simp: optional_def)
    show ?thesis using local_view.frame[OF w u(1), of h'] h' by (simp add: optional_def Some u(2))
  qed (use r in \<open>simp add: optional_def\<close>)
qed

text \<open>The idiom of the generated code for a field that may be nil: a nil field stays nil.\<close>

definition unless_nil :: "('a \<Rightarrow> ('c, 'a) memory_state) \<Rightarrow> 'a option \<Rightarrow> ('c, 'a option) memory_state" where
  "unless_nil c x = (case x of None \<Rightarrow> State_Monad.return None
     | Some y \<Rightarrow> do {
         z \<leftarrow> c y;
         State_Monad.return (Some z)
       })"

lemma optional_copier [copiers]:
  assumes w: "deep_copier w c"
  shows "deep_copier (optional w) (unless_nil c)"
proof (intro deep_copier.intro deep_copier_axioms.intro optional_local)
  show "local_view w" using w by (rule deep_copier.axioms)
  fix h x v y h'
  assume r: "reads (optional w) h x = Some v" and s: "run_state (unless_nil c x) h = (y, h')"
  show "\<exists>e. h' = h @ e \<and> reads (optional w) h' y = Some v \<and> cells (optional w) h' y \<inter> {..<length h} = {}"
  proof (cases x)
    case (Some x')
    obtain u where "reads w h x' = Some u" "v = Some u" using r by (auto simp: optional_def Some)
    moreover obtain z where "run_state (c x') h = (z, h')" "y = Some z" using s by (auto simp: unless_nil_def Some split: prod.splits)
    ultimately show ?thesis using deep_copier.copied[OF w, of h x' u z h'] by (auto simp: optional_def)
  qed (use r s in \<open>auto simp: optional_def unless_nil_def\<close>)
qed

section \<open>new, make and copy\<close>

text \<open>
  A kind is sound when an array is read back as it was stored.
\<close>

definition sound_kind :: "('c, 'e) kind \<Rightarrow> bool" where
  "sound_kind k \<longleftrightarrow> (\<forall>es. as_array k (array_cell k es) = Some es)"

text \<open>
  The idiom of DeepCopy: nil for nil, otherwise a new variable that holds a deep copy of the receiver.
  The variable appears in memory with its final contents: nothing reads it before.
\<close>

definition new_copy :: "('c, 'e) kind \<Rightarrow> ('e \<Rightarrow> ('c, 'e) memory_state) \<Rightarrow> pointer \<Rightarrow> ('c, pointer) memory_state" where
  "new_copy k into p = do {
     h \<leftarrow> State_Monad.get;
     out \<leftarrow> into (the (pointee k h p));
     a \<leftarrow> allocate (array_cell k [out]);
     State_Monad.return (Pointer a 0)
   }"

text \<open>
  The idiom for a slice: make an array of the same length and copy each element into it, deeply or,
  for elements without pointers, with the builtin copy.
\<close>

definition make_each :: "('c, 'e) kind \<Rightarrow> ('e \<Rightarrow> ('c, 'e) memory_state) \<Rightarrow> slice \<Rightarrow> ('c, slice) memory_state" where
  "make_each k into s = do {
     h \<leftarrow> State_Monad.get;
     es \<leftarrow> State_Monad.traverse_list into (the (slice_elements k h s));
     a \<leftarrow> allocate (array_cell k es);
     State_Monad.return (Slice a 0 (length es))
   }"

lemma pointee_local: "pointee k h p = Some x \<Longrightarrow> points_to p < length h' \<Longrightarrow> h' ! points_to p = h ! points_to p \<Longrightarrow>
    pointee k h' p = Some x" "pointee k h p = Some x \<Longrightarrow> points_to p < length h"
  by (auto simp: pointee_def elements_def split: option.splits if_splits)

lemma slice_elements_local: "slice_elements k h s = Some es \<Longrightarrow> backing s < length h' \<Longrightarrow>
    h' ! backing s = h ! backing s \<Longrightarrow> slice_elements k h' s = Some es"
    "slice_elements k h s = Some es \<Longrightarrow> backing s < length h"
  by (auto simp: slice_elements_def elements_def split: option.splits if_splits)

lemma pointed_local:
  assumes w: "local_view w"
  shows "local_view (pointed k w)"
proof (rule local_view.intro)
  fix h p v assume "reads (pointed k w) h p = Some v"
  then obtain x where x: "pointee k h p = Some x" "reads w h x = Some v" by (auto simp: pointed_def bind_eq_Some_conv)
  show "cells (pointed k w) h p \<subseteq> {..<length h}"
    using local_view.allocated[OF w x(2)] pointee_local(2)[OF x(1)] by (simp add: pointed_def x(1))
  fix h'
  assume h': "cells (pointed k w) h p \<subseteq> {..<length h'}" "\<And>a. a \<in> cells (pointed k w) h p \<Longrightarrow> h' ! a = h ! a"
  have "pointee k h' p = Some x" by (rule pointee_local(1)[OF x(1)]) (use h' in \<open>simp_all add: pointed_def\<close>)
  with local_view.frame[OF w x(2), of h'] h'
  show "reads (pointed k w) h' p = Some v \<and> cells (pointed k w) h' p = cells (pointed k w) h p"
    by (simp add: pointed_def x(1))
qed

lemma pointed_copier [copiers]:
  assumes w: "deep_copier w into" and k: "sound_kind k"
  shows "deep_copier (pointed k w) (new_copy k into)"
proof (intro deep_copier.intro deep_copier_axioms.intro pointed_local)
  show l: "local_view w" using w by (rule deep_copier.axioms)
  fix h p v q h'
  assume "reads (pointed k w) h p = Some v" and s: "run_state (new_copy k into p) h = (q, h')"
  then obtain x where x: "pointee k h p = Some x" "reads w h x = Some v" by (auto simp: pointed_def bind_eq_Some_conv)
  from s obtain out h1 where out: "run_state (into x) h = (out, h1)" "h' = h1 @ [array_cell k [out]]" "q = Pointer (length h1) 0"
    by (auto simp: new_copy_def allocate_def x(1) split: prod.splits)
  obtain e where e: "h1 = h @ e" "reads w h1 out = Some v" "cells w h1 out \<inter> {..<length h} = {}"
    using deep_copier.copied[OF w x(2) out(1)] by blast
  have "pointee k h' q = Some out" using k by (simp add: out pointee_def elements_def sound_kind_def)
  moreover have "reads w h' out = Some v" "cells w h' out = cells w h1 out"
    using local_view.stays[OF l e(2)] out(2) by blast+
  ultimately show "\<exists>e. h' = h @ e \<and> reads (pointed k w) h' q = Some v \<and> cells (pointed k w) h' q \<inter> {..<length h} = {}"
    using e out by (auto simp: pointed_def)
qed

lemma traverse_return: "State_Monad.traverse_list State_Monad.return es = State_Monad.return es"
  by (induction es) simp_all

text \<open>What is copied first survives the copies that follow it.\<close>

lemma traverse_copied:
  assumes w: "deep_copier w into"
  shows "those (map (reads w h) es) = Some vs \<Longrightarrow> run_state (State_Monad.traverse_list into es) h = (ys, h') \<Longrightarrow>
    \<exists>e. h' = h @ e \<and> those (map (reads w h') ys) = Some vs \<and> \<Union> (cells w h' ` set ys) \<inter> {..<length h} = {}"
proof (induction es arbitrary: h vs ys h')
  case (Cons x es)
  note l = deep_copier.axioms(1)[OF w]
  obtain u us where u: "vs = u # us" "reads w h x = Some u" "those (map (reads w h) es) = Some us"
    using Cons.prems(1) by (auto split: option.splits)
  obtain y zs h1 where y: "ys = y # zs" "run_state (into x) h = (y, h1)"
    "run_state (State_Monad.traverse_list into es) h1 = (zs, h')"
    using Cons.prems(2) by (auto split: prod.splits)
  obtain e where e: "h1 = h @ e" "reads w h1 y = Some u" "cells w h1 y \<inter> {..<length h} = {}"
    using deep_copier.copied[OF w u(2) y(2)] by blast
  have "those (map (reads w h1) es) = Some us"
    using u(3) local_view.stays[OF l] e(1) by (induction es arbitrary: us) (auto split: option.splits)
  then obtain e' where e': "h' = h1 @ e'" "those (map (reads w h') zs) = Some us"
      "\<Union> (cells w h' ` set zs) \<inter> {..<length h1} = {}"
    using Cons.IH y(3) by blast
  have "reads w h' y = Some u" "cells w h' y = cells w h1 y" using local_view.stays[OF l e(2)] e'(1) by blast+
  with e e' u show ?case by (auto simp: y(1))
qed simp

lemma those_frame:
  assumes w: "local_view w"
  shows "those (map (reads w h) es) = Some vs \<Longrightarrow> \<Union> (cells w h ` set es) \<subseteq> {..<length h'} \<Longrightarrow>
    (\<And>a. a \<in> \<Union> (cells w h ` set es) \<Longrightarrow> h' ! a = h ! a) \<Longrightarrow>
    those (map (reads w h') es) = Some vs \<and> \<Union> (cells w h' ` set es) = \<Union> (cells w h ` set es)"
proof (induction es arbitrary: vs)
  case (Cons x es)
  obtain u us where u: "vs = u # us" "reads w h x = Some u" "those (map (reads w h) es) = Some us"
    using Cons.prems(1) by (auto split: option.splits)
  have "those (map (reads w h') es) = Some us \<and> \<Union> (cells w h' ` set es) = \<Union> (cells w h ` set es)"
    by (rule Cons.IH[OF u(3)]) (use Cons.prems(2,3) in auto)
  moreover have "reads w h' x = Some u \<and> cells w h' x = cells w h x"
    by (rule local_view.frame[OF w u(2)]) (use Cons.prems(2,3) in auto)
  ultimately show ?case by (simp add: u(1))
qed simp

lemma those_allocated:
  assumes w: "local_view w"
  shows "those (map (reads w h) es) = Some vs \<Longrightarrow> \<Union> (cells w h ` set es) \<subseteq> {..<length h}"
  using local_view.allocated[OF w] by (induction es arbitrary: vs) (auto split: option.splits, blast+)

lemma sliced_local:
  assumes w: "local_view w"
  shows "local_view (sliced k w)"
proof (rule local_view.intro)
  fix h s v assume "reads (sliced k w) h s = Some v"
  then obtain es where es: "slice_elements k h s = Some es" "those (map (reads w h) es) = Some v"
    by (auto simp: sliced_def bind_eq_Some_conv)
  show "cells (sliced k w) h s \<subseteq> {..<length h}"
    using those_allocated[OF w es(2)] slice_elements_local(2)[OF es(1)] by (simp add: sliced_def es(1))
  fix h'
  assume h': "cells (sliced k w) h s \<subseteq> {..<length h'}" "\<And>a. a \<in> cells (sliced k w) h s \<Longrightarrow> h' ! a = h ! a"
  have "slice_elements k h' s = Some es" by (rule slice_elements_local(1)[OF es(1)]) (use h' in \<open>simp_all add: sliced_def\<close>)
  moreover have "those (map (reads w h') es) = Some v \<and> \<Union> (cells w h' ` set es) = \<Union> (cells w h ` set es)"
    by (rule those_frame[OF w es(2)]) (use h' in \<open>simp_all add: sliced_def es(1)\<close>)
  ultimately show "reads (sliced k w) h' s = Some v \<and> cells (sliced k w) h' s = cells (sliced k w) h s"
    by (simp add: sliced_def es(1))
qed

lemma sliced_copier [copiers]:
  assumes w: "deep_copier w into" and k: "sound_kind k"
  shows "deep_copier (sliced k w) (make_each k into)"
proof (intro deep_copier.intro deep_copier_axioms.intro sliced_local)
  show l: "local_view w" using w by (rule deep_copier.axioms)
  fix h s v q h'
  assume "reads (sliced k w) h s = Some v" and r: "run_state (make_each k into s) h = (q, h')"
  then obtain es where es: "slice_elements k h s = Some es" "those (map (reads w h) es) = Some v"
    by (auto simp: sliced_def bind_eq_Some_conv)
  from r obtain ys h1 where ys: "run_state (State_Monad.traverse_list into es) h = (ys, h1)"
      "h' = h1 @ [array_cell k ys]" "q = Slice (length h1) 0 (length ys)"
    by (auto simp: make_each_def allocate_def es(1) split: prod.splits)
  obtain e where e: "h1 = h @ e" "those (map (reads w h1) ys) = Some v" "\<Union> (cells w h1 ` set ys) \<inter> {..<length h} = {}"
    using traverse_copied[OF w es(2) ys(1)] by blast
  have "slice_elements k h' q = Some ys" using k by (simp add: ys slice_elements_def elements_def sound_kind_def)
  moreover have "those (map (reads w h') ys) = Some v \<and> \<Union> (cells w h' ` set ys) = \<Union> (cells w h1 ` set ys)"
    by (rule those_frame[OF l e(2)]) (use those_allocated[OF l e(2)] in \<open>auto simp: ys(2) nth_append\<close>)
  ultimately show "\<exists>e. h' = h @ e \<and> reads (sliced k w) h' q = Some v \<and> cells (sliced k w) h' q \<inter> {..<length h} = {}"
    using e ys by (auto simp: sliced_def)
qed

end
