(* ===== verification/DeepCopy.thy ===== *)
theory DeepCopy
  imports Memory
begin

text \<open>
  The generated deep copies, api/v1alpha1/zz_generated.deepcopy.go. The structures appear here as they lie
  in memory: their slices and pointers are addresses, unlike in ApiTypes, whose records are the values they
  denote. A structure without pointers is the record of ApiTypes itself. The structures of third-party
  packages (Quantity, ObjectMeta, ListMeta, Condition) are opaque values of a type 'x, their deep copies are
  arguments of type copiers. A memory and the shape of the two idioms (unless_nil, make_each) are those of Memory.
\<close>

section \<open>The structures in memory\<close>

record TypeMeta =
  tm_Kind :: string
  tm_APIVersion :: string

subsection \<open>clusterlab_types.go\<close>

record 'x ClusterLabResourceLimit_struct =
  crl_Limit' :: 'x

record 'x ClusterLabStorageQuota_struct =
  csq_Limit' :: 'x

record 'x ClusterLabComputeQuota_struct =
  ccq_CPU' :: "'x ClusterLabResourceLimit_struct"
  ccq_Memory' :: "'x ClusterLabResourceLimit_struct"

record 'x ClusterLabQuotaConfig_struct =
  cqc_Storage' :: "'x ClusterLabStorageQuota_struct"
  cqc_Compute' :: "'x ClusterLabComputeQuota_struct"
  cqc_Objects' :: ClusterLabObjectsQuota

record 'x ClusterLabSpec_struct =
  cls_TTL' :: string
  cls_Network' :: ClusterLabNetworkConfig
  cls_Quota' :: "'x ClusterLabQuotaConfig_struct"

record 'x ClusterLabStorageUsage_struct =
  csu_Used' :: 'x

record 'x ClusterLabComputeUsage_struct =
  ccu_CPUUsed' :: 'x
  ccu_MemoryUsed' :: 'x

record 'x ClusterLabQuotaUsage_struct =
  cqu_Compute' :: "'x ClusterLabComputeUsage_struct"
  cqu_Storage' :: "'x ClusterLabStorageUsage_struct"
  cqu_Objects' :: ClusterLabObjectsUsage

record 'x ClusterLabStatus_struct =
  clt_Phase' :: string
  clt_TargetNamespace' :: string
  clt_ExpiresAt' :: "pointer option"
  clt_InstanceCount' :: ClusterLabInstanceCount
  clt_QuotaUsage' :: "'x ClusterLabQuotaUsage_struct"
  clt_Conditions' :: "slice option"

record 'x ClusterLab_struct =
  cl_TypeMeta' :: TypeMeta
  cl_ObjectMeta' :: 'x
  cl_Spec' :: "'x ClusterLabSpec_struct"
  cl_Status' :: "'x ClusterLabStatus_struct"

record 'x ClusterLabList_struct =
  cll_TypeMeta' :: TypeMeta
  cll_ListMeta' :: 'x
  cll_Items' :: "slice option"

subsection \<open>instancelab_types.go\<close>

record 'x InstanceLabResourceLimit_struct =
  irl_Request' :: 'x
  irl_Limit' :: 'x

record 'x InstanceLabStorageLimit_struct =
  isl_Limit' :: 'x

record 'x InstanceLabResources_struct =
  ilr_CPU' :: "'x InstanceLabResourceLimit_struct"
  ilr_Memory' :: "'x InstanceLabResourceLimit_struct"
  ilr_Storage' :: "'x InstanceLabStorageLimit_struct"

record 'x InstanceLabSpec_struct =
  ils_ClusterLabRef' :: string
  ils_Image' :: string
  ils_ImagePullSecrets' :: "slice option"
  ils_Hostname' :: string
  ils_Resources' :: "'x InstanceLabResources_struct"
  ils_Ports' :: "slice option"

record 'x InstanceLabStatus_struct =
  ilt_Phase' :: string
  ilt_PodName' :: string
  ilt_PodIP' :: string
  ilt_AccessEndpoints' :: "slice option"
  ilt_Conditions' :: "slice option"

record 'x InstanceLab_struct =
  il_TypeMeta' :: TypeMeta
  il_ObjectMeta' :: 'x
  il_Spec' :: "'x InstanceLabSpec_struct"
  il_Status' :: "'x InstanceLabStatus_struct"

record 'x InstanceLabList_struct =
  ill_TypeMeta' :: TypeMeta
  ill_ListMeta' :: 'x
  ill_Items' :: "slice option"

section \<open>Memory cells\<close>

text \<open>
  An allocated array has elements of one type; a Foreign_array is memory that third-party structures own.
\<close>

datatype 'x cell =
    ClusterLab_array "'x ClusterLab_struct list"
  | ClusterLabComputeQuota_array "'x ClusterLabComputeQuota_struct list"
  | ClusterLabComputeUsage_array "'x ClusterLabComputeUsage_struct list"
  | ClusterLabInstanceCount_array "ClusterLabInstanceCount list"
  | ClusterLabList_array "'x ClusterLabList_struct list"
  | ClusterLabNetworkConfig_array "ClusterLabNetworkConfig list"
  | ClusterLabObjectsQuota_array "ClusterLabObjectsQuota list"
  | ClusterLabObjectsUsage_array "ClusterLabObjectsUsage list"
  | ClusterLabQuotaConfig_array "'x ClusterLabQuotaConfig_struct list"
  | ClusterLabQuotaUsage_array "'x ClusterLabQuotaUsage_struct list"
  | ClusterLabResourceLimit_array "'x ClusterLabResourceLimit_struct list"
  | ClusterLabSpec_array "'x ClusterLabSpec_struct list"
  | ClusterLabStatus_array "'x ClusterLabStatus_struct list"
  | ClusterLabStorageQuota_array "'x ClusterLabStorageQuota_struct list"
  | ClusterLabStorageUsage_array "'x ClusterLabStorageUsage_struct list"
  | InstanceLab_array "'x InstanceLab_struct list"
  | InstanceLabAccessEndpoint_array "InstanceLabAccessEndpoint list"
  | InstanceLabList_array "'x InstanceLabList_struct list"
  | InstanceLabPort_array "InstanceLabPort list"
  | InstanceLabResourceLimit_array "'x InstanceLabResourceLimit_struct list"
  | InstanceLabResources_array "'x InstanceLabResources_struct list"
  | InstanceLabSpec_array "'x InstanceLabSpec_struct list"
  | InstanceLabStatus_array "'x InstanceLabStatus_struct list"
  | InstanceLabStorageLimit_array "'x InstanceLabStorageLimit_struct list"
  | Condition_array "'x list"
  | LocalObjectReference_array "string list"
  | Foreign_array "'x list"

type_synonym ('x, 'a) go = "('x cell, 'a) memory_state"

definition ClusterLab_kind :: "('x cell, 'x ClusterLab_struct) kind" where
  "ClusterLab_kind = \<lparr>array_cell = ClusterLab_array,
     as_array = (\<lambda>c. case c of ClusterLab_array es \<Rightarrow> Some es | _ \<Rightarrow> None)\<rparr>"

definition ClusterLabComputeQuota_kind :: "('x cell, 'x ClusterLabComputeQuota_struct) kind" where
  "ClusterLabComputeQuota_kind = \<lparr>array_cell = ClusterLabComputeQuota_array,
     as_array = (\<lambda>c. case c of ClusterLabComputeQuota_array es \<Rightarrow> Some es | _ \<Rightarrow> None)\<rparr>"

definition ClusterLabComputeUsage_kind :: "('x cell, 'x ClusterLabComputeUsage_struct) kind" where
  "ClusterLabComputeUsage_kind = \<lparr>array_cell = ClusterLabComputeUsage_array,
     as_array = (\<lambda>c. case c of ClusterLabComputeUsage_array es \<Rightarrow> Some es | _ \<Rightarrow> None)\<rparr>"

definition ClusterLabInstanceCount_kind :: "('x cell, ClusterLabInstanceCount) kind" where
  "ClusterLabInstanceCount_kind = \<lparr>array_cell = ClusterLabInstanceCount_array,
     as_array = (\<lambda>c. case c of ClusterLabInstanceCount_array es \<Rightarrow> Some es | _ \<Rightarrow> None)\<rparr>"

definition ClusterLabList_kind :: "('x cell, 'x ClusterLabList_struct) kind" where
  "ClusterLabList_kind = \<lparr>array_cell = ClusterLabList_array,
     as_array = (\<lambda>c. case c of ClusterLabList_array es \<Rightarrow> Some es | _ \<Rightarrow> None)\<rparr>"

definition ClusterLabNetworkConfig_kind :: "('x cell, ClusterLabNetworkConfig) kind" where
  "ClusterLabNetworkConfig_kind = \<lparr>array_cell = ClusterLabNetworkConfig_array,
     as_array = (\<lambda>c. case c of ClusterLabNetworkConfig_array es \<Rightarrow> Some es | _ \<Rightarrow> None)\<rparr>"

definition ClusterLabObjectsQuota_kind :: "('x cell, ClusterLabObjectsQuota) kind" where
  "ClusterLabObjectsQuota_kind = \<lparr>array_cell = ClusterLabObjectsQuota_array,
     as_array = (\<lambda>c. case c of ClusterLabObjectsQuota_array es \<Rightarrow> Some es | _ \<Rightarrow> None)\<rparr>"

definition ClusterLabObjectsUsage_kind :: "('x cell, ClusterLabObjectsUsage) kind" where
  "ClusterLabObjectsUsage_kind = \<lparr>array_cell = ClusterLabObjectsUsage_array,
     as_array = (\<lambda>c. case c of ClusterLabObjectsUsage_array es \<Rightarrow> Some es | _ \<Rightarrow> None)\<rparr>"

definition ClusterLabQuotaConfig_kind :: "('x cell, 'x ClusterLabQuotaConfig_struct) kind" where
  "ClusterLabQuotaConfig_kind = \<lparr>array_cell = ClusterLabQuotaConfig_array,
     as_array = (\<lambda>c. case c of ClusterLabQuotaConfig_array es \<Rightarrow> Some es | _ \<Rightarrow> None)\<rparr>"

definition ClusterLabQuotaUsage_kind :: "('x cell, 'x ClusterLabQuotaUsage_struct) kind" where
  "ClusterLabQuotaUsage_kind = \<lparr>array_cell = ClusterLabQuotaUsage_array,
     as_array = (\<lambda>c. case c of ClusterLabQuotaUsage_array es \<Rightarrow> Some es | _ \<Rightarrow> None)\<rparr>"

definition ClusterLabResourceLimit_kind :: "('x cell, 'x ClusterLabResourceLimit_struct) kind" where
  "ClusterLabResourceLimit_kind = \<lparr>array_cell = ClusterLabResourceLimit_array,
     as_array = (\<lambda>c. case c of ClusterLabResourceLimit_array es \<Rightarrow> Some es | _ \<Rightarrow> None)\<rparr>"

definition ClusterLabSpec_kind :: "('x cell, 'x ClusterLabSpec_struct) kind" where
  "ClusterLabSpec_kind = \<lparr>array_cell = ClusterLabSpec_array,
     as_array = (\<lambda>c. case c of ClusterLabSpec_array es \<Rightarrow> Some es | _ \<Rightarrow> None)\<rparr>"

definition ClusterLabStatus_kind :: "('x cell, 'x ClusterLabStatus_struct) kind" where
  "ClusterLabStatus_kind = \<lparr>array_cell = ClusterLabStatus_array,
     as_array = (\<lambda>c. case c of ClusterLabStatus_array es \<Rightarrow> Some es | _ \<Rightarrow> None)\<rparr>"

definition ClusterLabStorageQuota_kind :: "('x cell, 'x ClusterLabStorageQuota_struct) kind" where
  "ClusterLabStorageQuota_kind = \<lparr>array_cell = ClusterLabStorageQuota_array,
     as_array = (\<lambda>c. case c of ClusterLabStorageQuota_array es \<Rightarrow> Some es | _ \<Rightarrow> None)\<rparr>"

definition ClusterLabStorageUsage_kind :: "('x cell, 'x ClusterLabStorageUsage_struct) kind" where
  "ClusterLabStorageUsage_kind = \<lparr>array_cell = ClusterLabStorageUsage_array,
     as_array = (\<lambda>c. case c of ClusterLabStorageUsage_array es \<Rightarrow> Some es | _ \<Rightarrow> None)\<rparr>"

definition InstanceLab_kind :: "('x cell, 'x InstanceLab_struct) kind" where
  "InstanceLab_kind = \<lparr>array_cell = InstanceLab_array,
     as_array = (\<lambda>c. case c of InstanceLab_array es \<Rightarrow> Some es | _ \<Rightarrow> None)\<rparr>"

definition InstanceLabAccessEndpoint_kind :: "('x cell, InstanceLabAccessEndpoint) kind" where
  "InstanceLabAccessEndpoint_kind = \<lparr>array_cell = InstanceLabAccessEndpoint_array,
     as_array = (\<lambda>c. case c of InstanceLabAccessEndpoint_array es \<Rightarrow> Some es | _ \<Rightarrow> None)\<rparr>"

definition InstanceLabList_kind :: "('x cell, 'x InstanceLabList_struct) kind" where
  "InstanceLabList_kind = \<lparr>array_cell = InstanceLabList_array,
     as_array = (\<lambda>c. case c of InstanceLabList_array es \<Rightarrow> Some es | _ \<Rightarrow> None)\<rparr>"

definition InstanceLabPort_kind :: "('x cell, InstanceLabPort) kind" where
  "InstanceLabPort_kind = \<lparr>array_cell = InstanceLabPort_array,
     as_array = (\<lambda>c. case c of InstanceLabPort_array es \<Rightarrow> Some es | _ \<Rightarrow> None)\<rparr>"

definition InstanceLabResourceLimit_kind :: "('x cell, 'x InstanceLabResourceLimit_struct) kind" where
  "InstanceLabResourceLimit_kind = \<lparr>array_cell = InstanceLabResourceLimit_array,
     as_array = (\<lambda>c. case c of InstanceLabResourceLimit_array es \<Rightarrow> Some es | _ \<Rightarrow> None)\<rparr>"

definition InstanceLabResources_kind :: "('x cell, 'x InstanceLabResources_struct) kind" where
  "InstanceLabResources_kind = \<lparr>array_cell = InstanceLabResources_array,
     as_array = (\<lambda>c. case c of InstanceLabResources_array es \<Rightarrow> Some es | _ \<Rightarrow> None)\<rparr>"

definition InstanceLabSpec_kind :: "('x cell, 'x InstanceLabSpec_struct) kind" where
  "InstanceLabSpec_kind = \<lparr>array_cell = InstanceLabSpec_array,
     as_array = (\<lambda>c. case c of InstanceLabSpec_array es \<Rightarrow> Some es | _ \<Rightarrow> None)\<rparr>"

definition InstanceLabStatus_kind :: "('x cell, 'x InstanceLabStatus_struct) kind" where
  "InstanceLabStatus_kind = \<lparr>array_cell = InstanceLabStatus_array,
     as_array = (\<lambda>c. case c of InstanceLabStatus_array es \<Rightarrow> Some es | _ \<Rightarrow> None)\<rparr>"

definition InstanceLabStorageLimit_kind :: "('x cell, 'x InstanceLabStorageLimit_struct) kind" where
  "InstanceLabStorageLimit_kind = \<lparr>array_cell = InstanceLabStorageLimit_array,
     as_array = (\<lambda>c. case c of InstanceLabStorageLimit_array es \<Rightarrow> Some es | _ \<Rightarrow> None)\<rparr>"

definition Condition_kind :: "('x cell, 'x) kind" where
  "Condition_kind = \<lparr>array_cell = Condition_array,
     as_array = (\<lambda>c. case c of Condition_array es \<Rightarrow> Some es | _ \<Rightarrow> None)\<rparr>"

definition LocalObjectReference_kind :: "('x cell, string) kind" where
  "LocalObjectReference_kind = \<lparr>array_cell = LocalObjectReference_array,
     as_array = (\<lambda>c. case c of LocalObjectReference_array es \<Rightarrow> Some es | _ \<Rightarrow> None)\<rparr>"

definition Foreign_kind :: "('x cell, 'x) kind" where
  "Foreign_kind = \<lparr>array_cell = Foreign_array,
     as_array = (\<lambda>c. case c of Foreign_array es \<Rightarrow> Some es | _ \<Rightarrow> None)\<rparr>"

lemmas kind_defs =
  ClusterLab_kind_def ClusterLabComputeQuota_kind_def ClusterLabComputeUsage_kind_def ClusterLabInstanceCount_kind_def
  ClusterLabList_kind_def ClusterLabNetworkConfig_kind_def ClusterLabObjectsQuota_kind_def ClusterLabObjectsUsage_kind_def
  ClusterLabQuotaConfig_kind_def ClusterLabQuotaUsage_kind_def ClusterLabResourceLimit_kind_def ClusterLabSpec_kind_def
  ClusterLabStatus_kind_def ClusterLabStorageQuota_kind_def ClusterLabStorageUsage_kind_def InstanceLab_kind_def
  InstanceLabAccessEndpoint_kind_def InstanceLabList_kind_def InstanceLabPort_kind_def InstanceLabResourceLimit_kind_def
  InstanceLabResources_kind_def InstanceLabSpec_kind_def InstanceLabStatus_kind_def InstanceLabStorageLimit_kind_def
  Condition_kind_def LocalObjectReference_kind_def Foreign_kind_def

lemma kinds_sound [copiers]:
  "sound_kind ClusterLab_kind"
  "sound_kind ClusterLabComputeQuota_kind"
  "sound_kind ClusterLabComputeUsage_kind"
  "sound_kind ClusterLabInstanceCount_kind"
  "sound_kind ClusterLabList_kind"
  "sound_kind ClusterLabNetworkConfig_kind"
  "sound_kind ClusterLabObjectsQuota_kind"
  "sound_kind ClusterLabObjectsUsage_kind"
  "sound_kind ClusterLabQuotaConfig_kind"
  "sound_kind ClusterLabQuotaUsage_kind"
  "sound_kind ClusterLabResourceLimit_kind"
  "sound_kind ClusterLabSpec_kind"
  "sound_kind ClusterLabStatus_kind"
  "sound_kind ClusterLabStorageQuota_kind"
  "sound_kind ClusterLabStorageUsage_kind"
  "sound_kind InstanceLab_kind"
  "sound_kind InstanceLabAccessEndpoint_kind"
  "sound_kind InstanceLabList_kind"
  "sound_kind InstanceLabPort_kind"
  "sound_kind InstanceLabResourceLimit_kind"
  "sound_kind InstanceLabResources_kind"
  "sound_kind InstanceLabSpec_kind"
  "sound_kind InstanceLabStatus_kind"
  "sound_kind InstanceLabStorageLimit_kind"
  "sound_kind Condition_kind"
  "sound_kind LocalObjectReference_kind"
  "sound_kind Foreign_kind"
  by (simp_all add: sound_kind_def kind_defs)

section \<open>The deep copies of other packages\<close>

text \<open>
  Quantity.DeepCopy, Condition.DeepCopyInto, Time.DeepCopy on a pointer that is not nil, and DeepCopyInto
  of ObjectMeta and ListMeta.
\<close>

record 'x copiers =
  Quantity_DeepCopy :: "'x \<Rightarrow> ('x, 'x) go"
  Condition_DeepCopyInto :: "'x \<Rightarrow> ('x, 'x) go"
  Time_DeepCopy :: "pointer \<Rightarrow> ('x, pointer) go"
  ObjectMeta_DeepCopyInto :: "'x \<Rightarrow> ('x, 'x) go"
  ListMeta_DeepCopyInto :: "'x \<Rightarrow> ('x, 'x) go"

section \<open>The generated functions\<close>

text \<open>
  X_DeepCopyInto starts from a shallow copy of the receiver and replaces each field that can hold
  memory; the fields of types without pointers are assigned, which the shallow copy has done. The
  receiver and the result are different variables.
\<close>

subsection \<open>ClusterLab\<close>

definition ClusterLabInstanceCount_DeepCopyInto :: "'x copiers \<Rightarrow> ClusterLabInstanceCount \<Rightarrow> ('x, ClusterLabInstanceCount) go" where
  "ClusterLabInstanceCount_DeepCopyInto k src = State_Monad.return src"

definition ClusterLabInstanceCount_DeepCopy :: "'x copiers \<Rightarrow> pointer option \<Rightarrow> ('x, pointer option) go" where
  "ClusterLabInstanceCount_DeepCopy k = unless_nil (new_copy ClusterLabInstanceCount_kind (ClusterLabInstanceCount_DeepCopyInto k))"

definition ClusterLabNetworkConfig_DeepCopyInto :: "'x copiers \<Rightarrow> ClusterLabNetworkConfig \<Rightarrow> ('x, ClusterLabNetworkConfig) go" where
  "ClusterLabNetworkConfig_DeepCopyInto k src = State_Monad.return src"

definition ClusterLabNetworkConfig_DeepCopy :: "'x copiers \<Rightarrow> pointer option \<Rightarrow> ('x, pointer option) go" where
  "ClusterLabNetworkConfig_DeepCopy k = unless_nil (new_copy ClusterLabNetworkConfig_kind (ClusterLabNetworkConfig_DeepCopyInto k))"

definition ClusterLabObjectsQuota_DeepCopyInto :: "'x copiers \<Rightarrow> ClusterLabObjectsQuota \<Rightarrow> ('x, ClusterLabObjectsQuota) go" where
  "ClusterLabObjectsQuota_DeepCopyInto k src = State_Monad.return src"

definition ClusterLabObjectsQuota_DeepCopy :: "'x copiers \<Rightarrow> pointer option \<Rightarrow> ('x, pointer option) go" where
  "ClusterLabObjectsQuota_DeepCopy k = unless_nil (new_copy ClusterLabObjectsQuota_kind (ClusterLabObjectsQuota_DeepCopyInto k))"

definition ClusterLabObjectsUsage_DeepCopyInto :: "'x copiers \<Rightarrow> ClusterLabObjectsUsage \<Rightarrow> ('x, ClusterLabObjectsUsage) go" where
  "ClusterLabObjectsUsage_DeepCopyInto k src = State_Monad.return src"

definition ClusterLabObjectsUsage_DeepCopy :: "'x copiers \<Rightarrow> pointer option \<Rightarrow> ('x, pointer option) go" where
  "ClusterLabObjectsUsage_DeepCopy k = unless_nil (new_copy ClusterLabObjectsUsage_kind (ClusterLabObjectsUsage_DeepCopyInto k))"

definition ClusterLabResourceLimit_DeepCopyInto :: "'x copiers \<Rightarrow> 'x ClusterLabResourceLimit_struct \<Rightarrow> ('x, 'x ClusterLabResourceLimit_struct) go" where
  "ClusterLabResourceLimit_DeepCopyInto k src = do {
     limit \<leftarrow> Quantity_DeepCopy k (crl_Limit' src);
     State_Monad.return (src\<lparr>crl_Limit' := limit\<rparr>)
   }"

definition ClusterLabResourceLimit_DeepCopy :: "'x copiers \<Rightarrow> pointer option \<Rightarrow> ('x, pointer option) go" where
  "ClusterLabResourceLimit_DeepCopy k = unless_nil (new_copy ClusterLabResourceLimit_kind (ClusterLabResourceLimit_DeepCopyInto k))"

definition ClusterLabStorageQuota_DeepCopyInto :: "'x copiers \<Rightarrow> 'x ClusterLabStorageQuota_struct \<Rightarrow> ('x, 'x ClusterLabStorageQuota_struct) go" where
  "ClusterLabStorageQuota_DeepCopyInto k src = do {
     limit \<leftarrow> Quantity_DeepCopy k (csq_Limit' src);
     State_Monad.return (src\<lparr>csq_Limit' := limit\<rparr>)
   }"

definition ClusterLabStorageQuota_DeepCopy :: "'x copiers \<Rightarrow> pointer option \<Rightarrow> ('x, pointer option) go" where
  "ClusterLabStorageQuota_DeepCopy k = unless_nil (new_copy ClusterLabStorageQuota_kind (ClusterLabStorageQuota_DeepCopyInto k))"

definition ClusterLabComputeQuota_DeepCopyInto :: "'x copiers \<Rightarrow> 'x ClusterLabComputeQuota_struct \<Rightarrow> ('x, 'x ClusterLabComputeQuota_struct) go" where
  "ClusterLabComputeQuota_DeepCopyInto k src = do {
     cpu \<leftarrow> ClusterLabResourceLimit_DeepCopyInto k (ccq_CPU' src);
     memory \<leftarrow> ClusterLabResourceLimit_DeepCopyInto k (ccq_Memory' src);
     State_Monad.return (src\<lparr>ccq_CPU' := cpu, ccq_Memory' := memory\<rparr>)
   }"

definition ClusterLabComputeQuota_DeepCopy :: "'x copiers \<Rightarrow> pointer option \<Rightarrow> ('x, pointer option) go" where
  "ClusterLabComputeQuota_DeepCopy k = unless_nil (new_copy ClusterLabComputeQuota_kind (ClusterLabComputeQuota_DeepCopyInto k))"

definition ClusterLabQuotaConfig_DeepCopyInto :: "'x copiers \<Rightarrow> 'x ClusterLabQuotaConfig_struct \<Rightarrow> ('x, 'x ClusterLabQuotaConfig_struct) go" where
  "ClusterLabQuotaConfig_DeepCopyInto k src = do {
     storage \<leftarrow> ClusterLabStorageQuota_DeepCopyInto k (cqc_Storage' src);
     compute \<leftarrow> ClusterLabComputeQuota_DeepCopyInto k (cqc_Compute' src);
     State_Monad.return (src\<lparr>cqc_Storage' := storage, cqc_Compute' := compute\<rparr>)
   }"

definition ClusterLabQuotaConfig_DeepCopy :: "'x copiers \<Rightarrow> pointer option \<Rightarrow> ('x, pointer option) go" where
  "ClusterLabQuotaConfig_DeepCopy k = unless_nil (new_copy ClusterLabQuotaConfig_kind (ClusterLabQuotaConfig_DeepCopyInto k))"

definition ClusterLabSpec_DeepCopyInto :: "'x copiers \<Rightarrow> 'x ClusterLabSpec_struct \<Rightarrow> ('x, 'x ClusterLabSpec_struct) go" where
  "ClusterLabSpec_DeepCopyInto k src = do {
     quota \<leftarrow> ClusterLabQuotaConfig_DeepCopyInto k (cls_Quota' src);
     State_Monad.return (src\<lparr>cls_Quota' := quota\<rparr>)
   }"

definition ClusterLabSpec_DeepCopy :: "'x copiers \<Rightarrow> pointer option \<Rightarrow> ('x, pointer option) go" where
  "ClusterLabSpec_DeepCopy k = unless_nil (new_copy ClusterLabSpec_kind (ClusterLabSpec_DeepCopyInto k))"

definition ClusterLabStorageUsage_DeepCopyInto :: "'x copiers \<Rightarrow> 'x ClusterLabStorageUsage_struct \<Rightarrow> ('x, 'x ClusterLabStorageUsage_struct) go" where
  "ClusterLabStorageUsage_DeepCopyInto k src = do {
     used \<leftarrow> Quantity_DeepCopy k (csu_Used' src);
     State_Monad.return (src\<lparr>csu_Used' := used\<rparr>)
   }"

definition ClusterLabStorageUsage_DeepCopy :: "'x copiers \<Rightarrow> pointer option \<Rightarrow> ('x, pointer option) go" where
  "ClusterLabStorageUsage_DeepCopy k = unless_nil (new_copy ClusterLabStorageUsage_kind (ClusterLabStorageUsage_DeepCopyInto k))"

definition ClusterLabComputeUsage_DeepCopyInto :: "'x copiers \<Rightarrow> 'x ClusterLabComputeUsage_struct \<Rightarrow> ('x, 'x ClusterLabComputeUsage_struct) go" where
  "ClusterLabComputeUsage_DeepCopyInto k src = do {
     cpu \<leftarrow> Quantity_DeepCopy k (ccu_CPUUsed' src);
     memory \<leftarrow> Quantity_DeepCopy k (ccu_MemoryUsed' src);
     State_Monad.return (src\<lparr>ccu_CPUUsed' := cpu, ccu_MemoryUsed' := memory\<rparr>)
   }"

definition ClusterLabComputeUsage_DeepCopy :: "'x copiers \<Rightarrow> pointer option \<Rightarrow> ('x, pointer option) go" where
  "ClusterLabComputeUsage_DeepCopy k = unless_nil (new_copy ClusterLabComputeUsage_kind (ClusterLabComputeUsage_DeepCopyInto k))"

definition ClusterLabQuotaUsage_DeepCopyInto :: "'x copiers \<Rightarrow> 'x ClusterLabQuotaUsage_struct \<Rightarrow> ('x, 'x ClusterLabQuotaUsage_struct) go" where
  "ClusterLabQuotaUsage_DeepCopyInto k src = do {
     compute \<leftarrow> ClusterLabComputeUsage_DeepCopyInto k (cqu_Compute' src);
     storage \<leftarrow> ClusterLabStorageUsage_DeepCopyInto k (cqu_Storage' src);
     State_Monad.return (src\<lparr>cqu_Compute' := compute, cqu_Storage' := storage\<rparr>)
   }"

definition ClusterLabQuotaUsage_DeepCopy :: "'x copiers \<Rightarrow> pointer option \<Rightarrow> ('x, pointer option) go" where
  "ClusterLabQuotaUsage_DeepCopy k = unless_nil (new_copy ClusterLabQuotaUsage_kind (ClusterLabQuotaUsage_DeepCopyInto k))"

definition ClusterLabStatus_DeepCopyInto :: "'x copiers \<Rightarrow> 'x ClusterLabStatus_struct \<Rightarrow> ('x, 'x ClusterLabStatus_struct) go" where
  "ClusterLabStatus_DeepCopyInto k src = do {
     expires \<leftarrow> unless_nil (Time_DeepCopy k) (clt_ExpiresAt' src);
     usage \<leftarrow> ClusterLabQuotaUsage_DeepCopyInto k (clt_QuotaUsage' src);
     conditions \<leftarrow> unless_nil (make_each Condition_kind (Condition_DeepCopyInto k)) (clt_Conditions' src);
     State_Monad.return (src\<lparr>clt_ExpiresAt' := expires, clt_QuotaUsage' := usage, clt_Conditions' := conditions\<rparr>)
   }"

definition ClusterLabStatus_DeepCopy :: "'x copiers \<Rightarrow> pointer option \<Rightarrow> ('x, pointer option) go" where
  "ClusterLabStatus_DeepCopy k = unless_nil (new_copy ClusterLabStatus_kind (ClusterLabStatus_DeepCopyInto k))"

definition ClusterLab_DeepCopyInto :: "'x copiers \<Rightarrow> 'x ClusterLab_struct \<Rightarrow> ('x, 'x ClusterLab_struct) go" where
  "ClusterLab_DeepCopyInto k src = do {
     meta \<leftarrow> ObjectMeta_DeepCopyInto k (cl_ObjectMeta' src);
     spec \<leftarrow> ClusterLabSpec_DeepCopyInto k (cl_Spec' src);
     status \<leftarrow> ClusterLabStatus_DeepCopyInto k (cl_Status' src);
     State_Monad.return (src\<lparr>cl_ObjectMeta' := meta, cl_Spec' := spec, cl_Status' := status\<rparr>)
   }"

definition ClusterLab_DeepCopy :: "'x copiers \<Rightarrow> pointer option \<Rightarrow> ('x, pointer option) go" where
  "ClusterLab_DeepCopy k = unless_nil (new_copy ClusterLab_kind (ClusterLab_DeepCopyInto k))"

definition ClusterLabList_DeepCopyInto :: "'x copiers \<Rightarrow> 'x ClusterLabList_struct \<Rightarrow> ('x, 'x ClusterLabList_struct) go" where
  "ClusterLabList_DeepCopyInto k src = do {
     meta \<leftarrow> ListMeta_DeepCopyInto k (cll_ListMeta' src);
     items \<leftarrow> unless_nil (make_each ClusterLab_kind (ClusterLab_DeepCopyInto k)) (cll_Items' src);
     State_Monad.return (src\<lparr>cll_ListMeta' := meta, cll_Items' := items\<rparr>)
   }"

definition ClusterLabList_DeepCopy :: "'x copiers \<Rightarrow> pointer option \<Rightarrow> ('x, pointer option) go" where
  "ClusterLabList_DeepCopy k = unless_nil (new_copy ClusterLabList_kind (ClusterLabList_DeepCopyInto k))"

subsection \<open>InstanceLab\<close>

definition InstanceLabAccessEndpoint_DeepCopyInto :: "'x copiers \<Rightarrow> InstanceLabAccessEndpoint \<Rightarrow> ('x, InstanceLabAccessEndpoint) go" where
  "InstanceLabAccessEndpoint_DeepCopyInto k src = State_Monad.return src"

definition InstanceLabAccessEndpoint_DeepCopy :: "'x copiers \<Rightarrow> pointer option \<Rightarrow> ('x, pointer option) go" where
  "InstanceLabAccessEndpoint_DeepCopy k = unless_nil (new_copy InstanceLabAccessEndpoint_kind (InstanceLabAccessEndpoint_DeepCopyInto k))"

definition InstanceLabPort_DeepCopyInto :: "'x copiers \<Rightarrow> InstanceLabPort \<Rightarrow> ('x, InstanceLabPort) go" where
  "InstanceLabPort_DeepCopyInto k src = State_Monad.return src"

definition InstanceLabPort_DeepCopy :: "'x copiers \<Rightarrow> pointer option \<Rightarrow> ('x, pointer option) go" where
  "InstanceLabPort_DeepCopy k = unless_nil (new_copy InstanceLabPort_kind (InstanceLabPort_DeepCopyInto k))"

definition InstanceLabResourceLimit_DeepCopyInto :: "'x copiers \<Rightarrow> 'x InstanceLabResourceLimit_struct \<Rightarrow> ('x, 'x InstanceLabResourceLimit_struct) go" where
  "InstanceLabResourceLimit_DeepCopyInto k src = do {
     request \<leftarrow> Quantity_DeepCopy k (irl_Request' src);
     limit \<leftarrow> Quantity_DeepCopy k (irl_Limit' src);
     State_Monad.return (src\<lparr>irl_Request' := request, irl_Limit' := limit\<rparr>)
   }"

definition InstanceLabResourceLimit_DeepCopy :: "'x copiers \<Rightarrow> pointer option \<Rightarrow> ('x, pointer option) go" where
  "InstanceLabResourceLimit_DeepCopy k = unless_nil (new_copy InstanceLabResourceLimit_kind (InstanceLabResourceLimit_DeepCopyInto k))"

definition InstanceLabStorageLimit_DeepCopyInto :: "'x copiers \<Rightarrow> 'x InstanceLabStorageLimit_struct \<Rightarrow> ('x, 'x InstanceLabStorageLimit_struct) go" where
  "InstanceLabStorageLimit_DeepCopyInto k src = do {
     limit \<leftarrow> Quantity_DeepCopy k (isl_Limit' src);
     State_Monad.return (src\<lparr>isl_Limit' := limit\<rparr>)
   }"

definition InstanceLabStorageLimit_DeepCopy :: "'x copiers \<Rightarrow> pointer option \<Rightarrow> ('x, pointer option) go" where
  "InstanceLabStorageLimit_DeepCopy k = unless_nil (new_copy InstanceLabStorageLimit_kind (InstanceLabStorageLimit_DeepCopyInto k))"

definition InstanceLabResources_DeepCopyInto :: "'x copiers \<Rightarrow> 'x InstanceLabResources_struct \<Rightarrow> ('x, 'x InstanceLabResources_struct) go" where
  "InstanceLabResources_DeepCopyInto k src = do {
     cpu \<leftarrow> InstanceLabResourceLimit_DeepCopyInto k (ilr_CPU' src);
     memory \<leftarrow> InstanceLabResourceLimit_DeepCopyInto k (ilr_Memory' src);
     storage \<leftarrow> InstanceLabStorageLimit_DeepCopyInto k (ilr_Storage' src);
     State_Monad.return (src\<lparr>ilr_CPU' := cpu, ilr_Memory' := memory, ilr_Storage' := storage\<rparr>)
   }"

definition InstanceLabResources_DeepCopy :: "'x copiers \<Rightarrow> pointer option \<Rightarrow> ('x, pointer option) go" where
  "InstanceLabResources_DeepCopy k = unless_nil (new_copy InstanceLabResources_kind (InstanceLabResources_DeepCopyInto k))"

definition InstanceLabSpec_DeepCopyInto :: "'x copiers \<Rightarrow> 'x InstanceLabSpec_struct \<Rightarrow> ('x, 'x InstanceLabSpec_struct) go" where
  "InstanceLabSpec_DeepCopyInto k src = do {
     secrets \<leftarrow> unless_nil (make_each LocalObjectReference_kind State_Monad.return) (ils_ImagePullSecrets' src);
     resources \<leftarrow> InstanceLabResources_DeepCopyInto k (ils_Resources' src);
     ports \<leftarrow> unless_nil (make_each InstanceLabPort_kind State_Monad.return) (ils_Ports' src);
     State_Monad.return (src\<lparr>ils_ImagePullSecrets' := secrets, ils_Resources' := resources, ils_Ports' := ports\<rparr>)
   }"

definition InstanceLabSpec_DeepCopy :: "'x copiers \<Rightarrow> pointer option \<Rightarrow> ('x, pointer option) go" where
  "InstanceLabSpec_DeepCopy k = unless_nil (new_copy InstanceLabSpec_kind (InstanceLabSpec_DeepCopyInto k))"

definition InstanceLabStatus_DeepCopyInto :: "'x copiers \<Rightarrow> 'x InstanceLabStatus_struct \<Rightarrow> ('x, 'x InstanceLabStatus_struct) go" where
  "InstanceLabStatus_DeepCopyInto k src = do {
     endpoints \<leftarrow> unless_nil (make_each InstanceLabAccessEndpoint_kind State_Monad.return) (ilt_AccessEndpoints' src);
     conditions \<leftarrow> unless_nil (make_each Condition_kind (Condition_DeepCopyInto k)) (ilt_Conditions' src);
     State_Monad.return (src\<lparr>ilt_AccessEndpoints' := endpoints, ilt_Conditions' := conditions\<rparr>)
   }"

definition InstanceLabStatus_DeepCopy :: "'x copiers \<Rightarrow> pointer option \<Rightarrow> ('x, pointer option) go" where
  "InstanceLabStatus_DeepCopy k = unless_nil (new_copy InstanceLabStatus_kind (InstanceLabStatus_DeepCopyInto k))"

definition InstanceLab_DeepCopyInto :: "'x copiers \<Rightarrow> 'x InstanceLab_struct \<Rightarrow> ('x, 'x InstanceLab_struct) go" where
  "InstanceLab_DeepCopyInto k src = do {
     meta \<leftarrow> ObjectMeta_DeepCopyInto k (il_ObjectMeta' src);
     spec \<leftarrow> InstanceLabSpec_DeepCopyInto k (il_Spec' src);
     status \<leftarrow> InstanceLabStatus_DeepCopyInto k (il_Status' src);
     State_Monad.return (src\<lparr>il_ObjectMeta' := meta, il_Spec' := spec, il_Status' := status\<rparr>)
   }"

definition InstanceLab_DeepCopy :: "'x copiers \<Rightarrow> pointer option \<Rightarrow> ('x, pointer option) go" where
  "InstanceLab_DeepCopy k = unless_nil (new_copy InstanceLab_kind (InstanceLab_DeepCopyInto k))"

definition InstanceLabList_DeepCopyInto :: "'x copiers \<Rightarrow> 'x InstanceLabList_struct \<Rightarrow> ('x, 'x InstanceLabList_struct) go" where
  "InstanceLabList_DeepCopyInto k src = do {
     meta \<leftarrow> ListMeta_DeepCopyInto k (ill_ListMeta' src);
     items \<leftarrow> unless_nil (make_each InstanceLab_kind (InstanceLab_DeepCopyInto k)) (ill_Items' src);
     State_Monad.return (src\<lparr>ill_ListMeta' := meta, ill_Items' := items\<rparr>)
   }"

definition InstanceLabList_DeepCopy :: "'x copiers \<Rightarrow> pointer option \<Rightarrow> ('x, pointer option) go" where
  "InstanceLabList_DeepCopy k = unless_nil (new_copy InstanceLabList_kind (InstanceLabList_DeepCopyInto k))"

subsection \<open>DeepCopyObject\<close>

text \<open>
  A value of the interface runtime.Object is nil (None) or has a dynamic type and a value of that type, a
  pointer, which may itself be nil; the test in the code keeps a nil pointer out of the interface.
\<close>

datatype runtime_object =
    ClusterLab_object "pointer option"
  | ClusterLabList_object "pointer option"
  | InstanceLab_object "pointer option"
  | InstanceLabList_object "pointer option"

definition ClusterLab_DeepCopyObject :: "'x copiers \<Rightarrow> pointer option \<Rightarrow> ('x, runtime_object option) go" where
  "ClusterLab_DeepCopyObject k src = do {
     c \<leftarrow> ClusterLab_DeepCopy k src;
     State_Monad.return (if c \<noteq> None then Some (ClusterLab_object c) else None)
   }"

definition ClusterLabList_DeepCopyObject :: "'x copiers \<Rightarrow> pointer option \<Rightarrow> ('x, runtime_object option) go" where
  "ClusterLabList_DeepCopyObject k src = do {
     c \<leftarrow> ClusterLabList_DeepCopy k src;
     State_Monad.return (if c \<noteq> None then Some (ClusterLabList_object c) else None)
   }"

definition InstanceLab_DeepCopyObject :: "'x copiers \<Rightarrow> pointer option \<Rightarrow> ('x, runtime_object option) go" where
  "InstanceLab_DeepCopyObject k src = do {
     c \<leftarrow> InstanceLab_DeepCopy k src;
     State_Monad.return (if c \<noteq> None then Some (InstanceLab_object c) else None)
   }"

definition InstanceLabList_DeepCopyObject :: "'x copiers \<Rightarrow> pointer option \<Rightarrow> ('x, runtime_object option) go" where
  "InstanceLabList_DeepCopyObject k src = do {
     c \<leftarrow> InstanceLabList_DeepCopy k src;
     State_Monad.return (if c \<noteq> None then Some (InstanceLabList_object c) else None)
   }"

end
