(* ===== verification/DeepCopyCorrectness.thy ===== *)
theory DeepCopyCorrectness
  imports DeepCopy
begin

text \<open>
  What the generated deep copies guarantee. A view of each structure gives the record of ApiTypes it
  denotes, third_party is the contract of the deep copies of other packages, and the
  contract of each structure follows from those of its fields. The properties: a copy denotes what the original does,
  and the two share no memory, so that neither sees a later change of the other.
\<close>

section \<open>The contract of the other packages\<close>

text \<open>
  What a value of a third-party structure denotes is given by a view; its deep copy respects the view.
\<close>

record ListMeta =
  lm_ResourceVersion :: string
  lm_Continue :: string
  lm_RemainingItemCount :: "int64 option"

record 'x views =
  quantity_view :: "('x cell, 'x, Quantity) view"
  condition_view :: "('x cell, 'x, Condition) view"
  time_view :: "('x cell, pointer, Time) view"
  object_meta_view :: "('x cell, 'x, ObjectMeta) view"
  list_meta_view :: "('x cell, 'x, ListMeta) view"

definition third_party :: "'x copiers \<Rightarrow> 'x views \<Rightarrow> bool" where
  "third_party k v \<longleftrightarrow> deep_copier (quantity_view v) (Quantity_DeepCopy k) \<and>
     deep_copier (condition_view v) (Condition_DeepCopyInto k) \<and> deep_copier (time_view v) (Time_DeepCopy k) \<and>
     deep_copier (object_meta_view v) (ObjectMeta_DeepCopyInto k) \<and>
     deep_copier (list_meta_view v) (ListMeta_DeepCopyInto k)"

lemma third_party_copiers [copiers]:
  assumes "third_party k v"
  shows "deep_copier (quantity_view v) (Quantity_DeepCopy k)" "deep_copier (condition_view v) (Condition_DeepCopyInto k)"
    "deep_copier (time_view v) (Time_DeepCopy k)" "deep_copier (object_meta_view v) (ObjectMeta_DeepCopyInto k)"
    "deep_copier (list_meta_view v) (ListMeta_DeepCopyInto k)"
  using assms by (simp_all add: third_party_def)

section \<open>What the structures denote\<close>

text \<open>
  Every view leads to the records of ApiTypes, where nil and the empty slice are the same list.
\<close>

definition nil_is_empty :: "'e list option \<Rightarrow> 'e list" where
  "nil_is_empty es = (case es of None \<Rightarrow> [] | Some l \<Rightarrow> l)"

definition ClusterLabResourceLimit_view :: "'x views \<Rightarrow> ('x cell, 'x ClusterLabResourceLimit_struct, ClusterLabResourceLimit) view" where
  "ClusterLabResourceLimit_view v = along (\<lambda>x. crl_Limit' x)
     (\<lambda>limit. \<lparr>crl_Limit = limit\<rparr>)
     (quantity_view v)"

lemma ClusterLabResourceLimit_copier [copiers]:
  "third_party k v \<Longrightarrow> deep_copier (ClusterLabResourceLimit_view v) (ClusterLabResourceLimit_DeepCopyInto k)"
  unfolding ClusterLabResourceLimit_view_def
  by (rule along_copier[where mk = "\<lambda>x limit. x\<lparr>crl_Limit' := limit\<rparr>"], (rule copiers | assumption)+)
    (auto simp: ClusterLabResourceLimit_DeepCopyInto_def both_copy_def split: prod.splits)

definition ClusterLabStorageQuota_view :: "'x views \<Rightarrow> ('x cell, 'x ClusterLabStorageQuota_struct, ClusterLabStorageQuota) view" where
  "ClusterLabStorageQuota_view v = along (\<lambda>x. csq_Limit' x)
     (\<lambda>limit. \<lparr>csq_Limit = limit\<rparr>)
     (quantity_view v)"

lemma ClusterLabStorageQuota_copier [copiers]:
  "third_party k v \<Longrightarrow> deep_copier (ClusterLabStorageQuota_view v) (ClusterLabStorageQuota_DeepCopyInto k)"
  unfolding ClusterLabStorageQuota_view_def
  by (rule along_copier[where mk = "\<lambda>x limit. x\<lparr>csq_Limit' := limit\<rparr>"], (rule copiers | assumption)+)
    (auto simp: ClusterLabStorageQuota_DeepCopyInto_def both_copy_def split: prod.splits)

definition ClusterLabComputeQuota_view :: "'x views \<Rightarrow> ('x cell, 'x ClusterLabComputeQuota_struct, ClusterLabComputeQuota) view" where
  "ClusterLabComputeQuota_view v = along (\<lambda>x. (ccq_CPU' x, ccq_Memory' x))
     (\<lambda>(cpu, memory). \<lparr>ccq_CPU = cpu, ccq_Memory = memory\<rparr>)
     (both (ClusterLabResourceLimit_view v) (ClusterLabResourceLimit_view v))"

lemma ClusterLabComputeQuota_copier [copiers]:
  "third_party k v \<Longrightarrow> deep_copier (ClusterLabComputeQuota_view v) (ClusterLabComputeQuota_DeepCopyInto k)"
  unfolding ClusterLabComputeQuota_view_def
  by (rule along_copier[where mk = "\<lambda>x (cpu, memory). x\<lparr>ccq_CPU' := cpu, ccq_Memory' := memory\<rparr>"], (rule copiers | assumption)+)
    (auto simp: ClusterLabComputeQuota_DeepCopyInto_def both_copy_def split: prod.splits)

definition ClusterLabQuotaConfig_view :: "'x views \<Rightarrow> ('x cell, 'x ClusterLabQuotaConfig_struct, ClusterLabQuotaConfig) view" where
  "ClusterLabQuotaConfig_view v = along (\<lambda>x. (cqc_Storage' x, cqc_Compute' x, cqc_Objects' x))
     (\<lambda>(storage, compute, objects). \<lparr>cqc_Storage = storage, cqc_Compute = compute, cqc_Objects = objects\<rparr>)
     (both (ClusterLabStorageQuota_view v) (both (ClusterLabComputeQuota_view v) plain))"

lemma ClusterLabQuotaConfig_copier [copiers]:
  "third_party k v \<Longrightarrow> deep_copier (ClusterLabQuotaConfig_view v) (ClusterLabQuotaConfig_DeepCopyInto k)"
  unfolding ClusterLabQuotaConfig_view_def
  by (rule along_copier[where mk = "\<lambda>x (storage, compute, objects). x\<lparr>cqc_Storage' := storage, cqc_Compute' := compute, cqc_Objects' := objects\<rparr>"], (rule copiers | assumption)+)
    (auto simp: ClusterLabQuotaConfig_DeepCopyInto_def both_copy_def split: prod.splits)

definition ClusterLabSpec_view :: "'x views \<Rightarrow> ('x cell, 'x ClusterLabSpec_struct, ClusterLabSpec) view" where
  "ClusterLabSpec_view v = along (\<lambda>x. (cls_Quota' x, (cls_TTL' x, cls_Network' x)))
     (\<lambda>(quota, (ttl, network)). \<lparr>cls_TTL = ttl, cls_Network = network, cls_Quota = quota\<rparr>)
     (both (ClusterLabQuotaConfig_view v) plain)"

lemma ClusterLabSpec_copier [copiers]:
  "third_party k v \<Longrightarrow> deep_copier (ClusterLabSpec_view v) (ClusterLabSpec_DeepCopyInto k)"
  unfolding ClusterLabSpec_view_def
  by (rule along_copier[where mk = "\<lambda>x (quota, (ttl, network)). x\<lparr>cls_TTL' := ttl, cls_Network' := network, cls_Quota' := quota\<rparr>"], (rule copiers | assumption)+)
    (auto simp: ClusterLabSpec_DeepCopyInto_def both_copy_def split: prod.splits)

definition ClusterLabStorageUsage_view :: "'x views \<Rightarrow> ('x cell, 'x ClusterLabStorageUsage_struct, ClusterLabStorageUsage) view" where
  "ClusterLabStorageUsage_view v = along (\<lambda>x. csu_Used' x)
     (\<lambda>used. \<lparr>csu_Used = used\<rparr>)
     (quantity_view v)"

lemma ClusterLabStorageUsage_copier [copiers]:
  "third_party k v \<Longrightarrow> deep_copier (ClusterLabStorageUsage_view v) (ClusterLabStorageUsage_DeepCopyInto k)"
  unfolding ClusterLabStorageUsage_view_def
  by (rule along_copier[where mk = "\<lambda>x used. x\<lparr>csu_Used' := used\<rparr>"], (rule copiers | assumption)+)
    (auto simp: ClusterLabStorageUsage_DeepCopyInto_def both_copy_def split: prod.splits)

definition ClusterLabComputeUsage_view :: "'x views \<Rightarrow> ('x cell, 'x ClusterLabComputeUsage_struct, ClusterLabComputeUsage) view" where
  "ClusterLabComputeUsage_view v = along (\<lambda>x. (ccu_CPUUsed' x, ccu_MemoryUsed' x))
     (\<lambda>(cpu, memory). \<lparr>ccu_CPUUsed = cpu, ccu_MemoryUsed = memory\<rparr>)
     (both (quantity_view v) (quantity_view v))"

lemma ClusterLabComputeUsage_copier [copiers]:
  "third_party k v \<Longrightarrow> deep_copier (ClusterLabComputeUsage_view v) (ClusterLabComputeUsage_DeepCopyInto k)"
  unfolding ClusterLabComputeUsage_view_def
  by (rule along_copier[where mk = "\<lambda>x (cpu, memory). x\<lparr>ccu_CPUUsed' := cpu, ccu_MemoryUsed' := memory\<rparr>"], (rule copiers | assumption)+)
    (auto simp: ClusterLabComputeUsage_DeepCopyInto_def both_copy_def split: prod.splits)

definition ClusterLabQuotaUsage_view :: "'x views \<Rightarrow> ('x cell, 'x ClusterLabQuotaUsage_struct, ClusterLabQuotaUsage) view" where
  "ClusterLabQuotaUsage_view v = along (\<lambda>x. (cqu_Compute' x, cqu_Storage' x, cqu_Objects' x))
     (\<lambda>(compute, storage, objects). \<lparr>cqu_Compute = compute, cqu_Storage = storage, cqu_Objects = objects\<rparr>)
     (both (ClusterLabComputeUsage_view v) (both (ClusterLabStorageUsage_view v) plain))"

lemma ClusterLabQuotaUsage_copier [copiers]:
  "third_party k v \<Longrightarrow> deep_copier (ClusterLabQuotaUsage_view v) (ClusterLabQuotaUsage_DeepCopyInto k)"
  unfolding ClusterLabQuotaUsage_view_def
  by (rule along_copier[where mk = "\<lambda>x (compute, storage, objects). x\<lparr>cqu_Compute' := compute, cqu_Storage' := storage, cqu_Objects' := objects\<rparr>"], (rule copiers | assumption)+)
    (auto simp: ClusterLabQuotaUsage_DeepCopyInto_def both_copy_def split: prod.splits)

definition ClusterLabStatus_view :: "'x views \<Rightarrow> ('x cell, 'x ClusterLabStatus_struct, ClusterLabStatus) view" where
  "ClusterLabStatus_view v = along (\<lambda>x. (clt_ExpiresAt' x, clt_QuotaUsage' x, clt_Conditions' x, (clt_Phase' x, clt_TargetNamespace' x, clt_InstanceCount' x)))
     (\<lambda>(expires, usage, conditions, (phase, targetnamespace, instancecount)). \<lparr>clt_Phase = phase, clt_TargetNamespace = targetnamespace, clt_ExpiresAt = expires, clt_InstanceCount = instancecount, clt_QuotaUsage = usage, clt_Conditions = nil_is_empty conditions\<rparr>)
     (both (optional (time_view v)) (both (ClusterLabQuotaUsage_view v) (both (optional (sliced Condition_kind (condition_view v))) plain)))"

lemma ClusterLabStatus_copier [copiers]:
  "third_party k v \<Longrightarrow> deep_copier (ClusterLabStatus_view v) (ClusterLabStatus_DeepCopyInto k)"
  unfolding ClusterLabStatus_view_def
  by (rule along_copier[where mk = "\<lambda>x (expires, usage, conditions, (phase, targetnamespace, instancecount)). x\<lparr>clt_Phase' := phase, clt_TargetNamespace' := targetnamespace, clt_ExpiresAt' := expires, clt_InstanceCount' := instancecount, clt_QuotaUsage' := usage, clt_Conditions' := conditions\<rparr>"], (rule copiers | assumption)+)
    (auto simp: ClusterLabStatus_DeepCopyInto_def both_copy_def split: prod.splits)

definition ClusterLab_view :: "'x views \<Rightarrow> ('x cell, 'x ClusterLab_struct, TypeMeta \<times> ClusterLab) view" where
  "ClusterLab_view v = along (\<lambda>x. (cl_ObjectMeta' x, cl_Spec' x, cl_Status' x, cl_TypeMeta' x))
     (\<lambda>(meta, spec, status, typemeta). (typemeta, \<lparr>cl_Meta = meta, cl_Spec = spec, cl_Status = status\<rparr>))
     (both (object_meta_view v) (both (ClusterLabSpec_view v) (both (ClusterLabStatus_view v) plain)))"

lemma ClusterLab_copier [copiers]:
  "third_party k v \<Longrightarrow> deep_copier (ClusterLab_view v) (ClusterLab_DeepCopyInto k)"
  unfolding ClusterLab_view_def
  by (rule along_copier[where mk = "\<lambda>x (meta, spec, status, typemeta). x\<lparr>cl_TypeMeta' := typemeta, cl_ObjectMeta' := meta, cl_Spec' := spec, cl_Status' := status\<rparr>"], (rule copiers | assumption)+)
    (auto simp: ClusterLab_DeepCopyInto_def both_copy_def split: prod.splits)

definition InstanceLabResourceLimit_view :: "'x views \<Rightarrow> ('x cell, 'x InstanceLabResourceLimit_struct, InstanceLabResourceLimit) view" where
  "InstanceLabResourceLimit_view v = along (\<lambda>x. (irl_Request' x, irl_Limit' x))
     (\<lambda>(request, limit). \<lparr>irl_Request = request, irl_Limit = limit\<rparr>)
     (both (quantity_view v) (quantity_view v))"

lemma InstanceLabResourceLimit_copier [copiers]:
  "third_party k v \<Longrightarrow> deep_copier (InstanceLabResourceLimit_view v) (InstanceLabResourceLimit_DeepCopyInto k)"
  unfolding InstanceLabResourceLimit_view_def
  by (rule along_copier[where mk = "\<lambda>x (request, limit). x\<lparr>irl_Request' := request, irl_Limit' := limit\<rparr>"], (rule copiers | assumption)+)
    (auto simp: InstanceLabResourceLimit_DeepCopyInto_def both_copy_def split: prod.splits)

definition InstanceLabStorageLimit_view :: "'x views \<Rightarrow> ('x cell, 'x InstanceLabStorageLimit_struct, InstanceLabStorageLimit) view" where
  "InstanceLabStorageLimit_view v = along (\<lambda>x. isl_Limit' x)
     (\<lambda>limit. \<lparr>isl_Limit = limit\<rparr>)
     (quantity_view v)"

lemma InstanceLabStorageLimit_copier [copiers]:
  "third_party k v \<Longrightarrow> deep_copier (InstanceLabStorageLimit_view v) (InstanceLabStorageLimit_DeepCopyInto k)"
  unfolding InstanceLabStorageLimit_view_def
  by (rule along_copier[where mk = "\<lambda>x limit. x\<lparr>isl_Limit' := limit\<rparr>"], (rule copiers | assumption)+)
    (auto simp: InstanceLabStorageLimit_DeepCopyInto_def both_copy_def split: prod.splits)

definition InstanceLabResources_view :: "'x views \<Rightarrow> ('x cell, 'x InstanceLabResources_struct, InstanceLabResources) view" where
  "InstanceLabResources_view v = along (\<lambda>x. (ilr_CPU' x, ilr_Memory' x, ilr_Storage' x))
     (\<lambda>(cpu, memory, storage). \<lparr>ilr_CPU = cpu, ilr_Memory = memory, ilr_Storage = storage\<rparr>)
     (both (InstanceLabResourceLimit_view v) (both (InstanceLabResourceLimit_view v) (InstanceLabStorageLimit_view v)))"

lemma InstanceLabResources_copier [copiers]:
  "third_party k v \<Longrightarrow> deep_copier (InstanceLabResources_view v) (InstanceLabResources_DeepCopyInto k)"
  unfolding InstanceLabResources_view_def
  by (rule along_copier[where mk = "\<lambda>x (cpu, memory, storage). x\<lparr>ilr_CPU' := cpu, ilr_Memory' := memory, ilr_Storage' := storage\<rparr>"], (rule copiers | assumption)+)
    (auto simp: InstanceLabResources_DeepCopyInto_def both_copy_def split: prod.splits)

definition InstanceLabSpec_view :: "'x views \<Rightarrow> ('x cell, 'x InstanceLabSpec_struct, InstanceLabSpec) view" where
  "InstanceLabSpec_view v = along (\<lambda>x. (ils_ImagePullSecrets' x, ils_Resources' x, ils_Ports' x, (ils_ClusterLabRef' x, ils_Image' x, ils_Hostname' x)))
     (\<lambda>(secrets, resources, ports, (clusterlabref, image, hostname)). \<lparr>ils_ClusterLabRef = clusterlabref, ils_Image = image, ils_ImagePullSecrets = nil_is_empty secrets, ils_Hostname = hostname, ils_Resources = resources, ils_Ports = nil_is_empty ports\<rparr>)
     (both (optional (sliced LocalObjectReference_kind plain)) (both (InstanceLabResources_view v) (both (optional (sliced InstanceLabPort_kind plain)) plain)))"

lemma InstanceLabSpec_copier [copiers]:
  "third_party k v \<Longrightarrow> deep_copier (InstanceLabSpec_view v) (InstanceLabSpec_DeepCopyInto k)"
  unfolding InstanceLabSpec_view_def
  by (rule along_copier[where mk = "\<lambda>x (secrets, resources, ports, (clusterlabref, image, hostname)). x\<lparr>ils_ClusterLabRef' := clusterlabref, ils_Image' := image, ils_ImagePullSecrets' := secrets, ils_Hostname' := hostname, ils_Resources' := resources, ils_Ports' := ports\<rparr>"], (rule copiers | assumption)+)
    (auto simp: InstanceLabSpec_DeepCopyInto_def both_copy_def split: prod.splits)

definition InstanceLabStatus_view :: "'x views \<Rightarrow> ('x cell, 'x InstanceLabStatus_struct, InstanceLabStatus) view" where
  "InstanceLabStatus_view v = along (\<lambda>x. (ilt_AccessEndpoints' x, ilt_Conditions' x, (ilt_Phase' x, ilt_PodName' x, ilt_PodIP' x)))
     (\<lambda>(endpoints, conditions, (phase, podname, podip)). \<lparr>ilt_Phase = phase, ilt_PodName = podname, ilt_PodIP = podip, ilt_AccessEndpoints = nil_is_empty endpoints, ilt_Conditions = nil_is_empty conditions\<rparr>)
     (both (optional (sliced InstanceLabAccessEndpoint_kind plain)) (both (optional (sliced Condition_kind (condition_view v))) plain))"

lemma InstanceLabStatus_copier [copiers]:
  "third_party k v \<Longrightarrow> deep_copier (InstanceLabStatus_view v) (InstanceLabStatus_DeepCopyInto k)"
  unfolding InstanceLabStatus_view_def
  by (rule along_copier[where mk = "\<lambda>x (endpoints, conditions, (phase, podname, podip)). x\<lparr>ilt_Phase' := phase, ilt_PodName' := podname, ilt_PodIP' := podip, ilt_AccessEndpoints' := endpoints, ilt_Conditions' := conditions\<rparr>"], (rule copiers | assumption)+)
    (auto simp: InstanceLabStatus_DeepCopyInto_def both_copy_def split: prod.splits)

definition InstanceLab_view :: "'x views \<Rightarrow> ('x cell, 'x InstanceLab_struct, TypeMeta \<times> InstanceLab) view" where
  "InstanceLab_view v = along (\<lambda>x. (il_ObjectMeta' x, il_Spec' x, il_Status' x, il_TypeMeta' x))
     (\<lambda>(meta, spec, status, typemeta). (typemeta, \<lparr>il_Meta = meta, il_Spec = spec, il_Status = status\<rparr>))
     (both (object_meta_view v) (both (InstanceLabSpec_view v) (both (InstanceLabStatus_view v) plain)))"

lemma InstanceLab_copier [copiers]:
  "third_party k v \<Longrightarrow> deep_copier (InstanceLab_view v) (InstanceLab_DeepCopyInto k)"
  unfolding InstanceLab_view_def
  by (rule along_copier[where mk = "\<lambda>x (meta, spec, status, typemeta). x\<lparr>il_TypeMeta' := typemeta, il_ObjectMeta' := meta, il_Spec' := spec, il_Status' := status\<rparr>"], (rule copiers | assumption)+)
    (auto simp: InstanceLab_DeepCopyInto_def both_copy_def split: prod.splits)

definition ClusterLabList_view :: "'x views \<Rightarrow> ('x cell, 'x ClusterLabList_struct, TypeMeta \<times> ListMeta \<times> (TypeMeta \<times> ClusterLab) list) view" where
  "ClusterLabList_view v = along (\<lambda>x. (cll_ListMeta' x, cll_Items' x, cll_TypeMeta' x))
     (\<lambda>(meta, items, typemeta). (typemeta, meta, nil_is_empty items))
     (both (list_meta_view v) (both (optional (sliced ClusterLab_kind (ClusterLab_view v))) plain))"

lemma ClusterLabList_copier [copiers]:
  "third_party k v \<Longrightarrow> deep_copier (ClusterLabList_view v) (ClusterLabList_DeepCopyInto k)"
  unfolding ClusterLabList_view_def
  by (rule along_copier[where mk = "\<lambda>x (meta, items, typemeta). x\<lparr>cll_TypeMeta' := typemeta, cll_ListMeta' := meta, cll_Items' := items\<rparr>"], (rule copiers | assumption)+)
    (auto simp: ClusterLabList_DeepCopyInto_def both_copy_def split: prod.splits)

definition InstanceLabList_view :: "'x views \<Rightarrow> ('x cell, 'x InstanceLabList_struct, TypeMeta \<times> ListMeta \<times> (TypeMeta \<times> InstanceLab) list) view" where
  "InstanceLabList_view v = along (\<lambda>x. (ill_ListMeta' x, ill_Items' x, ill_TypeMeta' x))
     (\<lambda>(meta, items, typemeta). (typemeta, meta, nil_is_empty items))
     (both (list_meta_view v) (both (optional (sliced InstanceLab_kind (InstanceLab_view v))) plain))"

lemma InstanceLabList_copier [copiers]:
  "third_party k v \<Longrightarrow> deep_copier (InstanceLabList_view v) (InstanceLabList_DeepCopyInto k)"
  unfolding InstanceLabList_view_def
  by (rule along_copier[where mk = "\<lambda>x (meta, items, typemeta). x\<lparr>ill_TypeMeta' := typemeta, ill_ListMeta' := meta, ill_Items' := items\<rparr>"], (rule copiers | assumption)+)
    (auto simp: InstanceLabList_DeepCopyInto_def both_copy_def split: prod.splits)

section \<open>Copies are equal and separate\<close>

lemma list_copiers [copiers]:
  assumes "third_party k v"
  shows "deep_copier (pointed ClusterLabList_kind (ClusterLabList_view v)) (new_copy ClusterLabList_kind (ClusterLabList_DeepCopyInto k))"
    "deep_copier (pointed InstanceLabList_kind (InstanceLabList_view v)) (new_copy InstanceLabList_kind (InstanceLabList_DeepCopyInto k))"
  by (rule copiers assms)+

lemma unless_nil_Some: "run_state (unless_nil c (Some p)) h = (q, h') \<Longrightarrow> \<exists>p'. q = Some p' \<and> run_state (c p) h = (p', h')"
  by (auto simp: unless_nil_def split: prod.splits)

text \<open>
  C28: DeepCopy of a ClusterLabList, which uses the deep copies of every ClusterLab structure, only allocates:
  it changes no address that was in use. It returns a pointer that is not nil, to a list with the same type
  and list metadata and the same ClusterLabs in the same order, field by field; and no address can be
  reached from both the copy and the original. This rests on the contract of the third-party deep copies.
\<close>

theorem ClusterLabList_DeepCopy_equal:
  assumes "third_party k v" and "reads (pointed ClusterLabList_kind (ClusterLabList_view v)) h p = Some l"
    and "run_state (ClusterLabList_DeepCopy k (Some p)) h = (q, h')"
  shows "\<exists>p' e. q = Some p' \<and> h' = h @ e \<and>
     reads (pointed ClusterLabList_kind (ClusterLabList_view v)) h' p' = Some l \<and>
     reads (pointed ClusterLabList_kind (ClusterLabList_view v)) h' p = Some l \<and>
     cells (pointed ClusterLabList_kind (ClusterLabList_view v)) h' p \<inter>
       cells (pointed ClusterLabList_kind (ClusterLabList_view v)) h' p' = {}"
proof -
  obtain p' where p': "q = Some p'" "run_state (new_copy ClusterLabList_kind (ClusterLabList_DeepCopyInto k) p) h = (p', h')"
    using unless_nil_Some assms(3) unfolding ClusterLabList_DeepCopy_def by metis
  note c = list_copiers(1)[OF assms(1)]
  show ?thesis
    using deep_copier.copied[OF c assms(2) p'(2)] deep_copier.original_kept[OF c assms(2) p'(2)]
      deep_copier.separate[OF c assms(2) p'(2)] p'(1) by blast
qed

text \<open>
  C29: DeepCopyObject of an InstanceLabList returns an object of that dynamic type which lives apart from
  the original: whatever a program later stores into memory the copy does not reach (the original
  included) leaves the copy as it was, and whatever it stores into the memory of the copy leaves the original
  as it was. DeepCopyObject of a nil pointer is the nil interface, and allocates nothing.
\<close>

theorem InstanceLabList_DeepCopyObject_isolated:
  assumes "third_party k v" and "reads (pointed InstanceLabList_kind (InstanceLabList_view v)) h p = Some l"
    and "run_state (InstanceLabList_DeepCopyObject k (Some p)) h = (q, h')"
    and "length h'' \<ge> length h'"
  shows "\<exists>p'. q = Some (InstanceLabList_object (Some p')) \<and>
     ((\<forall>a < length h'. a \<in> cells (pointed InstanceLabList_kind (InstanceLabList_view v)) h' p' \<longrightarrow> h'' ! a = h' ! a) \<longrightarrow>
        reads (pointed InstanceLabList_kind (InstanceLabList_view v)) h'' p' = Some l) \<and>
     ((\<forall>a < length h'. a \<in> cells (pointed InstanceLabList_kind (InstanceLabList_view v)) h' p' \<or> h'' ! a = h' ! a) \<longrightarrow>
        reads (pointed InstanceLabList_kind (InstanceLabList_view v)) h'' p = Some l) \<and>
     run_state (InstanceLabList_DeepCopyObject k None) h = (None, h)"
proof -
  obtain q' where q: "run_state (InstanceLabList_DeepCopy k (Some p)) h = (q', h')" "q = (if q' \<noteq> None then Some (InstanceLabList_object q') else None)"
    using assms(3) by (auto simp: InstanceLabList_DeepCopyObject_def split: prod.splits)
  obtain p' where p': "q' = Some p'" "run_state (new_copy InstanceLabList_kind (InstanceLabList_DeepCopyInto k) p) h = (p', h')"
    using unless_nil_Some q(1) unfolding InstanceLabList_DeepCopy_def by metis
  note c = list_copiers(2)[OF assms(1)]
  have "run_state (InstanceLabList_DeepCopyObject k None) h = (None, h)"
    by (simp add: InstanceLabList_DeepCopyObject_def InstanceLabList_DeepCopy_def unless_nil_def)
  then show ?thesis
    using deep_copier.isolated[OF c assms(2) p'(2) assms(4)] deep_copier.copy_kept[OF c assms(2) p'(2) assms(4)] q(2) p'(1) by auto
qed

section \<open>An example in memory\<close>

text \<open>
  Third-party structures for the applications below: a quantity holds a pointer to its digits, so that a
  shallow copy of it would share them, a time is a variable of its own, and the others have no pointers.
\<close>

datatype sample_struct =
    Digits (the_digits: Quantity)
  | Big (digits_at: pointer)
  | Clock (clock: Time)
  | A_Condition (the_condition: Condition)
  | An_ObjectMeta (the_meta: ObjectMeta)
  | A_ListMeta (the_list_meta: ListMeta)

definition sample_copiers :: "sample_struct copiers" where
  "sample_copiers = \<lparr>
     Quantity_DeepCopy = (\<lambda>x. do {
       p \<leftarrow> new_copy Foreign_kind State_Monad.return (digits_at x);
       State_Monad.return (Big p)
     }),
     Condition_DeepCopyInto = State_Monad.return, Time_DeepCopy = new_copy Foreign_kind State_Monad.return,
     ObjectMeta_DeepCopyInto = State_Monad.return, ListMeta_DeepCopyInto = State_Monad.return\<rparr>"

definition sample_views :: "sample_struct views" where
  "sample_views = \<lparr>
     quantity_view = along digits_at id (pointed Foreign_kind (along the_digits id plain)),
     condition_view = along the_condition id plain, time_view = pointed Foreign_kind (along clock id plain),
     object_meta_view = along the_meta id plain, list_meta_view = along the_list_meta id plain\<rparr>"

lemma along_plain: "deep_copier (along f g plain) State_Monad.return"
  by unfold_locales (auto simp: along_def plain_def)

lemma sample_third_party: "third_party sample_copiers sample_views"
  unfolding third_party_def sample_copiers_def sample_views_def
  by (simp, intro conjI along_plain pointed_copier kinds_sound
      along_copier[where mk = "\<lambda>x p. Big p", OF pointed_copier[OF along_plain kinds_sound(27)]]) simp_all

text \<open>
  A list of one ClusterLab with an expiry and a condition. Its quantities all point to the same digits.
\<close>

definition sample_lab :: "sample_struct ClusterLab_struct" where
  "sample_lab = (let q = Big (Pointer 2 0); l = \<lparr>crl_Limit' = q\<rparr> in
     \<lparr>cl_TypeMeta' = \<lparr>tm_Kind = ''ClusterLab'', tm_APIVersion = ''v1alpha1''\<rparr>,
      cl_ObjectMeta' = An_ObjectMeta (new_meta ''default'' ''demo''),
      cl_Spec' = \<lparr>cls_TTL' = ''1h'', cls_Network' = \<lparr>cln_Type = ''isolate''\<rparr>,
        cls_Quota' = \<lparr>cqc_Storage' = \<lparr>csq_Limit' = q\<rparr>, cqc_Compute' = \<lparr>ccq_CPU' = l, ccq_Memory' = l\<rparr>,
          cqc_Objects' = \<lparr>coq_PodsLimit = 1, coq_ServicesLimit = 1\<rparr>\<rparr>\<rparr>,
      cl_Status' = \<lparr>clt_Phase' = ''Running'', clt_TargetNamespace' = ''lab-demo'',
        clt_ExpiresAt' = Some (Pointer 0 0), clt_InstanceCount' = \<lparr>cic_Total = 1, cic_Ready = 1\<rparr>,
        clt_QuotaUsage' = \<lparr>cqu_Compute' = \<lparr>ccu_CPUUsed' = q, ccu_MemoryUsed' = q\<rparr>,
          cqu_Storage' = \<lparr>csu_Used' = q\<rparr>, cqu_Objects' = \<lparr>cou_PodsUsed = 1, cou_ServicesUsed = 1\<rparr>\<rparr>,
        clt_Conditions' = Some (Slice 1 0 1)\<rparr>\<rparr>)"

definition sample_memory :: "sample_struct cell list" where
  "sample_memory = [Foreign_array [Clock 7],
     Condition_array [A_Condition \<lparr>c_Type = ''Ready'', c_Status = ''True'', c_Reason = ''Ready'', c_Message = [], c_LastTransitionTime = 0\<rparr>],
     Foreign_array [Digits (Quantity 5)], ClusterLab_array [sample_lab],
     ClusterLabList_array [\<lparr>cll_TypeMeta' = \<lparr>tm_Kind = ''ClusterLabList'', tm_APIVersion = ''v1alpha1''\<rparr>,
       cll_ListMeta' = A_ListMeta \<lparr>lm_ResourceVersion = ''1'', lm_Continue = [], lm_RemainingItemCount = None\<rparr>,
       cll_Items' = Some (Slice 3 0 1)\<rparr>],
     InstanceLabList_array [\<lparr>ill_TypeMeta' = \<lparr>tm_Kind = ''InstanceLabList'', tm_APIVersion = ''v1alpha1''\<rparr>,
       ill_ListMeta' = A_ListMeta \<lparr>lm_ResourceVersion = ''1'', lm_Continue = [], lm_RemainingItemCount = None\<rparr>,
       ill_Items' = None\<rparr>]]"

lemmas memory_simps = sample_memory_def sample_views_def view_defs kind_defs pointee_def slice_elements_def elements_def
  ClusterLabList_view_def InstanceLabList_view_def ClusterLab_view_def ClusterLabStatus_view_def ClusterLabSpec_view_def
  ClusterLabQuotaUsage_view_def ClusterLabComputeUsage_view_def ClusterLabStorageUsage_view_def
  ClusterLabQuotaConfig_view_def ClusterLabComputeQuota_view_def ClusterLabStorageQuota_view_def
  ClusterLabResourceLimit_view_def sample_lab_def Let_def

lemma sample_lists_read:
  "\<exists>l. reads (pointed ClusterLabList_kind (ClusterLabList_view sample_views)) sample_memory (Pointer 4 0) = Some l"
  "\<exists>l. reads (pointed InstanceLabList_kind (InstanceLabList_view sample_views)) sample_memory (Pointer 5 0) = Some l"
  by (simp_all add: memory_simps)

text \<open>The contract holds of the slices of ports and endpoints and of the pull secrets, whatever the third-party copies do.\<close>

interpretation ports: deep_copier "optional (sliced InstanceLabPort_kind plain)"
  "unless_nil (make_each InstanceLabPort_kind State_Monad.return)"
  by (rule copiers)+

interpretation endpoints: deep_copier "optional (sliced InstanceLabAccessEndpoint_kind plain)"
  "unless_nil (make_each InstanceLabAccessEndpoint_kind State_Monad.return)"
  by (rule copiers)+

interpretation pull_secrets: deep_copier "optional (sliced LocalObjectReference_kind plain)"
  "unless_nil (make_each LocalObjectReference_kind State_Monad.return)"
  by (rule copiers)+

theorem ClusterLabList_DeepCopy_equal_witness:
  "\<exists>p' l. fst (run_state (ClusterLabList_DeepCopy sample_copiers (Some (Pointer 4 0))) sample_memory) = Some p' \<and>
     reads (pointed ClusterLabList_kind (ClusterLabList_view sample_views)) sample_memory (Pointer 4 0) = Some l \<and>
     reads (pointed ClusterLabList_kind (ClusterLabList_view sample_views))
       (snd (run_state (ClusterLabList_DeepCopy sample_copiers (Some (Pointer 4 0))) sample_memory)) p' = Some l"
proof -
  obtain l where l: "reads (pointed ClusterLabList_kind (ClusterLabList_view sample_views)) sample_memory (Pointer 4 0) = Some l"
    using sample_lists_read(1) by blast
  from ClusterLabList_DeepCopy_equal[OF sample_third_party l, OF surjective_pairing] l show ?thesis by blast
qed

lemma sample_list_copied:
  "run_state (InstanceLabList_DeepCopyObject sample_copiers (Some (Pointer 5 0))) sample_memory =
     (Some (InstanceLabList_object (Some (Pointer 6 0))), sample_memory @ [sample_memory ! 5])"
  by (simp add: InstanceLabList_DeepCopyObject_def InstanceLabList_DeepCopy_def unless_nil_def new_copy_def
    InstanceLabList_DeepCopyInto_def sample_copiers_def allocate_def sample_memory_def pointee_def elements_def kind_defs)

theorem InstanceLabList_DeepCopyObject_isolated_witness:
  "\<exists>l. reads (pointed InstanceLabList_kind (InstanceLabList_view sample_views)) sample_memory (Pointer 5 0) = Some l \<and>
     reads (pointed InstanceLabList_kind (InstanceLabList_view sample_views))
       ((sample_memory @ [sample_memory ! 5])[5 := Foreign_array []]) (Pointer 6 0) = Some l"
proof -
  obtain l where l: "reads (pointed InstanceLabList_kind (InstanceLabList_view sample_views)) sample_memory (Pointer 5 0) = Some l"
    using sample_lists_read(2) by blast
  let ?h = "sample_memory @ [sample_memory ! 5]"
  have "length (?h[5 := Foreign_array []]) \<ge> length ?h" by simp
  from InstanceLabList_DeepCopyObject_isolated[OF sample_third_party l sample_list_copied this]
  obtain p' where p': "p' = Pointer 6 0" "(\<forall>a < length ?h. a \<in> cells (pointed InstanceLabList_kind (InstanceLabList_view sample_views)) ?h p'
      \<longrightarrow> ?h[5 := Foreign_array []] ! a = ?h ! a) \<longrightarrow>
      reads (pointed InstanceLabList_kind (InstanceLabList_view sample_views)) (?h[5 := Foreign_array []]) p' = Some l"
    by blast
  have "cells (pointed InstanceLabList_kind (InstanceLabList_view sample_views)) ?h (Pointer 6 0) = {6}"
    by (simp add: memory_simps)
  with p' have "reads (pointed InstanceLabList_kind (InstanceLabList_view sample_views)) (?h[5 := Foreign_array []]) (Pointer 6 0) = Some l"
    by (simp add: nth_list_update)
  with l show ?thesis by blast
qed

end
