(* ===== verification/Json.thy ===== *)
theory Json
  imports Prelude
begin

text \<open>
  encoding/json as images/script/runner.go uses it: a Decoder that reads the first JSON value of a stream
  of bytes into a structure, and an Encoder that writes strings and integers. The theory has the decoding of UTF-8
  (unicode/utf8), JSON strings in both directions, the tokens, the grammar as a pushdown machine with the
  nesting bound of the package, and the round trip of strings. A string is a list of bytes.
\<close>

abbreviation ord :: "char \<Rightarrow> nat" where
  "ord c \<equiv> of_char c"

section \<open>UTF-8\<close>

text \<open>
  The number of bytes of the well-formed sequence a string starts with, 0 if there is none
  (utf8.DecodeRune then answers the replacement character and size 1).
\<close>

definition continues :: "char \<Rightarrow> bool" where
  "continues c \<longleftrightarrow> 0x80 \<le> ord c \<and> ord c \<le> 0xBF"

definition second_in :: "nat \<Rightarrow> nat \<Rightarrow> string \<Rightarrow> bool" where
  "second_in lo hi s \<longleftrightarrow> (case s of c # _ \<Rightarrow> lo \<le> ord c \<and> ord c \<le> hi | [] \<Rightarrow> False)"

definition third_continues :: "string \<Rightarrow> bool" where
  "third_continues s \<longleftrightarrow> (case s of _ # c # _ \<Rightarrow> continues c | _ \<Rightarrow> False)"

definition fourth_continues :: "string \<Rightarrow> bool" where
  "fourth_continues s \<longleftrightarrow> (case s of _ # _ # c # _ \<Rightarrow> continues c | _ \<Rightarrow> False)"

definition sequence_length :: "char \<Rightarrow> string \<Rightarrow> nat" where
  "sequence_length c s = (let b = ord c in
     if b < 0x80 then 1
     else if 0xC2 \<le> b \<and> b \<le> 0xDF then (if second_in 0x80 0xBF s then 2 else 0)
     else if 0xE0 \<le> b \<and> b \<le> 0xEF then
       (if second_in (if b = 0xE0 then 0xA0 else 0x80) (if b = 0xED then 0x9F else 0xBF) s \<and> third_continues s
        then 3 else 0)
     else if 0xF0 \<le> b \<and> b \<le> 0xF4 then
       (if second_in (if b = 0xF0 then 0x90 else 0x80) (if b = 0xF4 then 0x8F else 0xBF) s \<and> third_continues s \<and>
          fourth_continues s then 4 else 0)
     else 0)"

text \<open>utf8.EncodeRune, with the replacement character for what is no code point.\<close>

definition encode_rune :: "nat \<Rightarrow> string" where
  "encode_rune r = map char_of
     (if r < 0x80 then [r]
      else if r < 0x800 then [0xC0 + r div 64, 0x80 + r mod 64]
      else if 0xD800 \<le> r \<and> r < 0xE000 \<or> 0x10FFFF < r then [0xEF, 0xBF, 0xBD]
      else if r < 0x10000 then [0xE0 + r div 4096, 0x80 + r div 64 mod 64, 0x80 + r mod 64]
      else [0xF0 + r div 262144, 0x80 + r div 4096 mod 64, 0x80 + r div 64 mod 64, 0x80 + r mod 64])"

definition replacement :: string where
  "replacement = encode_rune 0xFFFD"

text \<open>A string as UTF-8 text: each byte that belongs to no well-formed sequence is replaced.\<close>

fun to_valid :: "string \<Rightarrow> string" where
  "to_valid [] = []"
| "to_valid (c # s) = (case sequence_length c s of
     0 \<Rightarrow> replacement @ to_valid s
   | Suc n \<Rightarrow> c # take n s @ to_valid (drop n s))"

section \<open>Strings in JSON\<close>

text \<open>Four hexadecimal digits.\<close>

definition hex_digit :: "char \<Rightarrow> nat option" where
  "hex_digit c = (let b = ord c in
     if 48 \<le> b \<and> b \<le> 57 then Some (b - 48)
     else if 97 \<le> b \<and> b \<le> 102 then Some (b - 87)
     else if 65 \<le> b \<and> b \<le> 70 then Some (b - 55)
     else None)"

fun hex4 :: "string \<Rightarrow> (nat \<times> string) option" where
  "hex4 (a # b # c # d # s) = (case (hex_digit a, hex_digit b, hex_digit c, hex_digit d) of
     (Some w, Some x, Some y, Some z) \<Rightarrow> Some (((w * 16 + x) * 16 + y) * 16 + z, s)
   | _ \<Rightarrow> None)"
| "hex4 _ = None"

text \<open>
  After a backslash. Two escapes that form a surrogate pair are one character; a surrogate of its own is
  the replacement character.
\<close>

fun second_escape :: "string \<Rightarrow> (nat \<times> string) option" where
  "second_escape (b # u # s) = (if b = CHR 0x5C \<and> u = CHR ''u'' then hex4 s else None)"
| "second_escape _ = None"

definition unicode_escape :: "string \<Rightarrow> (string \<times> string) option" where
  "unicode_escape s = (case hex4 s of
     None \<Rightarrow> None
   | Some (r, s') \<Rightarrow>
       (case second_escape s' of
          Some (r', s'') \<Rightarrow>
            (if 0xD800 \<le> r \<and> r < 0xDC00 \<and> 0xDC00 \<le> r' \<and> r' < 0xE000
             then Some (encode_rune ((r - 0xD800) * 1024 + (r' - 0xDC00) + 0x10000), s'')
             else Some (encode_rune r, s'))
        | None \<Rightarrow> Some (encode_rune r, s')))"

definition json_unescape :: "char \<Rightarrow> string \<Rightarrow> (string \<times> string) option" where
  "json_unescape c s =
     (if c \<in> {CHR 0x22, CHR 0x5C, CHR ''/''} then Some ([c], s)
      else if c = CHR ''b'' then Some ([CHR 0x08], s)
      else if c = CHR ''f'' then Some ([CHR 0x0C], s)
      else if c = CHR ''n'' then Some ([CHR 0x0A], s)
      else if c = CHR ''r'' then Some ([CHR 0x0D], s)
      else if c = CHR ''t'' then Some ([CHR 0x09], s)
      else if c = CHR ''u'' then unicode_escape s
      else None)"

lemma hex4_shorter: "hex4 s = Some (r, s') \<Longrightarrow> length s' < length s"
  by (cases s rule: hex4.cases) (auto split: option.splits)

lemma second_escape_shorter: "second_escape s = Some (r, s') \<Longrightarrow> length s' < length s"
  by (cases s rule: second_escape.cases) (auto split: if_splits dest: hex4_shorter)

lemma unicode_escape_shorter: "unicode_escape s = Some (t, s') \<Longrightarrow> length s' \<le> length s"
  unfolding unicode_escape_def
  by (auto split: option.splits prod.splits if_splits dest!: hex4_shorter second_escape_shorter)

lemma json_unescape_shorter: "json_unescape c s = Some (t, s') \<Longrightarrow> length s' \<le> length s"
  unfolding json_unescape_def by (auto split: if_splits dest: unicode_escape_shorter)

text \<open>
  A string after its opening quote: the decoded bytes and what follows the closing quote. Control
  characters must be escaped.
\<close>

function json_string :: "string \<Rightarrow> (string \<times> string) option" where
  "json_string [] = None"
| "json_string (c # s) =
     (if c = CHR 0x22 then Some ([], s)
      else if c = CHR 0x5C then
        (case s of
           [] \<Rightarrow> None
         | e # s' \<Rightarrow>
             (case json_unescape e s' of
                None \<Rightarrow> None
              | Some (t, s'') \<Rightarrow> map_option (\<lambda>(u, r). (t @ u, r)) (json_string s'')))
      else if ord c < 0x20 then None
      else
        (case sequence_length c s of
           0 \<Rightarrow> map_option (\<lambda>(u, r). (replacement @ u, r)) (json_string s)
         | Suc n \<Rightarrow> map_option (\<lambda>(u, r). (c # take n s @ u, r)) (json_string (drop n s))))"
  by pat_completeness auto
termination
  by (relation "measure length") (auto dest!: json_unescape_shorter)

declare json_string.simps(2) [simp del]

text \<open>
  Encoder.appendString with the escaping for HTML: letters a browser could take for markup, the line
  separators of JavaScript and bytes that are not UTF-8 are escapes.
\<close>

definition hex_letter :: "nat \<Rightarrow> char" where
  "hex_letter n = ''0123456789abcdef'' ! n"

definition json_escape_ascii :: "char \<Rightarrow> string" where
  "json_escape_ascii c =
     (if c = CHR 0x22 \<or> c = CHR 0x5C then [CHR 0x5C, c]
      else if c = CHR 0x08 then [CHR 0x5C, CHR ''b'']
      else if c = CHR 0x0C then [CHR 0x5C, CHR ''f'']
      else if c = CHR 0x0A then [CHR 0x5C, CHR ''n'']
      else if c = CHR 0x0D then [CHR 0x5C, CHR ''r'']
      else if c = CHR 0x09 then [CHR 0x5C, CHR ''t'']
      else if ord c < 0x20 \<or> c \<in> {CHR ''<'', CHR ''>'', CHR ''&''} then
        [CHR 0x5C, CHR ''u'', CHR ''0'', CHR ''0'', hex_letter (ord c div 16), hex_letter (ord c mod 16)]
      else [c])"

fun json_escape :: "string \<Rightarrow> string" where
  "json_escape [] = []"
| "json_escape (c # s) = (case sequence_length c s of
     0 \<Rightarrow> CHR 0x5C # ''ufffd'' @ json_escape s
   | Suc n \<Rightarrow>
       (if n = 0 then json_escape_ascii c
        else if c # take n s = encode_rune 0x2028 then CHR 0x5C # ''u2028''
        else if c # take n s = encode_rune 0x2029 then CHR 0x5C # ''u2029''
        else c # take n s) @ json_escape (drop n s))"

definition json_quote :: "string \<Rightarrow> string" where
  "json_quote s = CHR 0x22 # json_escape s @ [CHR 0x22]"

section \<open>The round trip of strings\<close>

lemmas sequence_defs = sequence_length_def second_in_def third_continues_def fourth_continues_def Let_def

lemma sequence_length_cases:
  assumes "sequence_length c s = Suc n"
  obtains "ord c < 0x80" "n = 0" | d s' where "s = d # s'" "n = 1" "0x80 \<le> ord c"
    | d e s' where "s = d # e # s'" "n = 2" "0x80 \<le> ord c" | d e f s' where "s = d # e # f # s'" "n = 3" "0x80 \<le> ord c"
proof -
  have "ord c < 0x80 \<and> n = 0 \<or> 0x80 \<le> ord c \<and>
      (s \<noteq> [] \<and> n = 1 \<or> s \<noteq> [] \<and> tl s \<noteq> [] \<and> n = 2 \<or> s \<noteq> [] \<and> tl s \<noteq> [] \<and> tl (tl s) \<noteq> [] \<and> n = 3)"
    using assms unfolding sequence_defs
    by (simp split: if_split_asm list.split_asm)
  with that show thesis by (cases s; cases "tl s"; cases "tl (tl s)") auto
qed

lemma sequence_length_take:
  assumes "sequence_length c s = Suc n"
  shows "n \<le> length s" "sequence_length c (take n s @ t) = Suc n" "n = 0 \<longleftrightarrow> ord c < 0x80"
proof -
  from assms show "n \<le> length s" "n = 0 \<longleftrightarrow> ord c < 0x80" by (cases rule: sequence_length_cases; simp)+
  from assms show "sequence_length c (take n s @ t) = Suc n"
  proof (cases rule: sequence_length_cases)
    case 1
    then show ?thesis by (simp add: sequence_length_def)
  next
    case (2 d s')
    then show ?thesis using assms unfolding sequence_defs by (simp split: if_split_asm)
  next
    case (3 d e s')
    then show ?thesis using assms unfolding sequence_defs by (simp split: if_split_asm)
  next
    case (4 d e f s')
    then show ?thesis using assms unfolding sequence_defs by (simp split: if_split_asm)
  qed
qed

lemma hex_digit_letter: "n < 16 \<Longrightarrow> hex_digit (hex_letter n) = Some n"
proof -
  have "list_all (\<lambda>n. hex_digit (hex_letter n) = Some n) [0..<16]" by code_simp
  then show "n < 16 \<Longrightarrow> ?thesis" by (simp add: list_all_iff)
qed

lemma json_string_escape:
  "json_string (CHR 0x5C # e # s) = (case json_unescape e s of None \<Rightarrow> None
     | Some (t, s') \<Rightarrow> map_option (\<lambda>(u, r). (t @ u, r)) (json_string s'))"
  by (simp add: json_string.simps(2))

lemma unicode_escape_plain: "hex4 s = Some (r, s') \<Longrightarrow> r < 0xD800 \<or> 0xDC00 \<le> r \<Longrightarrow> unicode_escape s = Some (encode_rune r, s')"
  by (auto simp: unicode_escape_def split: option.splits)

lemma json_string_escaped_ascii:
  assumes "ord c < 0x80"
  shows "json_string (json_escape_ascii c @ t) = map_option (\<lambda>(u, r). (c # u, r)) (json_string t)"
proof -
  let ?b = "ord c"
  have u: "json_string (CHR 0x5C # CHR ''u'' # CHR ''0'' # CHR ''0'' # hex_letter (?b div 16) # hex_letter (?b mod 16) # t) =
      map_option (\<lambda>(u, r). (c # u, r)) (json_string t)"
  proof -
    have "hex4 (CHR ''0'' # CHR ''0'' # hex_letter (?b div 16) # hex_letter (?b mod 16) # t) = Some (?b, t)"
      using assms by (simp add: hex_digit_letter hex_digit_def[of "CHR ''0''"])
    moreover have "?b < 0xD800 \<or> 0xDC00 \<le> ?b" using assms by (intro disjI1) simp
    ultimately have "unicode_escape (CHR ''0'' # CHR ''0'' # hex_letter (?b div 16) # hex_letter (?b mod 16) # t) = Some (encode_rune ?b, t)"
      by (rule unicode_escape_plain)
    moreover have "encode_rune ?b = [c]" using assms by (simp add: encode_rune_def)
    ultimately show ?thesis by (simp add: json_string_escape json_unescape_def)
  qed
  show ?thesis
  proof (cases "json_escape_ascii c = [c]")
    case True
    have "sequence_length c t = 1" using assms by (simp add: sequence_length_def)
    moreover have "c \<noteq> CHR 0x22" "c \<noteq> CHR 0x5C" "\<not> ord c < 0x20"
      using True by (auto simp: json_escape_ascii_def split: if_splits)
    ultimately show ?thesis using True by (simp add: json_string.simps(2))
  next
    case False
    then show ?thesis using u
      by (auto simp: json_escape_ascii_def json_string_escape json_unescape_def split: if_splits)
  qed
qed

lemma json_string_sequence:
  assumes "sequence_length c s = Suc n" "0 < n"
  shows "json_string (c # take n s @ t) = map_option (\<lambda>(u, r). (c # take n s @ u, r)) (json_string t)"
proof -
  note l = sequence_length_take[OF assms(1)]
  have "0x80 \<le> ord c" using l(3) assms(2) by simp
  then have "c \<noteq> CHR 0x22" "c \<noteq> CHR 0x5C" "\<not> ord c < 0x20" by auto
  with l(1) l(2)[of t] show ?thesis by (simp add: json_string.simps(2))
qed

lemma json_string_of_rune:
  "json_string (CHR 0x5C # ''ufffd'' @ t) = map_option (\<lambda>(u, r). (replacement @ u, r)) (json_string t)"
  "json_string (CHR 0x5C # ''u2028'' @ t) = map_option (\<lambda>(u, r). (encode_rune 0x2028 @ u, r)) (json_string t)"
  "json_string (CHR 0x5C # ''u2029'' @ t) = map_option (\<lambda>(u, r). (encode_rune 0x2029 @ u, r)) (json_string t)"
  by (simp_all add: json_string_escape json_unescape_def replacement_def unicode_escape_plain hex_digit_def)

lemma json_string_quoted: "json_string (json_escape s @ CHR 0x22 # t) = Some (to_valid s, t)"
proof (induction s rule: json_escape.induct)
  case 1
  show ?case by (simp add: json_string.simps(2))
next
  case (2 c s)
  show ?case
  proof (cases "sequence_length c s")
    case 0
    then show ?thesis using 2(1) json_string_of_rune(1)[of "json_escape s @ CHR 0x22 # t"] by simp
  next
    case (Suc n)
    note ih = 2(2)[OF Suc] and l = sequence_length_take[OF Suc]
    show ?thesis
    proof (cases "n = 0")
      case True
      then show ?thesis using ih l(3) Suc json_string_escaped_ascii[of c "json_escape s @ CHR 0x22 # t"] by simp
    next
      case False
      then show ?thesis using ih Suc json_string_sequence[OF Suc, of "json_escape (drop n s) @ CHR 0x22 # t"]
          json_string_of_rune(2,3)[of "json_escape (drop n s) @ CHR 0x22 # t"] by simp
    qed
  qed
qed

lemma to_valid_ascii: "list_all (\<lambda>c. ord c < 0x80) s \<Longrightarrow> to_valid s = s"
  by (induction s) (auto simp: sequence_length_def)

section \<open>Tokens\<close>

datatype token = LBrace | RBrace | LBrack | RBrack | Colon | Comma
  | JString string | JNumber string | JTrue | JFalse | JNull

definition digit :: "char \<Rightarrow> bool" where
  "digit c \<longleftrightarrow> 48 \<le> ord c \<and> ord c \<le> 57"

definition digits :: "string \<Rightarrow> (string \<times> string) option" where
  "digits s = (if takeWhile digit s = [] then None else Some (takeWhile digit s, dropWhile digit s))"

text \<open>
  A number: an optional minus sign, an integer without leading zeros, and optionally a fraction and an
  exponent. The text is kept as it stands.
\<close>

definition integer_part :: "string \<Rightarrow> (string \<times> string) option" where
  "integer_part s = (case s of
     c # r \<Rightarrow> if c = CHR ''0'' then Some ([c], r) else digits s
   | [] \<Rightarrow> None)"

definition fraction :: "string \<Rightarrow> (string \<times> string) option" where
  "fraction s = (case s of
     c # r \<Rightarrow> if c = CHR ''.'' then map_option (\<lambda>(d, r). (c # d, r)) (digits r) else Some ([], s)
   | [] \<Rightarrow> Some ([], s))"

definition exponent :: "string \<Rightarrow> (string \<times> string) option" where
  "exponent s = (case s of
     c # r \<Rightarrow> if c \<in> {CHR ''e'', CHR ''E''} then
         (case r of
            g # r' \<Rightarrow> if g \<in> {CHR ''+'', CHR ''-''} then map_option (\<lambda>(d, r). (c # g # d, r)) (digits r')
              else map_option (\<lambda>(d, r). (c # d, r)) (digits r)
          | [] \<Rightarrow> None)
       else Some ([], s)
   | [] \<Rightarrow> Some ([], s))"

definition number :: "string \<Rightarrow> (token \<times> string) option" where
  "number s = (let (m, s0) = (case s of c # r \<Rightarrow> if c = CHR ''-'' then ([c], r) else ([], s) | [] \<Rightarrow> ([], s)) in
     case integer_part s0 of
       None \<Rightarrow> None
     | Some (i, s1) \<Rightarrow>
         (case fraction s1 of
            None \<Rightarrow> None
          | Some (f, s2) \<Rightarrow> map_option (\<lambda>(e, s3). (JNumber (m @ i @ f @ e), s3)) (exponent s2)))"

definition white :: "char \<Rightarrow> bool" where
  "white c \<longleftrightarrow> c \<in> {CHR '' '', CHR 0x09, CHR 0x0A, CHR 0x0D}"

definition word :: "string \<Rightarrow> token \<Rightarrow> string \<Rightarrow> (token \<times> string) option" where
  "word w t s = (if HasPrefix s w then Some (t, drop (length w) s) else None)"

definition lex_at :: "char \<Rightarrow> string \<Rightarrow> (token \<times> string) option" where
  "lex_at c s =
     (if c = CHR ''{'' then Some (LBrace, s)
      else if c = CHR ''}'' then Some (RBrace, s)
      else if c = CHR ''['' then Some (LBrack, s)
      else if c = CHR '']'' then Some (RBrack, s)
      else if c = CHR '':'' then Some (Colon, s)
      else if c = CHR '','' then Some (Comma, s)
      else if c = CHR 0x22 then map_option (\<lambda>(t, r). (JString t, r)) (json_string s)
      else if c = CHR ''t'' then word ''rue'' JTrue s
      else if c = CHR ''f'' then word ''alse'' JFalse s
      else if c = CHR ''n'' then word ''ull'' JNull s
      else number (c # s))"

definition lex :: "string \<Rightarrow> (token \<times> string) option" where
  "lex s = (case dropWhile white s of c # r \<Rightarrow> lex_at c r | [] \<Rightarrow> None)"

text \<open>Every token takes bytes from the stream.\<close>

lemma digits_shorter: "digits s = Some (d, r) \<Longrightarrow> length r < length s"
  by (cases s) (auto simp: digits_def le_imp_less_Suc length_dropWhile_le split: if_splits)

lemma parts_shorter:
  "integer_part s = Some (d, r) \<Longrightarrow> length r < length s" "fraction s = Some (d, r) \<Longrightarrow> length r \<le> length s"
  "exponent s = Some (d, r) \<Longrightarrow> length r \<le> length s"
  by (auto simp: integer_part_def fraction_def exponent_def split: list.splits if_splits dest!: digits_shorter)

lemma number_shorter: "number s = Some (t, r) \<Longrightarrow> length r < length s"
  by (auto simp: number_def split: list.splits if_splits option.splits dest!: parts_shorter)

lemma json_string_shorter: "json_string s = Some (t, r) \<Longrightarrow> length r < length s"
proof (induction "length s" arbitrary: s t r rule: less_induct)
  case less
  have step: "length r < length s" if "json_string s' = Some (u, r)" "length s' < length s" for s' u
    using less(1)[OF that(2,1)] that(2) by simp
  from less(2) obtain c s0 where s: "s = c # s0" by (cases s) auto
  consider "c = CHR 0x22" | e s1 x s2 u where "s0 = e # s1" "json_unescape e s1 = Some (x, s2)" "json_string s2 = Some (u, r)"
    | u where "json_string s0 = Some (u, r)" | n u where "json_string (drop n s0) = Some (u, r)"
    using less(2) unfolding s json_string.simps(2)
    by (auto split: if_splits list.splits option.splits nat.splits)
  then show ?case
  proof cases
    case 1
    then show ?thesis using less(2) by (simp add: s json_string.simps(2))
  next
    case (2 e s1 x s2 u)
    then show ?thesis using step[of s2 u] json_unescape_shorter[of e s1 x s2] by (simp add: s)
  next
    case (3 u)
    then show ?thesis using step[of s0 u] by (simp add: s)
  next
    case (4 n u)
    then show ?thesis using step[of "drop n s0" u] by (simp add: s)
  qed
qed

lemma lex_shorter: "lex s = Some (t, r) \<Longrightarrow> length r < length s"
proof -
  assume "lex s = Some (t, r)"
  then obtain c s' where s: "dropWhile white s = c # s'" "lex_at c s' = Some (t, r)"
    by (auto simp: lex_def split: list.splits)
  then have "length r < length (c # s')"
    by (auto simp: lex_at_def word_def split: if_splits dest!: json_string_shorter number_shorter)
  then show ?thesis using length_dropWhile_le[of white s] s(1) by simp
qed

section \<open>Values\<close>

text \<open>
  The grammar as a pushdown machine: the stack holds the objects and arrays that are open, at most 10000
  (maxNestingDepth), and the control state what may come next.
\<close>

datatype frame = In_object | In_array

datatype want = Value | Value_or_close | Key | Key_or_close | A_colon | Comma_or_close

definition maxNestingDepth :: nat where
  "maxNestingDepth = 10000"

definition opened :: "frame \<Rightarrow> frame list \<Rightarrow> (frame list \<times> want) option" where
  "opened f fs = (if length fs < maxNestingDepth
     then Some (f # fs, if f = In_object then Key_or_close else Value_or_close) else None)"

definition value_token :: "frame list \<Rightarrow> token \<Rightarrow> (frame list \<times> want) option" where
  "value_token fs t = (case t of
     LBrace \<Rightarrow> opened In_object fs
   | LBrack \<Rightarrow> opened In_array fs
   | JString _ \<Rightarrow> Some (fs, Comma_or_close)
   | JNumber _ \<Rightarrow> Some (fs, Comma_or_close)
   | JTrue \<Rightarrow> Some (fs, Comma_or_close)
   | JFalse \<Rightarrow> Some (fs, Comma_or_close)
   | JNull \<Rightarrow> Some (fs, Comma_or_close)
   | _ \<Rightarrow> None)"

definition closing :: "frame list \<Rightarrow> token \<Rightarrow> bool" where
  "closing fs t \<longleftrightarrow> (case fs of In_object # _ \<Rightarrow> t = RBrace | In_array # _ \<Rightarrow> t = RBrack | [] \<Rightarrow> False)"

fun advance :: "frame list \<Rightarrow> want \<Rightarrow> token \<Rightarrow> (frame list \<times> want) option" where
  "advance fs Value t = value_token fs t"
| "advance fs Value_or_close t = (if closing fs t then Some (tl fs, Comma_or_close) else value_token fs t)"
| "advance fs Key t = (case t of JString _ \<Rightarrow> Some (fs, A_colon) | _ \<Rightarrow> None)"
| "advance fs Key_or_close t = (if closing fs t then Some (tl fs, Comma_or_close)
     else case t of JString _ \<Rightarrow> Some (fs, A_colon) | _ \<Rightarrow> None)"
| "advance fs A_colon t = (if t = Colon then Some (fs, Value) else None)"
| "advance fs Comma_or_close t =
     (if closing fs t then Some (tl fs, Comma_or_close)
      else if t = Comma then Some (fs, if hd fs = In_object then Key else Value)
      else None)"

text \<open>
  The members of the outermost object, in their order. A member is kept with the token its value starts
  with: all a field of type string can take is a string or null.
\<close>

type_synonym members = "(string \<times> token) list"

definition note_member :: "frame list \<Rightarrow> want \<Rightarrow> token \<Rightarrow> string \<times> members \<Rightarrow> string \<times> members" where
  "note_member fs w t m =
     (if fs \<noteq> [In_object] then m
      else if w = Value then (fst m, snd m @ [(fst m, t)])
      else case t of JString k \<Rightarrow> (k, snd m) | _ \<Rightarrow> m)"

function read_value :: "frame list \<Rightarrow> want \<Rightarrow> string \<times> members \<Rightarrow> string \<Rightarrow> (members \<times> string) option" where
  "read_value fs w m s = (case lex s of
     None \<Rightarrow> None
   | Some (t, r) \<Rightarrow>
       (case advance fs w t of
          None \<Rightarrow> None
        | Some (fs', w') \<Rightarrow>
            if fs' = [] then Some (snd m, r) else read_value fs' w' (note_member fs w t m) r))"
  by pat_completeness auto
termination
  by (relation "measure (\<lambda>(fs, w, m, s). length s)") (auto dest: lex_shorter)

declare read_value.simps [simp del]

datatype json_value = Object members | Null | Other_value

text \<open>
  Decoder.Decode: the first value of the stream, and an error (None) when the stream ends before, or does not
  start with a value. What follows the value is not looked at.
\<close>

definition json_decode :: "string \<Rightarrow> json_value option" where
  "json_decode s = (case lex s of
     None \<Rightarrow> None
   | Some (t, r) \<Rightarrow>
       (case value_token [] t of
          None \<Rightarrow> None
        | Some (fs, w) \<Rightarrow>
            if fs = [] then Some (if t = JNull then Null else Other_value)
            else map_option (\<lambda>(m, _). if fs = [In_object] then Object m else Other_value) (read_value fs w ([], []) r)))"

end
