(* ===== verification/CheckRunner.thy ===== *)
theory CheckRunner
  imports Json
begin

text \<open>
  images/script/runner.go, the HTTP server in the image of a lab that runs a check command: a request
  decoded from JSON, one call of bash, and a response encoded to JSON. The process of the command and the
  connection are arguments.
\<close>

section \<open>Requests\<close>

record CheckRequest =
  req_Command :: string

record CheckResponse =
  resp_ExitCode :: int
  resp_Stdout :: string
  resp_Stderr :: string

text \<open>
  Members are matched with the field's name in JSON without regard to case (no letter of command has a case
  variant outside ASCII); the last match wins, null leaves the field as it is, and a value of another type is an
  error of the whole request. Other members are skipped.
\<close>

definition names_field :: "string \<Rightarrow> string \<Rightarrow> bool" where
  "names_field f k \<longleftrightarrow> map byte_lower k = f"

fun fill_request :: "members \<Rightarrow> CheckRequest \<Rightarrow> CheckRequest option" where
  "fill_request [] req = Some req"
| "fill_request ((k, v) # ms) req =
     (if names_field ''command'' k then
        (case v of
           JString c \<Rightarrow> fill_request ms (req\<lparr>req_Command := c\<rparr>)
         | JNull \<Rightarrow> fill_request ms req
         | _ \<Rightarrow> None)
      else fill_request ms req)"

definition decode_request :: "string \<Rightarrow> CheckRequest option" where
  "decode_request body = (case json_decode body of
     Some (Object ms) \<Rightarrow> fill_request ms \<lparr>req_Command = []\<rparr>
   | Some Null \<Rightarrow> Some \<lparr>req_Command = []\<rparr>
   | _ \<Rightarrow> None)"

text \<open>Encoder.Encode of a response: the fields in their order, and a newline.\<close>

definition encode_response :: "CheckResponse \<Rightarrow> string" where
  "encode_response r =
     ''{'' @ json_quote ''exit_code'' @ '':'' @ itoa (resp_ExitCode r) @
     '','' @ json_quote ''stdout'' @ '':'' @ json_quote (resp_Stdout r) @
     '','' @ json_quote ''stderr'' @ '':'' @ json_quote (resp_Stderr r) @ ''}'' @ [CHR 0x0A]"

section \<open>The connection\<close>

text \<open>
  http.ResponseWriter: the status is sent with the first WriteHeader or Write, later ones change
  nothing; a Write can fail, which the argument send decides.
\<close>

record http_reply =
  reply_status :: "nat option"
  reply_header :: "string \<rightharpoonup> string"
  reply_body :: string

definition new_reply :: http_reply where
  "new_reply = \<lparr>reply_status = None, reply_header = Map.empty, reply_body = []\<rparr>"

definition Header_Set :: "string \<Rightarrow> string \<Rightarrow> http_reply \<Rightarrow> http_reply" where
  "Header_Set k v w = (if reply_status w = None then w\<lparr>reply_header := (reply_header w)(k \<mapsto> v)\<rparr> else w)"

definition WriteHeader :: "nat \<Rightarrow> http_reply \<Rightarrow> http_reply" where
  "WriteHeader code w = (if reply_status w = None then w\<lparr>reply_status := Some code\<rparr> else w)"

definition Write :: "(string \<Rightarrow> bool) \<Rightarrow> string \<Rightarrow> http_reply \<Rightarrow> bool \<times> http_reply" where
  "Write send s w = (let w' = WriteHeader 200 w in
     if send s then (True, w'\<lparr>reply_body := reply_body w' @ s\<rparr>) else (False, w'))"

definition http_Error :: "(string \<Rightarrow> bool) \<Rightarrow> string \<Rightarrow> nat \<Rightarrow> http_reply \<Rightarrow> http_reply" where
  "http_Error send msg code w =
     snd (Write send (msg @ [CHR 0x0A])
       (WriteHeader code
         (Header_Set ''X-Content-Type-Options'' ''nosniff''
           (Header_Set ''Content-Type'' ''text/plain; charset=utf-8'' w))))"

section \<open>The command\<close>

text \<open>
  The ways CombinedOutput ends: with no error, with an ExitError, whose ExitCode is -1 when a signal ended
  the process, or with another error, when the process could not be started.
\<close>

datatype run_error = ExitError int | Other_error

type_synonym process = "string list \<Rightarrow> string \<times> run_error option"

definition exit_code :: "run_error option \<Rightarrow> int" where
  "exit_code err = (case err of
     None \<Rightarrow> 0
   | Some (ExitError n) \<Rightarrow> n
   | Some Other_error \<Rightarrow> 1)"

text \<open>The handler: the commands it has run, in order, and the reply.\<close>

definition handleCheck :: "process \<Rightarrow> (string \<Rightarrow> bool) \<Rightarrow> string \<Rightarrow> string list list \<times> http_reply" where
  "handleCheck exec send body = (case decode_request body of
     None \<Rightarrow> ([], http_Error send ''Invalid request body'' 400 new_reply)
   | Some req \<Rightarrow>
       (let cmd = [''bash'', ''-c'', req_Command req];
            (out, err) = exec cmd;
            w = Header_Set ''Content-Type'' ''application/json'' new_reply;
            (sent, w') = Write send (encode_response \<lparr>resp_ExitCode = exit_code err, resp_Stdout = out, resp_Stderr = []\<rparr>) w
        in ([cmd], if sent then w' else http_Error send ''Failed to encode response'' 500 w')))"

section \<open>The server\<close>

text \<open>
  main registers the handler and serves; ListenAndServe only returns with an error, and main panics.
\<close>

datatype server_end = Stopped | Panic string

type_synonym handler = "process \<Rightarrow> (string \<Rightarrow> bool) \<Rightarrow> string \<Rightarrow> string list list \<times> http_reply"

definition runner_routes :: "(string \<times> handler) list" where
  "runner_routes = [(''/run-check'', handleCheck)]"

definition runner_main :: "(string \<Rightarrow> (string \<times> handler) list \<Rightarrow> string option) \<Rightarrow> server_end" where
  "runner_main ListenAndServe = (case ListenAndServe '':8090'' runner_routes of
     Some err \<Rightarrow> Panic err
   | None \<Rightarrow> Stopped)"

end
