(* ===== verification/CheckRunnerCorrectness.thy ===== *)
theory CheckRunnerCorrectness
  imports CheckRunner
begin

text \<open>
  What the check runner guarantees: a command arrives as the client wrote it and its result can be read
  back; what comes after a request is ignored and a request that is cut off runs nothing.
\<close>

section \<open>Requests and responses read back\<close>

definition json_request :: "string \<Rightarrow> string" where
  "json_request c = ''{'' @ json_quote ''command'' @ '':'' @ json_quote c @ ''}''"

lemma white_no [simp]: "\<not> white (CHR ''{'')" "\<not> white (CHR ''}'')" "\<not> white (CHR '':'')" "\<not> white (CHR '','')" "\<not> white (CHR 0x22)"
  by (simp_all add: white_def)

lemma lex_punctuation [simp]: "lex (CHR ''{'' # s) = Some (LBrace, s)" "lex (CHR ''}'' # s) = Some (RBrace, s)"
  "lex (CHR '':'' # s) = Some (Colon, s)" "lex (CHR '','' # s) = Some (Comma, s)"
  by (simp_all add: lex_def lex_at_def)

lemma lex_quoted [simp]: "lex (json_quote t @ s) = Some (JString (to_valid t), s)"
  by (simp add: json_quote_def lex_def lex_at_def json_string_quoted)

lemma read_value_step:
  "lex s = Some (t, r) \<Longrightarrow> advance fs w t = Some (fs', w') \<Longrightarrow> fs' \<noteq> [] \<Longrightarrow>
   read_value fs w m s = read_value fs' w' (note_member fs w t m) r"
  by (subst read_value.simps) simp

lemma read_value_last:
  "lex s = Some (t, r) \<Longrightarrow> advance fs w t = Some ([], w') \<Longrightarrow> read_value fs w m s = Some (snd m, r)"
  by (subst read_value.simps) simp

text \<open>A member of the outermost object, and what may follow it.\<close>

lemma read_member:
  assumes "lex s = Some (v, r)" "value_token [In_object] v = Some ([In_object], Comma_or_close)" "w = Key \<or> w = Key_or_close"
  shows "read_value [In_object] w m (json_quote k @ CHR '':'' # s) = read_value [In_object] Comma_or_close (to_valid k, snd m @ [(to_valid k, v)]) r"
proof -
  have "read_value [In_object] w m (json_quote k @ CHR '':'' # s) = read_value [In_object] A_colon (to_valid k, snd m) (CHR '':'' # s)"
    using assms(3) by (subst read_value_step[OF lex_quoted]) (auto simp: closing_def note_member_def)
  also have "\<dots> = read_value [In_object] Value (to_valid k, snd m) s"
    by (subst read_value_step[OF lex_punctuation(3)]) (auto simp: note_member_def)
  also have "\<dots> = read_value [In_object] Comma_or_close (to_valid k, snd m @ [(to_valid k, v)]) r"
    using assms(2) by (subst read_value_step[OF assms(1)]) (auto simp: note_member_def)
  finally show ?thesis .
qed

lemma read_comma: "read_value [In_object] Comma_or_close m (CHR '','' # s) = read_value [In_object] Key m s"
  by (subst read_value_step[OF lex_punctuation(4)]) (auto simp: closing_def note_member_def)

lemma read_close: "read_value [In_object] Comma_or_close m (CHR ''}'' # s) = Some (snd m, s)"
  by (subst read_value_last[OF lex_punctuation(2)]) (auto simp: closing_def)

lemma value_string [simp]: "value_token fs (JString t) = Some (fs, Comma_or_close)" "value_token fs (JNumber t) = Some (fs, Comma_or_close)"
  by (simp_all add: value_token_def)

lemma json_object: "json_decode (CHR ''{'' # s) = map_option (\<lambda>(m, _). Object m) (read_value [In_object] Key_or_close ([], []) s)"
  by (simp add: json_decode_def value_token_def opened_def maxNestingDepth_def)

lemma read_request: "read_value [In_object] Key_or_close ([], []) (json_quote ''command'' @ '':'' @ json_quote c @ ''}'' @ s)
   = Some ([(''command'', JString (to_valid c))], s)"
proof -
  have "to_valid ''command'' = ''command''" by (rule to_valid_ascii) simp
  with read_member[OF lex_quoted value_string(1), of Key_or_close "([], [])" "''command''" c "''}'' @ s"]
  show ?thesis by (simp add: read_close)
qed

lemma decode_json_request: "decode_request (json_request c @ s) = Some \<lparr>req_Command = to_valid c\<rparr>"
proof -
  have "map byte_lower ''command'' = ''command''" by (simp add: byte_lower_def)
  then show ?thesis
    using read_request[of c s] by (simp add: decode_request_def json_request_def json_object names_field_def)
qed

lemma digit_facts_json: "set s \<subseteq> set ''0123456789'' \<Longrightarrow> list_all digit s"
  by (auto simp: list_all_iff digit_def)

lemma digits_append: "list_all digit d \<Longrightarrow> d \<noteq> [] \<Longrightarrow> \<not> digit c \<Longrightarrow> digits (d @ c # s) = Some (d, c # s)"
proof -
  assume d: "list_all digit d" "d \<noteq> []" "\<not> digit c"
  then have "takeWhile digit (d @ c # s) = d" "dropWhile digit (d @ c # s) = c # s"
    by (auto simp: list_all_iff takeWhile_append2 dropWhile_append2)
  with d(2) show ?thesis by (simp add: digits_def)
qed

lemma nat_digits_head: "0 < n \<Longrightarrow> hd (nat_digits n) \<noteq> CHR ''0''"
proof (induction n rule: nat_digits.induct)
  case (1 n)
  show ?case
  proof (cases "n < 10")
    case True
    then have "n \<in> set [1..<10]" using 1(2) by simp
    moreover have "\<forall>n \<in> set [1..<10]. ''0123456789'' ! n \<noteq> CHR ''0''" by code_simp
    ultimately have "''0123456789'' ! n \<noteq> CHR ''0''" by (rule bspec[rotated])
    then show ?thesis using True by (subst nat_digits.simps) simp
  next
    case False
    then show ?thesis using 1 by (subst nat_digits.simps) (simp add: hd_append)
  qed
qed

lemma integer_digits: "integer_part (nat_digits n @ CHR '','' # s) = Some (nat_digits n, CHR '','' # s)"
proof (cases "n = 0")
  case True
  then show ?thesis by (subst (1 2) nat_digits.simps) (simp add: integer_part_def)
next
  case False
  have "nat_digits n \<noteq> []" by simp
  then obtain c ds where d: "nat_digits n = c # ds" by (cases "nat_digits n") auto
  have "digits (nat_digits n @ CHR '','' # s) = Some (nat_digits n, CHR '','' # s)"
    by (rule digits_append) (use nat_digits_set[of n] in \<open>auto simp: digit_facts_json digit_def\<close>)
  moreover have "c \<noteq> CHR ''0''" using nat_digits_head[of n] False d by simp
  ultimately show ?thesis by (simp add: integer_part_def d)
qed

lemma number_itoa: "number (itoa i @ CHR '','' # s) = Some (JNumber (itoa i), CHR '','' # s)"
proof -
  have head: "\<exists>c ds. nat_digits n = c # ds \<and> c \<noteq> CHR ''-''" for n
    using nat_digits_set[of n] nat_digits_nonempty[of n] by (cases "nat_digits n") auto
  obtain c ds where "nat_digits (nat i) = c # ds" "c \<noteq> CHR ''-''" using head by blast
  then have "(case nat_digits (nat i) @ CHR '','' # s of c # r \<Rightarrow> if c = CHR ''-'' then ([c], r) else ([], nat_digits (nat i) @ CHR '','' # s) | [] \<Rightarrow> ([], nat_digits (nat i) @ CHR '','' # s)) = ([], nat_digits (nat i) @ CHR '','' # s)"
    by simp
  then show ?thesis
    by (simp add: number_def itoa_def integer_digits fraction_def exponent_def)
qed

lemma number_head:
  assumes "48 \<le> ord c \<and> ord c \<le> 57"
  shows "c \<noteq> CHR '' ''" "c \<noteq> CHR 0x09" "c \<noteq> CHR 0x0A" "c \<noteq> CHR 0x0D" "c \<noteq> CHR ''{''" "c \<noteq> CHR ''}''"
    "c \<noteq> CHR ''[''" "c \<noteq> CHR '']''" "c \<noteq> CHR '':''" "c \<noteq> CHR '',''" "c \<noteq> CHR 0x22" "c \<noteq> CHR ''t''"
    "c \<noteq> CHR ''f''" "c \<noteq> CHR ''n''"
  using assms by auto

lemma lex_itoa: "lex (itoa i @ CHR '','' # s) = Some (JNumber (itoa i), CHR '','' # s)"
proof -
  obtain c r where c: "itoa i = c # r" "c \<in> insert (CHR ''-'') (set ''0123456789'')"
  proof (cases "itoa i")
    case (Cons c r)
    have "set (itoa i) \<subseteq> insert (CHR ''-'') (set ''0123456789'')"
    proof (cases "i < 0")
      case True
      then have "set (itoa i) = insert (CHR ''-'') (set (nat_digits (nat (- i))))" by (simp add: itoa_def)
      then show ?thesis using insert_mono[OF nat_digits_set] by (simp only:)
    next
      case False
      then have "set (itoa i) = set (nat_digits (nat i))" by (simp add: itoa_def)
      then show ?thesis using subset_trans[OF nat_digits_set subset_insertI] by (simp only:)
    qed
    moreover have "c \<in> set (itoa i)" using Cons by simp
    ultimately have "c \<in> insert (CHR ''-'') (set ''0123456789'')" by (rule subsetD)
    with Cons show thesis by (rule that)
  qed (simp add: itoa_def split: if_splits)
  then have "c = CHR ''-'' \<or> 48 \<le> ord c \<and> ord c \<le> 57" by auto
  then have "\<not> white c" "lex_at c (r @ CHR '','' # s) = number (c # r @ CHR '','' # s)"
    unfolding white_def lex_at_def using number_head by (elim disjE; simp)+
  with number_itoa[of i s] c(1) show ?thesis by (simp add: lex_def)
qed

text \<open>The response is one JSON object with these three members.\<close>

lemma decode_encoded_response:
  "json_decode (encode_response r @ s) = Some (Object [(''exit_code'', JNumber (itoa (resp_ExitCode r))),
     (''stdout'', JString (to_valid (resp_Stdout r))), (''stderr'', JString (to_valid (resp_Stderr r)))])"
proof -
  have names: "to_valid ''exit_code'' = ''exit_code''" "to_valid ''stdout'' = ''stdout''" "to_valid ''stderr'' = ''stderr''"
    by (rule to_valid_ascii, simp)+
  have "json_decode (encode_response r @ s) = map_option (\<lambda>(m, _). Object m) (read_value [In_object] Key_or_close ([], [])
      (json_quote ''exit_code'' @ CHR '':'' # itoa (resp_ExitCode r) @ CHR '','' # json_quote ''stdout'' @ CHR '':'' #
       json_quote (resp_Stdout r) @ CHR '','' # json_quote ''stderr'' @ CHR '':'' # json_quote (resp_Stderr r) @ CHR ''}'' # CHR 0x0A # s))"
    by (simp add: encode_response_def json_object)
  also have "\<dots> = Some (Object [(''exit_code'', JNumber (itoa (resp_ExitCode r))),
     (''stdout'', JString (to_valid (resp_Stdout r))), (''stderr'', JString (to_valid (resp_Stderr r)))])"
    by (simp add: read_member[OF lex_itoa value_string(2)] read_member[OF lex_quoted value_string(1)] read_comma read_close names del: to_valid.simps)
  finally show ?thesis .
qed

section \<open>Bytes after the value\<close>

text \<open>
  What is read up to the end of a value does not depend on the bytes that follow it. A string ends with its
  quote, so inside it no decoding looks past the end.
\<close>

abbreviation quote :: char where
  "quote \<equiv> CHR 0x22"

abbreviation followed :: "string \<Rightarrow> ('a \<times> string) option \<Rightarrow> ('a \<times> string) option" where
  "followed x \<equiv> map_option (\<lambda>(t, r). (t, r @ x))"

lemma hex_digit_quote [simp]: "hex_digit quote = None"
  by (simp add: hex_digit_def)

lemma hex4_followed: "quote \<in> set s \<Longrightarrow> hex4 (s @ x) = followed x (hex4 s)"
proof (cases "4 \<le> length s")
  case True
  then obtain a b c d s' where "s = a # b # c # d # s'"
    by (auto simp: Suc_le_length_iff eval_nat_numeral)
  then show ?thesis by (auto split: option.splits)
next
  case False
  assume q: "quote \<in> set s"
  have "hex4 s = None" using False by (cases s rule: hex4.cases) auto
  moreover have "hex4 (s @ x) = None"
  proof (cases "s @ x" rule: hex4.cases)
    case (1 a b c d s')
    then have "s = take (length s) (a # b # c # d # s')" by (metis append_eq_conv_conj)
    moreover have "length s = 0 \<or> length s = 1 \<or> length s = 2 \<or> length s = 3" using False by linarith
    ultimately have "set s \<subseteq> {a, b, c, d}" by (elim disjE) (simp_all add: numeral_2_eq_2 numeral_3_eq_3)
    then have "quote \<in> {a, b, c, d}" using q by blast
    then show ?thesis using 1 by (auto split: option.splits)
  qed simp_all
  ultimately show ?thesis by simp
qed

lemma hex4_set: "hex4 s = Some (r, s') \<Longrightarrow> set s' \<subseteq> set s"
  by (cases s rule: hex4.cases) (auto split: option.splits)

lemma second_escape_followed: "quote \<in> set s \<Longrightarrow> second_escape (s @ x) = followed x (second_escape s)"
proof (cases s rule: second_escape.cases)
  case (1 b u s')
  moreover assume "quote \<in> set s"
  ultimately show ?thesis using hex4_followed[of s' x] by auto
next
  case "2_2"
  moreover assume "quote \<in> set s"
  ultimately show ?thesis by (cases x) auto
qed simp

lemma second_escape_set: "second_escape s = Some (r, s') \<Longrightarrow> set s' \<subseteq> set s"
  by (cases s rule: second_escape.cases) (auto split: if_splits dest: hex4_set)

lemma hex4_keeps_quote: "hex4 s = Some (r, s') \<Longrightarrow> quote \<in> set s \<Longrightarrow> quote \<in> set s'"
  by (cases s rule: hex4.cases) (auto split: option.splits)

lemma unicode_escape_followed: "quote \<in> set s \<Longrightarrow> unicode_escape (s @ x) = followed x (unicode_escape s)"
  using hex4_keeps_quote[of s] second_escape_followed
  by (auto simp: unicode_escape_def hex4_followed split: option.splits)

lemma unicode_escape_set: "unicode_escape s = Some (t, s') \<Longrightarrow> set s' \<subseteq> set s"
  unfolding unicode_escape_def
  by (auto split: option.splits if_splits) (meson hex4_set second_escape_set subsetD)+

lemma json_unescape_followed: "quote \<in> set s \<Longrightarrow> json_unescape c (s @ x) = followed x (json_unescape c s)"
  by (simp add: json_unescape_def unicode_escape_followed)

lemma json_unescape_set: "json_unescape c s = Some (t, s') \<Longrightarrow> set s' \<subseteq> set s"
  by (auto simp: json_unescape_def split: if_splits dest: unicode_escape_set)

lemma sequence_length_followed: "quote \<in> set s \<Longrightarrow> sequence_length c (s @ x) = sequence_length c s"
proof -
  assume q: "quote \<in> set s"
  have second: "second_in lo hi (s @ x) = second_in lo hi s" for lo hi
    using q by (cases s) (auto simp: second_in_def)
  consider "s = quote # tl s" | d where "s = [d, quote]" | d where "s = d # quote # tl (tl s)" | "3 \<le> length s"
    using q by (cases s; cases "tl s"; cases "tl (tl s)") auto
  then show ?thesis
  proof cases
    case 1
    then have "second_in lo hi s = False" if "0x22 < lo" for lo hi
      using that 1 by (cases s) (auto simp: second_in_def)
    then have no: "second_in 0x80 0xBF s = False" "second_in (if P then 0xA0 else 0x80) hi s = False"
      "second_in (if P then 0x90 else 0x80) hi s = False" for P hi by simp_all
    show ?thesis unfolding sequence_length_def second no by (simp only: simp_thms if_False)
  next
    case (2 d)
    then have no: "third_continues (s @ x) = False" "third_continues s = False"
      by (simp_all add: third_continues_def continues_def split: list.splits)
    show ?thesis unfolding sequence_length_def second no by (simp only: simp_thms if_False)
  next
    case (3 d)
    then obtain s' where s: "s = d # quote # s'" by blast
    have no: "third_continues (s @ x) = False" "third_continues s = False"
      by (simp_all add: s third_continues_def continues_def)
    show ?thesis unfolding sequence_length_def second no by (simp only: simp_thms if_False)
  next
    case 4
    then obtain d e f s' where "s = d # e # f # s'" by (auto simp: Suc_le_length_iff eval_nat_numeral)
    then have rest: "third_continues (s @ x) = third_continues s" "fourth_continues (s @ x) = fourth_continues s"
      by (simp_all add: third_continues_def fourth_continues_def)
    show ?thesis unfolding sequence_length_def second rest by (rule refl)
  qed
qed

lemma json_string_has_quote: "json_string s = Some (t, r) \<Longrightarrow> quote \<in> set s"
proof (induction "length s" arbitrary: s t r rule: less_induct)
  case less
  from less(2) obtain c s0 where s: "s = c # s0" by (cases s) auto
  consider "c = quote" | e s1 x s2 u where "s0 = e # s1" "json_unescape e s1 = Some (x, s2)" "json_string s2 = Some (u, r)"
    | u where "json_string s0 = Some (u, r)" | n u where "json_string (drop n s0) = Some (u, r)"
    using less(2) unfolding s json_string.simps(2)
    by (auto split: if_splits list.splits option.splits nat.splits)
  then show ?case
  proof cases
    case (2 e s1 x s2 u)
    have "length s2 < length s" using json_unescape_shorter[OF 2(2)] by (simp add: s 2(1))
    from less(1)[OF this 2(3)] json_unescape_set[OF 2(2)] show ?thesis by (auto simp: s 2(1))
  next
    case (3 u)
    then show ?thesis using less(1)[of s0] by (simp add: s)
  next
    case (4 n u)
    then show ?thesis using less(1)[OF _ 4] in_set_dropD[of quote n s0] by (simp add: s)
  qed (simp add: s)
qed

lemma json_string_followed: "json_string s = Some (t, r) \<Longrightarrow> json_string (s @ x) = Some (t, r @ x)"
proof (induction "length s" arbitrary: s t r rule: less_induct)
  case less
  from less(2) obtain c s0 where s: "s = c # s0" by (cases s) auto
  note read = less(2)[unfolded s json_string.simps(2)]
  consider "c = quote" | "c \<noteq> quote" "c = CHR 0x5C" | "c \<noteq> quote" "c \<noteq> CHR 0x5C" "\<not> ord c < 0x20"
    using read by (auto split: if_splits)
  then show ?case
  proof cases
    case 1
    then show ?thesis using read by (simp add: s json_string.simps(2))
  next
    case 2
    with read obtain e s1 y s2 u where e: "s0 = e # s1" "json_unescape e s1 = Some (y, s2)" "json_string s2 = Some (u, r)" "t = y @ u"
      by (auto split: list.splits option.splits)
    have "quote \<in> set s1" using json_string_has_quote[OF e(3)] json_unescape_set[OF e(2)] by blast
    from json_unescape_followed[OF this, of e x] e(2) have "json_unescape e (s1 @ x) = Some (y, s2 @ x)" by simp
    moreover have "json_string (s2 @ x) = Some (u, r @ x)"
      by (rule less(1)[OF _ e(3)]) (use json_unescape_shorter[OF e(2)] in \<open>simp add: s e(1)\<close>)
    ultimately show ?thesis using 2 by (simp add: s e json_string.simps(2))
  next
    case 3
    show ?thesis
    proof (cases "sequence_length c s0")
      case 0
      with read 3 obtain u where u: "json_string s0 = Some (u, r)" "t = replacement @ u" by auto
      have "json_string (s0 @ x) = Some (u, r @ x)" by (rule less(1)[OF _ u(1)]) (simp add: s)
      with 0 3 u sequence_length_followed[OF json_string_has_quote[OF u(1)], of c x] show ?thesis
        by (simp add: s json_string.simps(2))
    next
      case (Suc n)
      with read 3 obtain u where u: "json_string (drop n s0) = Some (u, r)" "t = c # take n s0 @ u" by auto
      have "quote \<in> set s0" using json_string_has_quote[OF u(1)] by (rule in_set_dropD)
      moreover have "json_string (drop n s0 @ x) = Some (u, r @ x)" by (rule less(1)[OF _ u(1)]) (simp add: s)
      moreover have "n \<le> length s0" by (rule sequence_length_take[OF Suc])
      ultimately show ?thesis using Suc 3 u sequence_length_followed[of s0 c x]
        by (simp add: s json_string.simps(2))
    qed
  qed
qed

definition is_number :: "token \<Rightarrow> bool" where
  "is_number t \<longleftrightarrow> (case t of JNumber _ \<Rightarrow> True | _ \<Rightarrow> False)"

lemma digits_followed: "digits s = Some (d, r) \<Longrightarrow> r \<noteq> [] \<Longrightarrow> digits (s @ x) = Some (d, r @ x)"
  by (auto simp: digits_def takeWhile_append dropWhile_append split: if_splits)

lemma parts_followed:
  "integer_part s = Some (d, r) \<Longrightarrow> r \<noteq> [] \<Longrightarrow> integer_part (s @ x) = Some (d, r @ x)"
  "fraction s = Some (d, r) \<Longrightarrow> r \<noteq> [] \<Longrightarrow> fraction (s @ x) = Some (d, r @ x)"
  "exponent s = Some (d, r) \<Longrightarrow> r \<noteq> [] \<Longrightarrow> exponent (s @ x) = Some (d, r @ x)"
  using digits_followed digits_followed[of "c # s'" for c s', simplified]
  by (auto simp: integer_part_def fraction_def exponent_def split: list.splits if_splits)

lemma number_followed: "number s = Some (t, r) \<Longrightarrow> r \<noteq> [] \<Longrightarrow> number (s @ x) = Some (t, r @ x)"
proof -
  assume n: "number s = Some (t, r)" and r: "r \<noteq> []"
  obtain m s0 i s1 f s2 e where p: "(case s of c # r \<Rightarrow> if c = CHR ''-'' then ([c], r) else ([], s) | [] \<Rightarrow> ([], s)) = (m, s0)"
      "integer_part s0 = Some (i, s1)" "fraction s1 = Some (f, s2)" "exponent s2 = Some (e, r)" "t = JNumber (m @ i @ f @ e)"
    using n by (auto simp: number_def split: prod.splits option.splits)
  have "s2 \<noteq> []" using p(4) r by (auto simp: exponent_def)
  moreover have "s1 \<noteq> []" using p(3) \<open>s2 \<noteq> []\<close> by (auto simp: fraction_def)
  moreover have "(case s @ x of c # r \<Rightarrow> if c = CHR ''-'' then ([c], r) else ([], s @ x) | [] \<Rightarrow> ([], s @ x)) = (m, s0 @ x)"
    using p(1,2) by (auto simp: integer_part_def split: list.splits if_splits)
  ultimately show ?thesis
    using parts_followed(1)[OF p(2)] parts_followed(2)[OF p(3)] parts_followed(3)[OF p(4) r] p(5) by (simp add: number_def)
qed

lemma number_is: "number s = Some (t, r) \<Longrightarrow> is_number t"
  by (auto simp: number_def is_number_def split: option.splits prod.splits)

lemma word_followed: "word w t s = Some (t', r) \<Longrightarrow> word w t (s @ x) = Some (t', r @ x)"
proof -
  assume w: "word w t s = Some (t', r)"
  then have "take (length w) s = w" by (simp add: word_def HasPrefix_def split: if_splits)
  then have "length w \<le> length s" by (metis length_take min.absorb_iff1 min.commute)
  with w show ?thesis by (auto simp: word_def HasPrefix_def split: if_splits)
qed

lemma lex_followed:
  assumes "lex s = Some (t, r)" "r \<noteq> [] \<or> \<not> is_number t"
  shows "lex (s @ x) = Some (t, r @ x)"
proof -
  obtain c s' where s: "dropWhile white s = c # s'" "lex_at c s' = Some (t, r)"
    using assms(1) by (auto simp: lex_def split: list.splits)
  have "dropWhile white (s @ x) = c # s' @ x" 
    using s(1) dropWhile_eq_Nil_conv[of white s] by (auto simp: dropWhile_append)
  moreover have "lex_at c (s' @ x) = Some (t, r @ x)"
    using s(2) assms(2) number_followed[of "c # s'" t r x] number_is[of "c # s'" t r]
    by (auto simp: lex_at_def json_string_followed dest: word_followed split: if_splits)
  ultimately show ?thesis by (simp add: lex_def)
qed

lemma advance_ends: "advance fs w t = Some ([], w') \<Longrightarrow> fs \<noteq> [] \<Longrightarrow> \<not> is_number t"
  by (cases w) (auto simp: is_number_def closing_def value_token_def opened_def split: if_splits token.splits list.splits frame.splits)

lemma read_value_followed:
  "read_value fs w m s = Some (ms, r) \<Longrightarrow> fs \<noteq> [] \<Longrightarrow> read_value fs w m (s @ x) = Some (ms, r @ x)"
proof (induction fs w m s rule: read_value.induct)
  case (1 fs w m s)
  obtain t r1 fs' w' where step: "lex s = Some (t, r1)" "advance fs w t = Some (fs', w')"
    using 1(2) by (subst (asm) read_value.simps) (auto split: option.splits)
  show ?case
  proof (cases "fs' = []")
    case True
    have "lex (s @ x) = Some (t, r1 @ x)"
      by (rule lex_followed[OF step(1)]) (use advance_ends step(2) 1(3) True in auto)
    then show ?thesis using 1(2) step True by (simp add: read_value_last)
  next
    case False
    then have rest: "read_value fs' w' (note_member fs w t m) r1 = Some (ms, r)"
      using 1(2) step by (simp add: read_value_step)
    then have "r1 \<noteq> []" by (subst (asm) read_value.simps) (auto simp: lex_def)
    then have "lex (s @ x) = Some (t, r1 @ x)" by (intro lex_followed[OF step(1)]) simp
    then show ?thesis using 1(1)[OF step(1) refl step(2) refl False rest False] step False by (simp add: read_value_step)
  qed
qed

lemma request_prefix:
  assumes "json_request c = p @ x" "x \<noteq> []"
  shows "decode_request p = None"
proof (rule ccontr)
  assume "decode_request p \<noteq> None"
  then consider m where "json_decode p = Some (Object m)" | "json_decode p = Some Null"
    by (auto simp: decode_request_def split: option.splits json_value.splits)
  moreover have brace: "lex (json_request c) = Some (LBrace, json_quote ''command'' @ '':'' @ json_quote c @ ''}'')"
    by (simp add: json_request_def)
  ultimately show False
  proof cases
    case (1 m)
    then obtain r1 r where p: "lex p = Some (LBrace, r1)" "read_value [In_object] Key_or_close ([], []) r1 = Some (m, r)"
      by (auto simp: json_decode_def value_token_def opened_def maxNestingDepth_def split: option.splits token.splits if_splits)
    have "lex (json_request c) = Some (LBrace, r1 @ x)"
      unfolding assms(1) by (rule lex_followed[OF p(1)]) (simp add: is_number_def)
    with brace have "r1 @ x = json_quote ''command'' @ '':'' @ json_quote c @ ''}'' @ []" by simp
    with read_value_followed[OF p(2), of x] read_request[of c "[]"] have "r @ x = []" by simp
    with assms(2) show False by simp
  next
    case 2
    then obtain r where p: "lex p = Some (JNull, r)"
      by (auto simp: json_decode_def value_token_def opened_def split: option.splits token.splits if_splits)
    have "lex (json_request c) = Some (JNull, r @ x)"
      unfolding assms(1) by (rule lex_followed[OF p(1)]) (simp add: is_number_def)
    with brace show False by simp
  qed
qed

section \<open>What the server does\<close>

text \<open>
  C30: A client whose request carries a command c gets exactly that command run, once, by bash: the request is an
  object with the member command, its string encoded as encoding/json encodes it, and whatever follows the
  object in the body is ignored. Bytes of c that are not UTF-8 arrive as replacement characters. The
  response has status 200 and is a JSON object from which a reader gets the exit code and the output of the
  command back, again with replacement characters; stderr is always empty.
\<close>

theorem run_check_roundtrip:
  "\<exists>w. handleCheck exec (\<lambda>_. True) (json_request c @ rest) = ([[''bash'', ''-c'', to_valid c]], w) \<and>
     reply_status w = Some 200 \<and> reply_header w ''Content-Type'' = Some ''application/json'' \<and>
     json_decode (reply_body w) = Some (Object
       [(''exit_code'', JNumber (itoa (exit_code (snd (exec [''bash'', ''-c'', to_valid c]))))),
        (''stdout'', JString (to_valid (fst (exec [''bash'', ''-c'', to_valid c])))),
        (''stderr'', JString [])])"
  using decode_encoded_response[of "\<lparr>resp_ExitCode = exit_code (snd (exec [''bash'', ''-c'', to_valid c])),
      resp_Stdout = fst (exec [''bash'', ''-c'', to_valid c]), resp_Stderr = []\<rparr>" "[]"]
  by (simp add: handleCheck_def decode_json_request Write_def WriteHeader_def Header_Set_def new_reply_def Let_def case_prod_unfold)

text \<open>
  C31: A request that is cut off before its last byte runs nothing and is answered with status 400, and so is every
  body that does not decode; a body that decodes runs one command. The status is 400 or 200 and never
  anything else: the code for 500 after a failed write cannot change the status any more.
\<close>

theorem run_check_truncated:
  assumes "n < length (json_request c)"
  shows "fst (handleCheck exec send (take n (json_request c))) = [] \<and>
     reply_status (snd (handleCheck exec send (take n (json_request c)))) = Some 400 \<and>
     (case decode_request body of
       None \<Rightarrow> fst (handleCheck exec send body) = [] \<and> reply_status (snd (handleCheck exec send body)) = Some 400
     | Some req \<Rightarrow> fst (handleCheck exec send body) = [[''bash'', ''-c'', req_Command req]] \<and>
         reply_status (snd (handleCheck exec send body)) = Some 200)"
proof -
  have body: "case decode_request body of
       None \<Rightarrow> fst (handleCheck exec send body) = [] \<and> reply_status (snd (handleCheck exec send body)) = Some 400
     | Some req \<Rightarrow> fst (handleCheck exec send body) = [[''bash'', ''-c'', req_Command req]] \<and>
         reply_status (snd (handleCheck exec send body)) = Some 200" for body
    by (auto simp: handleCheck_def Write_def WriteHeader_def Header_Set_def http_Error_def new_reply_def Let_def case_prod_unfold
        split: option.splits)
  have "decode_request (take n (json_request c)) = None"
    by (rule request_prefix[of c _ "drop n (json_request c)"]) (use assms in simp_all)
  with body[of "take n (json_request c)"] body show ?thesis by simp
qed

theorem run_check_truncated_witness:
  "fst (handleCheck (\<lambda>_. ([], None)) (\<lambda>_. True) (take 3 (json_request ''ls''))) = []"
  using run_check_truncated[of 3 "''ls''" "\<lambda>_. ([], None)" "\<lambda>_. True" "[]"] by (simp add: json_request_def json_quote_def)

end
