(* ===== verification/Spec2Isabelle.thy ===== *)
theory Spec2Isabelle
  imports OperatorSystem NotebookLabCorrectness Manager Wakeups DeepCopyCorrectness CheckRunnerCorrectness
begin

text \<open>
  A verification library of the notebook operator, a Kubernetes operator written in Go. Its custom
  resources are ClusterLab (a namespace with a quota and a network policy, with a time to live),
  InstanceLab (a virtual machine inside the namespace of a ClusterLab: disk, Sysbox pod, service
  and ingress) and NotebookLab (a Jupyter deployment with a workspace, a token, a service, an
  ingress and a lifecycle). Each has a reconciler, a function that is called with the key of an
  object, reads the cluster, writes to it and says when it wants to be called again. The
  reconcilers share no state: they meet in the API server, where an InstanceLab reads the phase
  and the target namespace its ClusterLab has published, and a ClusterLab counts the InstanceLabs
  that refer to it.

  The theories, from the bottom up:

  Prelude: Go's integers and strings, the proof collections, and the contract of a lookup and a
  write (locale upsert).
  Sha1: crypto/sha1, for the suffix of shortened names.
  GoTime: time.Time in nanoseconds, time.Duration as a 64-bit word that wraps and saturates as in
  Go, and time.ParseDuration with its float64 fractions.
  Objects: the objects of the Kubernetes API, with the fields the source reads or writes.
  ApiTypes: api/v1alpha1, every struct a record with its fields in order.
  Client: the boundary. The record api is the API server as the client of controller-runtime shows
  it and the record platform holds the third-party functions; both are arguments of every
  definition and nothing is assumed of what the API answers. A reconciler is a computation in the
  state monad over the state of the world and the trace of its calls with their answers; yields is
  the rule set that goes through such a computation call by call, and the locale mutator is the
  contract of a function handed to CreateOrUpdate.
  Utils: internal/utils/helpers.go (names, labels, conditions).
  Samples: concrete objects and a concrete API, for the applications of theorems with hypotheses.
  ClusterLabController, InstanceLabController, NotebookLabController: the three files of
  internal/controller, a definition per method, one per function handed to CreateOrUpdate, and
  after them the abstract account of a run: an inductive relation between a notebook (or lab), the
  list of events of a run and its result, with one rule per way the run can go. A lemma
  (..._yields) shows that the code makes exactly the runs of the account, whatever the API
  answers.
  ClusterLabCorrectness, InstanceLabCorrectness, NotebookLabLifecycle, NotebookLabCorrectness:
  what the reconcilers guarantee, by case analysis on the account.
  OperatorSystem: the reconcilers together, as steps of one world: reachable worlds, an invariant
  of the stored ClusterLabs, the agreement of the reconcilers on one namespace, and the clean-up of
  an instance that finds, run against run, the children an earlier run has written. It rests on
  laws of the API server (store_laws, names_kept), which an API with a store satisfies. It also
  bounds the requests of a run, for every API: no run waits or retries inside itself.
  Memory, DeepCopy, DeepCopyCorrectness: the generated deep copies of the API types over an
  explicit memory, the only place where the sharing of pointers is the point. A locale
  (deep_copier) is the contract of a deep copy, proved of each structure from the contracts of its
  fields.
  Manager: cmd/main.go, from the command line to the start of the manager.
  Wakeups: the functions SetupWithManager, the scheme of the API group and the controllers main
  sets up: which change of which object wakes which reconciler, composed with what the runs read
  and create.
  Json, CheckRunner, CheckRunnerCorrectness: images/script/runner.go, the HTTP server in the lab
  image that runs a check command, with the part of encoding/json it uses (UTF-8, strings, the
  grammar as a pushdown machine over the stream, the nesting bound of 10000).

  What the groups of properties show. For every reconciler: what it writes, when and where
  (children only for a claimed object, under a ready parent, in its namespace, with its labels or
  owner); that a published phase is what the run has read or written just before; that a failed
  write is reported and ends the run (with one exception, the secret of a notebook that vanishes
  while the status is written); when the run asks to be repeated; that the objects it writes refer to each other
  correctly; that a second application of a mutate function changes nothing. For the deletions:
  the order in which a ClusterLab releases its namespace, the deletions an InstanceLab asks for,
  and the exact conditions under which a ClusterLab expires and a NotebookLab is purged or paused,
  in real minutes, hours and days with the settings that overflow a Duration named. For the names: form, length, validity and freedom from
  collisions. For the process: the flags, HTTP/2, the order of the start-up, and what wakes a
  reconciler. For the check runner: commands and outputs survive the encoding, and a request that
  is cut off runs nothing. For the deep copies: a copy denotes what the original does and shares
  no memory with it, given that contract for the structures of other packages. Several theorems
  show defects of the code: they are stated as what the code does, with the input on which it does
  it.

  The loops of the source are structural recursions, and the decoder of JSON and ParseDuration
  recurse on the length of what is left to read, so there is no fuel and no partial function. Of
  the two places where a nil pointer can be dereferenced one is shown unreachable
  (InstanceLab_never_panics) and the other is characterised (NotebookLab_panics_only).

  Simplifications to know about. Each object is a value; a Go object the source mutates in place
  is passed on updated. The children of a notebook share the labels map of the notebook in Go; a
  response to a creation that adds labels, which would be decoded into that map, is not modelled.
  An Update that is refused leaves the object as it was sent. A quantity is a count of nanounits.
  A CreateOrUpdate is one event with the object, the mutate function and the answer; the read and
  the write the library makes of it are counted as two requests where requests are counted
  (runs_bounded). injectGPUResources writes into a deep copy of the resources of the spec, as the
  source takes one before, so the spec is not changed by it. A failed write of the check runner
  sends nothing: a body that is sent in part is not modelled. The exact expiry of a TTL
  (ClusterLab_ttl_expiry) is shown for an optional sign and whole-number terms; the fractions
  ParseDuration accepts are in the model but not in that theorem.

  Not modelled: log lines, the body of Complete and of the other calls of the controller builder,
  a deep copy of a value into itself, the routing of the HTTP server of the check runner (one
  fixed path), and the test utilities. The deployment assets (Kustomize, Ansible, Terraform, CI)
  are configuration.
\<close>

end
